(* ===== verification/Prelude.thy ===== *)
theory Prelude
  imports Main "HOL-Library.Word" "HOL-Library.State_Monad" "HOL-Library.Monad_Syntax"
begin

text \<open>
  Shared ground of the development: the C integer types of the program (\<open>byte\<close>,
  \<open>short\<close>, 32-bit \<open>int\<close>), the conversions the code writes as casts, truncating
  division, the state monad the stateful code is written in, and the collections of facts
  the component theories use.

  A C \<open>int\<close> is an Isabelle \<open>int\<close> in the range of 32 bits; where the code adds or
  multiplies values that the program does not bound, the result goes through
  \<open>wrap32\<close>, the two's complement result of the targets the program is built for
  (signed overflow is undefined in ISO C).
\<close>

unbundle bit_operations_syntax

named_theorems runs \<comment> \<open>evaluation of monadic programs\<close>
named_theorems segs \<comment> \<open>locking discipline of program segments\<close>
named_theorems conv \<comment> \<open>C integer conversions\<close>

section \<open>Integers\<close>

type_synonym byte = "8 word"
type_synonym short = "16 word"

definition INT_MIN :: int where
  "INT_MIN = -2147483648"

definition wrap32 :: "int \<Rightarrow> int" where
  "wrap32 x = signed_take_bit 31 x"

definition to_byte :: "int \<Rightarrow> byte" where
  "to_byte x = word_of_int x"

definition to_short :: "int \<Rightarrow> short" where
  "to_short x = word_of_int x"

text \<open>The expression \<open>(hi << 8) | lo\<close> on two bytes, an \<open>int\<close>.\<close>

definition or_shift8 :: "byte \<Rightarrow> byte \<Rightarrow> int" where
  "or_shift8 hi lo = (push_bit 8 (uint hi)) OR (uint lo)"

text \<open>The cast \<open>(char) b\<close>: whether plain \<open>char\<close> is signed is the platform's choice.\<close>

definition to_char :: "bool \<Rightarrow> byte \<Rightarrow> int" where
  "to_char char_signed b = (if char_signed then sint b else uint b)"

text \<open>C's \<open>/\<close> on integers truncates towards zero.\<close>

definition cdiv :: "int \<Rightarrow> int \<Rightarrow> int" where
  "cdiv a b = sgn a * sgn b * (\<bar>a\<bar> div \<bar>b\<bar>)"

lemma INT_MIN_neg [simp]: "INT_MIN < 0"
  by (simp add: INT_MIN_def)

lemma wrap32_range: "-2147483648 \<le> wrap32 x \<and> wrap32 x \<le> 2147483647"
proof -
  have "signed_take_bit 31 x < 2 ^ 31"
    by (rule signed_take_bit_int_less_exp)
  moreover have "- (2 ^ 31) \<le> signed_take_bit 31 x"
    by (rule signed_take_bit_int_greater_eq_minus_exp)
  ultimately show ?thesis by (simp add: wrap32_def)
qed

lemma wrap32_id [conv]: "-2147483648 \<le> x \<Longrightarrow> x \<le> 2147483647 \<Longrightarrow> wrap32 x = x"
  by (simp add: wrap32_def signed_take_bit_int_eq_self)

lemma uint_byte_bounds [simp]: "0 \<le> uint (b :: byte)" "uint (b :: byte) < 256" "uint (b :: byte) \<le> 255"
  using uint_lt2p [of b] by simp_all

lemma or_shift8_add [conv]: "or_shift8 hi lo = 256 * uint hi + uint lo"
proof -
  have "(push_bit 8 (uint hi)) AND (uint lo) = 0"
  proof (rule bit_eqI)
    fix n
    show "bit (push_bit 8 (uint hi) AND uint lo) n \<longleftrightarrow> bit (0::int) n"
      by (auto simp: bit_simps dest: bit_imp_le_length)
  qed
  then have "(push_bit 8 (uint hi)) OR (uint lo) = push_bit 8 (uint hi) + uint lo"
    by (simp add: disjunctive_add_eq_or)
  then show ?thesis by (simp add: or_shift8_def push_bit_eq_mult)
qed

lemma or_shift8_bounds: "0 \<le> or_shift8 hi lo" "or_shift8 hi lo \<le> 65535"
  using uint_byte_bounds [of hi] uint_byte_bounds [of lo] unfolding or_shift8_add by linarith+

lemma sint_to_short [conv]: "-32768 \<le> x \<Longrightarrow> x \<le> 32767 \<Longrightarrow> sint (to_short x) = x"
  by (simp add: to_short_def sint_sbintrunc' signed_take_bit_int_eq_self)

lemma sint_short_bounds: "-32768 \<le> sint (w :: short)" "sint (w :: short) \<le> 32767"
  using sint_ge [of w] sint_lt [of w] by simp_all

text \<open>Splitting a \<open>short\<close> into its two bytes and joining them again.\<close>

definition hi_byte :: "short \<Rightarrow> byte" where
  "hi_byte w = to_byte ((drop_bit 8 (sint w)) AND 255)"

definition lo_byte :: "short \<Rightarrow> byte" where
  "lo_byte w = to_byte ((sint w) AND 255)"

lemma and_255 [conv]: "x AND 255 = take_bit 8 (x :: int)"
  by (simp add: take_bit_eq_mask mask_eq_exp_minus_1)

lemma to_short_bytes [conv]: "to_short (or_shift8 (hi_byte w) (lo_byte w)) = w"
proof (rule bit_word_eqI)
  fix n assume "n < LENGTH(16)"
  then show "bit (to_short (or_shift8 (hi_byte w) (lo_byte w))) n = bit w n"
    by (auto simp: to_short_def or_shift8_def hi_byte_def lo_byte_def to_byte_def and_255 bit_simps)
qed

section \<open>Lists\<close>

text \<open>The contents of a C array after \<open>memcpy(dst + off, xs, length xs)\<close>.\<close>

definition overlay :: "nat \<Rightarrow> 'a list \<Rightarrow> 'a list \<Rightarrow> 'a list" where
  "overlay off xs dst = take off dst @ xs @ drop (off + length xs) dst"

lemma length_overlay [simp]: "off + length xs \<le> length dst \<Longrightarrow> length (overlay off xs dst) = length dst"
  by (simp add: overlay_def)

lemma overlay_all [simp]: "length xs = length dst \<Longrightarrow> overlay 0 xs dst = xs"
  by (simp add: overlay_def)

lemma overlay_nil [simp]: "overlay off [] dst = dst"
  by (simp add: overlay_def)

section \<open>The state monad\<close>

abbreviation ret :: "'a \<Rightarrow> ('s, 'a) state" where
  "ret \<equiv> State_Monad.return"

abbreviation getS :: "('s, 's) state" where
  "getS \<equiv> State_Monad.get"

definition gets :: "('s \<Rightarrow> 'a) \<Rightarrow> ('s, 'a) state" where
  "gets f = State (\<lambda>s. (f s, s))"

definition modify :: "('s \<Rightarrow> 's) \<Rightarrow> ('s, unit) state" where
  "modify f = State (\<lambda>s. ((), f s))"

lemma run_gets [simp, runs]: "run_state (gets f) s = (f s, s)"
  by (simp add: gets_def)

lemma run_modify [simp, runs]: "run_state (modify f) s = ((), f s)"
  by (simp add: modify_def)

lemma run_if [simp, runs]: "run_state (if b then m else n) s = (if b then run_state m s else run_state n s)"
  by simp

abbreviation value_of :: "('s, 'a) state \<Rightarrow> 's \<Rightarrow> 'a" where
  "value_of m s \<equiv> fst (run_state m s)"

abbreviation exec_of :: "('s, 'a) state \<Rightarrow> 's \<Rightarrow> 's" where
  "exec_of m s \<equiv> snd (run_state m s)"

end
