(* ===== verification/Floats.thy ===== *)
theory Floats
  imports Complex_Main Prelude
begin

text \<open>
  Floating point. A \<open>float\<close> or a \<open>double\<close> is the real number it stands for, and every operation
  of the code that rounds says so: \<open>fl\<close> rounds to \<open>float\<close>, \<open>db\<close> to \<open>double\<close>. They and the functions
  of libm are the fields of a record, the machine the program runs on, because C leaves them
  to it. \<open>rounding\<close> is what the code relies on: a relative error of half a unit in the last
  place and exactness on small integers; it is discharged for round-to-nearest-even with 24
  and 53 bits. Overflow to infinity is not modelled (the magnitudes here are far from it); a
  division by zero, which would give an infinity or a NaN, is \<open>None\<close> where the code makes one.
\<close>

record fpu =
  fl :: "real \<Rightarrow> real"
  db :: "real \<Rightarrow> real"
  m_sin :: "real \<Rightarrow> real"
  m_cos :: "real \<Rightarrow> real"
  m_sqrt :: "real \<Rightarrow> real"
  m_atan2 :: "real \<Rightarrow> real \<Rightarrow> real"

locale rounding =
  fixes rnd :: "real \<Rightarrow> real"
  assumes rnd_error: "\<bar>rnd x - x\<bar> * 16777216 \<le> \<bar>x\<bar>"
    and rnd_int: "\<bar>n\<bar> < 16777216 \<Longrightarrow> rnd (of_int n) = of_int n"
begin

lemma rnd_close: "\<bar>x\<bar> \<le> b \<Longrightarrow> \<bar>rnd x - x\<bar> \<le> b / 16777216"
  using rnd_error [of x] by simp

lemma rnd_pos: "0 < x \<Longrightarrow> 0 < rnd x"
  using rnd_error [of x] abs_ge_minus_self [of "rnd x - x"] by simp

lemma rnd_neg: "x < 0 \<Longrightarrow> rnd x < 0"
  using rnd_error [of x] abs_ge_self [of "rnd x - x"] by simp

lemma rnd_zero [simp]: "rnd 0 = 0"
  using rnd_int [of 0] by simp

lemma rnd_sign: "rnd x < 0 \<longleftrightarrow> x < 0" "0 < rnd x \<longleftrightarrow> 0 < x" "rnd x = 0 \<longleftrightarrow> x = 0"
  using rnd_pos [of x] rnd_neg [of x] rnd_zero by (cases x "0 :: real" rule: linorder_cases; fastforce)+

end

section \<open>Rounding to nearest\<close>

text \<open>The nearest integer, ties to even.\<close>

definition nearest :: "real \<Rightarrow> int" where
  "nearest x =
     (let f = \<lfloor>x\<rfloor>; d = x - of_int f in
      if d < 1 / 2 then f else if d > 1 / 2 then f + 1 else if even f then f else f + 1)"

definition binade :: "nat \<Rightarrow> real \<Rightarrow> int" where
  "binade bits x = \<lfloor>log 2 \<bar>x\<bar>\<rfloor> - int bits + 1"

definition round_bits :: "nat \<Rightarrow> real \<Rightarrow> real" where
  "round_bits bits x =
     (if x = 0 then 0
      else of_int (nearest (x / 2 powi binade bits x)) * 2 powi binade bits x)"

lemma nearest_error: "\<bar>of_int (nearest x) - x\<bar> \<le> 1 / 2"
  unfolding nearest_def Let_def using of_int_floor_le [of x] floor_correct [of x] by (auto simp: abs_le_iff split: if_splits)

lemma nearest_of_int [simp]: "nearest (of_int n) = n"
  by (simp add: nearest_def)

lemma binade_le: "x \<noteq> 0 \<Longrightarrow> 2 powi (binade bits x + int bits - 1) \<le> \<bar>x\<bar>"
proof -
  assume "x \<noteq> 0"
  then have "2 powr of_int \<lfloor>log 2 \<bar>x\<bar>\<rfloor> \<le> \<bar>x\<bar>"
    by (metis abs_of_pos le_log_iff of_int_floor_le one_less_numeral_iff semiring_norm(76) zero_less_abs_iff)
  then show ?thesis by (simp add: binade_def powr_real_of_int')
qed

lemma round_bits_error: "\<bar>round_bits bits x - x\<bar> \<le> \<bar>x\<bar> / 2 ^ bits"
proof (cases "x = 0")
  case True
  then show ?thesis by (simp add: round_bits_def)
next
  case False
  let ?u = "2 powi binade bits x :: real"
  have pos: "?u > 0" by simp
  have "round_bits bits x - x = (of_int (nearest (x / ?u)) - x / ?u) * ?u"
    using False by (simp add: round_bits_def left_diff_distrib)
  then have "\<bar>round_bits bits x - x\<bar> = \<bar>of_int (nearest (x / ?u)) - x / ?u\<bar> * ?u"
    by (simp add: abs_mult)
  also have "\<dots> \<le> 1 / 2 * ?u"
    using nearest_error [of "x / ?u"] pos by (intro mult_right_mono) simp_all
  also have "\<dots> = 2 powi (binade bits x + int bits - 1) / 2 ^ bits"
    by (simp add: power_int_add power_int_diff)
  also have "\<dots> \<le> \<bar>x\<bar> / 2 ^ bits"
    using binade_le [OF False, of bits] by (intro divide_right_mono) simp_all
  finally show ?thesis .
qed

lemma round_bits_int:
  assumes "\<bar>n\<bar> < 2 ^ bits"
  shows "round_bits bits (of_int n) = of_int n"
proof (cases "n = 0")
  case True
  then show ?thesis by (simp add: round_bits_def)
next
  case False
  have "\<bar>of_int n :: real\<bar> < 2 ^ bits"
    using assms by (metis of_int_abs of_int_less_iff of_int_numeral of_int_power)
  with False have "log 2 \<bar>of_int n :: real\<bar> < real bits"
    by (simp add: log_less_iff powr_realpow)
  then have "\<lfloor>log 2 \<bar>of_int n :: real\<bar>\<rfloor> < int bits" by (simp add: floor_less_iff)
  then have "binade bits (of_int n) \<le> 0" by (simp add: binade_def)
  then obtain k where k: "binade bits (of_int n) = - int k" by (metis nonpos_int_cases)
  have "(of_int n :: real) / 2 powi binade bits (of_int n) = of_int (n * 2 ^ k)"
    by (simp add: k power_int_minus divide_inverse)
  then have "round_bits bits (of_int n) = of_int (n * 2 ^ k) * 2 powi binade bits (of_int n)"
    using False by (simp only: round_bits_def nearest_of_int of_int_eq_0_iff if_False)
  then show ?thesis by (simp add: k power_int_minus)
qed

lemma round_bits_laws:
  assumes "24 \<le> bits"
  shows "\<bar>round_bits bits x - x\<bar> * 16777216 \<le> \<bar>x\<bar>"
    and "\<bar>n\<bar> < 16777216 \<Longrightarrow> round_bits bits (of_int n) = of_int n"
proof -
  have le: "(2 :: real) ^ 24 \<le> 2 ^ bits" using assms by (intro power_increasing) simp_all
  have "\<bar>round_bits bits x - x\<bar> * 2 ^ 24 \<le> \<bar>round_bits bits x - x\<bar> * 2 ^ bits"
    by (rule mult_left_mono [OF le]) simp
  also have "\<dots> \<le> \<bar>x\<bar>" using round_bits_error [of bits x] by (simp add: pos_le_divide_eq)
  finally show "\<bar>round_bits bits x - x\<bar> * 16777216 \<le> \<bar>x\<bar>" by simp
  have "(2 :: int) ^ 24 \<le> 2 ^ bits" using assms by (intro power_increasing) simp_all
  then show "\<bar>n\<bar> < 16777216 \<Longrightarrow> round_bits bits (of_int n) = of_int n"
    by (intro round_bits_int) simp
qed

interpretation single: rounding "round_bits 24"
  by unfold_locales (rule round_bits_laws; simp)+

interpretation double: rounding "round_bits 53"
  by unfold_locales (rule round_bits_laws; simp)+

definition arctan2 :: "real \<Rightarrow> real \<Rightarrow> real" where
  "arctan2 y x = Arg (Complex x y)"

definition ieee :: fpu where
  "ieee = \<lparr>fl = round_bits 24, db = round_bits 53, m_sin = (\<lambda>x. round_bits 53 (sin x)),
     m_cos = (\<lambda>x. round_bits 53 (cos x)), m_sqrt = (\<lambda>x. round_bits 53 (sqrt x)),
     m_atan2 = (\<lambda>y x. round_bits 53 (arctan2 y x))\<rparr>"

section \<open>Conversion to integers\<close>

text \<open>C's conversion to an integer type drops the fraction; out of range it is undefined.\<close>

definition trunc :: "real \<Rightarrow> int" where
  "trunc x = (if x < 0 then - \<lfloor>- x\<rfloor> else \<lfloor>x\<rfloor>)"

lemma trunc_zero: "trunc x = 0 \<longleftrightarrow> \<bar>x\<bar> < 1"
  by (auto simp: trunc_def floor_eq_iff abs_if)

lemma trunc_mono: "x \<le> y \<Longrightarrow> trunc x \<le> trunc y"
  by (auto simp: trunc_def floor_mono intro: order_trans [of _ 0])

lemma trunc_of_int [simp]: "trunc (of_int n) = n"
  by (simp add: trunc_def flip: of_int_minus)

lemma trunc_at_least: "of_int n \<le> x \<Longrightarrow> n \<le> trunc x"
  using trunc_mono [of "of_int n" x] by simp

lemma trunc_at_most: "x \<le> of_int n \<Longrightarrow> trunc x \<le> n"
  using trunc_mono [of x "of_int n"] by simp

end
