(* ===== verification/Platform.thy ===== *)
theory Platform
  imports Prelude
begin

text \<open>
  The operating system as the libraries see it. What the kernel answers is not known, so the
  state holds one oracle per kind of call (\<open>write\<close>, \<open>read\<close>, \<open>open\<close>, \<open>malloc\<close>, the
  clock), indexed by a counter that every call advances: any behaviour POSIX allows is some
  choice of the oracles, and every theorem is proved for all of them. \<open>write\<close> never
  accepts more than it is given and \<open>read\<close> never delivers more than it is asked for.
  What a call does to the outside (bytes on a port, mutexes, messages, sleeping, threads) is
  appended to an event trace, so the order of effects can be stated.

  The two port loops that \<open>cwrite\<close>, \<open>cread\<close> (createoi.c) and \<open>iread\<close>
  (libIMU.c) share are here, with their termination and their contract; the locking
  discipline of event traces and the rules that establish it for programs follow.
\<close>

section \<open>Events and oracles\<close>

datatype mutex = CreateMutex | SensorCacheMutex | ImuMutex | ImuCacheMutex | StatusCacheMutex | ServerMutex

datatype event =
    EvLock mutex
  | EvUnlock mutex
  | EvMutexInit mutex
  | EvMutexDestroy mutex
  | EvWrite int "byte list"
  | EvRead int "byte list"
  | EvFlush int
  | EvOpen string int
  | EvClose int
  | EvTermios int int
  | EvFcntl int int
  | EvUsleep int
  | EvSleep int
  | EvPerror string
  | EvPrintf string "int list"
  | EvThreadCreate string
  | EvThreadJoin string
  | EvFclose string
  | EvSemWait string
  | EvSemPost string
  | EvSleepUntil int int
  | EvSend int "byte list"
  | EvShutdown int
  | EvExit int
  | EvAbort

datatype wres = WErr | WOk nat

datatype rres = RErr | ROk "byte list"

record os =
  wr :: "nat \<Rightarrow> wres"
  rd :: "nat \<Rightarrow> rres"
  opn :: "nat \<Rightarrow> int"
  alloc :: "nat \<Rightarrow> bool"
  clock :: "nat \<Rightarrow> int \<times> int"
  char_signed :: bool
  tick :: nat
  trace :: "event list"

definition emit :: "event \<Rightarrow> ('a os_scheme, unit) state" where
  "emit e = modify (\<lambda>s. s\<lparr>trace := trace s @ [e]\<rparr>)"

definition advance :: "'a os_scheme \<Rightarrow> 'a os_scheme" where
  "advance s = s\<lparr>tick := Suc (tick s)\<rparr>"

text \<open>\<open>write(fd, buf, count)\<close> with \<open>count = length buf\<close>; a negative result is an error.\<close>

definition os_write :: "int \<Rightarrow> byte list \<Rightarrow> ('a os_scheme, int) state" where
  "os_write fd buf = State (\<lambda>s.
     case wr s (tick s) of
       WErr \<Rightarrow> (-1, advance s)
     | WOk k \<Rightarrow> (int (length (take k buf)),
         (advance s)\<lparr>trace := trace s @ [EvWrite fd (take k buf)]\<rparr>))"

text \<open>\<open>read(fd, buf, count)\<close>: \<open>None\<close> for a negative result, else the bytes delivered.\<close>

definition os_read :: "int \<Rightarrow> nat \<Rightarrow> ('a os_scheme, byte list option) state" where
  "os_read fd count = State (\<lambda>s.
     case rd s (tick s) of
       RErr \<Rightarrow> (None, advance s)
     | ROk bs \<Rightarrow> (Some (take count bs),
         (advance s)\<lparr>trace := trace s @ [EvRead fd (take count bs)]\<rparr>))"

definition os_open :: "string \<Rightarrow> ('a os_scheme, int) state" where
  "os_open path = State (\<lambda>s.
     (opn s (tick s), (advance s)\<lparr>trace := trace s @ [EvOpen path (opn s (tick s))]\<rparr>))"

text \<open>\<open>malloc\<close>: \<open>False\<close> when it returns \<open>NULL\<close>.\<close>

definition os_malloc :: "('a os_scheme, bool) state" where
  "os_malloc = State (\<lambda>s. (alloc s (tick s), advance s))"

definition os_time :: "('a os_scheme, int \<times> int) state" where
  "os_time = State (\<lambda>s. (clock s (tick s), advance s))"

lemma run_emit [simp, runs]: "run_state (emit e) s = ((), s\<lparr>trace := trace s @ [e]\<rparr>)"
  by (simp add: emit_def)

lemma advance_simps [simp]:
  "trace (advance s) = trace s" "tick (advance s) = Suc (tick s)" "wr (advance s) = wr s"
  "rd (advance s) = rd s" "opn (advance s) = opn s" "alloc (advance s) = alloc s"
  "clock (advance s) = clock s" "char_signed (advance s) = char_signed s"
  by (simp_all add: advance_def)

section \<open>The port loops\<close>

text \<open>
  The loop of \<open>cwrite\<close>: \<open>numzeroes\<close> counts the writes that accepted nothing. The value
  is negative exactly where the code returns \<open>-1\<close> from inside the loop.
\<close>

function write_loop :: "int \<Rightarrow> byte list \<Rightarrow> nat \<Rightarrow> nat \<Rightarrow> nat \<Rightarrow> 'a os_scheme \<Rightarrow> int \<times> 'a os_scheme" where
  "write_loop fd buf numbytes numwritten numzeroes s =
     (if numwritten < numbytes then
        (case run_state (os_write fd (take (numbytes - numwritten) (drop numwritten buf))) s of
           (n, s') \<Rightarrow>
             if n < 0 then (-1, s')
             else if n = 0 then
               (if 3 < Suc numzeroes then (int numwritten, s')
                else write_loop fd buf numbytes numwritten (Suc numzeroes) s')
             else write_loop fd buf numbytes (numwritten + nat n) numzeroes s')
      else (int numwritten, s))"
  by pat_completeness auto
termination
  by (relation "measure (\<lambda>(fd, buf, numbytes, numwritten, numzeroes, s).
        (numbytes - numwritten) + (4 - numzeroes))") auto

text \<open>The loop of \<open>cread\<close> and \<open>iread\<close>: \<open>acc\<close> is what the buffer holds so far.\<close>

function read_loop :: "int \<Rightarrow> nat \<Rightarrow> byte list \<Rightarrow> nat \<Rightarrow> 'a os_scheme \<Rightarrow> (int \<times> byte list) \<times> 'a os_scheme" where
  "read_loop fd numbytes acc numzeroes s =
     (if length acc < numbytes then
        (case run_state (os_read fd (numbytes - length acc)) s of
           (None, s') \<Rightarrow> ((-1, acc), s')
         | (Some bs, s') \<Rightarrow>
             if bs = [] then
               (if 3 < Suc numzeroes then ((int (length acc), acc), s')
                else read_loop fd numbytes acc (Suc numzeroes) s')
             else read_loop fd numbytes (acc @ bs) numzeroes s')
      else ((int (length acc), acc), s))"
  by pat_completeness auto
termination
  by (relation "measure (\<lambda>(fd, numbytes, acc, numzeroes, s).
        (numbytes - length acc) + (4 - numzeroes))") (auto simp: diff_less_mono2 neq_Nil_conv)

declare write_loop.simps [simp del] read_loop.simps [simp del]

text \<open>The bytes a trace shows on a port, in either direction.\<close>

fun sent :: "event list \<Rightarrow> byte list" where
  "sent [] = []"
| "sent (EvWrite fd bs # es) = bs @ sent es"
| "sent (_ # es) = sent es"

fun received :: "event list \<Rightarrow> byte list" where
  "received [] = []"
| "received (EvRead fd bs # es) = bs @ received es"
| "received (_ # es) = received es"

lemma sent_append [simp]: "sent (xs @ ys) = sent xs @ sent ys"
  by (induction xs rule: sent.induct) auto

lemma received_append [simp]: "received (xs @ ys) = received xs @ received ys"
  by (induction xs rule: received.induct) auto

fun zero_writes :: "event list \<Rightarrow> nat" where
  "zero_writes [] = 0"
| "zero_writes (EvWrite fd bs # es) = (if bs = [] then Suc (zero_writes es) else zero_writes es)"
| "zero_writes (_ # es) = zero_writes es"

lemma zero_writes_append [simp]: "zero_writes (xs @ ys) = zero_writes xs + zero_writes ys"
  by (induction xs rule: zero_writes.induct) auto

text \<open>
  What a run of the write loop leaves: only the clock and the trace change, every event is a
  write on \<open>fd\<close>, the bytes accepted are the next \<open>k\<close> of the buffer, and the value is the
  total written unless a write failed; a total below \<open>numbytes\<close> needs four empty writes.
\<close>

definition write_post ::
  "int \<Rightarrow> byte list \<Rightarrow> nat \<Rightarrow> nat \<Rightarrow> nat \<Rightarrow> 'a os_scheme \<Rightarrow> int \<times> 'a os_scheme \<Rightarrow> bool" where
  "write_post fd buf numbytes numwritten numzeroes s res \<longleftrightarrow>
     (\<exists>t evs k. snd res = s\<lparr>tick := t, trace := trace s @ evs\<rparr>
        \<and> (\<forall>e \<in> set evs. \<exists>bs. e = EvWrite fd bs)
        \<and> numwritten + k \<le> numbytes
        \<and> sent evs = take k (drop numwritten buf)
        \<and> (fst res = -1 \<and> (\<exists>t. wr s t = WErr) \<or> fst res = int (numwritten + k)
             \<and> (numwritten + k < numbytes \<longrightarrow> 4 \<le> numzeroes + zero_writes evs)))"

lemma write_postI:
  assumes "snd res = s\<lparr>tick := t, trace := trace s @ evs\<rparr>" "\<forall>e \<in> set evs. \<exists>bs. e = EvWrite fd bs"
    "numwritten + k \<le> numbytes" "sent evs = take k (drop numwritten buf)"
    "fst res = -1 \<and> (\<exists>t. wr s t = WErr) \<or> fst res = int (numwritten + k)
       \<and> (numwritten + k < numbytes \<longrightarrow> 4 \<le> numzeroes + zero_writes evs)"
  shows "write_post fd buf numbytes numwritten numzeroes s res"
  unfolding write_post_def using assms by blast

lemma take_length_take: "take (length (take n xs)) xs = take n xs"
  by (metis length_take nle_le min_def take_all take_all_iff)

lemma write_post_step:
  assumes rest: "write_post fd buf numbytes (numwritten + length bs) numzeroes'
      (s\<lparr>tick := t, trace := trace s @ [EvWrite fd bs]\<rparr>) res"
    and bs: "bs = take (length bs) (drop numwritten buf)"
    and zeroes: "numzeroes' = (if bs = [] then Suc numzeroes else numzeroes)"
  shows "write_post fd buf numbytes numwritten numzeroes s res"
proof -
  from rest obtain u evs k where res: "snd res = s\<lparr>tick := u, trace := (trace s @ [EvWrite fd bs]) @ evs\<rparr>"
    and evs: "\<forall>e \<in> set evs. \<exists>bs. e = EvWrite fd bs"
    and k: "numwritten + length bs + k \<le> numbytes"
    and sent: "sent evs = take k (drop (numwritten + length bs) buf)"
    and val: "fst res = -1 \<and> (\<exists>t. wr s t = WErr) \<or> fst res = int (numwritten + length bs + k)
       \<and> (numwritten + length bs + k < numbytes \<longrightarrow> 4 \<le> numzeroes' + zero_writes evs)"
    unfolding write_post_def by auto
  have "take (length bs + k) (drop numwritten buf) = bs @ take k (drop (numwritten + length bs) buf)"
    by (subst take_add) (simp add: bs [symmetric] add.commute)
  then have all: "sent (EvWrite fd bs # evs) = take (length bs + k) (drop numwritten buf)"
    by (simp only: sent.simps sent)
  have zero: "numzeroes' + zero_writes evs = numzeroes + zero_writes (EvWrite fd bs # evs)"
    by (simp add: zeroes)
  show ?thesis
  proof (rule write_postI [OF _ _ _ all])
    show "snd res = s\<lparr>tick := u, trace := trace s @ EvWrite fd bs # evs\<rparr>"
      using res by simp
    show "\<forall>e \<in> set (EvWrite fd bs # evs). \<exists>bs. e = EvWrite fd bs"
      using evs by simp
    show "numwritten + (length bs + k) \<le> numbytes"
      using k by simp
    show "fst res = -1 \<and> (\<exists>t. wr s t = WErr) \<or> fst res = int (numwritten + (length bs + k))
        \<and> (numwritten + (length bs + k) < numbytes \<longrightarrow>
            4 \<le> numzeroes + zero_writes (EvWrite fd bs # evs))"
      using val by (simp only: zero add.assoc)
  qed
qed

lemma write_loop_done:
  "\<not> numwritten < numbytes \<Longrightarrow>
   write_loop fd buf numbytes numwritten numzeroes s = (int numwritten, s)"
  by (simp add: write_loop.simps)

lemma write_loop_fail:
  "numwritten < numbytes \<Longrightarrow> wr s (tick s) = WErr \<Longrightarrow>
   write_loop fd buf numbytes numwritten numzeroes s = (-1, s\<lparr>tick := Suc (tick s)\<rparr>)"
  by (simp add: write_loop.simps os_write_def advance_def)

lemma write_loop_ok:
  assumes "numwritten < numbytes" "wr s (tick s) = WOk j"
    and "bs = take j (take (numbytes - numwritten) (drop numwritten buf))"
    and "s' = s\<lparr>tick := Suc (tick s), trace := trace s @ [EvWrite fd bs]\<rparr>"
  shows "write_loop fd buf numbytes numwritten numzeroes s =
     (if bs = [] \<and> 3 < Suc numzeroes then (int numwritten, s')
      else write_loop fd buf numbytes (numwritten + length bs)
             (if bs = [] then Suc numzeroes else numzeroes) s')"
  unfolding assms(3,4) using assms(1,2)
  by (subst write_loop.simps) (auto simp: os_write_def advance_def)

lemma write_loop_post:
  "numwritten \<le> numbytes \<Longrightarrow>
   write_post fd buf numbytes numwritten numzeroes s (write_loop fd buf numbytes numwritten numzeroes s)"
proof (induction "(numbytes - numwritten) + (4 - numzeroes)" arbitrary: numwritten numzeroes s
    rule: less_induct)
  case less
  show ?case
  proof (cases "numwritten < numbytes")
    case False
    with less.prems show ?thesis
      by (intro write_postI [where t = "tick s" and evs = "[]" and k = 0]) (auto simp: write_loop_done)
  next
    case lt: True
    show ?thesis
    proof (cases "wr s (tick s)")
      case WErr
      with lt show ?thesis
        by (intro write_postI [where t = "Suc (tick s)" and evs = "[]" and k = 0])
          (auto simp: write_loop_fail)
    next
      case (WOk j)
      define bs where "bs = take j (take (numbytes - numwritten) (drop numwritten buf))"
      define z where "z = (if bs = [] then Suc numzeroes else numzeroes)"
      note unfold = write_loop_ok [OF lt WOk bs_def refl, of fd numzeroes]
      have bs: "bs = take (length bs) (drop numwritten buf)"
        by (simp add: bs_def take_length_take del: length_take)
      have le: "numwritten + length bs \<le> numbytes"
        using lt by (simp add: bs_def)
      show ?thesis
      proof (cases "bs = [] \<and> 3 < Suc numzeroes")
        case True
        with lt show ?thesis
          by (intro write_postI [where t = "Suc (tick s)" and evs = "[EvWrite fd []]" and k = 0])
            (auto simp: unfold)
      next
        case False
        let ?s = "s\<lparr>tick := Suc (tick s), trace := trace s @ [EvWrite fd bs]\<rparr>"
        have "(numbytes - (numwritten + length bs)) + (4 - z)
            < (numbytes - numwritten) + (4 - numzeroes)"
          using lt False by (cases bs) (auto simp: z_def)
        from less.hyps [OF this le, of ?s]
        have "write_post fd buf numbytes numwritten numzeroes s
            (write_loop fd buf numbytes (numwritten + length bs) z ?s)"
          using bs z_def by (rule write_post_step)
        moreover from False have "write_loop fd buf numbytes numwritten numzeroes s =
            write_loop fd buf numbytes (numwritten + length bs) z ?s"
          unfolding unfold z_def by (rule if_not_P)
        ultimately show ?thesis by (simp only:)
      qed
    qed
  qed
qed

text \<open>A port that always accepts something: the loop then sends the whole buffer.\<close>

definition accepts :: "'a os_scheme \<Rightarrow> bool" where
  "accepts s \<longleftrightarrow> (\<forall>t. \<exists>k > 0. wr s t = WOk k)"

lemma write_loop_accepts:
  assumes "accepts s" "numbytes \<le> length buf" "numwritten \<le> numbytes"
  shows "\<exists>t evs. write_loop fd buf numbytes numwritten numzeroes s
            = (int numbytes, s\<lparr>tick := t, trace := trace s @ evs\<rparr>)
          \<and> sent evs = take (numbytes - numwritten) (drop numwritten buf)"
  using assms
proof (induction "numbytes - numwritten" arbitrary: numwritten s rule: less_induct)
  case less
  show ?case
  proof (cases "numwritten < numbytes")
    case False
    with less.prems show ?thesis
      by (intro exI [where x = "tick s"] exI [where x = "[]"]) (simp add: write_loop_done)
  next
    case lt: True
    from less.prems(1) obtain j where j: "wr s (tick s) = WOk j" "0 < j"
      by (auto simp: accepts_def)
    define bs where "bs = take j (take (numbytes - numwritten) (drop numwritten buf))"
    let ?s = "s\<lparr>tick := Suc (tick s), trace := trace s @ [EvWrite fd bs]\<rparr>"
    have ne: "bs \<noteq> []" using lt j less.prems(2) by (simp add: bs_def)
    have le: "numwritten + length bs \<le> numbytes" using lt by (simp add: bs_def)
    have "numbytes - (numwritten + length bs) < numbytes - numwritten"
      using ne lt by (cases bs) auto
    moreover have "accepts ?s" using less.prems(1) by (simp add: accepts_def)
    ultimately obtain t evs where run:
      "write_loop fd buf numbytes (numwritten + length bs) numzeroes ?s
         = (int numbytes, ?s\<lparr>tick := t, trace := trace ?s @ evs\<rparr>)"
      "sent evs = take (numbytes - (numwritten + length bs)) (drop (numwritten + length bs) buf)"
      using less.hyps [OF _ _ less.prems(2) le, of ?s] by auto
    have "take (numbytes - numwritten) (drop numwritten buf)
        = take (length bs) (drop numwritten buf) @ sent evs"
      using le run(2) take_add [of "length bs" "numbytes - (numwritten + length bs)" "drop numwritten buf"]
      by (simp add: add.commute)
    moreover have "take (length bs) (drop numwritten buf) = bs"
      by (simp add: bs_def take_length_take del: length_take)
    ultimately show ?thesis
      using run(1) ne write_loop_ok [OF lt j(1) bs_def refl, of fd numzeroes]
      by (intro exI [where x = t] exI [where x = "EvWrite fd bs # evs"]) simp
  qed
qed

subsection \<open>Reading\<close>

lemma read_loop_done:
  "\<not> length acc < numbytes \<Longrightarrow> read_loop fd numbytes acc numzeroes s = ((int (length acc), acc), s)"
  by (simp add: read_loop.simps)

lemma read_loop_fail:
  "length acc < numbytes \<Longrightarrow> rd s (tick s) = RErr \<Longrightarrow>
   read_loop fd numbytes acc numzeroes s = ((-1, acc), s\<lparr>tick := Suc (tick s)\<rparr>)"
  by (simp add: read_loop.simps os_read_def advance_def)

lemma read_loop_ok:
  assumes "length acc < numbytes" "rd s (tick s) = ROk av"
    and "bs = take (numbytes - length acc) av"
    and "s' = s\<lparr>tick := Suc (tick s), trace := trace s @ [EvRead fd bs]\<rparr>"
  shows "read_loop fd numbytes acc numzeroes s =
     (if bs = [] \<and> 3 < Suc numzeroes then ((int (length acc), acc), s')
      else read_loop fd numbytes (acc @ bs) (if bs = [] then Suc numzeroes else numzeroes) s')"
  unfolding assms(3,4) using assms(1,2)
  by (subst read_loop.simps) (auto simp: os_read_def advance_def)

text \<open>
  What a run of the read loop leaves: only the clock and the trace change, every event is a
  read on \<open>fd\<close>, the buffer holds exactly the bytes received, never more than asked for, and
  the value is their number unless a read failed.
\<close>

definition read_post ::
  "int \<Rightarrow> nat \<Rightarrow> byte list \<Rightarrow> 'a os_scheme \<Rightarrow> (int \<times> byte list) \<times> 'a os_scheme \<Rightarrow> bool" where
  "read_post fd numbytes acc s res \<longleftrightarrow>
     (\<exists>t evs. snd res = s\<lparr>tick := t, trace := trace s @ evs\<rparr>
        \<and> (\<forall>e \<in> set evs. \<exists>bs. e = EvRead fd bs)
        \<and> snd (fst res) = acc @ received evs
        \<and> length (acc @ received evs) \<le> numbytes
        \<and> (fst (fst res) = -1 \<and> (\<exists>t. rd s t = RErr) \<or> fst (fst res) = int (length (acc @ received evs))))"

lemma read_postI:
  assumes "snd res = s\<lparr>tick := t, trace := trace s @ evs\<rparr>" "\<forall>e \<in> set evs. \<exists>bs. e = EvRead fd bs"
    "snd (fst res) = acc @ received evs" "length (acc @ received evs) \<le> numbytes"
    "fst (fst res) = -1 \<and> (\<exists>t. rd s t = RErr) \<or> fst (fst res) = int (length (acc @ received evs))"
  shows "read_post fd numbytes acc s res"
  unfolding read_post_def using assms by blast

lemma read_post_step:
  assumes "read_post fd numbytes (acc @ bs) (s\<lparr>tick := t, trace := trace s @ [EvRead fd bs]\<rparr>) res"
  shows "read_post fd numbytes acc s res"
proof -
  from assms obtain u evs where
    "snd res = s\<lparr>tick := u, trace := trace s @ EvRead fd bs # evs\<rparr>"
    "\<forall>e \<in> set evs. \<exists>bs. e = EvRead fd bs"
    "snd (fst res) = (acc @ bs) @ received evs" "length ((acc @ bs) @ received evs) \<le> numbytes"
    "fst (fst res) = -1 \<and> (\<exists>t. rd s t = RErr) \<or> fst (fst res) = int (length ((acc @ bs) @ received evs))"
    unfolding read_post_def by auto
  then show ?thesis
    by (intro read_postI [where t = u and evs = "EvRead fd bs # evs"]) auto
qed

lemma read_loop_post:
  "length acc \<le> numbytes \<Longrightarrow> read_post fd numbytes acc s (read_loop fd numbytes acc numzeroes s)"
proof (induction "(numbytes - length acc) + (4 - numzeroes)" arbitrary: acc numzeroes s
    rule: less_induct)
  case less
  show ?case
  proof (cases "length acc < numbytes")
    case False
    with less.prems show ?thesis
      by (intro read_postI [where t = "tick s" and evs = "[]"]) (auto simp: read_loop_done)
  next
    case lt: True
    show ?thesis
    proof (cases "rd s (tick s)")
      case RErr
      with lt show ?thesis
        by (intro read_postI [where t = "Suc (tick s)" and evs = "[]"]) (auto simp: read_loop_fail)
    next
      case (ROk av)
      define bs where "bs = take (numbytes - length acc) av"
      define z where "z = (if bs = [] then Suc numzeroes else numzeroes)"
      let ?s = "s\<lparr>tick := Suc (tick s), trace := trace s @ [EvRead fd bs]\<rparr>"
      note unfold = read_loop_ok [OF lt ROk bs_def refl, of fd numzeroes]
      have le: "length (acc @ bs) \<le> numbytes"
        using lt by (simp add: bs_def)
      show ?thesis
      proof (cases "bs = [] \<and> 3 < Suc numzeroes")
        case True
        with lt show ?thesis
          by (intro read_postI [where t = "Suc (tick s)" and evs = "[EvRead fd []]"]) (auto simp: unfold)
      next
        case False
        have "(numbytes - length (acc @ bs)) + (4 - z) < (numbytes - length acc) + (4 - numzeroes)"
          using lt False by (cases bs) (auto simp: z_def)
        from less.hyps [OF this le, of ?s]
        have "read_post fd numbytes acc s (read_loop fd numbytes (acc @ bs) z ?s)"
          by (rule read_post_step)
        moreover from False have "read_loop fd numbytes acc numzeroes s = read_loop fd numbytes (acc @ bs) z ?s"
          unfolding unfold z_def by (rule if_not_P)
        ultimately show ?thesis by (simp only:)
      qed
    qed
  qed
qed

end
