(* ===== verification/Locking.thy ===== *)
theory Locking
  imports Platform
begin

text \<open>
  The locking discipline of the create library: one mutex at a time, released by its holder,
  and no byte moves on the serial port unless \<open>create_mutex\<close> is held. \<open>replay\<close> runs an event
  trace against it; \<open>seg h m h'\<close> says that from holding \<open>h\<close> the program \<open>m\<close> keeps to the
  discipline whatever the system answers and ends holding \<open>h'\<close>. \<open>EvAbort\<close> is the end of the
  process, which holds nothing afterwards. The rules collected in
  \<open>segs\<close> follow the shape of a program, as a small Hoare logic over the trace.
\<close>

fun replay :: "mutex option \<Rightarrow> event list \<Rightarrow> mutex option option" where
  "replay h [] = Some h"
| "replay h (EvLock m # es) = (if h = None then replay (Some m) es else None)"
| "replay h (EvUnlock m # es) = (if h = Some m then replay None es else None)"
| "replay h (EvWrite fd bs # es) = (if h = Some CreateMutex then replay h es else None)"
| "replay h (EvRead fd bs # es) = (if h = Some CreateMutex then replay h es else None)"
| "replay h (EvAbort # es) = replay None es"
| "replay h (_ # es) = replay h es"

lemma replay_append: "replay h es = Some h' \<Longrightarrow> replay h (es @ fs) = replay h' fs"
  by (induction h es rule: replay.induct) (auto split: if_splits)

definition seg :: "mutex option \<Rightarrow> ('a os_scheme, 'b) state \<Rightarrow> mutex option \<Rightarrow> bool" where
  "seg h m h' \<longleftrightarrow>
     (\<forall>s. \<exists>evs. trace (exec_of m s) = trace s @ evs \<and> replay h evs = Some h')"

lemma segI:
  "(\<And>s. \<exists>evs. trace (exec_of m s) = trace s @ evs \<and> replay h evs = Some h') \<Longrightarrow> seg h m h'"
  by (simp add: seg_def)

lemma segD: "seg h m h' \<Longrightarrow> \<exists>evs. trace (exec_of m s) = trace s @ evs \<and> replay h evs = Some h'"
  by (simp add: seg_def)

lemma seg_ret [segs]: "seg h (ret x) h"
  by (rule segI) simp

lemma seg_gets [segs]: "seg h (gets f) h"
  by (rule segI) simp

lemma seg_getS [segs]: "seg h getS h"
  by (rule segI) simp

lemma seg_modify: "(\<And>s. trace (f s) = trace s) \<Longrightarrow> seg h (modify f) h"
  by (rule segI) simp

lemma seg_emit: "replay h [e] = Some h' \<Longrightarrow> seg h (emit e) h'"
  by (rule segI) simp

lemma seg_bind:
  assumes m: "seg h m h1" and f: "\<And>x. seg h1 (f x) h2"
  shows "seg h (m \<bind> f) h2"
proof (rule segI)
  fix s
  obtain x s1 where run: "run_state m s = (x, s1)" by (cases "run_state m s")
  from segD [OF m, of s] run obtain e1 where e1: "trace s1 = trace s @ e1" "replay h e1 = Some h1"
    by auto
  from segD [OF f, of x s1] obtain e2 where e2: "trace (exec_of (f x) s1) = trace s1 @ e2" "replay h1 e2 = Some h2"
    by auto
  from e1 e2 run show "\<exists>evs. trace (exec_of (m \<bind> f) s) = trace s @ evs \<and> replay h evs = Some h2"
    by (intro exI [where x = "e1 @ e2"]) (simp add: replay_append)
qed

lemma seg_if [segs]:
  "(b \<Longrightarrow> seg h m h') \<Longrightarrow> (\<not> b \<Longrightarrow> seg h n h') \<Longrightarrow> seg h (if b then m else n) h'"
  by simp

lemma seg_case_prod [segs]:
  "(\<And>a b. seg h (f a b) h') \<Longrightarrow> seg h (case p of (a, b) \<Rightarrow> f a b) h'"
  by (cases p) simp

lemma seg_case_option [segs]:
  "seg h m h' \<Longrightarrow> (\<And>x. seg h (f x) h') \<Longrightarrow> seg h (case x of None \<Rightarrow> m | Some y \<Rightarrow> f y) h'"
  by (cases x) simp_all

lemma seg_let [segs]: "seg h (f t) h' \<Longrightarrow> seg h (Let t f) h'"
  by simp

lemma seg_lock [segs]: "seg None (emit (EvLock m)) (Some m)"
  by (rule seg_emit) simp

lemma seg_unlock [segs]: "seg (Some m) (emit (EvUnlock m)) None"
  by (rule seg_emit) simp

lemma seg_quiet [segs]:
  "seg h (emit (EvMutexInit m)) h" "seg h (emit (EvMutexDestroy m)) h" "seg h (emit (EvFlush fd)) h"
  "seg h (emit (EvOpen p fd)) h" "seg h (emit (EvClose fd)) h" "seg h (emit (EvTermios fd b)) h" "seg h (emit (EvFcntl fd b)) h"
  "seg h (emit (EvUsleep n)) h" "seg h (emit (EvSleep n)) h" "seg h (emit (EvPerror msg)) h"
  "seg h (emit (EvPrintf msg args)) h" "seg h (emit (EvThreadCreate t)) h"
  "seg h (emit (EvThreadJoin t)) h" "seg h (emit (EvSemWait nm)) h" "seg h (emit (EvSemPost nm)) h"
  "seg h (emit (EvSend fd bs)) h" "seg h (emit (EvShutdown fd)) h" "seg h (emit (EvExit n)) h"
  "seg h (emit (EvSleepUntil x y)) h"
  by (rule seg_emit; simp)+

lemma seg_abort [segs]: "seg h (emit EvAbort) None"
  by (rule seg_emit) simp

lemma seg_os_open [segs]: "seg h (os_open p) h"
  by (rule segI) (simp add: os_open_def)

lemma seg_os_malloc [segs]: "seg h os_malloc h"
  by (rule segI) (simp add: os_malloc_def)

lemma seg_os_time [segs]: "seg h os_time h"
  by (rule segI) (simp add: os_time_def)

lemma replay_io:
  "\<forall>e \<in> set evs. (\<exists>bs. e = EvWrite fd bs) \<or> (\<exists>bs. e = EvRead fd bs) \<Longrightarrow>
   replay (Some CreateMutex) evs = Some (Some CreateMutex)"
  by (induction evs) auto

lemma seg_write_loop [segs]:
  "seg (Some CreateMutex) (State (\<lambda>s. write_loop (f s) buf n 0 0 s)) (Some CreateMutex)"
proof (rule segI)
  fix s :: "'a os_scheme"
  from write_loop_post [of 0 n "f s" buf 0 s]
  obtain evs where "trace (snd (write_loop (f s) buf n 0 0 s)) = trace s @ evs"
    "\<forall>e \<in> set evs. \<exists>bs. e = EvWrite (f s) bs"
    by (auto simp: write_post_def)
  then show "\<exists>evs. trace (exec_of (State (\<lambda>s. write_loop (f s) buf n 0 0 s)) s) = trace s @ evs \<and>
      replay (Some CreateMutex) evs = Some (Some CreateMutex)"
    by (intro exI [where x = evs]) (auto intro: replay_io)
qed

lemma seg_read_loop [segs]:
  "seg (Some CreateMutex) (State (\<lambda>s. read_loop (f s) n [] 0 s)) (Some CreateMutex)"
proof (rule segI)
  fix s :: "'a os_scheme"
  from read_loop_post [of "[]" n "f s" s 0]
  obtain evs where "trace (snd (read_loop (f s) n [] 0 s)) = trace s @ evs"
    "\<forall>e \<in> set evs. \<exists>bs. e = EvRead (f s) bs"
    by (auto simp: read_post_def)
  then show "\<exists>evs. trace (exec_of (State (\<lambda>s. read_loop (f s) n [] 0 s)) s) = trace s @ evs \<and>
      replay (Some CreateMutex) evs = Some (Some CreateMutex)"
    by (intro exI [where x = evs]) (auto intro: replay_io)
qed

end
