(* ===== verification/CreateState.thy ===== *)
theory CreateState
  imports Complex_Main Locking
begin

text \<open>
  The data of libcreateoi: the enumerations of createoi.h, the static variables of
  createoi.c, the sensor cache of the multi-threaded mode, and the two port functions
  \<open>cwrite\<close> and \<open>cread\<close> every command goes through, with what they promise.
\<close>

section \<open>Enumerations\<close>

datatype oi_command =
    OPCODE_START | OPCODE_BAUD | OPCODE_SAFE | OPCODE_FULL | OPCODE_SPOT | OPCODE_COVER
  | OPCODE_DEMO | OPCODE_DRIVE | OPCODE_LOW_SIDE_DRIVERS | OPCODE_LED | OPCODE_SONG
  | OPCODE_PLAY_SONG | OPCODE_SENSORS | OPCODE_COVER_AND_DOCK | OPCODE_PWM_LOW_SIDE_DRIVERS
  | OPCODE_DRIVE_DIRECT | OPCODE_DIGITAL_OUTS | OPCODE_STREAM | OPCODE_QUERY_LIST
  | OPCODE_PAUSE_RESUME_STREAM | OPCODE_SEND_IR | OPCODE_SCRIPT | OPCODE_PLAY_SCRIPT
  | OPCODE_SHOW_SCRIPT | OPCODE_WAIT_TIME | OPCODE_WAIT_DISTANCE | OPCODE_WAIT_ANGLE
  | OPCODE_WAIT_EVENT

fun opcode :: "oi_command \<Rightarrow> byte" where
  "opcode OPCODE_START = 128"
| "opcode OPCODE_BAUD = 129"
| "opcode OPCODE_SAFE = 131"
| "opcode OPCODE_FULL = 132"
| "opcode OPCODE_SPOT = 134"
| "opcode OPCODE_COVER = 135"
| "opcode OPCODE_DEMO = 136"
| "opcode OPCODE_DRIVE = 137"
| "opcode OPCODE_LOW_SIDE_DRIVERS = 138"
| "opcode OPCODE_LED = 139"
| "opcode OPCODE_SONG = 140"
| "opcode OPCODE_PLAY_SONG = 141"
| "opcode OPCODE_SENSORS = 142"
| "opcode OPCODE_COVER_AND_DOCK = 143"
| "opcode OPCODE_PWM_LOW_SIDE_DRIVERS = 144"
| "opcode OPCODE_DRIVE_DIRECT = 145"
| "opcode OPCODE_DIGITAL_OUTS = 147"
| "opcode OPCODE_STREAM = 148"
| "opcode OPCODE_QUERY_LIST = 149"
| "opcode OPCODE_PAUSE_RESUME_STREAM = 150"
| "opcode OPCODE_SEND_IR = 151"
| "opcode OPCODE_SCRIPT = 152"
| "opcode OPCODE_PLAY_SCRIPT = 153"
| "opcode OPCODE_SHOW_SCRIPT = 154"
| "opcode OPCODE_WAIT_TIME = 155"
| "opcode OPCODE_WAIT_DISTANCE = 156"
| "opcode OPCODE_WAIT_ANGLE = 157"
| "opcode OPCODE_WAIT_EVENT = 158"

text \<open>A C enumeration can hold a value that is no enumerator: \<open>SENSOR_OTHER\<close>, \<open>BAUD_OTHER\<close>.\<close>

datatype oi_sensor =
    SENSOR_GROUP_0 | SENSOR_GROUP_1 | SENSOR_GROUP_2 | SENSOR_GROUP_3 | SENSOR_GROUP_4
  | SENSOR_GROUP_5 | SENSOR_GROUP_ALL | SENSOR_BUMPS_AND_WHEEL_DROPS | SENSOR_WALL
  | SENSOR_CLIFF_LEFT | SENSOR_CLIFF_FRONT_LEFT | SENSOR_CLIFF_FRONT_RIGHT | SENSOR_CLIFF_RIGHT
  | SENSOR_VIRTUAL_WALL | SENSOR_OVERCURRENT | SENSOR_INFRARED | SENSOR_BUTTONS
  | SENSOR_DISTANCE | SENSOR_ANGLE | SENSOR_CHARGING_STATE | SENSOR_VOLTAGE | SENSOR_CURRENT
  | SENSOR_BATTERY_TEMP | SENSOR_BATTERY_CHARGE | SENSOR_BATTERY_CAPACITY | SENSOR_WALL_SIGNAL
  | SENSOR_CLIFF_LEFT_SIGNAL | SENSOR_CLIFF_FRONT_LEFT_SIGNAL | SENSOR_CLIFF_FRONT_RIGHT_SIGNAL
  | SENSOR_CLIFF_RIGHT_SIGNAL | SENSOR_DIGITAL_INPUTS | SENSOR_ANALOG_SIGNAL
  | SENSOR_CHARGING_SOURCES_AVAILABLE | SENSOR_OI_MODE | SENSOR_SONG_NUMBER
  | SENSOR_SONG_IS_PLAYING | SENSOR_NUM_STREAM_PACKETS | SENSOR_REQUESTED_VELOCITY
  | SENSOR_REQUESTED_RADIUS | SENSOR_REQUESTED_RIGHT_VEL | SENSOR_REQUESTED_LEFT_VEL
  | SENSOR_OTHER int

fun sensor_code :: "oi_sensor \<Rightarrow> int" where
  "sensor_code SENSOR_GROUP_0 = 0"
| "sensor_code SENSOR_GROUP_1 = 1"
| "sensor_code SENSOR_GROUP_2 = 2"
| "sensor_code SENSOR_GROUP_3 = 3"
| "sensor_code SENSOR_GROUP_4 = 4"
| "sensor_code SENSOR_GROUP_5 = 5"
| "sensor_code SENSOR_GROUP_ALL = 6"
| "sensor_code SENSOR_BUMPS_AND_WHEEL_DROPS = 7"
| "sensor_code SENSOR_WALL = 8"
| "sensor_code SENSOR_CLIFF_LEFT = 9"
| "sensor_code SENSOR_CLIFF_FRONT_LEFT = 10"
| "sensor_code SENSOR_CLIFF_FRONT_RIGHT = 11"
| "sensor_code SENSOR_CLIFF_RIGHT = 12"
| "sensor_code SENSOR_VIRTUAL_WALL = 13"
| "sensor_code SENSOR_OVERCURRENT = 14"
| "sensor_code SENSOR_INFRARED = 17"
| "sensor_code SENSOR_BUTTONS = 18"
| "sensor_code SENSOR_DISTANCE = 19"
| "sensor_code SENSOR_ANGLE = 20"
| "sensor_code SENSOR_CHARGING_STATE = 21"
| "sensor_code SENSOR_VOLTAGE = 22"
| "sensor_code SENSOR_CURRENT = 23"
| "sensor_code SENSOR_BATTERY_TEMP = 24"
| "sensor_code SENSOR_BATTERY_CHARGE = 25"
| "sensor_code SENSOR_BATTERY_CAPACITY = 26"
| "sensor_code SENSOR_WALL_SIGNAL = 27"
| "sensor_code SENSOR_CLIFF_LEFT_SIGNAL = 28"
| "sensor_code SENSOR_CLIFF_FRONT_LEFT_SIGNAL = 29"
| "sensor_code SENSOR_CLIFF_FRONT_RIGHT_SIGNAL = 30"
| "sensor_code SENSOR_CLIFF_RIGHT_SIGNAL = 31"
| "sensor_code SENSOR_DIGITAL_INPUTS = 32"
| "sensor_code SENSOR_ANALOG_SIGNAL = 33"
| "sensor_code SENSOR_CHARGING_SOURCES_AVAILABLE = 34"
| "sensor_code SENSOR_OI_MODE = 35"
| "sensor_code SENSOR_SONG_NUMBER = 36"
| "sensor_code SENSOR_SONG_IS_PLAYING = 37"
| "sensor_code SENSOR_NUM_STREAM_PACKETS = 38"
| "sensor_code SENSOR_REQUESTED_VELOCITY = 39"
| "sensor_code SENSOR_REQUESTED_RADIUS = 40"
| "sensor_code SENSOR_REQUESTED_RIGHT_VEL = 41"
| "sensor_code SENSOR_REQUESTED_LEFT_VEL = 42"
| "sensor_code (SENSOR_OTHER n) = n"

datatype oi_baud =
    BAUD300 | BAUD600 | BAUD1200 | BAUD2400 | BAUD4800 | BAUD9600 | BAUD14400 | BAUD19200
  | BAUD28800 | BAUD38400 | BAUD57600 | BAUD115200 | BAUD_OTHER int

fun baud_code :: "oi_baud \<Rightarrow> int" where
  "baud_code BAUD300 = 0"
| "baud_code BAUD600 = 1"
| "baud_code BAUD1200 = 2"
| "baud_code BAUD2400 = 3"
| "baud_code BAUD4800 = 4"
| "baud_code BAUD9600 = 5"
| "baud_code BAUD14400 = 6"
| "baud_code BAUD19200 = 7"
| "baud_code BAUD28800 = 8"
| "baud_code BAUD38400 = 9"
| "baud_code BAUD57600 = 10"
| "baud_code BAUD115200 = 11"
| "baud_code (BAUD_OTHER n) = n"

text \<open>A pointer a function returns, and what following \<open>NULL\<close> does.\<close>

datatype 'a pointer = NULL | Ptr 'a | Segfault

section \<open>State\<close>

record sensor_cache =
  sc_distance :: int
  sc_angle :: int
  sc_velocity :: int
  sc_turning_radius :: int
  sc_bumps_and_wheel_drops :: int
  sc_cliff_left :: int
  sc_cliff_front_left :: int
  sc_cliff_front_right :: int
  sc_cliff_right :: int
  sc_wall :: int
  sc_charge :: int
  sc_capacity :: int
  sc_overcurrent :: int
  sc_time_stamp :: real
  sc_shut_down :: int

text \<open>
  The statics of createoi.c. \<open>oi_cache\<close> is what \<open>sensor_cache\<close> points to (\<open>None\<close> for
  \<open>NULL\<close>); \<open>oi_over\<close> is the static counter of \<open>stopWait\<close>; \<open>junk_cache\<close> and \<open>junk_byte\<close> are
  what freshly allocated or uninitialised memory happens to hold.
\<close>

record create = os +
  oi_fd :: int
  oi_debug :: int
  oi_thread_mode :: int
  oi_cache :: "sensor_cache option"
  oi_over :: int
  junk_cache :: sensor_cache
  junk_byte :: byte

section \<open>The port functions\<close>

definition print_bytes :: "byte list \<Rightarrow> ('a os_scheme, unit) state" where
  "print_bytes bs = modify (\<lambda>s. s\<lparr>trace := trace s @ map (\<lambda>b. EvPrintf ''%d '' [uint b]) bs\<rparr>)"

definition cwrite :: "byte list \<Rightarrow> nat \<Rightarrow> ('a create_scheme, int) state" where
  "cwrite buf numbytes = do {
     n \<leftarrow> State (\<lambda>s. write_loop (oi_fd s) buf numbytes 0 0 s);
     if n < 0 then ret (-1)
     else do {
       dbg \<leftarrow> gets oi_debug;
       if dbg \<noteq> 0 then do {
         emit (EvPrintf ''Write: '' []);
         print_bytes (take (nat n) buf);
         emit (EvPrintf ''Wrote %d of %d bytes'' [n, int numbytes]);
         ret n
       } else ret n
     }
   }"

definition cread :: "int \<Rightarrow> ('a create_scheme, int \<times> byte list) state" where
  "cread numbytes = do {
     r \<leftarrow> State (\<lambda>s. read_loop (oi_fd s) (nat numbytes) [] 0 s);
     if fst r < 0 then ret (-1, snd r)
     else do {
       dbg \<leftarrow> gets oi_debug;
       fd \<leftarrow> gets oi_fd;
       if dbg \<noteq> 0 then do {
         emit (EvPrintf ''Read:   '' []);
         print_bytes (snd r);
         emit (EvPrintf ''Read %d of %d bytes'' [fst r, numbytes]);
         emit (EvFlush fd);
         ret r
       } else do { emit (EvFlush fd); ret r }
     }
   }"

text \<open>\<open>getTime\<close>, as an exact number of seconds.\<close>

definition getTime :: "('a os_scheme, real) state" where
  "getTime = do {
     tv \<leftarrow> os_time;
     ret (of_int (fst tv) + of_int (snd tv) / 1000000)
   }"

lemma seg_print_bytes [segs]: "seg h (print_bytes bs) h"
  by (rule segI) (simp add: print_bytes_def, induction bs, auto)

lemma seg_cwrite [segs]: "seg (Some CreateMutex) (cwrite buf n) (Some CreateMutex)"
  unfolding cwrite_def by (rule seg_bind segs)+

lemma seg_cread [segs]: "seg (Some CreateMutex) (cread n) (Some CreateMutex)"
  unfolding cread_def by (rule seg_bind segs)+

lemma seg_getTime [segs]: "seg h getTime h"
  unfolding getTime_def by (rule seg_bind segs)+

end
