(* ===== verification/CreateCommands.thy ===== *)
theory CreateCommands
  imports CreateState
begin

text \<open>
  The commands of createoi.c that only send: each builds its bytes and hands them to
  \<open>cwrite\<close> under \<open>create_mutex\<close>. The code repeats one block in every command (lock, write,
  on failure report, unlock, return -1; else unlock, return 0); \<open>locked_cmd\<close> is that block,
  \<open>locked_cmd_late\<close> the variant of \<open>setLEDState\<close>, \<open>playSong\<close> and \<open>playScript\<close>, which unlock
  before they report.
\<close>

definition locked_cmd :: "string \<Rightarrow> byte list \<Rightarrow> ('a create_scheme, int) state" where
  "locked_cmd msg cmd = do {
     emit (EvLock CreateMutex);
     r \<leftarrow> cwrite cmd (length cmd);
     if r < 0 then do {
       emit (EvPerror msg);
       emit (EvUnlock CreateMutex);
       ret (-1)
     } else do {
       emit (EvUnlock CreateMutex);
       ret 0
     }
   }"

definition locked_cmd_late :: "string \<Rightarrow> byte list \<Rightarrow> ('a create_scheme, int) state" where
  "locked_cmd_late msg cmd = do {
     emit (EvLock CreateMutex);
     r \<leftarrow> cwrite cmd (length cmd);
     if r < 0 then do {
       emit (EvUnlock CreateMutex);
       emit (EvPerror msg);
       ret (-1)
     } else do {
       emit (EvUnlock CreateMutex);
       ret 0
     }
   }"

section \<open>Modes and demos\<close>

definition enterPassiveMode :: "('a create_scheme, int) state" where
  "enterPassiveMode = locked_cmd ''Could not enter Passive Mode'' [opcode OPCODE_START]"

definition enterSafeMode :: "('a create_scheme, int) state" where
  "enterSafeMode = locked_cmd ''Could not enter Safe Mode'' [opcode OPCODE_SAFE]"

definition enterFullMode :: "('a create_scheme, int) state" where
  "enterFullMode = locked_cmd ''Could not enter Full Mode'' [opcode OPCODE_FULL]"

definition runDemo :: "int \<Rightarrow> ('a create_scheme, int) state" where
  "runDemo demo = locked_cmd ''Could not run demo'' [opcode OPCODE_DEMO, to_byte demo]"

definition runCoverDemo :: "('a create_scheme, int) state" where
  "runCoverDemo = locked_cmd ''Could not start Cover demo'' [opcode OPCODE_COVER]"

definition runCoverAndDockDemo :: "('a create_scheme, int) state" where
  "runCoverAndDockDemo =
     locked_cmd ''Could not start Cover and Dock demo'' [opcode OPCODE_COVER_AND_DOCK]"

definition runSpotDemo :: "('a create_scheme, int) state" where
  "runSpotDemo = locked_cmd ''Could not start Spot demo'' [opcode OPCODE_SPOT]"

section \<open>Driving\<close>

text \<open>The macros \<open>MIN(a,b)\<close> and \<open>MAX(a,b)\<close> of createoi.c, on promoted \<open>short\<close> arguments.\<close>

definition C_MIN :: "int \<Rightarrow> int \<Rightarrow> int" where
  "C_MIN a b = (if a < b then a else b)"

definition C_MAX :: "int \<Rightarrow> int \<Rightarrow> int" where
  "C_MAX a b = (if a > b then a else b)"

definition drive_cmd :: "short \<Rightarrow> short \<Rightarrow> byte list" where
  "drive_cmd vel0 rad0 =
     (let vel = to_short (C_MIN 500 (sint vel0));
          vel = to_short (C_MAX (-500) (sint vel));
          rad = to_short (C_MIN 2000 (sint rad0));
          rad = to_short (C_MAX (-2000) (sint rad));
          rad = (if 0 = sint rad then to_short 32768 else rad)
      in [opcode OPCODE_DRIVE, hi_byte vel, lo_byte vel, hi_byte rad, lo_byte rad])"

definition drive :: "short \<Rightarrow> short \<Rightarrow> ('a create_scheme, int) state" where
  "drive vel rad = locked_cmd ''Could not start drive'' (drive_cmd vel rad)"

definition directDrive_cmd :: "short \<Rightarrow> short \<Rightarrow> byte list" where
  "directDrive_cmd Lwheel0 Rwheel0 =
     (let Lwheel = to_short (C_MIN 500 (sint Lwheel0));
          Lwheel = to_short (C_MAX (-500) (sint Lwheel));
          Rwheel = to_short (C_MIN 500 (sint Rwheel0));
          Rwheel = to_short (C_MAX (-500) (sint Rwheel))
      in [opcode OPCODE_DRIVE_DIRECT, hi_byte Rwheel, lo_byte Rwheel, hi_byte Lwheel, lo_byte Lwheel])"

definition directDrive :: "short \<Rightarrow> short \<Rightarrow> ('a create_scheme, int) state" where
  "directDrive Lwheel Rwheel =
     locked_cmd ''Could not start direct drive'' (directDrive_cmd Lwheel Rwheel)"

section \<open>Lights, outputs, songs\<close>

definition setLEDState :: "int \<Rightarrow> byte \<Rightarrow> byte \<Rightarrow> ('a create_scheme, int) state" where
  "setLEDState lflags pColor pInten =
     locked_cmd_late ''Could not set LEDs'' [opcode OPCODE_LED, to_byte lflags, pColor, pInten]"

definition setDigitalOuts :: "int \<Rightarrow> ('a create_scheme, int) state" where
  "setDigitalOuts oflags =
     locked_cmd ''Could not set digital outs'' [opcode OPCODE_DIGITAL_OUTS, to_byte oflags]"

definition pwm_cmd :: "byte \<Rightarrow> byte \<Rightarrow> byte \<Rightarrow> byte list" where
  "pwm_cmd pwm0 pwm1 pwm2 =
     (let p0 = to_byte (C_MIN 128 (uint pwm0));
          p1 = to_byte (C_MIN 128 (uint pwm1));
          p2 = to_byte (C_MIN 128 (uint pwm2))
      in [opcode OPCODE_PWM_LOW_SIDE_DRIVERS, p2, p1, p0])"

definition setPWMLowSideDrivers :: "byte \<Rightarrow> byte \<Rightarrow> byte \<Rightarrow> ('a create_scheme, int) state" where
  "setPWMLowSideDrivers pwm0 pwm1 pwm2 =
     locked_cmd ''Could not set low side driver duty cycle'' (pwm_cmd pwm0 pwm1 pwm2)"

definition setLowSideDrivers :: "int \<Rightarrow> ('a create_scheme, int) state" where
  "setLowSideDrivers oflags =
     locked_cmd ''Could not set low side driver state'' [opcode OPCODE_LOW_SIDE_DRIVERS, to_byte oflags]"

definition sendIRbyte :: "byte \<Rightarrow> ('a create_scheme, int) state" where
  "sendIRbyte irbyte = locked_cmd ''Could not write to IR'' [opcode OPCODE_SEND_IR, irbyte]"

text \<open>
  \<open>song\<close> is the caller's array; the code reads \<open>song[i]\<close> for every \<open>i < 2*length\<close>, and an
  array shorter than that is read out of bounds (\<open>None\<close>: undefined behaviour).
\<close>

definition writeSong :: "byte \<Rightarrow> byte \<Rightarrow> byte list \<Rightarrow> ('a create_scheme, int option) state" where
  "writeSong number len song =
     (if length song < 2 * unat len then ret None
      else do {
        r \<leftarrow> locked_cmd ''Could not write new song''
               ([opcode OPCODE_SONG, number, len] @ map (\<lambda>i. song ! i) [0..<2 * unat len]);
        ret (Some r)
      })"

definition playSong :: "byte \<Rightarrow> ('a create_scheme, int) state" where
  "playSong number = locked_cmd_late ''Could not play song'' [opcode OPCODE_PLAY_SONG, number]"

section \<open>Scripts\<close>

text \<open>
  \<open>writeScript\<close> fills \<open>cmd[size+1]\<close>: it stores the opcode at index 1, not 0, then the script
  from index 1 on; \<open>cmd[0]\<close> stays uninitialised. For \<open>size = 0\<close> the first store is out of
  bounds; so is a read of a script shorter than \<open>size\<close> (\<open>None\<close>).
\<close>

definition script_cmd :: "byte \<Rightarrow> byte list \<Rightarrow> nat \<Rightarrow> byte list" where
  "script_cmd junk script sz =
     fold (\<lambda>i cmd. cmd[i + 1 := script ! i]) [0..<sz]
       ((replicate (sz + 1) junk)[1 := opcode OPCODE_SCRIPT])"

definition writeScript :: "byte list \<Rightarrow> byte \<Rightarrow> ('a create_scheme, int option) state" where
  "writeScript script sz =
     (if sz = 0 \<or> length script < unat sz then ret None
      else do {
        junk \<leftarrow> gets junk_byte;
        r \<leftarrow> locked_cmd ''Could not write script'' (script_cmd junk script (unat sz));
        ret (Some r)
      })"

definition playScript :: "('a create_scheme, int) state" where
  "playScript = locked_cmd_late ''Could not play script'' [opcode OPCODE_PLAY_SCRIPT]"

text \<open>
  \<open>getScript\<close> reads a size byte and then that many bytes. When the size read delivers nothing
  (a result of 0, which is not an error), \<open>size\<close> is uninitialised. The result of \<open>malloc\<close> is
  not checked, and a failed read of the data leaks the block.
\<close>

definition getScript :: "('a create_scheme, byte list pointer) state" where
  "getScript = do {
     emit (EvLock CreateMutex);
     r \<leftarrow> cwrite [opcode OPCODE_SHOW_SCRIPT] 1;
     if r < 0 then do {
       emit (EvPerror ''Could not request script'');
       emit (EvUnlock CreateMutex);
       ret NULL
     } else do {
       r1 \<leftarrow> cread 1;
       if fst r1 < 0 then do {
         emit (EvPerror ''Could not get script size'');
         emit (EvUnlock CreateMutex);
         ret NULL
       } else do {
         junk \<leftarrow> gets junk_byte;
         let sz = hd (snd r1 @ [junk]);
         ok \<leftarrow> os_malloc;
         if \<not> ok then do { emit EvAbort; ret Segfault }
         else do {
           r2 \<leftarrow> cread (uint sz);
           if fst r2 < 0 then do {
             emit (EvPerror ''Could not get script data'');
             emit (EvUnlock CreateMutex);
             ret NULL
           } else do {
             emit (EvUnlock CreateMutex);
             ret (Ptr (sz # overlay 0 (snd r2) (replicate (unat sz) junk)))
           }
         }
       }
     }
   }"

section \<open>Baud rate\<close>

fun baud_value :: "oi_baud \<Rightarrow> int option" where
  "baud_value BAUD300 = Some 300"
| "baud_value BAUD600 = Some 600"
| "baud_value BAUD1200 = Some 1200"
| "baud_value BAUD2400 = Some 2400"
| "baud_value BAUD4800 = Some 4800"
| "baud_value BAUD9600 = Some 9600"
| "baud_value BAUD14400 = Some 14400"
| "baud_value BAUD19200 = Some 19200"
| "baud_value BAUD28800 = Some 28800"
| "baud_value BAUD38400 = Some 38400"
| "baud_value BAUD57600 = Some 56700"
| "baud_value BAUD115200 = Some 115200"
| "baud_value (BAUD_OTHER n) = None"

definition setBaud :: "oi_baud \<Rightarrow> ('a create_scheme, int) state" where
  "setBaud rate =
     (case baud_value rate of
        None \<Rightarrow> do {
          emit (EvPrintf ''Could not set baud: Invalid argument'' []);
          ret (-1)
        }
      | Some new_baud \<Rightarrow> do {
          emit (EvLock CreateMutex);
          r \<leftarrow> cwrite [opcode OPCODE_BAUD, to_byte (baud_code rate)] 2;
          if r < 0 then do {
            emit (EvPerror ''Could not set baud'');
            emit (EvUnlock CreateMutex);
            ret (-1)
          } else do {
            fd \<leftarrow> gets oi_fd;
            emit (EvTermios fd new_baud);
            emit (EvUsleep 100000);
            emit (EvUnlock CreateMutex);
            ret 0
          }
        })"

end
