(* ===== verification/CreateSensors.thy ===== *)
theory CreateSensors
  imports CreateCommands
begin

text \<open>
  Reading the robot: the raw packet reads, the formatted single-sensor read, the group read of
  all 36 values, and the \<open>get*\<close> accessors, which query the robot or, in multi-threaded mode,
  the cache the sensor thread keeps.
\<close>

section \<open>Raw packets\<close>

text \<open>The result is the count and the caller's buffer after the call.\<close>

definition readRawSensor :: "oi_sensor \<Rightarrow> byte list \<Rightarrow> int \<Rightarrow> ('a create_scheme, int \<times> byte list) state" where
  "readRawSensor packet buffer sz = do {
     emit (EvLock CreateMutex);
     r \<leftarrow> cwrite [opcode OPCODE_SENSORS, to_byte (sensor_code packet)] 2;
     if r < 0 then do {
       emit (EvPerror ''Could not request sensor'');
       emit (EvUnlock CreateMutex);
       ret (-1, buffer)
     } else do {
       r \<leftarrow> cread sz;
       if fst r < 0 then do {
         emit (EvPerror ''Could not read sensor'');
         emit (EvUnlock CreateMutex);
         ret (-1, overlay 0 (snd r) buffer)
       } else do {
         emit (EvUnlock CreateMutex);
         ret (fst r, overlay 0 (snd r) buffer)
       }
     }
   }"

text \<open>
  \<open>readRawSensorList\<close> sizes its command by the reply (\<open>cmd[size + 2]\<close>) and sends all of it;
  the array holds junk past the packet list. \<open>None\<close>: more packets than \<open>size\<close>, a list shorter
  than \<open>num_packets\<close>, or a negative \<open>size\<close>, all out of bounds.
\<close>

definition query_cmd :: "byte \<Rightarrow> oi_sensor list \<Rightarrow> nat \<Rightarrow> nat \<Rightarrow> byte list" where
  "query_cmd junk packet_list num_packets sz =
     fold (\<lambda>i cmd. cmd[i + 2 := to_byte (sensor_code (packet_list ! i))]) [0..<num_packets]
       ((replicate (sz + 2) junk)[0 := opcode OPCODE_QUERY_LIST, 1 := to_byte (int num_packets)])"

definition readRawSensorList ::
  "oi_sensor list \<Rightarrow> byte \<Rightarrow> byte list \<Rightarrow> int \<Rightarrow> ('a create_scheme, (int \<times> byte list) option) state" where
  "readRawSensorList packet_list num_packets buffer sz =
     (if sz < 0 \<or> nat sz < unat num_packets \<or> length packet_list < unat num_packets then ret None
      else do {
        junk \<leftarrow> gets junk_byte;
        emit (EvLock CreateMutex);
        r \<leftarrow> cwrite (query_cmd junk packet_list (unat num_packets) (nat sz)) (nat sz + 2);
        if r < 0 then do {
          emit (EvPerror ''Could not request sensor list'');
          emit (EvUnlock CreateMutex);
          ret (Some (-1, buffer))
        } else do {
          r \<leftarrow> cread sz;
          if fst r < 0 then do {
            emit (EvPerror ''Could not read sensor list'');
            emit (EvUnlock CreateMutex);
            ret (Some (-1, overlay 0 (snd r) buffer))
          } else do {
            emit (EvUnlock CreateMutex);
            ret (Some (fst r, overlay 0 (snd r) buffer))
          }
        }
      })"

section \<open>Single sensors\<close>

datatype wire_format = OneByteUnsigned | OneByteSigned | TwoByteUnsigned | TwoByteSigned

text \<open>The case labels of \<open>readSensor\<close>; \<open>None\<close> is its \<open>default\<close>.\<close>

fun sensor_format :: "oi_sensor \<Rightarrow> wire_format option" where
  "sensor_format SENSOR_BUMPS_AND_WHEEL_DROPS = Some OneByteUnsigned"
| "sensor_format SENSOR_WALL = Some OneByteUnsigned"
| "sensor_format SENSOR_CLIFF_LEFT = Some OneByteUnsigned"
| "sensor_format SENSOR_CLIFF_FRONT_LEFT = Some OneByteUnsigned"
| "sensor_format SENSOR_CLIFF_FRONT_RIGHT = Some OneByteUnsigned"
| "sensor_format SENSOR_CLIFF_RIGHT = Some OneByteUnsigned"
| "sensor_format SENSOR_VIRTUAL_WALL = Some OneByteUnsigned"
| "sensor_format SENSOR_OVERCURRENT = Some OneByteUnsigned"
| "sensor_format SENSOR_INFRARED = Some OneByteUnsigned"
| "sensor_format SENSOR_BUTTONS = Some OneByteUnsigned"
| "sensor_format SENSOR_CHARGING_STATE = Some OneByteUnsigned"
| "sensor_format SENSOR_DIGITAL_INPUTS = Some OneByteUnsigned"
| "sensor_format SENSOR_CHARGING_SOURCES_AVAILABLE = Some OneByteUnsigned"
| "sensor_format SENSOR_OI_MODE = Some OneByteUnsigned"
| "sensor_format SENSOR_SONG_NUMBER = Some OneByteUnsigned"
| "sensor_format SENSOR_SONG_IS_PLAYING = Some OneByteUnsigned"
| "sensor_format SENSOR_NUM_STREAM_PACKETS = Some OneByteUnsigned"
| "sensor_format SENSOR_BATTERY_TEMP = Some OneByteSigned"
| "sensor_format SENSOR_VOLTAGE = Some TwoByteUnsigned"
| "sensor_format SENSOR_BATTERY_CHARGE = Some TwoByteUnsigned"
| "sensor_format SENSOR_BATTERY_CAPACITY = Some TwoByteUnsigned"
| "sensor_format SENSOR_WALL_SIGNAL = Some TwoByteUnsigned"
| "sensor_format SENSOR_CLIFF_LEFT_SIGNAL = Some TwoByteUnsigned"
| "sensor_format SENSOR_CLIFF_FRONT_LEFT_SIGNAL = Some TwoByteUnsigned"
| "sensor_format SENSOR_CLIFF_FRONT_RIGHT_SIGNAL = Some TwoByteUnsigned"
| "sensor_format SENSOR_CLIFF_RIGHT_SIGNAL = Some TwoByteUnsigned"
| "sensor_format SENSOR_ANALOG_SIGNAL = Some TwoByteUnsigned"
| "sensor_format SENSOR_DISTANCE = Some TwoByteSigned"
| "sensor_format SENSOR_ANGLE = Some TwoByteSigned"
| "sensor_format SENSOR_CURRENT = Some TwoByteSigned"
| "sensor_format SENSOR_REQUESTED_VELOCITY = Some TwoByteSigned"
| "sensor_format SENSOR_REQUESTED_RADIUS = Some TwoByteSigned"
| "sensor_format SENSOR_REQUESTED_RIGHT_VEL = Some TwoByteSigned"
| "sensor_format SENSOR_REQUESTED_LEFT_VEL = Some TwoByteSigned"
| "sensor_format _ = None"

fun format_width :: "wire_format \<Rightarrow> nat" where
  "format_width OneByteUnsigned = 1"
| "format_width OneByteSigned = 1"
| "format_width TwoByteUnsigned = 2"
| "format_width TwoByteSigned = 2"

text \<open>The value each case computes from its buffer.\<close>

fun decode_sensor :: "bool \<Rightarrow> wire_format \<Rightarrow> byte list \<Rightarrow> int" where
  "decode_sensor cs OneByteUnsigned buffer = uint (buffer ! 0)"
| "decode_sensor cs OneByteSigned buffer = 0 + to_char cs (buffer ! 0)"
| "decode_sensor cs TwoByteUnsigned buffer = or_shift8 (buffer ! 0) (buffer ! 1)"
| "decode_sensor cs TwoByteSigned buffer = 0 + sint (to_short (or_shift8 (buffer ! 0) (buffer ! 1)))"

text \<open>
  Only a result of exactly -1 counts as failure: a read that delivers fewer bytes than the
  packet has leaves zeros in the buffer and is decoded as if it were complete.
\<close>

definition readSensor :: "oi_sensor \<Rightarrow> ('a create_scheme, int) state" where
  "readSensor packet =
     (case sensor_format packet of
        None \<Rightarrow> ret INT_MIN
      | Some fmt \<Rightarrow> do {
          ok \<leftarrow> os_malloc;
          if \<not> ok then ret INT_MIN
          else do {
            cs \<leftarrow> gets char_signed;
            r \<leftarrow> readRawSensor packet (replicate (format_width fmt) 0) (int (format_width fmt));
            if fst r = -1 then ret INT_MIN
            else ret (decode_sensor cs fmt (snd r))
          }
        })"

section \<open>All sensors at once\<close>

text \<open>The 36 values \<open>getAllSensors\<close> computes from the 52 bytes of packet group 6.\<close>

definition decode_all :: "bool \<Rightarrow> byte list \<Rightarrow> int list" where
  "decode_all cs buf =
     map (\<lambda>i. uint (buf ! i)) [0..<12]
     @ [sint (to_short (or_shift8 (buf ! 12) (buf ! 13))),
        sint (to_short (or_shift8 (buf ! 14) (buf ! 15))),
        uint (buf ! 16),
        or_shift8 (buf ! 17) (buf ! 18),
        sint (to_short (or_shift8 (buf ! 19) (buf ! 20))),
        to_char cs (buf ! 21)]
     @ map (\<lambda>i. or_shift8 (buf ! (22 + 2*i)) (buf ! (23 + 2*i))) [0..<7]
     @ [uint (buf ! 36),
        or_shift8 (buf ! 37) (buf ! 38)]
     @ map (\<lambda>i. uint (buf ! (39 + i))) [0..<5]
     @ map (\<lambda>i. sint (to_short (or_shift8 (buf ! (44 + 2*i)) (buf ! (45 + 2*i))))) [0..<4]"

definition getAllSensors :: "('a create_scheme, int list pointer) state" where
  "getAllSensors = do {
     ok \<leftarrow> os_malloc;
     if \<not> ok then do {
       emit (EvPrintf ''Could not get all sensors:  Memory allocation failed'' []);
       ret NULL
     } else do {
       cs \<leftarrow> gets char_signed;
       r \<leftarrow> readRawSensor SENSOR_GROUP_ALL (replicate 52 0) 52;
       if fst r < 52 then do {
         emit (EvPrintf ''Could not get all sensors:  Incomplete data'' []);
         ret NULL
       } else ret (Ptr (decode_all cs (snd r)))
     }
   }"

section \<open>Accessors\<close>

text \<open>
  In multi-threaded mode an accessor reads the cache under its mutex. The cache pointer is
  set before the mode is, so it is not \<open>NULL\<close> there; \<open>the_cache\<close> is the dereference.
\<close>

definition the_cache :: "'a create_scheme \<Rightarrow> sensor_cache" where
  "the_cache s = (case oi_cache s of Some c \<Rightarrow> c | None \<Rightarrow> junk_cache s)"

lemma the_cache_simps [simp]:
  "the_cache (s\<lparr>trace := es\<rparr>) = the_cache s" "the_cache (s\<lparr>tick := t\<rparr>) = the_cache s"
  "the_cache (s\<lparr>oi_cache := Some c\<rparr>) = c"
  by (simp_all add: the_cache_def split: option.split)

definition cached :: "(sensor_cache \<Rightarrow> 'b) \<Rightarrow> ('a create_scheme, 'b) state" where
  "cached f = do {
     emit (EvLock SensorCacheMutex);
     v \<leftarrow> gets (\<lambda>s. f (the_cache s));
     emit (EvUnlock SensorCacheMutex);
     ret v
   }"

definition getCharge :: "('a create_scheme, int) state" where
  "getCharge = do {
     mode \<leftarrow> gets oi_thread_mode;
     p \<leftarrow> (if mode = 0 then do {
             charge \<leftarrow> readSensor SENSOR_BATTERY_CHARGE;
             capacity \<leftarrow> readSensor SENSOR_BATTERY_CAPACITY;
             ret (charge, capacity)
           } else cached (\<lambda>c. (sc_charge c, sc_capacity c)));
     if fst p = INT_MIN \<or> snd p = INT_MIN \<or> snd p = 0 then ret INT_MIN
     else ret (cdiv (wrap32 (fst p * 100)) (snd p))
   }"

definition getDistance :: "('a create_scheme, int) state" where
  "getDistance = do {
     mode \<leftarrow> gets oi_thread_mode;
     if mode = 0 then readSensor SENSOR_DISTANCE
     else do {
       emit (EvLock SensorCacheMutex);
       dist \<leftarrow> gets (\<lambda>s. sc_distance (the_cache s));
       modify (\<lambda>s. s\<lparr>oi_cache := Some ((the_cache s)\<lparr>sc_distance := 0\<rparr>)\<rparr>);
       emit (EvUnlock SensorCacheMutex);
       ret dist
     }
   }"

definition getAngle :: "('a create_scheme, int) state" where
  "getAngle = do {
     mode \<leftarrow> gets oi_thread_mode;
     if mode = 0 then readSensor SENSOR_ANGLE
     else do {
       emit (EvLock SensorCacheMutex);
       angle \<leftarrow> gets (\<lambda>s. sc_angle (the_cache s));
       modify (\<lambda>s. s\<lparr>oi_cache := Some ((the_cache s)\<lparr>sc_angle := 0\<rparr>)\<rparr>);
       emit (EvUnlock SensorCacheMutex);
       ret angle
     }
   }"

definition getVelocity :: "('a create_scheme, int) state" where
  "getVelocity = do {
     mode \<leftarrow> gets oi_thread_mode;
     if mode = 0 then readSensor SENSOR_REQUESTED_VELOCITY else cached sc_velocity
   }"

definition getTurningRadius :: "('a create_scheme, int) state" where
  "getTurningRadius = do {
     mode \<leftarrow> gets oi_thread_mode;
     if mode = 0 then readSensor SENSOR_REQUESTED_RADIUS else cached sc_turning_radius
   }"

definition getOvercurrent :: "('a create_scheme, int) state" where
  "getOvercurrent = do {
     mode \<leftarrow> gets oi_thread_mode;
     if mode = 0 then readSensor SENSOR_OVERCURRENT else cached sc_overcurrent
   }"

definition getBumpsAndWheelDrops :: "('a create_scheme, int) state" where
  "getBumpsAndWheelDrops = do {
     mode \<leftarrow> gets oi_thread_mode;
     if mode = 0 then readSensor SENSOR_BUMPS_AND_WHEEL_DROPS else cached sc_bumps_and_wheel_drops
   }"

definition cliffs_value :: "int \<Rightarrow> int \<Rightarrow> int \<Rightarrow> int \<Rightarrow> int" where
  "cliffs_value c0 c1 c2 c3 =
     (if INT_MIN = c0 \<or> INT_MIN = c1 \<or> INT_MIN = c2 \<or> INT_MIN = c3 then INT_MIN
      else wrap32 (c0*8 + c1*4 + c2*2 + c3))"

definition getCliffs :: "('a create_scheme, int) state" where
  "getCliffs = do {
     mode \<leftarrow> gets oi_thread_mode;
     if mode = 0 then do {
       c0 \<leftarrow> readSensor SENSOR_CLIFF_LEFT;
       c1 \<leftarrow> readSensor SENSOR_CLIFF_FRONT_LEFT;
       c2 \<leftarrow> readSensor SENSOR_CLIFF_FRONT_RIGHT;
       c3 \<leftarrow> readSensor SENSOR_CLIFF_RIGHT;
       ret (cliffs_value c0 c1 c2 c3)
     } else do {
       c \<leftarrow> cached (\<lambda>c. (sc_cliff_left c, sc_cliff_front_left c, sc_cliff_front_right c, sc_cliff_right c));
       ret (case c of (c0, c1, c2, c3) \<Rightarrow> cliffs_value c0 c1 c2 c3)
     }
   }"

end
