(* ===== verification/CreateMotion.thy ===== *)
theory CreateMotion
  imports CreateSensors
begin

text \<open>
  The operations of createoi.c that last: starting and stopping the interface, waiting for a
  distance, an angle or a time, and the drives that end by themselves. The wait loops of the
  code are \<open>while (1)\<close>: they take fuel here, one unit per iteration, and \<open>None\<close> is a run
  that has not ended yet.
\<close>

section \<open>Starting and stopping\<close>

datatype c_result = Returned int | NoValue | Crashed

definition startOI :: "string \<Rightarrow> ('a create_scheme, int) state" where
  "startOI serial = do {
     emit (EvMutexInit CreateMutex);
     fd \<leftarrow> gets oi_fd;
     failed \<leftarrow> (if 0 = fd then do {
         n \<leftarrow> os_open serial;
         modify (\<lambda>s. s\<lparr>oi_fd := n\<rparr>);
         if n < 0 then do {
           emit (EvPerror ''Could not open serial port'');
           ret True
         } else do {
           emit (EvFcntl n 0);
           emit (EvFlush n);
           emit (EvTermios n 57600);
           ret False
         }
       } else ret False);
     if failed then ret (-1)
     else do {
       enterPassiveMode;
       enterSafeMode;
       setLEDState 0 128 255;
       ret 0
     }
   }"

text \<open>
  \<open>startOI_MT\<close> and \<open>startOI_MTS\<close> declare an \<open>int\<close> result and fall off their end: the value is
  indeterminate (\<open>NoValue\<close>). The block from \<open>malloc\<close> is used unchecked.
\<close>

definition start_thread :: "string \<Rightarrow> ('a create_scheme, c_result) state" where
  "start_thread thread = do {
     emit (EvMutexInit SensorCacheMutex);
     ok \<leftarrow> os_malloc;
     if \<not> ok then do { emit EvAbort; ret Crashed }
     else do {
       modify (\<lambda>s. s\<lparr>oi_cache := Some ((junk_cache s)\<lparr>sc_shut_down := 0\<rparr>)\<rparr>);
       emit (EvThreadCreate thread);
       emit (EvUsleep 100000);
       ret NoValue
     }
   }"

definition startOI_MTS :: "string \<Rightarrow> ('a create_scheme, c_result) state" where
  "startOI_MTS serial = do {
     r \<leftarrow> startOI serial;
     if r \<noteq> 0 then ret (Returned (-1))
     else do {
       modify (\<lambda>s. s\<lparr>oi_thread_mode := 1\<rparr>);
       start_thread ''sensorThreadFunc''
     }
   }"

definition startOI_MT :: "string \<Rightarrow> ('a create_scheme, c_result) state" where
  "startOI_MT serial = do {
     r \<leftarrow> startOI serial;
     if r \<noteq> 0 then ret (Returned (-1))
     else do {
       modify (\<lambda>s. s\<lparr>oi_thread_mode := 1\<rparr>);
       start_thread ''sensorThreadFuncStandalone''
     }
   }"

definition stopOI :: "('a create_scheme, int) state" where
  "stopOI = do {
     enterPassiveMode;
     r \<leftarrow> directDrive 0 0;
     if r < 0 then do {
       emit (EvPerror ''Could not stop OI'');
       ret (-1)
     } else do {
       emit (EvMutexDestroy CreateMutex);
       fd \<leftarrow> gets oi_fd;
       emit (EvClose fd);
       modify (\<lambda>s. s\<lparr>oi_fd := 0\<rparr>);
       ret 0
     }
   }"

definition stopOI_MT :: "('a create_scheme, int) state" where
  "stopOI_MT = do {
     emit (EvLock SensorCacheMutex);
     modify (\<lambda>s. s\<lparr>oi_cache := Some ((the_cache s)\<lparr>sc_shut_down := 1\<rparr>)\<rparr>);
     emit (EvUnlock SensorCacheMutex);
     emit (EvThreadJoin ''sensor_thread'');
     emit (EvMutexDestroy SensorCacheMutex);
     r \<leftarrow> stopOI;
     if r \<noteq> 0 then ret (-1) else ret 0
   }"

definition enableDebug :: "('a create_scheme, unit) state" where
  "enableDebug = modify (\<lambda>s. s\<lparr>oi_debug := 1\<rparr>)"

definition disableDebug :: "('a create_scheme, unit) state" where
  "disableDebug = modify (\<lambda>s. s\<lparr>oi_debug := 0\<rparr>)"

section \<open>Waiting\<close>

text \<open>
  \<open>(int)time\<close> truncates; the argument is non-negative there. A time that does not fit an
  \<open>int\<close> makes the conversion undefined (\<open>None\<close>). The double is read as an exact number.
\<close>

definition waitTime :: "real \<Rightarrow> ('a create_scheme, real option) state" where
  "waitTime time0 = do {
     let time = (if time0 < 0 then - time0 else time0);
     if time \<ge> 2147483648 then ret None
     else do {
       let secs = \<lfloor>time\<rfloor>;
       let usecs = \<lfloor>(time - of_int secs) * 1000000\<rfloor>;
       emit (EvSleep secs);
       emit (EvUsleep usecs);
       ret (Some time)
     }
   }"

definition stopWait :: "('a create_scheme, int) state" where
  "stopWait = do {
     over \<leftarrow> getOvercurrent;
     (if over > 0 then modify (\<lambda>s. s\<lparr>oi_over := wrap32 (oi_over s + 1)\<rparr>)
      else modify (\<lambda>s. s\<lparr>oi_over := 0\<rparr>));
     n \<leftarrow> gets oi_over;
     shouldStop \<leftarrow> (if n > 4 then do { modify (\<lambda>s. s\<lparr>oi_over := 0\<rparr>); ret 1 } else ret 0);
     bumps \<leftarrow> getBumpsAndWheelDrops;
     cliffs \<leftarrow> getCliffs;
     ret (wrap32 (shouldStop + wrap32 (bumps + cliffs)))
   }"

definition reached :: "int \<Rightarrow> int \<Rightarrow> bool" where
  "reached goal count \<longleftrightarrow> (goal \<ge> 0 \<and> count \<ge> goal) \<or> (goal < 0 \<and> count \<le> goal)"

fun waitDistance_loop :: "nat \<Rightarrow> int \<Rightarrow> int \<Rightarrow> int \<Rightarrow> ('a create_scheme, int option) state" where
  "waitDistance_loop 0 goal interrupt count = ret None"
| "waitDistance_loop (Suc fuel) goal interrupt count0 = do {
     emit (EvUsleep 20000);
     current \<leftarrow> getDistance;
     if INT_MIN = current then ret (Some INT_MIN)
     else do {
       let count = wrap32 (count0 + current);
       emit (EvPrintf ''Count %d out of %d'' [count, goal]);
       stop \<leftarrow> (if interrupt \<noteq> 0 then stopWait else ret 0);
       if stop \<noteq> 0 \<or> reached goal count then ret (Some count)
       else waitDistance_loop fuel goal interrupt count
     }
   }"

definition waitDistance :: "nat \<Rightarrow> int \<Rightarrow> int \<Rightarrow> ('a create_scheme, int option) state" where
  "waitDistance fuel goal interrupt = do {
     r \<leftarrow> getDistance;
     if INT_MIN = r then ret (Some INT_MIN)
     else waitDistance_loop fuel goal interrupt 0
   }"

text \<open>The progress message of \<open>waitAngle\<close> prints \<open>getAngle()\<close>, a second reading of the sensor.\<close>

fun waitAngle_loop :: "nat \<Rightarrow> int \<Rightarrow> int \<Rightarrow> int \<Rightarrow> ('a create_scheme, int option) state" where
  "waitAngle_loop 0 angle interrupt count = ret None"
| "waitAngle_loop (Suc fuel) angle interrupt count0 = do {
     emit (EvUsleep 20000);
     current \<leftarrow> getAngle;
     if INT_MIN = current then ret (Some INT_MIN)
     else do {
       let count = wrap32 (count0 + current);
       shown \<leftarrow> getAngle;
       emit (EvPrintf ''Turn count %d'' [shown]);
       stop \<leftarrow> (if interrupt \<noteq> 0 then stopWait else ret 0);
       if stop \<noteq> 0 \<or> reached angle count then ret (Some count)
       else waitAngle_loop fuel angle interrupt count
     }
   }"

definition waitAngle :: "nat \<Rightarrow> int \<Rightarrow> int \<Rightarrow> ('a create_scheme, int option) state" where
  "waitAngle fuel angle interrupt = do {
     r \<leftarrow> getAngle;
     if INT_MIN = r then ret (Some INT_MIN)
     else waitAngle_loop fuel angle interrupt 0
   }"

section \<open>Drives that end by themselves\<close>

definition driveDistance :: "nat \<Rightarrow> short \<Rightarrow> short \<Rightarrow> int \<Rightarrow> int \<Rightarrow> ('a create_scheme, int option) state" where
  "driveDistance fuel vel rad goal interrupt = do {
     r \<leftarrow> drive vel rad;
     if r = -1 then ret (Some INT_MIN)
     else do {
       w \<leftarrow> waitDistance fuel goal interrupt;
       case w of
         None \<Rightarrow> ret None
       | Some v \<Rightarrow>
           if v = INT_MIN then ret (Some INT_MIN)
           else do {
             r \<leftarrow> drive 0 0;
             if r = -1 then ret (Some INT_MIN) else ret (Some v)
           }
     }
   }"

definition turn :: "nat \<Rightarrow> short \<Rightarrow> short \<Rightarrow> int \<Rightarrow> int \<Rightarrow> ('a create_scheme, int option) state" where
  "turn fuel vel rad angle interrupt = do {
     r \<leftarrow> drive vel rad;
     if r = -1 then ret (Some INT_MIN)
     else do {
       w \<leftarrow> waitAngle fuel angle interrupt;
       case w of
         None \<Rightarrow> ret None
       | Some v \<Rightarrow>
           if v = INT_MIN then ret (Some INT_MIN)
           else do {
             r \<leftarrow> drive 0 0;
             if r = -1 then ret (Some INT_MIN) else ret (Some v)
           }
     }
   }"

end
