(* ===== verification/Bytes.thy ===== *)
theory Bytes
  imports Prelude
begin

text \<open>
  A 32-bit \<open>int\<close> as four bytes of memory, lowest first, and back: the image \<open>memcpy\<close> moves on
  the little-endian targets, shared by the status packets and the messages of the attitude unit.
\<close>

definition is_int32 :: "int \<Rightarrow> bool" where
  "is_int32 x \<longleftrightarrow> -2147483648 \<le> x \<and> x \<le> 2147483647"

definition int_bytes :: "int \<Rightarrow> byte list" where
  "int_bytes x = map (\<lambda>i. word_of_int (drop_bit (8 * i) x)) [0..<4]"

definition bytes_int :: "byte list \<Rightarrow> int" where
  "bytes_int bs = wrap32 (uint (bs ! 0) + 256 * uint (bs ! 1) + 65536 * uint (bs ! 2) + 16777216 * uint (bs ! 3))"

lemma length_int_bytes [simp]: "length (int_bytes x) = 4"
  by (simp add: int_bytes_def)

lemma uint_byte_of_int: "uint (word_of_int x :: byte) = x mod 256"
  by (simp add: uint_word_of_int)

lemma sum3: "a = p + b \<Longrightarrow> b = q + c \<Longrightarrow> c = r + d \<Longrightarrow> a = d + r + q + p" for a :: int
  by simp

lemma split32:
  "x mod 4294967296 = x mod 256 + 256 * (x div 256 mod 256) + 65536 * (x div 65536 mod 256)
     + 16777216 * (x div 16777216 mod 256)" for x :: int
proof -
  have sizes: "(4294967296 :: int) = 16777216 * 256" "(16777216 :: int) = 65536 * 256" "(65536 :: int) = 256 * 256"
    by simp_all
  have "x mod 4294967296 = 16777216 * (x div 16777216 mod 256) + x mod 16777216"
    unfolding sizes(1) by (rule zmod_zmult2_eq) simp
  moreover have "x mod 16777216 = 65536 * (x div 65536 mod 256) + x mod 65536"
    unfolding sizes(2) by (rule zmod_zmult2_eq) simp
  moreover have "x mod 65536 = 256 * (x div 256 mod 256) + x mod 256"
    unfolding sizes(3) by (rule zmod_zmult2_eq) simp
  ultimately show ?thesis by (rule sum3)
qed

lemma bytes_int_list:
  "bytes_int [a, b, c, d] = wrap32 (uint a + 256 * uint b + 65536 * uint c + 16777216 * uint d)"
  by (simp add: bytes_int_def)

lemma int_bytes_list:
  "int_bytes x = [word_of_int x, word_of_int (x div 256), word_of_int (x div 65536), word_of_int (x div 16777216)]"
  by (simp add: int_bytes_def upt_rec drop_bit_eq_div)

lemma bytes_int_bytes [simp]:
  assumes "is_int32 x"
  shows "bytes_int (int_bytes x) = x"
proof -
  have "wrap32 (x mod 256 + 256 * (x div 256 mod 256) + 65536 * (x div 65536 mod 256)
      + 16777216 * (x div 16777216 mod 256)) = wrap32 (x mod 4294967296)"
    unfolding split32 ..
  also have "\<dots> = wrap32 x"
    using signed_take_bit_take_bit [of 31 32 x] by (simp add: wrap32_def take_bit_eq_mod)
  also have "\<dots> = x" using assms by (simp add: wrap32_id is_int32_def)
  finally show ?thesis
    by (simp only: int_bytes_list bytes_int_list uint_byte_of_int)
qed

end
