(* ===== verification/IMU.thy ===== *)
theory IMU
  imports Floats CreateMotion Bytes
begin

text \<open>
  libIMU: the attitude unit on its own serial port. A message is 32 bytes: a four byte
  preamble, two header bytes, three gyros (16 bits), three accelerations (32 bits), roll,
  pitch and yaw (16 bits), and a Fletcher checksum. \<open>parse_imu\<close> is the pure part of
  \<open>readIMUData\<close>; the encoder of the Arduino (Output.pde) is here as the reference it must
  agree with. The library state extends that of the create library, as both live in one
  process.
\<close>

section \<open>Decoding\<close>

definition Deg180 :: "fpu \<Rightarrow> real \<Rightarrow> real" where
  "Deg180 m deg =
     (let result = deg;
          result = (if deg > 180 then fl m (result - 360) else result);
          result = (if deg < -180 then fl m (result + 360) else result)
      in result)"

definition RangeGyro :: "fpu \<Rightarrow> real \<Rightarrow> real" where
  "RangeGyro m gyro =
     (let result = gyro;
          result = (if gyro > 250 then fl m (result - 500) else result);
          result = (if gyro < -250 then fl m (result + 500) else result)
      in result)"

definition Range4G :: "fpu \<Rightarrow> real \<Rightarrow> real" where
  "Range4G m accel =
     (let result = accel;
          result = (if accel > 4 then fl m (result - 8) else result);
          result = (if accel < -4 then fl m (result + 8) else result)
      in result)"

text \<open>The running sums over the bytes 4 to 29, in \<open>byte\<close> arithmetic.\<close>

definition checksum :: "byte list \<Rightarrow> byte \<times> byte" where
  "checksum buf = fold (\<lambda>i (a, b). (a + buf ! i, b + (a + buf ! i))) [4..<30] (0, 0)"

definition or_shift24 :: "byte \<Rightarrow> byte \<Rightarrow> byte \<Rightarrow> byte \<Rightarrow> int" where
  "or_shift24 b3 b2 b1 b0 =
     wrap32 (push_bit 24 (uint b3) OR push_bit 16 (uint b2) OR push_bit 8 (uint b1) OR uint b0)"

definition imu_values :: "fpu \<Rightarrow> byte list \<Rightarrow> real list" where
  "imu_values m buf =
     (let r16 = (\<lambda>i. fl m (db m (of_int (or_shift8 (buf ! (i + 1)) (buf ! i)) / 100)));
          r32 = (\<lambda>i. fl m (db m (of_int (or_shift24 (buf ! (i + 3)) (buf ! (i + 2)) (buf ! (i + 1)) (buf ! i)) / 1000)))
      in [RangeGyro m (r16 6), RangeGyro m (r16 8), RangeGyro m (r16 10),
          Range4G m (r32 12), Range4G m (r32 16), Range4G m (r32 20),
          Deg180 m (r16 24), Deg180 m (r16 26), Deg180 m (r16 28)])"

definition parse_imu :: "fpu \<Rightarrow> byte list \<Rightarrow> real list option" where
  "parse_imu m buf =
     (if buf ! 4 \<noteq> 6 \<and> buf ! 5 \<noteq> 2 then None
      else if fst (checksum buf) \<noteq> buf ! 30 \<or> snd (checksum buf) \<noteq> buf ! 31 then None
      else Some (imu_values m buf))"

section \<open>State and operations\<close>

record imu_cache =
  ic_gyroX :: real
  ic_gyroY :: real
  ic_gyroZ :: real
  ic_accelX :: real
  ic_accelY :: real
  ic_accelZ :: real
  ic_rll :: real
  ic_pch :: real
  ic_yaw :: real
  ic_time_stamp :: real
  ic_shut_down :: int

text \<open>\<open>im_out\<close> is the output file (\<open>None\<close> for \<open>NULL\<close>), \<open>im_cache\<close> what \<open>sensor_cache\<close> points to.\<close>

record imu = create +
  im_fd :: int
  im_out :: "string option"
  im_thread_mode :: int
  im_cache :: "imu_cache option"
  junk_imu :: imu_cache

definition iread :: "nat \<Rightarrow> ('a imu_scheme, int \<times> byte list) state" where
  "iread numbytes = do {
     r \<leftarrow> State (\<lambda>s. read_loop (im_fd s) numbytes [] 0 s);
     if fst r < 0 then ret (-1, snd r)
     else do {
       fd \<leftarrow> gets im_fd;
       emit (EvFlush fd);
       ret r
     }
   }"

definition readIMUData :: "fpu \<Rightarrow> ('a imu_scheme, real list pointer) state" where
  "readIMUData m = do {
     ok \<leftarrow> os_malloc;
     if \<not> ok then ret NULL
     else do {
       r \<leftarrow> iread 32;
       if fst r < 32 then ret NULL
       else (case parse_imu m (overlay 0 (snd r) (replicate 32 0)) of
               None \<Rightarrow> ret NULL
             | Some xs \<Rightarrow> ret (Ptr xs))
     }
   }"

definition getImuTime :: "('a os_scheme, real) state" where
  "getImuTime = getTime"

definition startIMU :: "string \<Rightarrow> ('a imu_scheme, int) state" where
  "startIMU serial = do {
     emit (EvMutexInit ImuMutex);
     fd \<leftarrow> gets im_fd;
     if 0 = fd then do {
       n \<leftarrow> os_open serial;
       modify (\<lambda>s. s\<lparr>im_fd := n\<rparr>);
       if n < 0 then do {
         emit (EvPerror ''Could not open serial port'');
         ret (-1)
       } else do {
         emit (EvFcntl n 0);
         emit (EvFlush n);
         emit (EvTermios n 38400);
         ret 0
       }
     } else ret 0
   }"

text \<open>How a start function ends: with a value, off its end, in \<open>exit\<close>, or on a null pointer.\<close>

datatype start_result = StartReturned int | StartNoValue | StartExit int | StartCrashed

definition start_imu_thread :: "string \<Rightarrow> int \<Rightarrow> string \<Rightarrow> ('a imu_scheme, start_result) state" where
  "start_imu_thread out code thread = do {
     n \<leftarrow> os_open out;
     if n < 0 then do {
       modify (\<lambda>s. s\<lparr>im_out := None\<rparr>);
       emit (EvPrintf ''Failed to open output file'' []);
       emit (EvExit code);
       ret (StartExit code)
     } else do {
       modify (\<lambda>s. s\<lparr>im_out := Some out\<rparr>);
       emit (EvMutexInit ImuCacheMutex);
       ok \<leftarrow> os_malloc;
       if \<not> ok then do { emit EvAbort; ret StartCrashed }
       else do {
         modify (\<lambda>s. s\<lparr>im_cache := Some ((junk_imu s)\<lparr>ic_shut_down := 0\<rparr>)\<rparr>);
         emit (EvThreadCreate thread);
         emit (EvUsleep 500000);
         ret StartNoValue
       }
     }
   }"

definition startIMU_MT :: "string \<Rightarrow> ('a imu_scheme, start_result) state" where
  "startIMU_MT serial = do {
     r \<leftarrow> startIMU serial;
     if r \<noteq> 0 then ret (StartReturned (-1))
     else do {
       modify (\<lambda>s. s\<lparr>im_thread_mode := 1\<rparr>);
       start_imu_thread ''DefaultOut.txt'' (-1) ''sensorThreadFunctionStandalone''
     }
   }"

definition startIMU_MTS :: "string \<Rightarrow> ('a imu_scheme, start_result) state" where
  "startIMU_MTS serial = do {
     r \<leftarrow> startIMU serial;
     if r \<noteq> 0 then ret (StartReturned (-1))
     else do {
       modify (\<lambda>s. s\<lparr>im_thread_mode := 1\<rparr>);
       start_imu_thread ''DefaultOut.txt'' (-1) ''sensorThreadFunction''
     }
   }"

definition startIMU_File :: "string \<Rightarrow> string \<Rightarrow> ('a imu_scheme, start_result) state" where
  "startIMU_File serial file_name = do {
     r \<leftarrow> startIMU serial;
     if r \<noteq> 0 then ret (StartReturned (-1))
     else do {
       modify (\<lambda>s. s\<lparr>im_thread_mode := 1\<rparr>);
       start_imu_thread file_name 1 ''sensorThreadFunctionStandalone''
     }
   }"

definition imu_store :: "real \<Rightarrow> real list \<Rightarrow> imu_cache \<Rightarrow> imu_cache" where
  "imu_store now data c =
     c\<lparr>ic_time_stamp := now, ic_gyroX := data ! 0, ic_gyroY := data ! 1, ic_gyroZ := data ! 2,
       ic_accelX := data ! 3, ic_accelY := data ! 4, ic_accelZ := data ! 5,
       ic_rll := data ! 6, ic_pch := data ! 7, ic_yaw := data ! 8\<rparr>"

definition the_imu :: "'a imu_scheme \<Rightarrow> imu_cache" where
  "the_imu s = (case im_cache s of Some c \<Rightarrow> c | None \<Rightarrow> junk_imu s)"

text \<open>One turn of a sensor thread; the line written to the output file carries no numbers here.\<close>

definition imu_turn :: "fpu \<Rightarrow> bool \<Rightarrow> ('a imu_scheme, int) state" where
  "imu_turn m standalone = do {
     (if standalone then ret () else emit (EvSemWait ''sem_imu''));
     data \<leftarrow> readIMUData m;
     emit (EvLock ImuCacheMutex);
     (case data of
        Ptr xs \<Rightarrow> do {
          now \<leftarrow> getImuTime;
          modify (\<lambda>s. s\<lparr>im_cache := Some (imu_store now xs (the_imu s))\<rparr>);
          emit (EvPrintf ''%.4f,%.2f,%.2f,%.2f,%.3f,%.3f,%.3f'' [])
        }
      | _ \<Rightarrow> ret ());
     finished \<leftarrow> gets (\<lambda>s. ic_shut_down (the_imu s));
     emit (EvUnlock ImuCacheMutex);
     (if standalone then emit (EvUsleep 20000) else ret ());
     ret finished
   }"

fun imu_loop :: "fpu \<Rightarrow> bool \<Rightarrow> nat \<Rightarrow> ('a imu_scheme, bool) state" where
  "imu_loop m standalone 0 = ret False"
| "imu_loop m standalone (Suc fuel) = do {
     finished \<leftarrow> imu_turn m standalone;
     if finished \<noteq> 0 then ret True else imu_loop m standalone fuel
   }"

definition imu_sensorThreadFunction :: "fpu \<Rightarrow> nat \<Rightarrow> ('a imu_scheme, bool) state" where
  "imu_sensorThreadFunction m fuel = imu_loop m False fuel"

definition imu_sensorThreadFunctionStandalone :: "fpu \<Rightarrow> nat \<Rightarrow> ('a imu_scheme, bool) state" where
  "imu_sensorThreadFunctionStandalone m fuel = imu_loop m True fuel"

text \<open>\<open>fclose(NULL)\<close> is undefined; the value is then \<open>None\<close>.\<close>

definition stopIMU :: "('a imu_scheme, int option) state" where
  "stopIMU = do {
     emit (EvMutexDestroy ImuMutex);
     fd \<leftarrow> gets im_fd;
     emit (EvClose fd);
     out \<leftarrow> gets im_out;
     (case out of
        None \<Rightarrow> do { emit EvAbort; ret None }
      | Some f \<Rightarrow> do {
          emit (EvFclose f);
          modify (\<lambda>s. s\<lparr>im_fd := 0, im_out := None\<rparr>);
          ret (Some 0)
        })
   }"

definition stopIMU_MT :: "('a imu_scheme, int option) state" where
  "stopIMU_MT = do {
     emit (EvLock ImuCacheMutex);
     modify (\<lambda>s. s\<lparr>im_cache := Some ((the_imu s)\<lparr>ic_shut_down := 1\<rparr>)\<rparr>);
     emit (EvUnlock ImuCacheMutex);
     emit (EvThreadJoin ''imu_sensor_thread'');
     emit (EvMutexDestroy ImuCacheMutex);
     r \<leftarrow> stopIMU;
     (case r of
        None \<Rightarrow> ret None
      | Some v \<Rightarrow> ret (Some (if v \<noteq> 0 then -1 else 0)))
   }"

text \<open>The accessors read the cache without its mutex; before a start they follow \<open>NULL\<close>.\<close>

definition imu_get :: "(imu_cache \<Rightarrow> real) \<Rightarrow> ('a imu_scheme, real pointer) state" where
  "imu_get f = gets (\<lambda>s. case im_cache s of None \<Rightarrow> Segfault | Some c \<Rightarrow> Ptr (f c))"

definition getTimeStamp :: "('a imu_scheme, real pointer) state" where "getTimeStamp = imu_get ic_time_stamp"
definition getRoll :: "('a imu_scheme, real pointer) state" where "getRoll = imu_get ic_rll"
definition getPitch :: "('a imu_scheme, real pointer) state" where "getPitch = imu_get ic_pch"
definition getYaw :: "('a imu_scheme, real pointer) state" where "getYaw = imu_get ic_yaw"
definition getGyroX :: "('a imu_scheme, real pointer) state" where "getGyroX = imu_get ic_gyroX"
definition getGyroY :: "('a imu_scheme, real pointer) state" where "getGyroY = imu_get ic_gyroY"
definition getGyroZ :: "('a imu_scheme, real pointer) state" where "getGyroZ = imu_get ic_gyroZ"
definition getAccelX :: "('a imu_scheme, real pointer) state" where "getAccelX = imu_get ic_accelX"
definition getAccelY :: "('a imu_scheme, real pointer) state" where "getAccelY = imu_get ic_accelY"
definition getAccelZ :: "('a imu_scheme, real pointer) state" where "getAccelZ = imu_get ic_accelZ"

section \<open>The encoder of the Arduino\<close>

text \<open>\<open>Output.pde\<close>: negative values are moved up by one turn of their range before they are sent.\<close>

definition lift_neg :: "int \<Rightarrow> int \<Rightarrow> int" where
  "lift_neg off t = (if t < 0 then t + off else t)"

definition enc16 :: "int \<Rightarrow> byte list" where
  "enc16 t = [to_byte t, to_byte (t div 256)]"

record attitude =
  at_gyro :: "int \<times> int \<times> int"
  at_accel :: "int \<times> int \<times> int"
  at_euler :: "int \<times> int \<times> int"

definition imu_payload :: "attitude \<Rightarrow> byte list" where
  "imu_payload a =
     (case (at_gyro a, at_accel a, at_euler a) of
        ((gx, gy, gz), (ax, ay, az), (roll, pitch, yaw)) \<Rightarrow>
          [6, 2] @ enc16 (lift_neg 50000 gx) @ enc16 (lift_neg 50000 gy) @ enc16 (lift_neg 50000 gz)
          @ int_bytes (lift_neg 8000 ax) @ int_bytes (lift_neg 8000 ay) @ int_bytes (lift_neg 8000 az)
          @ enc16 (lift_neg 36000 roll) @ enc16 (lift_neg 36000 pitch)
          @ enc16 (lift_neg 36000 (if yaw > 36000 then yaw - 36000 else yaw)))"

definition fletcher :: "byte list \<Rightarrow> byte \<times> byte" where
  "fletcher bs = fold (\<lambda>x (a, b). (a + x, b + (a + x))) bs (0, 0)"

definition imu_message :: "attitude \<Rightarrow> byte list" where
  "imu_message a =
     map of_char ''DIYd'' @ imu_payload a @ [fst (fletcher (imu_payload a)), snd (fletcher (imu_payload a))]"

end
