(* ===== verification/CreateThread.thy ===== *)
theory CreateThread
  imports CreateMotion
begin

text \<open>
  The sensor thread of the multi-threaded mode. Its body is modelled in the two critical
  sections the code has: \<open>getAllSensors\<close> (under \<open>create_mutex\<close>) and \<open>publish\<close> (under
  \<open>sensor_cache_mutex\<close>). The loop follows \<open>NULL\<close> without a check: a failed group read is the
  end of the process.
\<close>

definition thread_store :: "real \<Rightarrow> int list \<Rightarrow> sensor_cache \<Rightarrow> sensor_cache" where
  "thread_store now sensors c =
     c\<lparr>sc_time_stamp := now,
       sc_distance := wrap32 (sc_distance c + sensors ! 12),
       sc_angle := wrap32 (sc_angle c + sensors ! 13),
       sc_velocity := sensors ! 32,
       sc_turning_radius := sensors ! 33,
       sc_bumps_and_wheel_drops := sensors ! 0,
       sc_cliff_left := sensors ! 2,
       sc_cliff_front_left := sensors ! 3,
       sc_cliff_front_right := sensors ! 4,
       sc_cliff_right := sensors ! 5,
       sc_wall := sensors ! 1,
       sc_charge := sensors ! 18,
       sc_capacity := sensors ! 19,
       sc_overcurrent := sensors ! 7\<rparr>"

definition publish :: "int list \<Rightarrow> ('a create_scheme, int) state" where
  "publish sensors = do {
     emit (EvLock SensorCacheMutex);
     now \<leftarrow> getTime;
     modify (\<lambda>s. s\<lparr>oi_cache := Some (thread_store now sensors (the_cache s))\<rparr>);
     finished \<leftarrow> gets (\<lambda>s. sc_shut_down (the_cache s));
     emit (EvUnlock SensorCacheMutex);
     ret finished
   }"

definition publish_null :: "('a create_scheme, unit) state" where
  "publish_null = do {
     emit (EvLock SensorCacheMutex);
     now \<leftarrow> getTime;
     modify (\<lambda>s. s\<lparr>oi_cache := Some ((the_cache s)\<lparr>sc_time_stamp := now\<rparr>)\<rparr>);
     emit EvAbort
   }"

definition thread_zero :: "('a create_scheme, unit) state" where
  "thread_zero = modify (\<lambda>s. s\<lparr>oi_cache := Some ((the_cache s)\<lparr>sc_distance := 0, sc_angle := 0\<rparr>)\<rparr>)"

definition CYCLE_TIME :: int where
  "CYCLE_TIME = 20000"

text \<open>
  The two thread functions, run alone: \<open>Some True\<close> is \<open>pthread_exit\<close>, \<open>Some False\<close> the crash,
  \<open>None\<close> still running when the fuel ends.
\<close>

fun sensorThread_loop :: "bool \<Rightarrow> nat \<Rightarrow> ('a create_scheme, bool option) state" where
  "sensorThread_loop standalone 0 = ret None"
| "sensorThread_loop standalone (Suc fuel) = do {
     (if standalone then ret () else emit (EvSemWait ''sem_sensor''));
     p \<leftarrow> getAllSensors;
     (case p of
        Ptr sensors \<Rightarrow> do {
          finished \<leftarrow> publish sensors;
          (if standalone then emit (EvUsleep CYCLE_TIME) else ret ());
          if finished \<noteq> 0 then ret (Some True) else sensorThread_loop standalone fuel
        }
      | NULL \<Rightarrow> do { publish_null; ret (Some False) }
      | Segfault \<Rightarrow> ret (Some False))
   }"

definition sensorThreadFunc :: "nat \<Rightarrow> ('a create_scheme, bool option) state" where
  "sensorThreadFunc fuel = do { thread_zero; sensorThread_loop False fuel }"

definition sensorThreadFuncStandalone :: "nat \<Rightarrow> ('a create_scheme, bool option) state" where
  "sensorThreadFuncStandalone fuel = do { thread_zero; sensorThread_loop True fuel }"

end
