(* ===== verification/CreateApi.thy ===== *)
theory CreateApi
  imports CreateThread
begin

text \<open>
  The whole client interface of libcreateoi as one dispatcher, and the two disciplines every
  operation keeps: the locking discipline (\<open>seg\<close>, theory Locking), and what an operation
  leaves untouched (\<open>keeps\<close>).
\<close>

section \<open>What an operation leaves untouched\<close>

definition keeps :: "('s \<Rightarrow> 'c) \<Rightarrow> ('s, 'b) state \<Rightarrow> bool" where
  "keeps f m \<longleftrightarrow> (\<forall>s. f (exec_of m s) = f s)"

named_theorems kept \<comment> \<open>frame rules\<close>

lemma keepsI: "(\<And>s. f (exec_of m s) = f s) \<Longrightarrow> keeps f m"
  by (simp add: keeps_def)

lemma keepsD: "keeps f m \<Longrightarrow> run_state m s = (x, s') \<Longrightarrow> f s' = f s"
  by (metis keeps_def snd_conv)

lemma keeps_bind: "keeps f m \<Longrightarrow> (\<And>x. keeps f (k x)) \<Longrightarrow> keeps f (m \<bind> k)"
  by (auto simp: keeps_def split: prod.splits) (metis snd_conv)

lemma keeps_ret [kept]: "keeps f (ret x)"
  by (simp add: keeps_def)

lemma keeps_gets [kept]: "keeps f (gets g)"
  by (simp add: keeps_def)

lemma keeps_if [kept]:
  "(b \<Longrightarrow> keeps f m) \<Longrightarrow> (\<not> b \<Longrightarrow> keeps f n) \<Longrightarrow> keeps f (if b then m else n)"
  by simp

lemma keeps_let [kept]: "keeps f (k t) \<Longrightarrow> keeps f (Let t k)"
  by simp

lemma keeps_case_option [kept]:
  "keeps f m \<Longrightarrow> (\<And>x. keeps f (k x)) \<Longrightarrow> keeps f (case x of None \<Rightarrow> m | Some y \<Rightarrow> k y)"
  by (cases x) simp_all

text \<open>The static variables of createoi.c, as one tuple.\<close>

definition statics :: "'a create_scheme \<Rightarrow> int \<times> int \<times> sensor_cache option \<times> sensor_cache" where
  "statics s = (oi_thread_mode s, oi_over s, oi_cache s, junk_cache s)"

lemma keeps_statics_emit [kept]: "keeps statics (emit e)"
  by (simp add: keeps_def statics_def)

lemma keeps_statics_malloc [kept]: "keeps statics os_malloc"
  by (simp add: keeps_def statics_def os_malloc_def advance_def)

lemma keeps_statics_print [kept]: "keeps statics (print_bytes bs)"
  by (simp add: keeps_def statics_def print_bytes_def)

lemma keeps_statics_write_loop [kept]: "keeps statics (State (\<lambda>s. write_loop (f s) buf n 0 0 s))"
proof (rule keepsI)
  fix s :: "'a create_scheme"
  from write_loop_post [of 0 n "f s" buf 0 s]
  show "statics (exec_of (State (\<lambda>s. write_loop (f s) buf n 0 0 s)) s) = statics s"
    by (auto simp: write_post_def statics_def)
qed

lemma keeps_statics_read_loop [kept]: "keeps statics (State (\<lambda>s. read_loop (f s) n [] 0 s))"
proof (rule keepsI)
  fix s :: "'a create_scheme"
  from read_loop_post [of "[]" n "f s" s 0]
  show "statics (exec_of (State (\<lambda>s. read_loop (f s) n [] 0 s)) s) = statics s"
    by (auto simp: read_post_def statics_def)
qed

lemma keeps_statics_cwrite [kept]: "keeps statics (cwrite buf n)"
  unfolding cwrite_def by (rule keeps_bind kept)+

lemma keeps_statics_cread [kept]: "keeps statics (cread n)"
  unfolding cread_def by (rule keeps_bind kept)+

lemma keeps_statics_locked [kept]: "keeps statics (locked_cmd msg cmd)" "keeps statics (locked_cmd_late msg cmd)"
  unfolding locked_cmd_def locked_cmd_late_def by (rule keeps_bind kept)+

lemma keeps_statics_raw [kept]: "keeps statics (readRawSensor p b n)"
  unfolding readRawSensor_def by (rule keeps_bind kept)+

lemma keeps_statics_sensor [kept]: "keeps statics (readSensor p)"
  unfolding readSensor_def by (rule keeps_bind kept)+

lemma keeps_statics_all [kept]: "keeps statics getAllSensors"
  unfolding getAllSensors_def by (rule keeps_bind kept)+

lemma keeps_statics_cached [kept]: "keeps statics (cached f)"
  unfolding cached_def by (rule keeps_bind kept)+

section \<open>The locking discipline of every operation\<close>

lemma seg_locked [segs]: "seg None (locked_cmd msg cmd) None" "seg None (locked_cmd_late msg cmd) None"
  unfolding locked_cmd_def locked_cmd_late_def by (rule seg_bind segs)+

lemma seg_case_pointer [segs]:
  "seg h m h' \<Longrightarrow> (\<And>x. seg h (f x) h') \<Longrightarrow> seg h n h' \<Longrightarrow>
   seg h (case p of NULL \<Rightarrow> m | Ptr x \<Rightarrow> f x | Segfault \<Rightarrow> n) h'"
  by (cases p) simp_all

lemma seg_writeSong [segs]: "seg None (writeSong n l song) None"
  unfolding writeSong_def by (rule seg_bind segs)+

lemma seg_writeScript [segs]: "seg None (writeScript script sz) None"
  unfolding writeScript_def by (rule seg_bind segs)+

lemma seg_getScript [segs]: "seg None getScript None"
  unfolding getScript_def by (rule seg_bind segs)+

lemma seg_setBaud [segs]: "seg None (setBaud b) None"
  unfolding setBaud_def by (rule seg_bind segs)+

lemma seg_readRawSensor [segs]: "seg None (readRawSensor p b n) None"
  unfolding readRawSensor_def by (rule seg_bind segs)+

lemma seg_readRawSensorList [segs]: "seg None (readRawSensorList ps k b n) None"
  unfolding readRawSensorList_def by (rule seg_bind segs)+

lemma seg_readSensor [segs]: "seg None (readSensor p) None"
  unfolding readSensor_def by (rule seg_bind segs)+

lemma seg_getAllSensors [segs]: "seg None getAllSensors None"
  unfolding getAllSensors_def by (rule seg_bind segs)+

lemma seg_cached [segs]: "seg None (cached f) None"
  unfolding cached_def by (rule seg_bind segs)+

lemma seg_take_cache [segs]:
  "seg h (modify (\<lambda>s. s\<lparr>oi_cache := f s\<rparr>)) h" "seg h (modify (\<lambda>s. s\<lparr>oi_over := g s\<rparr>)) h"
  "seg h (modify (\<lambda>s. s\<lparr>oi_fd := g s\<rparr>)) h" "seg h (modify (\<lambda>s. s\<lparr>oi_thread_mode := g s\<rparr>)) h"
  "seg h (modify (\<lambda>s. s\<lparr>oi_debug := g s\<rparr>)) h"
  by (simp_all add: seg_modify)

lemma seg_accessors [segs]:
  "seg None getCharge None" "seg None getDistance None" "seg None getAngle None"
  "seg None getVelocity None" "seg None getTurningRadius None" "seg None getOvercurrent None"
  "seg None getBumpsAndWheelDrops None" "seg None getCliffs None"
  unfolding getCharge_def getDistance_def getAngle_def getVelocity_def getTurningRadius_def
    getOvercurrent_def getBumpsAndWheelDrops_def getCliffs_def
  by (rule seg_bind segs)+

lemmas command_defs =
  enterPassiveMode_def enterSafeMode_def enterFullMode_def runDemo_def runCoverDemo_def
  runCoverAndDockDemo_def runSpotDemo_def drive_def directDrive_def setLEDState_def
  setDigitalOuts_def setPWMLowSideDrivers_def setLowSideDrivers_def sendIRbyte_def playSong_def
  playScript_def

lemma seg_commands [segs]:
  "seg None enterPassiveMode None" "seg None enterSafeMode None" "seg None (drive v r) None"
  "seg None (directDrive l r') None" "seg None (setLEDState f c i) None"
  unfolding command_defs by (rule segs)+

lemma seg_startOI [segs]: "seg None (startOI serial) None"
  unfolding startOI_def by (rule seg_bind segs)+

lemma seg_start_thread [segs]: "seg None (start_thread t) None"
  unfolding start_thread_def by (rule seg_bind segs)+

lemma seg_startOI_MT [segs]: "seg None (startOI_MT serial) None" "seg None (startOI_MTS serial) None"
  unfolding startOI_MT_def startOI_MTS_def by (rule seg_bind segs)+

lemma seg_stopOI [segs]: "seg None stopOI None"
  unfolding stopOI_def by (rule seg_bind segs)+

lemma seg_stopOI_MT [segs]: "seg None stopOI_MT None"
  unfolding stopOI_MT_def by (rule seg_bind segs)+

lemma seg_waitTime [segs]: "seg None (waitTime t) None"
  unfolding waitTime_def by (rule seg_bind segs)+

lemma seg_stopWait [segs]: "seg None stopWait None"
  unfolding stopWait_def by (rule seg_bind segs)+

lemma seg_waitDistance_loop [segs]: "seg None (waitDistance_loop fuel goal i c) None"
  by (induction fuel arbitrary: c) ((simp only: waitDistance_loop.simps), (rule seg_bind segs | assumption)+)+

lemma seg_waitAngle_loop [segs]: "seg None (waitAngle_loop fuel goal i c) None"
  by (induction fuel arbitrary: c) ((simp only: waitAngle_loop.simps), (rule seg_bind segs | assumption)+)+

lemma seg_waits [segs]: "seg None (waitDistance fuel goal i) None" "seg None (waitAngle fuel goal i) None"
  unfolding waitDistance_def waitAngle_def by (rule seg_bind segs)+

lemma seg_moves [segs]: "seg None (driveDistance fuel v r goal i) None" "seg None (turn fuel v r goal i) None"
  unfolding driveDistance_def turn_def by (rule seg_bind segs)+

lemma seg_publish [segs]: "seg None (publish xs) None" "seg None publish_null None" "seg h thread_zero h"
  unfolding publish_def publish_null_def thread_zero_def by (rule seg_bind segs)+

lemma seg_sensorThread_loop [segs]: "seg None (sensorThread_loop b fuel) None"
  by (induction fuel) ((simp only: sensorThread_loop.simps), (rule seg_bind segs | assumption)+)+

section \<open>The client interface\<close>

datatype api_call =
    Call_startOI string
  | Call_startOI_MT string
  | Call_startOI_MTS string
  | Call_setBaud oi_baud
  | Call_enterPassiveMode
  | Call_enterSafeMode
  | Call_enterFullMode
  | Call_runDemo int
  | Call_runCoverDemo
  | Call_runCoverAndDockDemo
  | Call_runSpotDemo
  | Call_drive short short
  | Call_directDrive short short
  | Call_driveDistance short short int int
  | Call_turn short short int int
  | Call_setLEDState int byte byte
  | Call_setDigitalOuts int
  | Call_setPWMLowSideDrivers byte byte byte
  | Call_setLowSideDrivers int
  | Call_sendIRbyte byte
  | Call_writeSong byte byte "byte list"
  | Call_playSong byte
  | Call_readRawSensor oi_sensor "byte list" int
  | Call_readSensor oi_sensor
  | Call_getCharge
  | Call_getDistance
  | Call_getAngle
  | Call_getVelocity
  | Call_getTurningRadius
  | Call_getOvercurrent
  | Call_getBumpsAndWheelDrops
  | Call_getCliffs
  | Call_getAllSensors
  | Call_readRawSensorList "oi_sensor list" byte "byte list" int
  | Call_writeScript "byte list" byte
  | Call_playScript
  | Call_getScript
  | Call_waitTime real
  | Call_waitDistance int int
  | Call_waitAngle int int
  | Call_stopOI
  | Call_stopOI_MT
  | Call_enableDebug
  | Call_disableDebug

definition quiet :: "('s, 'b) state \<Rightarrow> ('s, unit) state" where
  "quiet m = do { _ \<leftarrow> m; ret () }"

fun exec_api :: "nat \<Rightarrow> api_call \<Rightarrow> ('a create_scheme, unit) state" where
  "exec_api fuel (Call_startOI serial) = quiet (startOI serial)"
| "exec_api fuel (Call_startOI_MT serial) = quiet (startOI_MT serial)"
| "exec_api fuel (Call_startOI_MTS serial) = quiet (startOI_MTS serial)"
| "exec_api fuel (Call_setBaud b) = quiet (setBaud b)"
| "exec_api fuel Call_enterPassiveMode = quiet enterPassiveMode"
| "exec_api fuel Call_enterSafeMode = quiet enterSafeMode"
| "exec_api fuel Call_enterFullMode = quiet enterFullMode"
| "exec_api fuel (Call_runDemo d) = quiet (runDemo d)"
| "exec_api fuel Call_runCoverDemo = quiet runCoverDemo"
| "exec_api fuel Call_runCoverAndDockDemo = quiet runCoverAndDockDemo"
| "exec_api fuel Call_runSpotDemo = quiet runSpotDemo"
| "exec_api fuel (Call_drive v r) = quiet (drive v r)"
| "exec_api fuel (Call_directDrive l r) = quiet (directDrive l r)"
| "exec_api fuel (Call_driveDistance v r d i) = quiet (driveDistance fuel v r d i)"
| "exec_api fuel (Call_turn v r a i) = quiet (turn fuel v r a i)"
| "exec_api fuel (Call_setLEDState l c i) = quiet (setLEDState l c i)"
| "exec_api fuel (Call_setDigitalOuts f) = quiet (setDigitalOuts f)"
| "exec_api fuel (Call_setPWMLowSideDrivers a b c) = quiet (setPWMLowSideDrivers a b c)"
| "exec_api fuel (Call_setLowSideDrivers f) = quiet (setLowSideDrivers f)"
| "exec_api fuel (Call_sendIRbyte b) = quiet (sendIRbyte b)"
| "exec_api fuel (Call_writeSong n l song) = quiet (writeSong n l song)"
| "exec_api fuel (Call_playSong n) = quiet (playSong n)"
| "exec_api fuel (Call_readRawSensor p b n) = quiet (readRawSensor p b n)"
| "exec_api fuel (Call_readSensor p) = quiet (readSensor p)"
| "exec_api fuel Call_getCharge = quiet getCharge"
| "exec_api fuel Call_getDistance = quiet getDistance"
| "exec_api fuel Call_getAngle = quiet getAngle"
| "exec_api fuel Call_getVelocity = quiet getVelocity"
| "exec_api fuel Call_getTurningRadius = quiet getTurningRadius"
| "exec_api fuel Call_getOvercurrent = quiet getOvercurrent"
| "exec_api fuel Call_getBumpsAndWheelDrops = quiet getBumpsAndWheelDrops"
| "exec_api fuel Call_getCliffs = quiet getCliffs"
| "exec_api fuel Call_getAllSensors = quiet getAllSensors"
| "exec_api fuel (Call_readRawSensorList ps k b n) = quiet (readRawSensorList ps k b n)"
| "exec_api fuel (Call_writeScript script sz) = quiet (writeScript script sz)"
| "exec_api fuel Call_playScript = quiet playScript"
| "exec_api fuel Call_getScript = quiet getScript"
| "exec_api fuel (Call_waitTime t) = quiet (waitTime t)"
| "exec_api fuel (Call_waitDistance d i) = quiet (waitDistance fuel d i)"
| "exec_api fuel (Call_waitAngle a i) = quiet (waitAngle fuel a i)"
| "exec_api fuel Call_stopOI = quiet stopOI"
| "exec_api fuel Call_stopOI_MT = quiet stopOI_MT"
| "exec_api fuel Call_enableDebug = quiet enableDebug"
| "exec_api fuel Call_disableDebug = quiet disableDebug"

fun exec_calls :: "nat \<Rightarrow> api_call list \<Rightarrow> ('a create_scheme, unit) state" where
  "exec_calls fuel [] = ret ()"
| "exec_calls fuel (c # cs) = do { exec_api fuel c; exec_calls fuel cs }"

lemma seg_quiet_run: "seg h m h' \<Longrightarrow> seg h (quiet m) h'"
  unfolding quiet_def by (rule seg_bind, assumption, rule segs)

lemma seg_exec_api: "seg None (exec_api fuel c) None"
  by (cases c; simp only: exec_api.simps command_defs enableDebug_def disableDebug_def; rule seg_quiet_run; rule segs)

lemma seg_exec_calls: "seg None (exec_calls fuel cs) None"
  by (induction cs) (simp_all only: exec_calls.simps, (rule seg_bind segs seg_exec_api | assumption)+)

end
