(* ===== verification/CreateContracts.thy ===== *)
theory CreateContracts
  imports CreateApi
begin

text \<open>
  What the port functions, the send-only commands and the sensor reads promise, proved for
  every behaviour of the port. The lemmas \<open>cwrite_run\<close>, \<open>cread_run\<close>, \<open>locked_cmd_run\<close> and
  \<open>readRawSensor_run\<close> give the state each operation leaves and the bytes it moved; the
  contracts of the commands and sensors follow from them.
\<close>

section \<open>The port functions\<close>

lemma silent_events:
  "\<forall>e \<in> set evs. \<exists>bs. e = EvWrite fd bs \<Longrightarrow> received evs = []"
  "\<forall>e \<in> set evs. \<exists>bs. e = EvRead fd bs \<Longrightarrow> sent evs = [] \<and> zero_writes evs = 0"
  by (induction evs) auto

lemma printed_events [simp]:
  "sent (map (\<lambda>b. EvPrintf m (f b)) bs) = []" "received (map (\<lambda>b. EvPrintf m (f b)) bs) = []"
  "zero_writes (map (\<lambda>b. EvPrintf m (f b)) bs) = 0"
  by (induction bs) auto

definition write_outcome :: "'a os_scheme \<Rightarrow> byte list \<Rightarrow> nat \<Rightarrow> int \<Rightarrow> event list \<Rightarrow> bool" where
  "write_outcome s buf n v evs \<longleftrightarrow>
     (\<exists>k \<le> n. sent evs = take k buf
        \<and> (v = -1 \<and> (\<exists>t. wr s t = WErr) \<or> v = int k \<and> (k = n \<or> 4 \<le> zero_writes evs)))"

lemma cwrite_run:
  obtains v t evs where "run_state (cwrite buf n) s = (v, s\<lparr>tick := t, trace := trace s @ evs\<rparr>)"
    "write_outcome s buf n v evs" "received evs = []"
proof -
  obtain r s1 where run: "write_loop (oi_fd s) buf n 0 0 s = (r, s1)"
    by (cases "write_loop (oi_fd s) buf n 0 0 s")
  with write_loop_post [of 0 n "oi_fd s" buf 0 s] obtain t evs k where
    s1: "s1 = s\<lparr>tick := t, trace := trace s @ evs\<rparr>" and ev: "\<forall>e \<in> set evs. \<exists>bs. e = EvWrite (oi_fd s) bs"
    and k: "k \<le> n" "sent evs = take k buf"
    and r: "r = -1 \<and> (\<exists>t. wr s t = WErr) \<or> r = int k \<and> (k = n \<or> 4 \<le> zero_writes evs)"
    by (auto simp: write_post_def)
  define dbg where "dbg = (if r < 0 \<or> oi_debug s = 0 then [] else
      EvPrintf ''Write: '' [] # map (\<lambda>b. EvPrintf ''%d '' [uint b]) (take (nat r) buf)
      @ [EvPrintf ''Wrote %d of %d bytes'' [r, int n]])"
  have quiet: "sent dbg = []" "received dbg = []" "zero_writes dbg = 0"
    by (simp_all add: dbg_def)
  have "run_state (cwrite buf n) s = (r, s\<lparr>tick := t, trace := trace s @ (evs @ dbg)\<rparr>)"
    using run s1 r by (auto simp: cwrite_def dbg_def print_bytes_def)
  moreover have "write_outcome s buf n r (evs @ dbg)"
    using k r by (auto simp: write_outcome_def quiet)
  moreover have "received (evs @ dbg) = []"
    using silent_events(1) [OF ev] quiet by simp
  ultimately show thesis by (rule that)
qed

text \<open>
  C38. \<open>cwrite\<close>: whatever the port does, the bytes that reach it are a prefix of the buffer;
  the result is the number of bytes of that prefix, or -1, which happens only when a
  \<open>write\<close> failed; and fewer than \<open>numbytes\<close> are reported only after four writes that
  accepted nothing.
\<close>
theorem cwrite_contract:
  "\<exists>evs. trace (exec_of (cwrite buf numbytes) s) = trace s @ evs
     \<and> (\<exists>k \<le> numbytes. sent evs = take k buf
          \<and> (value_of (cwrite buf numbytes) s = -1 \<and> (\<exists>t. wr s t = WErr)
             \<or> value_of (cwrite buf numbytes) s = int k \<and> (k = numbytes \<or> 4 \<le> zero_writes evs)))"
  by (rule cwrite_run [of buf numbytes s]) (auto simp: write_outcome_def)


lemma accepts_write: "accepts s \<Longrightarrow> \<not> (\<exists>t. wr s t = WErr)"
  by (metis accepts_def wres.distinct(1))

lemma cwrite_accepts:
  assumes "accepts s" "n \<le> length buf"
  obtains t evs where "run_state (cwrite buf n) s = (int n, s\<lparr>tick := t, trace := trace s @ evs\<rparr>)"
    "sent evs = take n buf" "received evs = []"
proof -
  from write_loop_accepts [OF assms(1,2), of 0 "oi_fd s" 0] obtain t evs where
    loop: "write_loop (oi_fd s) buf n 0 0 s = (int n, s\<lparr>tick := t, trace := trace s @ evs\<rparr>)"
      "sent evs = take n buf" by auto
  obtain v u es where run: "run_state (cwrite buf n) s = (v, s\<lparr>tick := u, trace := trace s @ es\<rparr>)"
    "write_outcome s buf n v es" "received es = []" by (rule cwrite_run)
  have "v = int n" using run(1) loop(1) by (auto simp: cwrite_def split: if_splits prod.splits)
  with run(2) accepts_write [OF assms(1)] have "sent es = take n buf"
    by (auto simp: write_outcome_def)
  with run \<open>v = int n\<close> show thesis by (auto intro: that)
qed

definition read_outcome :: "'a os_scheme \<Rightarrow> nat \<Rightarrow> int \<times> byte list \<Rightarrow> event list \<Rightarrow> bool" where
  "read_outcome s n r evs \<longleftrightarrow>
     snd r = received evs \<and> length (snd r) \<le> n
       \<and> (fst r = -1 \<and> (\<exists>t. rd s t = RErr) \<or> fst r = int (length (snd r)))"

lemma cread_run:
  obtains r t evs where "run_state (cread n) s = (r, s\<lparr>tick := t, trace := trace s @ evs\<rparr>)"
    "read_outcome s (nat n) r evs" "sent evs = []"
proof -
  obtain r s1 where run: "read_loop (oi_fd s) (nat n) [] 0 s = (r, s1)"
    by (cases "read_loop (oi_fd s) (nat n) [] 0 s")
  with read_loop_post [of "[]" "nat n" "oi_fd s" s 0] obtain t evs where
    s1: "s1 = s\<lparr>tick := t, trace := trace s @ evs\<rparr>" and ev: "\<forall>e \<in> set evs. \<exists>bs. e = EvRead (oi_fd s) bs"
    and r: "snd r = received evs" "length (snd r) \<le> nat n"
      "fst r = -1 \<and> (\<exists>t. rd s t = RErr) \<or> fst r = int (length (snd r))"
    by (auto simp: read_post_def)
  define dbg where "dbg = (if fst r < 0 then [] else if oi_debug s = 0 then [EvFlush (oi_fd s)] else
      EvPrintf ''Read:   '' [] # map (\<lambda>b. EvPrintf ''%d '' [uint b]) (snd r)
      @ [EvPrintf ''Read %d of %d bytes'' [fst r, n], EvFlush (oi_fd s)])"
  have quiet: "sent dbg = []" "received dbg = []"
    by (simp_all add: dbg_def)
  have "run_state (cread n) s = (r, s\<lparr>tick := t, trace := trace s @ (evs @ dbg)\<rparr>)"
    using run s1 r(3) by (cases r) (auto simp: cread_def dbg_def print_bytes_def)
  moreover have "read_outcome s (nat n) r (evs @ dbg)"
    using r by (simp add: read_outcome_def quiet)
  moreover have "sent (evs @ dbg) = []"
    using silent_events(2) [OF ev] quiet by simp
  ultimately show thesis by (rule that)
qed

section \<open>The send-only commands\<close>

definition command_outcome :: "'a os_scheme \<Rightarrow> byte list \<Rightarrow> int \<Rightarrow> event list \<Rightarrow> bool" where
  "command_outcome s cmd v evs \<longleftrightarrow>
     (\<exists>k \<le> length cmd. sent evs = take k cmd
        \<and> (v = -1 \<and> (\<exists>t. wr s t = WErr) \<or> v = 0 \<and> (k = length cmd \<or> 4 \<le> zero_writes evs)))"

lemma locked_cmd_run:
  obtains v t evs where "run_state (locked_cmd msg cmd) s = (v, s\<lparr>tick := t, trace := trace s @ evs\<rparr>)"
    "command_outcome s cmd v evs" "received evs = []"
proof -
  let ?s = "s\<lparr>trace := trace s @ [EvLock CreateMutex]\<rparr>"
  obtain v t evs where run: "run_state (cwrite cmd (length cmd)) ?s = (v, ?s\<lparr>tick := t, trace := trace ?s @ evs\<rparr>)"
    "write_outcome ?s cmd (length cmd) v evs" "received evs = []" by (rule cwrite_run)
  let ?es = "EvLock CreateMutex # evs @
    (if v < 0 then [EvPerror msg, EvUnlock CreateMutex] else [EvUnlock CreateMutex])"
  have "run_state (locked_cmd msg cmd) s = (if v < 0 then -1 else 0, s\<lparr>tick := t, trace := trace s @ ?es\<rparr>)"
    using run(1) by (simp add: locked_cmd_def)
  moreover have "command_outcome s cmd (if v < 0 then -1 else 0) ?es"
    using run(2) by (auto simp: write_outcome_def command_outcome_def)
  moreover have "received ?es = []"
    using run(3) by simp
  ultimately show thesis by (rule that)
qed

lemma locked_cmd_late_run:
  obtains v t evs where "run_state (locked_cmd_late msg cmd) s = (v, s\<lparr>tick := t, trace := trace s @ evs\<rparr>)"
    "command_outcome s cmd v evs" "received evs = []"
proof -
  let ?s = "s\<lparr>trace := trace s @ [EvLock CreateMutex]\<rparr>"
  obtain v t evs where run: "run_state (cwrite cmd (length cmd)) ?s = (v, ?s\<lparr>tick := t, trace := trace ?s @ evs\<rparr>)"
    "write_outcome ?s cmd (length cmd) v evs" "received evs = []" by (rule cwrite_run)
  let ?es = "EvLock CreateMutex # evs @
    (if v < 0 then [EvUnlock CreateMutex, EvPerror msg] else [EvUnlock CreateMutex])"
  have "run_state (locked_cmd_late msg cmd) s = (if v < 0 then -1 else 0, s\<lparr>tick := t, trace := trace s @ ?es\<rparr>)"
    using run(1) by (simp add: locked_cmd_late_def)
  moreover have "command_outcome s cmd (if v < 0 then -1 else 0) ?es"
    using run(2) by (auto simp: write_outcome_def command_outcome_def)
  moreover have "received ?es = []"
    using run(3) by simp
  ultimately show thesis by (rule that)
qed


lemma locked_cmd_accepts:
  assumes "accepts s"
  obtains t evs where "run_state (locked_cmd msg cmd) s = (0, s\<lparr>tick := t, trace := trace s @ evs\<rparr>)"
    "sent evs = cmd" "received evs = []"
proof -
  let ?s = "s\<lparr>trace := trace s @ [EvLock CreateMutex]\<rparr>"
  have "accepts ?s" using assms by (simp add: accepts_def)
  then obtain t evs where run: "run_state (cwrite cmd (length cmd)) ?s = (int (length cmd), ?s\<lparr>tick := t, trace := trace ?s @ evs\<rparr>)"
    "sent evs = take (length cmd) cmd" "received evs = []" by (rule cwrite_accepts [OF _ order_refl])
  let ?es = "EvLock CreateMutex # evs @ [EvUnlock CreateMutex]"
  have "run_state (locked_cmd msg cmd) s = (0, s\<lparr>tick := t, trace := trace s @ ?es\<rparr>)"
    using run(1) by (simp add: locked_cmd_def)
  with run(2,3) show thesis by (intro that [where evs = ?es]) simp_all
qed

text \<open>Two bytes on the wire as the robot reads them: big-endian two's complement.\<close>

definition be16 :: "byte \<Rightarrow> byte \<Rightarrow> int" where
  "be16 hi lo = sint (to_short (or_shift8 hi lo))"

lemma be16_bytes [simp]: "be16 (hi_byte w) (lo_byte w) = sint w"
  by (simp add: be16_def to_short_bytes)

definition clamp :: "int \<Rightarrow> int \<Rightarrow> int \<Rightarrow> int" where
  "clamp lo hi x = max lo (min hi x)"

lemma clamp_drive [conv]:
  "to_short (C_MAX (-500) (sint (to_short (C_MIN 500 (sint v))))) = to_short (clamp (-500) 500 (sint v))"
  "to_short (C_MAX (-2000) (sint (to_short (C_MIN 2000 (sint v))))) = to_short (clamp (-2000) 2000 (sint v))"
  for v :: short
  using sint_short_bounds [of v]
  by (auto simp: C_MIN_def C_MAX_def clamp_def sint_to_short min_def max_def)

lemma sint_clamp [conv]:
  "-32768 \<le> lo \<Longrightarrow> lo \<le> hi \<Longrightarrow> hi \<le> 32767 \<Longrightarrow> sint (to_short (clamp lo hi x)) = clamp lo hi x"
  by (rule sint_to_short) (auto simp: clamp_def)

lemma straight_short: "sint (to_short 32768) = -32768"
  by (simp add: to_short_def)

lemma drive_cmd_bytes:
  "\<exists>a b c d. drive_cmd v r = [137, a, b, c, d]
     \<and> be16 a b = clamp (-500) 500 (sint v)
     \<and> be16 c d = (if clamp (-2000) 2000 (sint r) = 0 then -32768 else clamp (-2000) 2000 (sint r))"
  by (auto simp: drive_cmd_def Let_def clamp_drive sint_clamp straight_short)

lemma directDrive_cmd_bytes:
  "\<exists>a b c d. directDrive_cmd l r = [145, a, b, c, d]
     \<and> be16 a b = clamp (-500) 500 (sint r) \<and> be16 c d = clamp (-500) 500 (sint l)"
  by (auto simp: directDrive_cmd_def Let_def clamp_drive sint_clamp)

text \<open>
  C3. \<open>drive\<close>: on a port that takes what it is given, the call succeeds and the robot
  receives exactly one Drive command, whose two 16-bit fields are the velocity clamped to
  500 mm/s and the radius clamped to 2000 mm, radius 0 standing for "straight" (0x8000).
\<close>
theorem drive_sends:
  assumes "accepts s"
  shows "\<exists>evs a b c d. trace (exec_of (drive vel rad) s) = trace s @ evs
     \<and> value_of (drive vel rad) s = 0
     \<and> sent evs = [137, a, b, c, d]
     \<and> be16 a b = clamp (-500) 500 (sint vel)
     \<and> be16 c d = (if clamp (-2000) 2000 (sint rad) = 0 then -32768 else clamp (-2000) 2000 (sint rad))"
proof -
  from assms obtain t evs where
    "run_state (drive vel rad) s = (0, s\<lparr>tick := t, trace := trace s @ evs\<rparr>)" "sent evs = drive_cmd vel rad"
    unfolding drive_def by (rule locked_cmd_accepts)
  with drive_cmd_bytes [of vel rad] show ?thesis by auto
qed

text \<open>A process that has just started, on a port that answers at once; for the witnesses.\<close>

definition blank_cache :: sensor_cache where
  "blank_cache = \<lparr>sc_distance = 0, sc_angle = 0, sc_velocity = 0, sc_turning_radius = 0,
     sc_bumps_and_wheel_drops = 0, sc_cliff_left = 0, sc_cliff_front_left = 0,
     sc_cliff_front_right = 0, sc_cliff_right = 0, sc_wall = 0, sc_charge = 0, sc_capacity = 0,
     sc_overcurrent = 0, sc_time_stamp = 0, sc_shut_down = 0\<rparr>"

definition fresh_process :: "(nat \<Rightarrow> wres) \<Rightarrow> (nat \<Rightarrow> rres) \<Rightarrow> create" where
  "fresh_process w r = \<lparr>wr = w, rd = r, opn = \<lambda>_. 3, alloc = \<lambda>_. True, clock = \<lambda>_. (0, 0),
     char_signed = True, tick = 0, trace = [], oi_fd = 3, oi_debug = 0, oi_thread_mode = 0,
     oi_cache = None, oi_over = 0, junk_cache = blank_cache, junk_byte = 7\<rparr>"

lemma accepts_fresh: "0 < k \<Longrightarrow> accepts (fresh_process (\<lambda>_. WOk k) r)"
  by (auto simp: accepts_def fresh_process_def)

theorem drive_sends_witness:
  "\<exists>evs a b c d. trace (exec_of (drive 600 0) (fresh_process (\<lambda>_. WOk 2) (\<lambda>_. RErr))) = evs
     \<and> sent evs = [137, a, b, c, d] \<and> be16 a b = 500 \<and> be16 c d = -32768"
  using drive_sends [OF accepts_fresh [of 2 "\<lambda>_. RErr"], of 600 0]
  by (simp add: clamp_def fresh_process_def)


text \<open>\<open>directDrive\<close>: the right wheel's speed is sent first, both clamped to 500 mm/s.\<close>
theorem directDrive_sends:
  assumes "accepts s"
  shows "\<exists>evs a b c d. trace (exec_of (directDrive Lwheel Rwheel) s) = trace s @ evs
     \<and> value_of (directDrive Lwheel Rwheel) s = 0
     \<and> sent evs = [145, a, b, c, d]
     \<and> be16 a b = clamp (-500) 500 (sint Rwheel)
     \<and> be16 c d = clamp (-500) 500 (sint Lwheel)"
proof -
  from assms obtain t evs where
    "run_state (directDrive Lwheel Rwheel) s = (0, s\<lparr>tick := t, trace := trace s @ evs\<rparr>)"
    "sent evs = directDrive_cmd Lwheel Rwheel"
    unfolding directDrive_def by (rule locked_cmd_accepts)
  with directDrive_cmd_bytes [of Lwheel Rwheel] show ?thesis by auto
qed

theorem directDrive_sends_witness:
  "\<exists>evs a b c d. trace (exec_of (directDrive 100 (-700)) (fresh_process (\<lambda>_. WOk 5) (\<lambda>_. RErr))) = evs
     \<and> sent evs = [145, a, b, c, d] \<and> be16 a b = -500 \<and> be16 c d = 100"
  using directDrive_sends [OF accepts_fresh [of 5 "\<lambda>_. RErr"], of 100 "-700"]
  by (simp add: clamp_def fresh_process_def)

lemma write_loop_stuck:
  assumes "\<And>t. wr s t = WOk 0" "n > 0" "zeroes \<le> 3"
  shows "\<exists>t. write_loop fd buf n 0 zeroes s
      = (0, s\<lparr>tick := t, trace := trace s @ replicate (4 - zeroes) (EvWrite fd [])\<rparr>)"
  using assms
proof (induction "3 - zeroes" arbitrary: zeroes s)
  case 0
  then show ?case
    by (intro exI [where x = "Suc (tick s)"]) (simp add: write_loop_ok [OF _ "0.prems"(1) refl refl])
next
  case (Suc m)
  then have "m = 3 - Suc zeroes" "zeroes < 3" by arith+
  with Suc obtain t where
    "write_loop fd buf n 0 (Suc zeroes) (s\<lparr>tick := Suc (tick s), trace := trace s @ [EvWrite fd []]\<rparr>)
       = (0, s\<lparr>tick := t, trace := (trace s @ [EvWrite fd []]) @ replicate (4 - Suc zeroes) (EvWrite fd [])\<rparr>)"
    using Suc.hyps(1) [of "Suc zeroes" "s\<lparr>tick := Suc (tick s), trace := trace s @ [EvWrite fd []]\<rparr>"]
    by auto
  moreover have "replicate (4 - zeroes) (EvWrite fd []) = EvWrite fd [] # replicate (4 - Suc zeroes) (EvWrite fd [])"
    using \<open>zeroes < 3\<close> by (simp add: Suc_diff_le flip: replicate_Suc)
  ultimately show ?case
    using \<open>zeroes < 3\<close> Suc.prems
    by (subst write_loop_ok [OF _ Suc.prems(1) refl refl]) auto
qed

text \<open>
  A port that takes nothing is not an error to the commands: \<open>drive\<close> gives up after four
  empty writes, sends no byte and reports success.
\<close>
theorem drive_silent_failure:
  assumes "\<forall>t. wr s t = WOk 0"
  shows "value_of (drive vel rad) s = 0
     \<and> (\<exists>evs. trace (exec_of (drive vel rad) s) = trace s @ evs \<and> sent evs = [] \<and> zero_writes evs = 4)"
proof -
  let ?s = "s\<lparr>trace := trace s @ [EvLock CreateMutex]\<rparr>"
  obtain t where loop: "write_loop (oi_fd s) (drive_cmd vel rad) (length (drive_cmd vel rad)) 0 0 ?s
      = (0, ?s\<lparr>tick := t, trace := trace ?s @ replicate 4 (EvWrite (oi_fd s) [])\<rparr>)"
    using write_loop_stuck [of ?s "length (drive_cmd vel rad)" 0 "oi_fd s" "drive_cmd vel rad"] assms
    by (auto simp: drive_cmd_def Let_def)
  have "sent (replicate 4 (EvWrite (oi_fd s) [])) = []" "zero_writes (replicate 4 (EvWrite (oi_fd s) [])) = 4"
    by (simp_all add: eval_nat_numeral)
  then show ?thesis
    using loop by (simp add: drive_def locked_cmd_def cwrite_def print_bytes_def)
qed

theorem drive_silent_failure_witness:
  "value_of (drive 500 0) (fresh_process (\<lambda>_. WOk 0) (\<lambda>_. RErr)) = 0"
  using drive_silent_failure [of "fresh_process (\<lambda>_. WOk 0) (\<lambda>_. RErr)" 500 0] by (simp add: fresh_process_def)

lemma script_cmd_fold:
  "n \<le> length script \<Longrightarrow> n \<le> length xs \<Longrightarrow>
   fold (\<lambda>i cmd. cmd[i + 1 := script ! i]) [0..<n] (x # xs) = x # take n script @ drop n xs"
proof (induction n)
  case 0
  then show ?case by simp
next
  case (Suc n)
  then have "fold (\<lambda>i cmd. cmd[i + 1 := script ! i]) [0..<Suc n] (x # xs)
      = (x # take n script @ drop n xs)[n + 1 := script ! n]"
    by simp
  also have "\<dots> = x # take (Suc n) script @ drop (Suc n) xs"
    using Suc.prems by (simp add: list_update_append take_Suc_conv_app_nth Cons_nth_drop_Suc [symmetric])
  finally show ?case .
qed

lemma script_cmd_bytes:
  assumes "0 < n" "n \<le> length script"
  shows "script_cmd junk script n = junk # take n script"
proof -
  from assms(1) have "(replicate (n + 1) junk)[1 := opcode OPCODE_SCRIPT] = junk # (replicate n junk)[0 := opcode OPCODE_SCRIPT]"
    by (cases n) simp_all
  then show ?thesis
    unfolding script_cmd_def using assms(2) by (simp only: script_cmd_fold length_list_update length_replicate) simp
qed

text \<open>
  \<open>writeScript\<close>: the Script opcode is lost. On a port that takes what it is given the call
  succeeds, but the first byte sent is the uninitialised \<open>cmd[0]\<close>, followed by the script.
\<close>
theorem writeScript_loses_opcode:
  assumes "accepts s" "0 < sz" "unat sz \<le> length script"
  shows "value_of (writeScript script sz) s = Some 0
     \<and> (\<exists>evs. trace (exec_of (writeScript script sz) s) = trace s @ evs
          \<and> sent evs = junk_byte s # take (unat sz) script)"
proof -
  from assms(1) obtain t evs where
    "run_state (locked_cmd ''Could not write script'' (script_cmd (junk_byte s) script (unat sz))) s
       = (0, s\<lparr>tick := t, trace := trace s @ evs\<rparr>)"
    "sent evs = script_cmd (junk_byte s) script (unat sz)" by (rule locked_cmd_accepts)
  moreover have "0 < unat sz" using assms(2) by (simp add: unat_gt_0 word_gt_0)
  ultimately show ?thesis
    using assms(2,3) by (simp add: writeScript_def script_cmd_bytes word_gt_0)
qed

theorem writeScript_loses_opcode_witness:
  "\<exists>evs. trace (exec_of (writeScript [137, 1, 44, 128, 0] 5) (fresh_process (\<lambda>_. WOk 9) (\<lambda>_. RErr))) = evs
     \<and> sent evs = [7, 137, 1, 44, 128, 0]"
  using writeScript_loses_opcode [OF accepts_fresh [of 9 "\<lambda>_. RErr"], of 5 "[137, 1, 44, 128, 0]"]
  by (simp add: fresh_process_def)

end
