(* ===== verification/IMUContracts.thy ===== *)
theory IMUContracts
  imports IMU CreateContracts
begin

text \<open>
  What libIMU promises: the decoder inverts the encoder of the Arduino up to rounding, what a
  message must look like to be accepted, what a sensor read returns, and that a thread keeps
  the last good reading.
\<close>

section \<open>Ranges\<close>

lemma conv_near:
  assumes "rounding f" "rounding d" "0 \<le> y" "y \<le> 500"
  shows "\<bar>f (d y) - y\<bar> \<le> 1 / 10000"
proof -
  have d: "\<bar>d y - y\<bar> \<le> 500 / 16777216"
    using rounding.rnd_close [OF assms(2), of y 500] assms(3,4) by simp
  then have "\<bar>d y\<bar> \<le> 501" using assms(3,4) by linarith
  then have "\<bar>f (d y) - d y\<bar> \<le> 501 / 16777216"
    by (rule rounding.rnd_close [OF assms(1)])
  with d show ?thesis by linarith
qed

lemma conv_low:
  assumes "rounding f" "rounding d" "0 \<le> y" "y \<le> of_int l - 1 / 1000 \<or> y = of_int l" "0 < l" "l \<le> 250"
  shows "\<not> f (d y) > of_int l \<and> \<not> f (d y) < - of_int l \<and> \<bar>f (d y) - y\<bar> \<le> 1 / 4000"
proof -
  have l: "1 \<le> (of_int l :: real)" "(of_int l :: real) \<le> 250" using assms(5,6) by simp_all
  have near: "\<bar>f (d y) - y\<bar> \<le> 1 / 10000" using assms l by (intro conv_near) auto
  have "f (d y) = y" if "y = of_int l"
    using that rounding.rnd_int [OF assms(1), of l] rounding.rnd_int [OF assms(2), of l] assms(5,6) by simp
  with near assms(3,4) l show ?thesis by (auto simp: abs_le_iff)
qed

lemma conv_high:
  assumes "rounding f" "rounding d" "of_int l + 1 / 1000 \<le> y" "y \<le> 2 * of_int l" "0 < l" "l \<le> 250"
  shows "f (d y) > of_int l \<and> \<bar>f (f (d y) - 2 * of_int l) - (y - 2 * of_int l)\<bar> \<le> 1 / 4000"
proof -
  have l: "1 \<le> (of_int l :: real)" "(of_int l :: real) \<le> 250" using assms(5,6) by simp_all
  have near: "\<bar>f (d y) - y\<bar> \<le> 1 / 10000" using assms l by (intro conv_near) auto
  then have "\<bar>f (d y) - 2 * of_int l\<bar> \<le> 501" using assms(3,4) l by linarith
  then have "\<bar>f (f (d y) - 2 * of_int l) - (f (d y) - 2 * of_int l)\<bar> \<le> 501 / 16777216"
    by (rule rounding.rnd_close [OF assms(1)])
  with near have "\<bar>f (f (d y) - 2 * of_int l) - (y - 2 * of_int l)\<bar> \<le> 1 / 4000" by linarith
  moreover have "of_int l < f (d y)" using near assms(3) by linarith
  ultimately show ?thesis by simp
qed

definition close_to :: "real \<Rightarrow> real \<Rightarrow> bool" where
  "close_to x y \<longleftrightarrow> \<bar>x - y\<bar> \<le> 1 / 4000"

lemma ranged:
  assumes "rounding (fl m)" "rounding (db m)"
  shows "-25000 < n \<Longrightarrow> n \<le> 25000 \<Longrightarrow>
      close_to (RangeGyro m (fl m (db m (of_int (lift_neg 50000 n) / 100)))) (of_int n / 100)"
    and "-4000 < n \<Longrightarrow> n \<le> 4000 \<Longrightarrow>
      close_to (Range4G m (fl m (db m (of_int (lift_neg 8000 n) / 1000)))) (of_int n / 1000)"
    and "-18000 < n \<Longrightarrow> n \<le> 18000 \<Longrightarrow>
      close_to (Deg180 m (fl m (db m (of_int (lift_neg 36000 n) / 100)))) (of_int n / 100)"
proof -
  have cases: "n \<le> k - 1 \<or> n = k" if "n \<le> k" for n k :: int using that by arith
  show "close_to (RangeGyro m (fl m (db m (of_int (lift_neg 50000 n) / 100)))) (of_int n / 100)"
    if "-25000 < n" "n \<le> 25000"
  proof (cases "n < 0")
    case True
    have "(of_int n :: real) \<ge> -24999" using that by simp
    with True show ?thesis
      using conv_high [OF assms, of 250 "of_int (n + 50000) / 100"]
      by (simp add: RangeGyro_def lift_neg_def close_to_def diff_divide_distrib add_divide_distrib)
  next
    case False
    have "(of_int n :: real) \<le> 24999 \<or> (of_int n :: real) = 25000" using that by auto
    with False show ?thesis
      using conv_low [OF assms, of "of_int n / 100" 250] by (auto simp: RangeGyro_def lift_neg_def close_to_def)
  qed
  show "close_to (Range4G m (fl m (db m (of_int (lift_neg 8000 n) / 1000)))) (of_int n / 1000)"
    if "-4000 < n" "n \<le> 4000"
  proof (cases "n < 0")
    case True
    have "(of_int n :: real) \<ge> -3999" using that by simp
    with True show ?thesis
      using conv_high [OF assms, of 4 "of_int (n + 8000) / 1000"]
      by (simp add: Range4G_def lift_neg_def close_to_def diff_divide_distrib add_divide_distrib)
  next
    case False
    have "(of_int n :: real) \<le> 3999 \<or> (of_int n :: real) = 4000" using that by auto
    with False show ?thesis
      using conv_low [OF assms, of "of_int n / 1000" 4] by (auto simp: Range4G_def lift_neg_def close_to_def)
  qed
  show "close_to (Deg180 m (fl m (db m (of_int (lift_neg 36000 n) / 100)))) (of_int n / 100)"
    if "-18000 < n" "n \<le> 18000"
  proof (cases "n < 0")
    case True
    have "(of_int n :: real) \<ge> -17999" using that by simp
    with True show ?thesis
      using conv_high [OF assms, of 180 "of_int (n + 36000) / 100"]
      by (simp add: Deg180_def lift_neg_def close_to_def diff_divide_distrib add_divide_distrib)
  next
    case False
    have "(of_int n :: real) \<le> 17999 \<or> (of_int n :: real) = 18000" using that by auto
    with False show ?thesis
      using conv_low [OF assms, of "of_int n / 100" 180] by (auto simp: Deg180_def lift_neg_def close_to_def)
  qed
qed

section \<open>Bytes\<close>

lemma or_byte: "push_bit 8 x OR uint (b :: byte) = 256 * x + uint b"
proof -
  have "(push_bit 8 x) AND (uint b) = 0"
  proof (rule bit_eqI)
    fix n
    show "bit (push_bit 8 x AND uint b) n \<longleftrightarrow> bit (0 :: int) n"
      by (auto simp: bit_simps dest: bit_imp_le_length)
  qed
  then show ?thesis by (simp add: disjunctive_add_eq_or [symmetric] push_bit_eq_mult)
qed

lemma or_shift24_sum:
  "or_shift24 b3 b2 b1 b0 = wrap32 (uint b0 + 256 * uint b1 + 65536 * uint b2 + 16777216 * uint b3)"
proof -
  have "push_bit 24 (uint b3) OR push_bit 16 (uint b2) OR push_bit 8 (uint b1) OR uint b0
      = push_bit 8 (push_bit 8 (push_bit 8 (uint b3) OR uint b2) OR uint b1) OR uint b0"
    by (simp add: push_bit_or or.assoc)
  also have "\<dots> = 256 * (256 * (256 * uint b3 + uint b2) + uint b1) + uint b0"
    by (simp only: or_byte)
  finally show ?thesis by (simp add: or_shift24_def algebra_simps)
qed

lemma or_shift24_int_bytes:
  "is_int32 x \<Longrightarrow> or_shift24 (int_bytes x ! 3) (int_bytes x ! 2) (int_bytes x ! 1) (int_bytes x ! 0) = x"
  using bytes_int_bytes [of x] by (simp add: or_shift24_sum bytes_int_def)

lemma or_shift8_enc16:
  "0 \<le> t \<Longrightarrow> t < 65536 \<Longrightarrow> or_shift8 (enc16 t ! 1) (enc16 t ! 0) = t"
proof -
  assume t: "0 \<le> t" "t < 65536"
  have "uint (to_byte (t div 256)) = t div 256"
    using t by (simp add: to_byte_def uint_byte_of_int)
  moreover have "uint (to_byte t) = t mod 256" by (simp add: to_byte_def uint_byte_of_int)
  moreover have "256 * (t div 256) + t mod 256 = t" by simp
  ultimately show ?thesis by (simp add: or_shift8_add enc16_def)
qed

lemma fold_nth_shift:
  "length pre = k \<Longrightarrow> fold (\<lambda>i acc. g acc (((pre @ xs @ post) ! i))) [k..<k + length xs] acc = fold (\<lambda>x acc. g acc x) xs acc"
proof (induction xs arbitrary: pre k acc)
  case Nil
  then show ?case by simp
next
  case (Cons x xs)
  have "[k..<k + length (x # xs)] = k # [Suc k..<Suc k + length xs]"
    using upt_conv_Cons [of k "k + length (x # xs)"] by simp
  then show ?case
    using Cons.IH [of "pre @ [x]" "Suc k" "g acc x"] Cons.prems by (simp add: nth_append)
qed

lemma checksum_fletcher:
  assumes "length p = 26" "length pre = 4"
  shows "checksum (pre @ p @ post) = fletcher p"
  using fold_nth_shift [of pre 4 "\<lambda>(a, b) x. (a + x, b + (a + x))" p post "(0, 0)"] assms
  by (simp add: checksum_def fletcher_def case_prod_unfold)

definition attitude_ok :: "attitude \<Rightarrow> bool" where
  "attitude_ok a =
     (case (at_gyro a, at_accel a, at_euler a) of
        ((gx, gy, gz), (ax, ay, az), (r, p, y)) \<Rightarrow>
          list_all (\<lambda>n. -25000 < n \<and> n \<le> 25000) [gx, gy, gz]
          \<and> list_all (\<lambda>n. -4000 < n \<and> n \<le> 4000) [ax, ay, az]
          \<and> list_all (\<lambda>n. -18000 < n \<and> n \<le> 18000) [r, p, y])"

definition attitude_values :: "attitude \<Rightarrow> real list" where
  "attitude_values a =
     (case (at_gyro a, at_accel a, at_euler a) of
        ((gx, gy, gz), (ax, ay, az), (r, p, y)) \<Rightarrow>
          map (\<lambda>n. of_int n / 100) [gx, gy, gz] @ map (\<lambda>n. of_int n / 1000) [ax, ay, az]
          @ map (\<lambda>n. of_int n / 100) [r, p, y])"


lemma payload_cases:
  assumes "attitude_ok a"
  obtains gx gy gz ax ay az r p y where "at_gyro a = (gx, gy, gz)" "at_accel a = (ax, ay, az)" "at_euler a = (r, p, y)"
    "-25000 < gx" "gx \<le> 25000" "-25000 < gy" "gy \<le> 25000" "-25000 < gz" "gz \<le> 25000"
    "-4000 < ax" "ax \<le> 4000" "-4000 < ay" "ay \<le> 4000" "-4000 < az" "az \<le> 4000"
    "-18000 < r" "r \<le> 18000" "-18000 < p" "p \<le> 18000" "-18000 < y" "y \<le> 18000"
  using assms by (cases "at_gyro a"; cases "at_accel a"; cases "at_euler a") (auto simp: attitude_ok_def)

lemma length_enc16 [simp]: "length (enc16 t) = 2"
  by (simp add: enc16_def)

lemma length_payload [simp]: "length (imu_payload a) = 26"
  by (simp add: imu_payload_def split: prod.split)

lemma imu_message_checksum:
  "checksum (imu_message a) = fletcher (imu_payload a)"
  "imu_message a ! 30 = fst (fletcher (imu_payload a))" "imu_message a ! 31 = snd (fletcher (imu_payload a))"
proof -
  show "checksum (imu_message a) = fletcher (imu_payload a)"
    unfolding imu_message_def by (rule checksum_fletcher) simp_all
  show "imu_message a ! 30 = fst (fletcher (imu_payload a))" "imu_message a ! 31 = snd (fletcher (imu_payload a))"
    by (simp_all add: imu_message_def nth_append)
qed

lemma enc16_eq: "enc16 t = [enc16 t ! 0, enc16 t ! 1]"
  by (simp add: enc16_def)

lemma int_bytes_eq: "int_bytes x = [int_bytes x ! 0, int_bytes x ! 1, int_bytes x ! 2, int_bytes x ! 3]"
  by (simp add: int_bytes_list)

lemma map_nth_middle: "length pre = k \<Longrightarrow> map (\<lambda>i. (pre @ p @ post) ! i) [k..<k + length p] = p"
  by (rule nth_equalityI) (simp_all add: nth_append)

lemma imu_message_bytes:
  assumes "at_gyro a = (gx, gy, gz)" "at_accel a = (ax, ay, az)" "at_euler a = (r, p, y)" "y \<le> 36000"
  shows "map (\<lambda>i. imu_message a ! i) [4..<30] = [6, 2] @ enc16 (lift_neg 50000 gx) @ enc16 (lift_neg 50000 gy)
      @ enc16 (lift_neg 50000 gz) @ int_bytes (lift_neg 8000 ax) @ int_bytes (lift_neg 8000 ay)
      @ int_bytes (lift_neg 8000 az) @ enc16 (lift_neg 36000 r) @ enc16 (lift_neg 36000 p) @ enc16 (lift_neg 36000 y)"
proof -
  have "map (\<lambda>i. imu_message a ! i) [4..<4 + length (imu_payload a)] = imu_payload a"
    unfolding imu_message_def by (rule map_nth_middle) simp
  with assms show ?thesis by (simp add: imu_payload_def)
qed

lemma imu_message_fields:
  assumes "at_gyro a = (gx, gy, gz)" "at_accel a = (ax, ay, az)" "at_euler a = (r, p, y)" "y \<le> 36000"
  shows "imu_message a ! 4 = 6" "imu_message a ! 5 = 2"
    "[imu_message a ! 6, imu_message a ! 7] = enc16 (lift_neg 50000 gx)"
    "[imu_message a ! 8, imu_message a ! 9] = enc16 (lift_neg 50000 gy)"
    "[imu_message a ! 10, imu_message a ! 11] = enc16 (lift_neg 50000 gz)"
    "[imu_message a ! 12, imu_message a ! 13, imu_message a ! 14, imu_message a ! 15] = int_bytes (lift_neg 8000 ax)"
    "[imu_message a ! 16, imu_message a ! 17, imu_message a ! 18, imu_message a ! 19] = int_bytes (lift_neg 8000 ay)"
    "[imu_message a ! 20, imu_message a ! 21, imu_message a ! 22, imu_message a ! 23] = int_bytes (lift_neg 8000 az)"
    "[imu_message a ! 24, imu_message a ! 25] = enc16 (lift_neg 36000 r)"
    "[imu_message a ! 26, imu_message a ! 27] = enc16 (lift_neg 36000 p)"
    "[imu_message a ! 28, imu_message a ! 29] = enc16 (lift_neg 36000 y)"
  using imu_message_bytes [OF assms]
  by (simp_all add: upt_rec enc16_def int_bytes_list)

lemma enc16_value:
  "[b0, b1] = enc16 t \<Longrightarrow> 0 \<le> t \<Longrightarrow> t < 65536 \<Longrightarrow> or_shift8 b1 b0 = t"
  using or_shift8_enc16 [of t] by (metis nth_Cons_0 nth_Cons_Suc One_nat_def)

lemma int_bytes_value:
  "[b0, b1, b2, b3] = int_bytes t \<Longrightarrow> is_int32 t \<Longrightarrow> or_shift24 b3 b2 b1 b0 = t"
  using or_shift24_int_bytes [of t] by (simp add: int_bytes_list)

text \<open>
  C13. What the Arduino encodes, \<open>readIMUData\<close> decodes: for every attitude in the ranges of the
  unit the message is accepted, and each of the nine values is within a quarter of
  a thousandth of what was measured, negative values included, on any machine whose \<open>float\<close>
  and \<open>double\<close> round correctly.
\<close>
theorem imu_round_trip:
  assumes "rounding (fl m)" "rounding (db m)" "attitude_ok a"
  shows "\<exists>xs. parse_imu m (imu_message a) = Some xs \<and> list_all2 close_to xs (attitude_values a)"
proof -
  obtain gx gy gz ax ay az r p y where a: "at_gyro a = (gx, gy, gz)" "at_accel a = (ax, ay, az)" "at_euler a = (r, p, y)"
    and bounds: "-25000 < gx" "gx \<le> 25000" "-25000 < gy" "gy \<le> 25000" "-25000 < gz" "gz \<le> 25000"
    "-4000 < ax" "ax \<le> 4000" "-4000 < ay" "ay \<le> 4000" "-4000 < az" "az \<le> 4000"
    "-18000 < r" "r \<le> 18000" "-18000 < p" "p \<le> 18000" "-18000 < y" "y \<le> 18000"
    using assms(3) by (rule payload_cases)
  have "y \<le> 36000" using bounds by simp
  note f = imu_message_fields [OF a this]
  have v: "or_shift8 (imu_message a ! 7) (imu_message a ! 6) = lift_neg 50000 gx"
    "or_shift8 (imu_message a ! 9) (imu_message a ! 8) = lift_neg 50000 gy"
    "or_shift8 (imu_message a ! 11) (imu_message a ! 10) = lift_neg 50000 gz"
    "or_shift24 (imu_message a ! 15) (imu_message a ! 14) (imu_message a ! 13) (imu_message a ! 12) = lift_neg 8000 ax"
    "or_shift24 (imu_message a ! 19) (imu_message a ! 18) (imu_message a ! 17) (imu_message a ! 16) = lift_neg 8000 ay"
    "or_shift24 (imu_message a ! 23) (imu_message a ! 22) (imu_message a ! 21) (imu_message a ! 20) = lift_neg 8000 az"
    "or_shift8 (imu_message a ! 25) (imu_message a ! 24) = lift_neg 36000 r"
    "or_shift8 (imu_message a ! 27) (imu_message a ! 26) = lift_neg 36000 p"
    "or_shift8 (imu_message a ! 29) (imu_message a ! 28) = lift_neg 36000 y"
    using bounds
    by (intro enc16_value [OF f(3)] enc16_value [OF f(4)] enc16_value [OF f(5)] int_bytes_value [OF f(6)]
        int_bytes_value [OF f(7)] int_bytes_value [OF f(8)] enc16_value [OF f(9)] enc16_value [OF f(10)]
        enc16_value [OF f(11)]; simp add: lift_neg_def is_int32_def)+
  have "parse_imu m (imu_message a) = Some (imu_values m (imu_message a))"
    using f(1,2) by (simp add: parse_imu_def imu_message_checksum)
  moreover have "list_all2 close_to (imu_values m (imu_message a)) (attitude_values a)"
    using ranged [OF assms(1,2)] bounds
    by (simp add: imu_values_def attitude_values_def a v)
  ultimately show ?thesis by blast
qed

definition tilted :: attitude where
  "tilted = \<lparr>at_gyro = (-150, 25, 0), at_accel = (12, -30, 1000), at_euler = (-450, 1200, -17500)\<rparr>"

theorem imu_round_trip_witness:
  "\<exists>xs. parse_imu ieee (imu_message tilted) = Some xs
     \<and> list_all2 close_to xs [-150 / 100, 25 / 100, 0 / 100, 12 / 1000, -30 / 1000, 1000 / 1000, -450 / 100, 1200 / 100, -17500 / 100]"
  using imu_round_trip [of ieee tilted] single.rounding_axioms double.rounding_axioms
  by (simp add: ieee_def tilted_def attitude_ok_def attitude_values_def)


section \<open>Reads\<close>

lemma iread_run:
  obtains r t evs where "run_state (iread n) s = (r, s\<lparr>tick := t, trace := trace s @ evs\<rparr>)"
    "read_outcome s n r evs"
proof -
  obtain r s1 where run: "read_loop (im_fd s) n [] 0 s = (r, s1)" by (cases "read_loop (im_fd s) n [] 0 s")
  with read_loop_post [of "[]" n "im_fd s" s 0] obtain t evs where
    s1: "s1 = s\<lparr>tick := t, trace := trace s @ evs\<rparr>" and
    r: "snd r = received evs" "length (snd r) \<le> n" "fst r = -1 \<and> (\<exists>t. rd s t = RErr) \<or> fst r = int (length (snd r))"
    by (auto simp: read_post_def)
  let ?es = "evs @ (if fst r < 0 then [] else [EvFlush (im_fd s)])"
  have "run_state (iread n) s = (r, s\<lparr>tick := t, trace := trace s @ ?es\<rparr>)"
    using run s1 r(3) by (cases r) (auto simp: iread_def)
  moreover have "read_outcome s n r ?es" using r by (simp add: read_outcome_def)
  ultimately show thesis by (rule that)
qed

definition imu_accepts :: "byte list \<Rightarrow> bool" where
  "imu_accepts bs \<longleftrightarrow> length bs = 32 \<and> (bs ! 4 = 6 \<or> bs ! 5 = 2) \<and> checksum bs = (bs ! 30, bs ! 31)"

definition imu_outcome :: "fpu \<Rightarrow> real list pointer \<Rightarrow> event list \<Rightarrow> bool" where
  "imu_outcome m p evs \<longleftrightarrow> p = NULL \<or> imu_accepts (received evs) \<and> p = Ptr (imu_values m (received evs))"

lemma readIMUData_run:
  obtains p t evs where "run_state (readIMUData m) s = (p, s\<lparr>tick := t, trace := trace s @ evs\<rparr>)"
    "imu_outcome m p evs"
proof (cases "alloc s (tick s)")
  case False
  then show thesis
    by (intro that [where p = NULL and t = "Suc (tick s)" and evs = "[]"])
      (simp_all add: readIMUData_def os_malloc_def advance_def imu_outcome_def)
next
  case True
  obtain r t evs where run: "run_state (iread 32) (advance s) = (r, (advance s)\<lparr>tick := t, trace := trace (advance s) @ evs\<rparr>)"
    "read_outcome (advance s) 32 r evs" by (rule iread_run)
  let ?p = "if fst r < 32 then NULL else (case parse_imu m (overlay 0 (snd r) (replicate 32 0)) of None \<Rightarrow> NULL | Some xs \<Rightarrow> Ptr xs)"
  have "run_state (readIMUData m) s = (?p, s\<lparr>tick := t, trace := trace s @ evs\<rparr>)"
    using True run(1) by (auto simp: readIMUData_def os_malloc_def advance_def split: option.split)
  moreover have "imu_outcome m ?p evs"
  proof (cases "fst r < 32")
    case False
    with run(2) have r: "length (received evs) = 32" "snd r = received evs" by (auto simp: read_outcome_def)
    with False show ?thesis
      by (auto simp: imu_outcome_def parse_imu_def imu_accepts_def prod_eq_iff)
  qed (simp add: imu_outcome_def)
  ultimately show thesis by (rule that)
qed


lemma the_imu_simps [simp]:
  "the_imu (s\<lparr>trace := es\<rparr>) = the_imu s" "the_imu (s\<lparr>tick := t\<rparr>) = the_imu s"
  "the_imu (s\<lparr>im_cache := Some c\<rparr>) = c"
  by (simp_all add: the_imu_def split: option.split)

text \<open>
  A turn of an IMU thread: afterwards the cache is the one before, or holds the nine
  values of one accepted message received in that turn; a bad message never reaches it, and
  the shutdown flag is reported as it was.
\<close>
theorem imu_turn_contract:
  "\<exists>evs. trace (exec_of (imu_turn m standalone) s) = trace s @ evs
     \<and> value_of (imu_turn m standalone) s = ic_shut_down (the_imu s)
     \<and> (the_imu (exec_of (imu_turn m standalone) s) = the_imu s
        \<or> (imu_accepts (received evs)
            \<and> (\<exists>now. the_imu (exec_of (imu_turn m standalone) s) = imu_store now (imu_values m (received evs)) (the_imu s))))"
proof -
  let ?pre = "if standalone then [] else [EvSemWait ''sem_imu'']"
  let ?s = "s\<lparr>trace := trace s @ ?pre\<rparr>"
  obtain p t evs where run: "run_state (readIMUData m) ?s = (p, ?s\<lparr>tick := t, trace := trace ?s @ evs\<rparr>)"
    "imu_outcome m p evs" by (rule readIMUData_run)
  let ?post = "[EvLock ImuCacheMutex] @ (case p of Ptr xs \<Rightarrow> [EvPrintf ''%.4f,%.2f,%.2f,%.2f,%.3f,%.3f,%.3f'' []] | _ \<Rightarrow> [])
      @ [EvUnlock ImuCacheMutex] @ (if standalone then [EvUsleep 20000] else [])"
  have rec: "received (?pre @ evs @ ?post) = received evs"
    by (cases p) simp_all
  show ?thesis
  proof (intro exI [where x = "?pre @ evs @ ?post"] conjI)
    show "trace (exec_of (imu_turn m standalone) s) = trace s @ ?pre @ evs @ ?post"
      using run(1) by (cases p) (auto simp: imu_turn_def getImuTime_def getTime_def os_time_def advance_def)
    show "value_of (imu_turn m standalone) s = ic_shut_down (the_imu s)"
      using run(1) by (cases p) (auto simp: imu_turn_def getImuTime_def getTime_def os_time_def advance_def imu_store_def)
    show "the_imu (exec_of (imu_turn m standalone) s) = the_imu s
        \<or> (imu_accepts (received (?pre @ evs @ ?post))
            \<and> (\<exists>now. the_imu (exec_of (imu_turn m standalone) s)
                 = imu_store now (imu_values m (received (?pre @ evs @ ?post))) (the_imu s)))"
      unfolding rec using run
      by (cases p) (auto simp: imu_turn_def getImuTime_def getTime_def os_time_def advance_def imu_outcome_def)
  qed
qed

end
