(* ===== verification/CsaLibrary.thy ===== *)
theory CsaLibrary
  imports Floats
begin

text \<open>
  The C library of the simulation tools (CCode/CSA_LIB.c): angles, vectors, 3 by 3 matrices,
  direction cosine matrices, interpolation, extrema and the crank mapping. Every operation on
  \<open>double\<close> is rounded by \<open>db m\<close>, in the order C evaluates it; the theorems state what the
  functions mean in exact arithmetic (\<open>exact\<close>), except where rounding plays no part. Arrays are
  lists; the output arrays are distinct from the inputs, as in every call of the repository.
\<close>

section \<open>Arithmetic\<close>

record cmath = fpu +
  m_asin :: "real \<Rightarrow> real"
  m_acos :: "real \<Rightarrow> real"
  m_tan :: "real \<Rightarrow> real"
  m_atan :: "real \<Rightarrow> real"

definition dadd :: "('a fpu_scheme) \<Rightarrow> real \<Rightarrow> real \<Rightarrow> real" where "dadd m a b = db m (a + b)"
definition dsub :: "('a fpu_scheme) \<Rightarrow> real \<Rightarrow> real \<Rightarrow> real" where "dsub m a b = db m (a - b)"
definition dmul :: "('a fpu_scheme) \<Rightarrow> real \<Rightarrow> real \<Rightarrow> real" where "dmul m a b = db m (a * b)"
definition ddiv :: "('a fpu_scheme) \<Rightarrow> real \<Rightarrow> real \<Rightarrow> real" where "ddiv m a b = db m (a / b)"

text \<open>\<open>fmod\<close> is exact in IEEE arithmetic; the result has the sign of the dividend.\<close>

definition fmod :: "real \<Rightarrow> real \<Rightarrow> real" where
  "fmod x y = x - of_int (trunc (x / y)) * y"

definition exact :: cmath where
  "exact = \<lparr>fl = \<lambda>x. x, db = \<lambda>x. x, m_sin = sin, m_cos = cos, m_sqrt = sqrt, m_atan2 = arctan2,
     m_asin = arcsin, m_acos = arccos, m_tan = tan, m_atan = arctan\<rparr>"

definition PI :: "'a cmath_scheme \<Rightarrow> real" where
  "PI m = m_acos m (- 1)"

text \<open>The macros \<open>D2R\<close> and \<open>R2D\<close> are not parenthesised: \<open>x*D2R\<close> is \<open>(x*PI)/180.0\<close>.\<close>

definition times_D2R :: "'a cmath_scheme \<Rightarrow> real \<Rightarrow> real" where
  "times_D2R m x = ddiv m (dmul m x (PI m)) 180"

definition times_R2D :: "'a cmath_scheme \<Rightarrow> real \<Rightarrow> real" where
  "times_R2D m x = ddiv m (dmul m x 180) (PI m)"

section \<open>Angles\<close>

definition sign :: "real \<Rightarrow> real" where
  "sign val = (if val > 0 then 1 else if val < 0 then - 1 else 0)"

definition wrap180 :: "'a cmath_scheme \<Rightarrow> real \<Rightarrow> real" where
  "wrap180 m IN = times_R2D m (m_atan2 m (m_sin m (times_D2R m IN)) (m_cos m (times_D2R m IN)))"

definition CheckLatLon :: "'a cmath_scheme \<Rightarrow> real \<Rightarrow> real \<Rightarrow> real \<times> real" where
  "CheckLatLon m Lat0_deg Lon0_deg =
     (let Lat1_deg = fmod Lat0_deg 360;
          Lat_deg = times_R2D m (m_asin m (m_sin m (times_D2R m Lat1_deg)));
          Lon1_deg = dadd m Lon0_deg (dmul m 90 (dsub m 1 (sign (m_cos m (times_D2R m Lat1_deg)))));
          Lon_deg = fmod Lon1_deg 360;
          Lon_deg = (if Lon_deg > 180 then dsub m Lon_deg 360 else Lon_deg)
      in (Lat_deg, Lon_deg))"

section \<open>Vectors and matrices\<close>

type_synonym vec = "real list"
type_synonym mat = "real list list"

definition dot3 :: "'a fpu_scheme \<Rightarrow> real \<Rightarrow> real \<Rightarrow> real \<Rightarrow> real \<Rightarrow> real \<Rightarrow> real \<Rightarrow> real" where
  "dot3 m a x b y c z = dadd m (dadd m (dmul m a x) (dmul m b y)) (dmul m c z)"

definition norm3 :: "'a cmath_scheme \<Rightarrow> vec \<Rightarrow> real" where
  "norm3 m v = m_sqrt m (dot3 m (v ! 0) (v ! 0) (v ! 1) (v ! 1) (v ! 2) (v ! 2))"

definition crossv :: "'a cmath_scheme \<Rightarrow> vec \<Rightarrow> vec \<Rightarrow> vec" where
  "crossv m A B =
     [dsub m (dmul m (A ! 1) (B ! 2)) (dmul m (A ! 2) (B ! 1)),
      dsub m (dmul m (A ! 2) (B ! 0)) (dmul m (A ! 0) (B ! 2)),
      dsub m (dmul m (A ! 0) (B ! 1)) (dmul m (A ! 1) (B ! 0))]"

text \<open>The loop assigns every entry once; \<open>r\<close> and \<open>i\<close> are the row and the column of the entry.\<close>

definition matmult :: "'a cmath_scheme \<Rightarrow> mat \<Rightarrow> mat \<Rightarrow> mat" where
  "matmult m A B =
     map (\<lambda>r. map (\<lambda>i. dot3 m (A ! r ! 0) (B ! 0 ! i) (A ! r ! 1) (B ! 1 ! i) (A ! r ! 2) (B ! 2 ! i)) [0, 1, 2]) [0, 1, 2]"

definition matvecmult :: "'a cmath_scheme \<Rightarrow> mat \<Rightarrow> vec \<Rightarrow> vec" where
  "matvecmult m A v =
     map (\<lambda>r. dot3 m (A ! r ! 0) (v ! 0) (A ! r ! 1) (v ! 1) (A ! r ! 2) (v ! 2)) [0, 1, 2]"

definition transpose3 :: "mat \<Rightarrow> mat" where
  "transpose3 A = map (\<lambda>i. map (\<lambda>j. A ! j ! i) [0, 1, 2]) [0, 1, 2]"

section \<open>Direction cosine matrices\<close>

definition eul2dcm :: "'a cmath_scheme \<Rightarrow> vec \<Rightarrow> mat" where
  "eul2dcm m eul_rad =
     (let phi = eul_rad ! 0; theta = eul_rad ! 1; psi = eul_rad ! 2; mul = dmul m;
          s = m_sin m; c = m_cos m
      in [[mul (c psi) (c theta),
           dsub m (mul (mul (c psi) (s phi)) (s theta)) (mul (c phi) (s psi)),
           dadd m (mul (s phi) (s psi)) (mul (mul (c phi) (c psi)) (s theta))],
          [mul (c theta) (s psi),
           dadd m (mul (c phi) (c psi)) (mul (mul (s phi) (s psi)) (s theta)),
           dsub m (mul (mul (c phi) (s psi)) (s theta)) (mul (c psi) (s phi))],
          [- s theta, mul (c theta) (s phi), mul (c phi) (c theta)]])"

definition dcm2eul :: "'a cmath_scheme \<Rightarrow> mat \<Rightarrow> vec" where
  "dcm2eul m dcm =
     [m_atan2 m (dcm ! 1 ! 2) (dcm ! 2 ! 2), m_asin m (- (dcm ! 0 ! 2)), m_atan2 m (dcm ! 0 ! 1) (dcm ! 0 ! 0)]"

definition addv :: "'a cmath_scheme \<Rightarrow> vec \<Rightarrow> vec \<Rightarrow> vec" where
  "addv m u v = [dadd m (u ! 0) (v ! 0), dadd m (u ! 1) (v ! 1), dadd m (u ! 2) (v ! 2)]"

record offsets =
  Pt_P_i :: vec
  Pt_V_i :: vec
  Pt_Euler_i_rad :: vec
  Pt_PQRb_rps :: vec
  Pt_P_i_rel :: vec

definition TranslateOffsets ::
  "'a cmath_scheme \<Rightarrow> vec \<Rightarrow> vec \<Rightarrow> vec \<Rightarrow> vec \<Rightarrow> vec \<Rightarrow> vec \<Rightarrow> offsets" where
  "TranslateOffsets m P_i V_i Euler_i_rad PQRb_rps Pt_P_b_rel Pt_Euler_b_rel_rad =
     (let b_C_i = eul2dcm m Euler_i_rad;
          i_C_b = transpose3 b_C_i;
          P_i_rel = matvecmult m i_C_b Pt_P_b_rel;
          V_b_rel = crossv m PQRb_rps Pt_P_b_rel;
          V_i_rel = matvecmult m i_C_b V_b_rel;
          pt_C_b = eul2dcm m Pt_Euler_b_rel_rad;
          pt_C_i = matmult m pt_C_b b_C_i
      in \<lparr>Pt_P_i = addv m P_i P_i_rel, Pt_V_i = addv m V_i V_i_rel, Pt_Euler_i_rad = dcm2eul m pt_C_i,
          Pt_PQRb_rps = matvecmult m pt_C_b PQRb_rps, Pt_P_i_rel = P_i_rel\<rparr>)"

section \<open>Tables\<close>

text \<open>
  \<open>Interp1D\<close> writes a value, a NaN (two equal breakpoints: the quotient is infinite and is
  multiplied by zero), or nothing at all; no points, or arrays shorter than \<open>nPts\<close>, are read
  out of bounds.
\<close>

datatype interp_result = Written real | Written_NaN | Not_written | Out_of_bounds

definition WITHINLIMITS :: "real \<Rightarrow> real \<Rightarrow> real \<Rightarrow> bool" where
  "WITHINLIMITS x xmin xmax \<longleftrightarrow> x \<ge> xmin \<and> x \<le> xmax"

definition interp_segment :: "'a cmath_scheme \<Rightarrow> vec \<Rightarrow> vec \<Rightarrow> real \<Rightarrow> nat \<Rightarrow> interp_result" where
  "interp_segment m X Y x i =
     (if dsub m (X ! (i + 1)) (X ! i) = 0 then Written_NaN
      else Written (dadd m (dmul m (ddiv m (dsub m (Y ! (i + 1)) (Y ! i)) (dsub m (X ! (i + 1)) (X ! i)))
             (dsub m x (X ! i))) (Y ! i)))"

definition Interp1D :: "'a cmath_scheme \<Rightarrow> vec \<Rightarrow> vec \<Rightarrow> real \<Rightarrow> nat \<Rightarrow> interp_result" where
  "Interp1D m DataX1 DataY1 xDes nPts =
     (if nPts = 0 \<or> length DataX1 < nPts \<or> length DataY1 < nPts then Out_of_bounds
      else if xDes < DataX1 ! 0 then Written (DataY1 ! 0)
      else if xDes > DataX1 ! (nPts - 1) then Written (DataY1 ! (nPts - 1))
      else (case find (\<lambda>iPt. WITHINLIMITS xDes (DataX1 ! iPt) (DataX1 ! (iPt + 1))) [0..<nPts - 1] of
              Some iPt \<Rightarrow> interp_segment m DataX1 DataY1 xDes iPt
            | None \<Rightarrow> Not_written))"

text \<open>
  The nested loops of \<open>maxall\<close> and \<open>minall\<close>; the counter is an \<open>unsigned int\<close>. \<open>out\<close> is what the
  result pointer points to before the call; an entry past the end is out of bounds (\<open>None\<close>).
\<close>

definition extreme_step :: "(real \<Rightarrow> real \<Rightarrow> real) \<Rightarrow> vec \<Rightarrow> 32 word \<times> real \<Rightarrow> 32 word \<times> real" where
  "extreme_step op u st =
     (case st of
        (count, best) \<Rightarrow>
          (count + 1, if count = 0 then u ! unat count else op best (u ! unat count)))"

definition extreme_loops :: "(real \<Rightarrow> real \<Rightarrow> real) \<Rightarrow> vec \<Rightarrow> real \<Rightarrow> nat \<Rightarrow> nat \<Rightarrow> real" where
  "extreme_loops op u out nRow nCol =
     snd (fold (\<lambda>iCol st. fold (\<lambda>iRow. extreme_step op u) [0..<nRow] st) [0..<nCol] (0, out))"

definition c_max :: "real \<Rightarrow> real \<Rightarrow> real" where
  "c_max x y = (if x < y then y else x)"

definition c_min :: "real \<Rightarrow> real \<Rightarrow> real" where
  "c_min x y = (if x < y then x else y)"

definition maxall :: "vec \<Rightarrow> real \<Rightarrow> nat \<Rightarrow> nat \<Rightarrow> real option" where
  "maxall u umax nRow nCol =
     (if length u < nRow * nCol then None else Some (extreme_loops c_max u umax nRow nCol))"

definition minall :: "vec \<Rightarrow> real \<Rightarrow> nat \<Rightarrow> nat \<Rightarrow> real option" where
  "minall u umin nRow nCol =
     (if length u < nRow * nCol then None else Some (extreme_loops c_min u umin nRow nCol))"

section \<open>The crank\<close>

text \<open>
  \<open>None\<close> is the NaN that C computes when the triangle does not exist: a side of length 0, an
  argument of \<open>acos\<close> outside its domain, a negative argument of \<open>sqrt\<close>.
\<close>

definition crank_angle :: "'a cmath_scheme \<Rightarrow> real \<Rightarrow> real \<Rightarrow> real \<Rightarrow> real option" where
  "crank_angle m R L2 L =
     (let num = dsub m (dadd m (dmul m R R) (dmul m L2 L2)) (dmul m L L);
          den = dmul m (dmul m 2 R) L2;
          q = ddiv m num den
      in if den = 0 \<or> q < - 1 \<or> 1 < q then None else Some (times_R2D m (m_acos m q)))"

definition CrankActuatorMapping_XToTheta ::
  "'a cmath_scheme \<Rightarrow> real \<Rightarrow> real \<Rightarrow> real \<Rightarrow> real \<Rightarrow> real \<Rightarrow> real \<Rightarrow> real option" where
  "CrankActuatorMapping_XToTheta m X R C L2 ThetaBias_deg XBias =
     (case crank_angle m R L2 C of
        None \<Rightarrow> None
      | Some Alpha0_deg \<Rightarrow>
          (let L1 = dadd m (dsub m X XBias) C
           in case crank_angle m R L2 L1 of
                None \<Rightarrow> None
              | Some Alpha_deg \<Rightarrow> Some (dadd m (dsub m Alpha_deg Alpha0_deg) ThetaBias_deg)))"

definition CrankActuatorMapping_ThetaToX ::
  "'a cmath_scheme \<Rightarrow> real \<Rightarrow> real \<Rightarrow> real \<Rightarrow> real \<Rightarrow> real \<Rightarrow> real \<Rightarrow> real option" where
  "CrankActuatorMapping_ThetaToX m Theta_deg R C L2 ThetaBias_deg XBias =
     (case crank_angle m R L2 C of
        None \<Rightarrow> None
      | Some Alpha0_deg \<Rightarrow>
          (let Alpha_deg = dadd m (dsub m Theta_deg ThetaBias_deg) Alpha0_deg;
               sq = dsub m (dadd m (dmul m R R) (dmul m L2 L2))
                      (dmul m (dmul m (dmul m 2 R) L2) (m_cos m (times_D2R m Alpha_deg)))
           in if sq < 0 then None else Some (dadd m (dsub m (m_sqrt m sq) C) XBias)))"

end
