(* ===== verification/CsaContracts.thy ===== *)
theory CsaContracts
  imports CsaLibrary
begin

text \<open>
  What the simulation library computes: its direction cosine matrices are rotations, the angles
  come back from the transposed matrix (and not from the matrix itself), the attachment point
  is rotated the wrong way, the table lookup is the piecewise linear function, the extrema are
  the extrema, and the two crank mappings are inverse to each other.
\<close>

lemma exact_ops [simp]:
  "dadd exact a b = a + b" "dsub exact a b = a - b" "dmul exact a b = a * b" "ddiv exact a b = a / b"
  "m_sin exact = sin" "m_cos exact = cos" "m_sqrt exact = sqrt" "m_atan2 exact = arctan2"
  "m_asin exact = arcsin" "m_acos exact = arccos" "PI exact = pi"
  "m_tan exact = tan" "m_atan exact = arctan"
  by (simp_all add: exact_def dadd_def dsub_def dmul_def ddiv_def PI_def)

lemma exact_angles [simp]: "times_D2R exact x = x * pi / 180" "times_R2D exact x = x * 180 / pi"
  by (simp_all add: times_D2R_def times_R2D_def)

section \<open>Rotations\<close>

definition identity3 :: mat where
  "identity3 = [[1, 0, 0], [0, 1, 0], [0, 0, 1]]"

lemma nth_three [simp]: "[a, b, c] ! 2 = c"
  by (simp add: numeral_2_eq_2)

lemmas mat_defs = matmult_def matvecmult_def transpose3_def dot3_def eul2dcm_def Let_def

lemma sin_sq: "sin x * sin x = 1 - cos x * (cos x :: real)"
  using sin_cos_squared_add [of x] by (simp add: power2_eq_square)

lemma rows_orthonormal:
  fixes cp sp ct st cf sf :: real
  assumes "sp * sp = 1 - cp * cp" "st * st = 1 - ct * ct" "sf * sf = 1 - cf * cf"
  defines "a \<equiv> cp * sf * st - cf * sp" and "b \<equiv> sf * sp + cf * cp * st"
    and "d \<equiv> cf * cp + sf * sp * st" and "e \<equiv> cf * sp * st - cp * sf"
  shows "cp * ct * (cp * ct) + a * a + b * b = 1" "ct * sp * (ct * sp) + d * d + e * e = 1"
    "st * st + ct * sf * (ct * sf) + cf * ct * (cf * ct) = 1"
    "cp * ct * (ct * sp) + a * d + b * e = 0"
    "- (cp * ct * st) + a * (ct * sf) + b * (cf * ct) = 0"
    "- (ct * sp * st) + d * (ct * sf) + e * (cf * ct) = 0"
  unfolding a_def b_def d_def e_def using assms(1-3) by algebra+

lemma columns_orthonormal:
  fixes cp sp ct st cf sf :: real
  assumes "sp * sp = 1 - cp * cp" "st * st = 1 - ct * ct" "sf * sf = 1 - cf * cf"
  defines "a \<equiv> cp * sf * st - cf * sp" and "b \<equiv> sf * sp + cf * cp * st"
    and "d \<equiv> cf * cp + sf * sp * st" and "e \<equiv> cf * sp * st - cp * sf"
  shows "cp * ct * (cp * ct) + ct * sp * (ct * sp) + st * st = 1"
    "a * a + d * d + ct * sf * (ct * sf) = 1" "b * b + e * e + cf * ct * (cf * ct) = 1"
    "cp * ct * a + ct * sp * d - st * (ct * sf) = 0" "cp * ct * b + ct * sp * e - st * (cf * ct) = 0"
    "a * b + d * e + ct * sf * (cf * ct) = 0"
  unfolding a_def b_def d_def e_def using assms(1-3) by algebra+

lemma eul2dcm_orthogonal:
  "matmult exact (eul2dcm exact [f, t, p]) (transpose3 (eul2dcm exact [f, t, p])) = identity3"
  "matmult exact (transpose3 (eul2dcm exact [f, t, p])) (eul2dcm exact [f, t, p]) = identity3"
  using rows_orthonormal [OF sin_sq [of p] sin_sq [of t] sin_sq [of f]]
    columns_orthonormal [OF sin_sq [of p] sin_sq [of t] sin_sq [of f]]
  by (simp_all add: mat_defs identity3_def algebra_simps)

lemma matvec_transpose:
  assumes "length v = 3"
  shows "matvecmult exact (eul2dcm exact [f, t, p]) (matvecmult exact (transpose3 (eul2dcm exact [f, t, p])) v) = v"
proof -
  obtain x y z where v: "v = [x, y, z]"
    using assms by (auto simp: numeral_3_eq_3 length_Suc_conv)
  let ?M = "eul2dcm exact [f, t, p]"
  have "matvecmult exact ?M (matvecmult exact (transpose3 ?M) [x, y, z])
      = matvecmult exact (matmult exact ?M (transpose3 ?M)) [x, y, z]"
    by (simp add: matmult_def matvecmult_def transpose3_def dot3_def algebra_simps)
  then show ?thesis
    by (simp add: eul2dcm_orthogonal v) (simp add: identity3_def matvecmult_def dot3_def)
qed

lemma arctan2_polar:
  assumes "0 < r" "- pi < x" "x \<le> pi"
  shows "arctan2 (r * sin x) (r * cos x) = x"
proof -
  have "Complex (r * cos x) (r * sin x) = rcis r x" by (simp add: rcis_def complex_eq_iff)
  moreover have "sgn (rcis r x) = cis x" using assms(1) by (simp add: sgn_eq rcis_def norm_mult)
  ultimately show ?thesis
    using cis_Arg_unique [of "rcis r x" x] assms by (simp add: arctan2_def)
qed

lemma dcm2eul_transposed:
  assumes "- pi < f" "f \<le> pi" "- (pi / 2) < t" "t < pi / 2" "- pi < p" "p \<le> pi"
  shows "dcm2eul exact (transpose3 (eul2dcm exact [f, t, p])) = [f, t, p]"
proof -
  have c: "0 < cos t" using assms by (simp add: cos_gt_zero_pi)
  have "arctan2 (cos t * sin f) (cos f * cos t) = f" "arctan2 (cos t * sin p) (cos p * cos t) = p"
    using arctan2_polar [OF c, of f] arctan2_polar [OF c, of p] assms by (simp_all add: mult.commute)
  moreover have "arcsin (sin t) = t" using assms by (simp add: arcsin_sin)
  ultimately show ?thesis by (simp add: dcm2eul_def mat_defs)
qed



text \<open>
  \<open>TranslateOffsets\<close> in exact arithmetic: the offset it reports in the inertial frame is the
  one the body-to-inertial matrix of \<open>eul2dcm\<close> takes back to the given offset: the point is
  rotated against the attitude; a point one unit ahead of a robot heading east comes out west.
\<close>
lemma TranslateOffsets_inverse:
  assumes "length Pt_P_b_rel = 3"
  shows "matvecmult exact (eul2dcm exact [f, t, p])
      (Pt_P_i_rel (TranslateOffsets exact P_i V_i [f, t, p] PQRb Pt_P_b_rel Pt_Euler)) = Pt_P_b_rel
    \<and> Pt_P_i_rel (TranslateOffsets exact P_i V_i [0, 0, pi / 2] PQRb [1, 0, 0] Pt_Euler) = [0, -1, 0]
    \<and> matvecmult exact (eul2dcm exact [0, 0, pi / 2]) [1, 0, 0] = [0, 1, 0]"
  using matvec_transpose [OF assms, of f t p]
  by (simp add: TranslateOffsets_def Let_def) (simp add: mat_defs)

lemma TranslateOffsets_inverse_witness:
  "matvecmult exact (eul2dcm exact [0, 0, pi / 2])
     (Pt_P_i_rel (TranslateOffsets exact [0, 0, 0] [0, 0, 0] [0, 0, pi / 2] [0, 0, 0] [1, 2, 3] [0, 0, 0])) = [1, 2, 3]"
  using TranslateOffsets_inverse [of "[1, 2, 3]" 0 0 "pi / 2" "[0, 0, 0]" "[0, 0, 0]" "[0, 0, 0]" "[0, 0, 0]"] by simp

section \<open>Tables\<close>

lemma breakpoints_less:
  "sorted_wrt (<) (take n X) \<Longrightarrow> i < j \<Longrightarrow> j < n \<Longrightarrow> n \<le> length X \<Longrightarrow> X ! i < X ! j" for X :: "real list"
  using sorted_wrt_nth_less [of "(<)" "take n X" i j] by simp

lemma find_segment:
  fixes X :: "real list"
  assumes "2 \<le> n" "X ! 0 \<le> x" "x \<le> X ! (n - 1)"
  obtains i where "find (\<lambda>i. WITHINLIMITS x (X ! i) (X ! (i + 1))) [0..<n - 1] = Some i"
    "i < n - 1" "X ! i \<le> x" "x \<le> X ! (i + 1)" "\<And>j. j < i \<Longrightarrow> \<not> (X ! j \<le> x \<and> x \<le> X ! (j + 1))"
proof (cases "find (\<lambda>i. WITHINLIMITS x (X ! i) (X ! (i + 1))) [0..<n - 1]")
  case None
  then have no: "\<not> (X ! i \<le> x \<and> x \<le> X ! (i + 1))" if "i < n - 1" for i
    using that by (auto simp: find_None_iff WITHINLIMITS_def)
  have "X ! i \<le> x \<and> (0 < i \<longrightarrow> X ! i < x)" if "i \<le> n - 1" for i
    using that
  proof (induction i)
    case 0
    with assms show ?case by simp
  next
    case (Suc i)
    then show ?case using no [of i] by auto
  qed
  from this [of "n - 1"] assms show thesis by simp
next
  case (Some i)
  then have i: "i < n - 1" "WITHINLIMITS x (X ! i) (X ! (i + 1))"
    "\<And>j. j < i \<Longrightarrow> \<not> WITHINLIMITS x (X ! j) (X ! (j + 1))"
    by (auto simp: find_Some_iff)
  with Some that show thesis by (auto simp: WITHINLIMITS_def)
qed

definition chord :: "vec \<Rightarrow> vec \<Rightarrow> real \<Rightarrow> nat \<Rightarrow> real" where
  "chord X Y x i = Y ! i + (x - X ! i) / (X ! (i + 1) - X ! i) * (Y ! (i + 1) - Y ! i)"

lemma interp_segment_chord:
  "X ! i < X ! (i + 1) \<Longrightarrow> interp_segment exact X Y x i = Written (chord X Y x i)"
  by (simp add: interp_segment_def chord_def)

lemma scaled: "0 \<le> r \<Longrightarrow> r \<le> 1 \<Longrightarrow> 0 \<le> c \<Longrightarrow> 0 \<le> r * c \<and> r * c \<le> c" for r c :: real
  using mult_right_mono [of r 1 c] by simp

lemma between_ends:
  fixes a b r :: real
  assumes "0 \<le> r" "r \<le> 1"
  shows "min a b \<le> a + r * (b - a) \<and> a + r * (b - a) \<le> max a b"
proof (cases "a \<le> b")
  case True
  define e where "e = r * (b - a)"
  from True assms have "0 \<le> e \<and> e \<le> b - a" unfolding e_def by (intro scaled) simp_all
  with True show ?thesis unfolding e_def [symmetric] by simp
next
  case False
  define e where "e = r * (a - b)"
  from False assms have "0 \<le> e \<and> e \<le> a - b" unfolding e_def by (intro scaled) simp_all
  moreover have "r * (b - a) = - e" by (simp add: e_def algebra_simps)
  ultimately show ?thesis using False by simp
qed

lemma chord_between:
  assumes "X ! i < X ! (i + 1)" "X ! i \<le> x" "x \<le> X ! (i + 1)"
  shows "min (Y ! i) (Y ! (i + 1)) \<le> chord X Y x i \<and> chord X Y x i \<le> max (Y ! i) (Y ! (i + 1))"
  unfolding chord_def using assms by (intro between_ends) simp_all

lemma Interp1D_inside:
  assumes "2 \<le> n" "n \<le> length X" "n \<le> length Y" "sorted_wrt (<) (take n X)" "X ! 0 \<le> x" "x \<le> X ! (n - 1)"
  obtains i where "i < n - 1" "X ! i \<le> x" "x \<le> X ! (i + 1)" "Interp1D exact X Y x n = Written (chord X Y x i)"
    "\<And>j. j < i \<Longrightarrow> \<not> (X ! j \<le> x \<and> x \<le> X ! (j + 1))"
proof -
  from assms(1,5,6) obtain i where i: "find (\<lambda>i. WITHINLIMITS x (X ! i) (X ! (i + 1))) [0..<n - 1] = Some i"
    "i < n - 1" "X ! i \<le> x" "x \<le> X ! (i + 1)" "\<And>j. j < i \<Longrightarrow> \<not> (X ! j \<le> x \<and> x \<le> X ! (j + 1))"
    by (rule find_segment) blast
  have "X ! i < X ! (i + 1)" using assms(2,4) i(2) by (intro breakpoints_less) auto
  then have "Interp1D exact X Y x n = Written (chord X Y x i)"
    using assms i(1) by (simp add: Interp1D_def interp_segment_chord)
  with i show thesis by (intro that) blast+
qed

lemma Interp1D_breakpoint:
  assumes "2 \<le> n" "n \<le> length X" "n \<le> length Y" "sorted_wrt (<) (take n X)" "k < n"
  shows "Interp1D exact X Y (X ! k) n = Written (Y ! k)"
proof -
  note less = breakpoints_less [OF assms(4) _ _ assms(2)]
  have "X ! 0 \<le> X ! k" using less [of 0 k] assms(5) by (cases "k = 0") auto
  moreover have "X ! k \<le> X ! (n - 1)" using less [of k "n - 1"] assms(5)
    by (metis Suc_diff_1 diff_less less_Suc_eq less_imp_le order_refl not_gr_zero less_one not_less_zero)
  ultimately obtain i where i: "i < n - 1" "X ! i \<le> X ! k" "X ! k \<le> X ! (i + 1)"
    "Interp1D exact X Y (X ! k) n = Written (chord X Y (X ! k) i)"
    using Interp1D_inside [OF assms(1-4)] by blast
  have "i < n" using i(1) by linarith
  then have "i \<le> k" using less [of k i] i(2) by (cases "k < i") simp_all
  moreover have "k \<le> i + 1" using less [of "i + 1" k] i(3) assms(5) by (cases "i + 1 < k") simp_all
  ultimately consider "k = i" | "k = i + 1" by linarith
  then show ?thesis
  proof cases
    case 1
    with i(4) show ?thesis by (simp add: chord_def)
  next
    case 2
    have "X ! i < X ! (i + 1)" using less [of i "i + 1"] i(1) by simp
    with 2 i(4) show ?thesis by (simp add: chord_def)
  qed
qed

text \<open>
  C23. \<open>Interp1D\<close> on at least two strictly increasing breakpoints, in exact arithmetic: it holds
  the end values outside, gives the datum at every breakpoint, and in between lies on the chord
  of the segment, between its two data. On a single breakpoint hit exactly it writes nothing.
\<close>
theorem Interp1D_piecewise_linear:
  assumes "2 \<le> n" "n \<le> length X" "n \<le> length Y" "sorted_wrt (<) (take n X)"
  shows "(x < X ! 0 \<longrightarrow> Interp1D exact X Y x n = Written (Y ! 0))
    \<and> (X ! (n - 1) < x \<longrightarrow> Interp1D exact X Y x n = Written (Y ! (n - 1)))
    \<and> (\<forall>k < n. Interp1D exact X Y (X ! k) n = Written (Y ! k))
    \<and> (X ! 0 \<le> x \<and> x \<le> X ! (n - 1) \<longrightarrow>
        (\<exists>i < n - 1. X ! i \<le> x \<and> x \<le> X ! (i + 1) \<and> Interp1D exact X Y x n = Written (chord X Y x i)
          \<and> min (Y ! i) (Y ! (i + 1)) \<le> chord X Y x i \<and> chord X Y x i \<le> max (Y ! i) (Y ! (i + 1))))
    \<and> Interp1D exact X Y (X ! 0) 1 = Not_written"
proof (intro conjI impI allI)
  show "Interp1D exact X Y x n = Written (Y ! 0)" if "x < X ! 0"
    using assms that by (simp add: Interp1D_def)
  have "X ! 0 < X ! (n - 1)" using assms(1,2,4) by (intro breakpoints_less) auto
  then show "Interp1D exact X Y x n = Written (Y ! (n - 1))" if "X ! (n - 1) < x"
    using assms that by (simp add: Interp1D_def)
  show "Interp1D exact X Y (X ! k) n = Written (Y ! k)" if "k < n" for k
    using assms that by (rule Interp1D_breakpoint)
  show "Interp1D exact X Y (X ! 0) 1 = Not_written"
    using assms by (auto simp: Interp1D_def)
  assume "X ! 0 \<le> x \<and> x \<le> X ! (n - 1)"
  then obtain i where i: "i < n - 1" "X ! i \<le> x" "x \<le> X ! (i + 1)" "Interp1D exact X Y x n = Written (chord X Y x i)"
    using Interp1D_inside [OF assms] by blast
  moreover have "X ! i < X ! (i + 1)" using assms(2,4) i(1) by (intro breakpoints_less) auto
  ultimately show "\<exists>i < n - 1. X ! i \<le> x \<and> x \<le> X ! (i + 1) \<and> Interp1D exact X Y x n = Written (chord X Y x i)
      \<and> min (Y ! i) (Y ! (i + 1)) \<le> chord X Y x i \<and> chord X Y x i \<le> max (Y ! i) (Y ! (i + 1))"
    using chord_between by blast
qed

lemma Interp1D_piecewise_linear_witness:
  "Interp1D exact [0, 10, 20] [1, 5, 5] 10 3 = Written 5 \<and> Interp1D exact [0, 10, 20] [1, 5, 5] (-3) 3 = Written 1"
  using Interp1D_piecewise_linear [of 3 "[0, 10, 20]" "[1, 5, 5]" "-3"] by (auto dest: spec [where x = 1])

section \<open>Extrema\<close>

lemma fold_const: "fold (\<lambda>_. f) [0..<n] = f ^^ n"
  by (induction n) (simp_all add: funpow_swap1 fun_eq_iff)

lemma extreme_step_pair:
  "extreme_step op u (count, best) =
     (count + 1, if count = 0 then u ! unat count else op best (u ! unat count))"
  by (simp add: extreme_step_def)

lemma extreme_steps:
  "k \<le> 4294967296 \<Longrightarrow> k \<le> length u \<Longrightarrow>
   (extreme_step op u ^^ k) (0, out) = (of_nat k, if k = 0 then out else fold (\<lambda>x b. op b x) (tl (take k u)) (hd u))"
proof (induction k)
  case 0
  then show ?case by simp
next
  case (Suc k)
  then have IH: "(extreme_step op u ^^ k) (0, out)
      = (of_nat k, if k = 0 then out else fold (\<lambda>x b. op b x) (tl (take k u)) (hd u))" by simp
  have k: "unat (of_nat k :: 32 word) = k"
    using Suc.prems(1) by (simp add: unat_of_nat)
  then have zero: "(of_nat k :: 32 word) = 0 \<longleftrightarrow> k = 0"
    by (simp only: unat_eq_zero [symmetric] k)
  have step: "(extreme_step op u ^^ Suc k) (0, out) = extreme_step op u ((extreme_step op u ^^ k) (0, out))"
    by (simp only: funpow.simps o_apply)
  show ?case
  proof (cases "k = 0")
    case True
    with Suc.prems show ?thesis by (cases u) (simp_all add: extreme_step_def)
  next
    case False
    then have "tl (take (Suc k) u) = tl (take k u) @ [u ! k]"
      using Suc.prems by (cases u; cases k) (simp_all add: take_Suc_conv_app_nth)
    with False show ?thesis
      unfolding step IH extreme_step_pair by (simp add: k zero add.commute)
  qed
qed

lemma extreme_fold:
  "fold (\<lambda>x b. c_max b x) xs b = Max (set (b # xs))" "fold (\<lambda>x b. c_min b x) xs b = Min (set (b # xs))"
proof -
  have "(\<lambda>x b. c_max b x) = max" "(\<lambda>x b. c_min b x) = min"
    by (auto simp: fun_eq_iff c_max_def c_min_def)
  then show "fold (\<lambda>x b. c_max b x) xs b = Max (set (b # xs))" "fold (\<lambda>x b. c_min b x) xs b = Min (set (b # xs))"
    by (simp_all only: Max.set_eq_fold Min.set_eq_fold)
qed

lemma extreme_loops_fold:
  assumes "0 < nRow * nCol" "nRow * nCol \<le> 4294967296" "nRow * nCol \<le> length u"
  shows "extreme_loops op u out nRow nCol = fold (\<lambda>x b. op b x) (tl (take (nRow * nCol) u)) (hd u)"
    and "set (hd u # tl (take (nRow * nCol) u)) = set (take (nRow * nCol) u)"
proof -
  have "extreme_loops op u out nRow nCol = snd ((extreme_step op u ^^ (nRow * nCol)) (0, out))"
    by (simp add: extreme_loops_def fold_const funpow_mult mult.commute)
  then show "extreme_loops op u out nRow nCol = fold (\<lambda>x b. op b x) (tl (take (nRow * nCol) u)) (hd u)"
    using assms by (simp add: extreme_steps)
  show "set (hd u # tl (take (nRow * nCol) u)) = set (take (nRow * nCol) u)"
    using assms by (cases u; cases "nRow * nCol") simp_all
qed

text \<open>
  \<open>maxall\<close> and \<open>minall\<close> find the greatest and the least of the entries, whatever was in the
  result before, up to the 2^32 entries their counter can tell apart.
\<close>
theorem extrema:
  assumes "0 < nRow * nCol" "nRow * nCol \<le> 4294967296" "nRow * nCol \<le> length u"
  shows "maxall u before nRow nCol = Some (Max (set (take (nRow * nCol) u)))
    \<and> minall u before nRow nCol = Some (Min (set (take (nRow * nCol) u)))"
  using assms extreme_loops_fold [OF assms]
  by (simp add: maxall_def minall_def extreme_fold del: list.set)

lemma extrema_witness:
  "maxall [3, 9, -2, 4] 100 2 2 = Some 9 \<and> minall [3, 9, -2, 4] (-100) 2 2 = Some (-2)"
  using extrema [of 2 2 "[3, 9, -2, 4]" 100] extrema [of 2 2 "[3, 9, -2, 4]" "-100"] by simp

section \<open>The crank\<close>

text \<open>
  The crank mappings are inverse to each other in exact arithmetic: from the angle that
  \<open>CrankActuatorMapping_XToTheta\<close> gives for an actuator that is not longer than its reach,
  \<open>CrankActuatorMapping_ThetaToX\<close> gives the deflection back.
\<close>
theorem crank_round_trip:
  assumes "CrankActuatorMapping_XToTheta exact X R C L2 bias XBias = Some theta" "0 \<le> X - XBias + C"
  shows "CrankActuatorMapping_ThetaToX exact theta R C L2 bias XBias = Some X"
proof -
  define q where "q = (R * R + L2 * L2 - (X - XBias + C) * (X - XBias + C)) / (2 * R * L2)"
  obtain a0 where a0: "crank_angle exact R L2 C = Some a0"
    and q: "2 * R * L2 \<noteq> 0" "- 1 \<le> q" "q \<le> 1" and theta: "theta = arccos q * 180 / pi - a0 + bias"
    using assms(1)
    by (auto simp: CrankActuatorMapping_XToTheta_def crank_angle_def Let_def q_def split: option.splits if_splits)
  have "cos (arccos q) = q" using q by simp
  moreover have "2 * R * L2 * q = R * R + L2 * L2 - (X - XBias + C) * (X - XBias + C)"
    using q(1) by (simp add: q_def)
  ultimately show ?thesis
    using assms(2) by (simp add: CrankActuatorMapping_ThetaToX_def a0 theta Let_def)
qed

lemma crank_round_trip_witness:
  "CrankActuatorMapping_ThetaToX exact (arccos (1 / 2) * 180 / pi) 1 (sqrt 2) 1 90 (sqrt 2 - 1) = Some 0
   \<and> CrankActuatorMapping_XToTheta exact 0 1 (sqrt 2) 1 90 (sqrt 2 - 1) = Some (arccos (1 / 2) * 180 / pi)"
proof -
  have "CrankActuatorMapping_XToTheta exact 0 1 (sqrt 2) 1 90 (sqrt 2 - 1) = Some (arccos (1 / 2) * 180 / pi)"
    by (simp add: CrankActuatorMapping_XToTheta_def crank_angle_def Let_def)
  from crank_round_trip [OF this] this show ?thesis by simp
qed

section \<open>Longitudes\<close>

text \<open>
  The comment of \<open>CheckLatLon\<close> promises a longitude between -180 and 180; \<open>fmod\<close> keeps the sign
  of its argument and nothing brings values below -180 back.
\<close>

lemma CheckLatLon_leaves_range: "CheckLatLon exact 0 (-270) = (0, -270)"
  by (simp add: CheckLatLon_def Let_def fmod_def trunc_def sign_def)

end
