(* ===== verification/Geodesy.thy ===== *)
theory Geodesy
  imports CsaContracts
begin

text \<open>
  The two geodesic routines of CCode/CSA_LIB.c: \<open>vincenty\<close>, the distance and the bearings between
  two points of a spheroid, and \<open>invvincenty\<close>, the point reached from another. Both iterate;
  \<open>vincenty\<close> at most 20 times, \<open>invvincenty\<close> without a bound, because its counter is never
  incremented (and never initialised: its value is an argument here). On a sphere, in exact
  arithmetic, the first is shown to give the great circle and the second to be its inverse.
\<close>

section \<open>Outcomes\<close>

text \<open>
  \<open>Not_a_number\<close>: some output is a NaN or infinite; \<open>Uninitialised\<close>: outputs are computed from local
  variables never assigned; \<open>Unfinished\<close>: the fuel of an unbounded loop has run out.
\<close>

datatype 'a outcome = Computed 'a | Not_a_number | Uninitialised | Unfinished

definition wrap360 :: "'a cmath_scheme \<Rightarrow> real \<Rightarrow> real" where
  "wrap360 m az = (let r = fmod az 360 in if r < 0 then dadd m r 360 else r)"

section \<open>Distance and bearings\<close>

text \<open>Sines and cosines of the two reduced latitudes; the variables a turn of the loop assigns.\<close>

record reduced =
  r_sinU1 :: real
  r_cosU1 :: real
  r_sinU2 :: real
  r_cosU2 :: real

record arc =
  v_sinSigma :: real
  v_cosSigma :: real
  v_sig :: real
  v_cos2alpha :: real
  v_cos2SigmaM :: real

definition curvature :: "'a cmath_scheme \<Rightarrow> real \<Rightarrow> real \<Rightarrow> real" where
  "curvature m CB_flatten cos2alpha =
     dmul m (dmul m (ddiv m CB_flatten 16) cos2alpha)
       (dadd m 4 (dmul m CB_flatten (dsub m 4 (dmul m 3 cos2alpha))))"

definition northing :: "'a cmath_scheme \<Rightarrow> reduced \<Rightarrow> real \<Rightarrow> real" where
  "northing m u cosLambda =
     dsub m (dmul m (r_cosU1 u) (r_sinU2 u)) (dmul m (dmul m (r_sinU1 u) (r_cosU2 u)) cosLambda)"

definition vincenty_step ::
  "'a cmath_scheme \<Rightarrow> real \<Rightarrow> real \<Rightarrow> reduced \<Rightarrow> real \<Rightarrow> (real \<times> arc) option" where
  "vincenty_step m CB_flatten L u lambda =
     (let sinLambda = m_sin m lambda;
          cosLambda = m_cos m lambda;
          east = dmul m (r_cosU2 u) sinLambda;
          north = northing m u cosLambda;
          sinSigma = m_sqrt m (dadd m (dmul m east east) (dmul m north north));
          cosSigma = dadd m (dmul m (r_sinU1 u) (r_sinU2 u)) (dmul m (dmul m (r_cosU1 u) (r_cosU2 u)) cosLambda);
          sig = m_atan2 m sinSigma cosSigma;
          ratio = ddiv m (dmul m (dmul m (r_cosU1 u) (r_cosU2 u)) sinLambda) sinSigma;
          alpha = m_asin m ratio;
          cos2alpha = dmul m (m_cos m alpha) (m_cos m alpha);
          cos2SigmaM = dsub m cosSigma (ddiv m (dmul m (dmul m 2 (r_sinU1 u)) (r_sinU2 u)) cos2alpha);
          C = curvature m CB_flatten cos2alpha;
          inner = dadd m cos2SigmaM
            (dmul m (dmul m C cosSigma) (dadd m (- 1) (dmul m (dmul m 2 cos2SigmaM) cos2SigmaM)))
      in if sinSigma = 0 \<or> ratio < - 1 \<or> 1 < ratio \<or> cos2alpha = 0 then None
         else Some
           (dadd m L (dmul m (dmul m (dmul m (dsub m 1 C) CB_flatten) (m_sin m alpha))
              (dadd m sig (dmul m (dmul m C sinSigma) inner))),
            \<lparr>v_sinSigma = sinSigma, v_cosSigma = cosSigma, v_sig = sig, v_cos2alpha = cos2alpha,
              v_cos2SigmaM = cos2SigmaM\<rparr>))"

text \<open>The first argument is \<open>maxCtr - ctr\<close>; the variables are \<open>None\<close> before the first turn.\<close>

fun vincenty_loop ::
  "nat \<Rightarrow> 'a cmath_scheme \<Rightarrow> real \<Rightarrow> real \<Rightarrow> reduced \<Rightarrow> real \<Rightarrow> real \<Rightarrow> arc option \<Rightarrow> (real \<times> arc) outcome" where
  "vincenty_loop n m CB_flatten L u lambda lambdap vars =
     (if \<bar>dsub m lambda lambdap\<bar> > db m (1 / 10 ^ 12) \<and> 0 < n then
        (case vincenty_step m CB_flatten L u lambda of
           None \<Rightarrow> Not_a_number
         | Some (lambda', vars) \<Rightarrow> vincenty_loop (n - 1) m CB_flatten L u lambda' lambda (Some vars))
      else (case vars of None \<Rightarrow> Uninitialised | Some vars \<Rightarrow> Computed (lambda, vars)))"

declare vincenty_loop.simps [simp del]

definition arc_length :: "'a cmath_scheme \<Rightarrow> real \<Rightarrow> real \<Rightarrow> arc \<Rightarrow> real" where
  "arc_length m CB_a CB_b v =
     (let uSq = ddiv m (dmul m (v_cos2alpha v) (dsub m (dmul m CB_a CB_a) (dmul m CB_b CB_b))) (dmul m CB_b CB_b);
          AA = dadd m 1 (dmul m (ddiv m uSq 16384) (dadd m 4096 (dmul m uSq
                 (dadd m (- 768) (dmul m uSq (dsub m 320 (dmul m 175 uSq)))))));
          BB = dmul m (ddiv m uSq 1024) (dadd m 256 (dmul m uSq
                 (dadd m (- 128) (dmul m uSq (dsub m 74 (dmul m 47 uSq))))));
          c = v_cos2SigmaM v; s = v_sinSigma v;
          deltaSigma = dmul m (dmul m BB s) (dadd m c (dmul m (ddiv m BB 4)
             (dsub m (dmul m (v_cosSigma v) (dadd m (- 1) (dmul m (dmul m 2 c) c)))
                (dmul m (dmul m (dmul m (ddiv m BB 6) c) (dadd m (- 3) (dmul m (dmul m 4 s) s)))
                   (dadd m (- 3) (dmul m (dmul m 4 c) c))))))
      in dmul m (dmul m CB_b AA) (dsub m (v_sig v) deltaSigma))"

text \<open>The outputs are the distance and the two bearings.\<close>

definition vincenty ::
  "'a cmath_scheme \<Rightarrow> real \<Rightarrow> real \<Rightarrow> real \<Rightarrow> real \<Rightarrow> real \<Rightarrow> real \<Rightarrow> (real \<times> real \<times> real) outcome" where
  "vincenty m latitude1_deg longitude1_deg latitude2_deg longitude2_deg CB_a CB_flatten =
     (case (CheckLatLon m latitude1_deg longitude1_deg, CheckLatLon m latitude2_deg longitude2_deg) of
        ((lat1_deg, lon1_deg), (lat2_deg, lon2_deg)) \<Rightarrow>
          if dsub m lat2_deg lat1_deg = 0 \<and> dsub m lon2_deg lon1_deg = 0 then Computed (0, 0, 0)
          else
            (let L = dsub m (times_D2R m lon2_deg) (times_D2R m lon1_deg);
                 U1 = m_atan m (dmul m (dsub m 1 CB_flatten) (m_tan m (times_D2R m lat1_deg)));
                 U2 = m_atan m (dmul m (dsub m 1 CB_flatten) (m_tan m (times_D2R m lat2_deg)));
                 u = \<lparr>r_sinU1 = m_sin m U1, r_cosU1 = m_cos m U1, r_sinU2 = m_sin m U2, r_cosU2 = m_cos m U2\<rparr>;
                 CB_b = dmul m CB_a (dsub m 1 CB_flatten)
             in case vincenty_loop 20 m CB_flatten L u L (dmul m 2 (PI m)) None of
                  Computed (lambda, v) \<Rightarrow>
                    if dmul m CB_b CB_b = 0 then Not_a_number
                    else
                      (let sinLambda = m_sin m lambda; cosLambda = m_cos m lambda
                       in Computed
                         (arc_length m CB_a CB_b v,
                          wrap360 m (times_R2D m (m_atan2 m (dmul m (r_cosU2 u) sinLambda) (northing m u cosLambda))),
                          wrap360 m (times_R2D m (m_atan2 m (dmul m (r_cosU1 u) sinLambda)
                            (dadd m (dmul m (- r_sinU1 u) (r_cosU2 u)) (dmul m (dmul m (r_cosU1 u) (r_sinU2 u)) cosLambda))))))
                | Not_a_number \<Rightarrow> Not_a_number
                | Uninitialised \<Rightarrow> Uninitialised
                | Unfinished \<Rightarrow> Unfinished))"

section \<open>The point at a distance and a bearing\<close>

record turn_vars =
  t_sinSigma :: real
  t_cosSigma :: real
  t_cos2Sigmam :: real
  t_E :: real

definition direct_step :: "'a cmath_scheme \<Rightarrow> real \<Rightarrow> real \<Rightarrow> real \<Rightarrow> real \<Rightarrow> real \<times> turn_vars" where
  "direct_step m BAZ D tanU1 sigma =
     (let s = m_sin m sigma;
          c = m_cos m sigma;
          c2 = m_cos m (dadd m BAZ sigma);
          E = dsub m (dmul m (dmul m c2 c2) 2) 1;
          X = dmul m E c;
          S = dsub m (dadd m E E) 1;
          p = ddiv m (dmul m (dmul m (dmul m (dsub m (dmul m (dmul m s s) 4) 3) S) c2) D) 6
      in (dadd m (dmul m (dmul m (dsub m (ddiv m (dmul m (dadd m p X) D) 4) c2) s) D) tanU1,
          \<lparr>t_sinSigma = s, t_cosSigma = c, t_cos2Sigmam = c2, t_E = E\<rparr>))"

text \<open>\<open>ctr\<close> is never changed: the loop is bounded by the fuel alone, or does not run at all.\<close>

fun direct_loop ::
  "nat \<Rightarrow> 'a cmath_scheme \<Rightarrow> int \<Rightarrow> real \<Rightarrow> real \<Rightarrow> real \<Rightarrow> real \<Rightarrow> real \<Rightarrow> turn_vars option \<Rightarrow> (real \<times> turn_vars) outcome" where
  "direct_loop fuel m ctr BAZ D tanU1 sigma Sigma_minus_C vars =
     (if \<bar>Sigma_minus_C\<bar> > db m (1 / 10 ^ 12) \<and> ctr < 100 then
        (case fuel of
           0 \<Rightarrow> Unfinished
         | Suc fuel \<Rightarrow>
             (case direct_step m BAZ D tanU1 sigma of
                (sigma', vars) \<Rightarrow>
                  direct_loop fuel m ctr BAZ D tanU1 sigma' (dsub m sigma' sigma) (Some vars)))
      else (case vars of None \<Rightarrow> Uninitialised | Some vars \<Rightarrow> Computed (sigma, vars)))"

declare direct_loop.simps [simp del]

text \<open>The wrap of the longitude at the end of \<open>invvincenty\<close>.\<close>

definition wrap_longitude :: "'a cmath_scheme \<Rightarrow> real \<Rightarrow> real" where
  "wrap_longitude m lon =
     (let r = fmod lon 360;
          r = (if r < 0 then dadd m r 360 else r)
      in if r > 180 then dsub m r 360 else r)"

text \<open>Everything after the loop: the outputs are latitude, longitude and the bearing az_back.\<close>

definition destination ::
  "'a cmath_scheme \<Rightarrow> real \<Rightarrow> real \<Rightarrow> real \<Rightarrow> real \<Rightarrow> real \<Rightarrow> real \<Rightarrow> real \<Rightarrow> real \<Rightarrow> turn_vars \<Rightarrow> real \<times> real \<times> real" where
  "destination m CB_flatten lon1_rad sinU1 cosU1 sinFAZ cosFAZ sinAlpha sigma v =
     (let s = t_sinSigma v; c = t_cosSigma v;
          cos2alpha = dadd m (dmul m (- sinAlpha) sinAlpha) 1;
          num = dadd m (dmul m sinU1 c) (dmul m (dmul m cosU1 s) cosFAZ);
          BAZ = dsub m (dmul m sinU1 s) (dmul m (dmul m cosU1 c) cosFAZ);
          den = dmul m (dsub m 1 CB_flatten) (m_sqrt m (dadd m (dmul m sinAlpha sinAlpha) (dmul m BAZ BAZ)));
          X = m_atan2 m (dmul m s sinFAZ) (dsub m (dmul m cosU1 c) (dmul m (dmul m sinU1 s) cosFAZ));
          C = curvature m CB_flatten cos2alpha;
          D = dmul m (dadd m (dmul m (dmul m (dadd m (dmul m (dmul m (t_E v) c) C) (t_cos2Sigmam v)) s) C) sigma) sinAlpha
      in (times_R2D m (m_atan2 m num den),
          wrap_longitude m (times_R2D m (dsub m (dadd m lon1_rad X) (dmul m (dmul m (dsub m 1 C) D) CB_flatten))),
          wrap360 m (dadd m (times_R2D m (m_atan2 m sinAlpha (- BAZ))) 180)))"

definition invvincenty ::
  "nat \<Rightarrow> 'a cmath_scheme \<Rightarrow> int \<Rightarrow> real \<Rightarrow> real \<Rightarrow> real \<Rightarrow> real \<Rightarrow> real \<Rightarrow> real \<Rightarrow> (real \<times> real \<times> real) outcome" where
  "invvincenty fuel m ctr latitude1_deg longitude1_deg azimuth1_deg way CB_a CB_flatten =
     (case CheckLatLon m latitude1_deg longitude1_deg of
        (lat1_deg, lon1_deg) \<Rightarrow>
          (let FAZ = times_D2R m azimuth1_deg;
               g = dsub m 1 CB_flatten;
               tanU1 = dmul m g (m_tan m (times_D2R m lat1_deg));
               sinFAZ = m_sin m FAZ;
               cosFAZ = m_cos m FAZ;
               BAZ = (if cosFAZ \<noteq> 0 then dmul m 2 (m_atan2 m tanU1 cosFAZ) else 0);
               cosU1 = ddiv m 1 (m_sqrt m (dadd m (dmul m tanU1 tanU1) 1));
               sinU1 = dmul m tanU1 cosU1;
               sinAlpha = dmul m cosU1 sinFAZ;
               cos2alpha = dadd m (dmul m (- sinAlpha) sinAlpha) 1;
               sq = dadd m (dmul m (dsub m (ddiv m (ddiv m 1 g) g) 1) cos2alpha) 1;
               X = dadd m (m_sqrt m sq) 1;
               X = ddiv m (dsub m X 2) X;
               C = dsub m 1 X;
               C' = ddiv m (dadd m (ddiv m (dmul m X X) 4) 1) C;
               D = dmul m (dsub m (dmul m (dmul m (3 / 8) X) X) 1) X;
               arc = ddiv m (ddiv m (ddiv m way g) CB_a) C'
           in if g = 0 \<or> CB_a = 0 \<or> sq < 0 \<or> C = 0 then Not_a_number
              else (case direct_loop fuel m ctr BAZ D arc arc 1 None of
                      Computed (sigma, v) \<Rightarrow>
                        Computed (destination m CB_flatten (times_D2R m lon1_deg) sinU1 cosU1 sinFAZ cosFAZ sinAlpha sigma v)
                    | Not_a_number \<Rightarrow> Not_a_number
                    | Uninitialised \<Rightarrow> Uninitialised
                    | Unfinished \<Rightarrow> Unfinished)))"

section \<open>Angles\<close>

lemma fmod_small: "\<bar>x\<bar> < 360 \<Longrightarrow> fmod x 360 = x"
  using trunc_zero [of "x / 360"] by (simp add: fmod_def)

lemma trunc_near: "\<bar>x - of_int (trunc x)\<bar> < 1" "0 \<le> x \<Longrightarrow> of_int (trunc x) \<le> x" "x \<le> 0 \<Longrightarrow> x \<le> of_int (trunc x)"
  unfolding trunc_def by (auto simp: abs_if; linarith)+

lemma fmod_range: "\<bar>fmod x 360\<bar> < 360"
proof -
  have "fmod x 360 = (x / 360 - of_int (trunc (x / 360))) * 360" by (simp add: fmod_def algebra_simps)
  then show ?thesis using trunc_near(1) [of "x / 360"] by (simp add: abs_mult)
qed

definition same_direction :: "real \<Rightarrow> real \<Rightarrow> bool" where
  "same_direction x y \<longleftrightarrow> sin (x * pi / 180) = sin (y * pi / 180) \<and> cos (x * pi / 180) = cos (y * pi / 180)"

lemma same_direction_turns: "same_direction (x + 360 * of_int k) x"
proof -
  have "(x + 360 * of_int k) * pi / 180 = x * pi / 180 + 2 * pi * of_int k" by (simp add: field_simps)
  then show ?thesis unfolding same_direction_def by (simp only:) (simp add: sin_add cos_add sin_int_2pin cos_int_2pin)
qed

lemma fmod_direction: "same_direction (fmod x 360 + 360 * of_int k) x"
  using same_direction_turns [of x "k - trunc (x / 360)"] by (simp add: fmod_def algebra_simps)

lemma wrap360_exact: "0 \<le> wrap360 exact x \<and> wrap360 exact x < 360 \<and> same_direction (wrap360 exact x) x"
  using fmod_range [of x] fmod_direction [of x 0] fmod_direction [of x 1] by (auto simp: wrap360_def Let_def)

lemma wrap_longitude_exact:
  "-180 < wrap_longitude exact x \<and> wrap_longitude exact x \<le> 180 \<and> same_direction (wrap_longitude exact x) x"
  using fmod_range [of x] fmod_direction [of x 0] fmod_direction [of x 1] fmod_direction [of x "-1"]
  by (auto simp: wrap_longitude_def Let_def)

lemma same_direction_unique:
  assumes "same_direction x y" "0 \<le> x" "x < 360" "0 \<le> y" "y < 360"
  shows "x = y"
proof -
  obtain n :: int where "x * pi / 180 = y * pi / 180 + 2 * pi * of_int n"
    using assms(1) sin_cos_eq_iff [of "x * pi / 180" "y * pi / 180"] by (auto simp: same_direction_def)
  then have "(x - y - 360 * of_int n) * pi = 0" by (simp add: field_simps)
  then have x: "x = y + 360 * of_int n" by simp
  with assms(2-) have "-1 < (of_int n :: real)" "(of_int n :: real) < 1" by linarith+
  then have "n = 0" by linarith
  with x show ?thesis by simp
qed

lemma arctan2_polar_inverse:
  "sqrt (x * x + y * y) * sin (arctan2 y x) = y" "sqrt (x * x + y * y) * cos (arctan2 y x) = x"
proof -
  have "rcis (cmod (Complex x y)) (arctan2 y x) = Complex x y" by (simp add: arctan2_def rcis_cmod_Arg)
  then show "sqrt (x * x + y * y) * sin (arctan2 y x) = y" "sqrt (x * x + y * y) * cos (arctan2 y x) = x"
    by (simp_all add: rcis_def complex_eq_iff cmod_def power2_eq_square)
qed

lemma CheckLatLon_in_range:
  assumes "\<bar>lat\<bar> < 90" "\<bar>lon\<bar> \<le> 180"
  shows "CheckLatLon exact lat lon = (lat, lon)"
proof -
  have "\<bar>lat * pi / 180\<bar> < pi / 2" using assms(1) by (simp add: abs_mult)
  then have r: "- (pi / 2) < lat * pi / 180" "lat * pi / 180 < pi / 2" by linarith+
  then have "0 < cos (lat * pi / 180)" "arcsin (sin (lat * pi / 180)) = lat * pi / 180"
    by (simp_all add: cos_gt_zero_pi arcsin_sin)
  moreover have "fmod lat 360 = lat" "fmod lon 360 = lon" using assms by (simp_all add: fmod_small)
  ultimately show ?thesis using assms(2) by (simp add: CheckLatLon_def Let_def sign_def)
qed

section \<open>The sphere\<close>

text \<open>East and north components of the direction from a point at latitude \<open>f\<close> to one at \<open>g\<close>, the angle \<open>l\<close> apart in longitude.\<close>

definition eastward :: "real \<Rightarrow> real \<Rightarrow> real" where
  "eastward g l = cos g * sin l"

definition northward :: "real \<Rightarrow> real \<Rightarrow> real \<Rightarrow> real" where
  "northward f g l = cos f * sin g - sin f * cos g * cos l"

definition along :: "real \<Rightarrow> real \<Rightarrow> real \<Rightarrow> real" where
  "along f g l = sin f * sin g + cos f * cos g * cos l"

lemma direction_unit:
  "eastward g l * eastward g l + northward f g l * northward f g l + along f g l * along f g l = 1"
  unfolding eastward_def northward_def along_def using sin_sq [of f] sin_sq [of g] sin_sq [of l] by algebra

definition across :: "real \<Rightarrow> real \<Rightarrow> real \<Rightarrow> real" where
  "across f g l = sqrt (eastward g l * eastward g l + northward f g l * northward f g l)"

lemma across_sq: "across f g l * across f g l = eastward g l * eastward g l + northward f g l * northward f g l"
  by (simp add: across_def)

lemma across_arc:
  assumes "across f g l \<noteq> 0"
  shows "0 < arctan2 (across f g l) (along f g l)" "arctan2 (across f g l) (along f g l) < pi"
    "sin (arctan2 (across f g l) (along f g l)) = across f g l" "cos (arctan2 (across f g l) (along f g l)) = along f g l"
proof -
  let ?a = "arctan2 (across f g l) (along f g l)"
  have unit: "along f g l * along f g l + across f g l * across f g l = 1"
    using direction_unit [of g l f] by (simp add: across_sq)
  show s: "sin ?a = across f g l" and "cos ?a = along f g l"
    using arctan2_polar_inverse [of "along f g l" "across f g l"] unit by simp_all
  have pos: "0 < across f g l" using assms by (simp add: across_def order_less_le)
  have b: "- pi < ?a" "?a \<le> pi" by (simp_all add: arctan2_def Arg_bounded)
  show "0 < ?a"
  proof (rule ccontr)
    assume "\<not> 0 < ?a"
    then have "0 \<le> sin (- ?a)" using b by (intro sin_ge_zero) auto
    with s pos show False by simp
  qed
  show "?a < pi" using b s pos by (cases "?a = pi") auto
qed

text \<open>Two points away from each other, from their antipodes and not both on the equator.\<close>

lemma sin_zero_near: "\<bar>x\<bar> < pi \<Longrightarrow> sin x = 0 \<Longrightarrow> x = 0"
  using sin_eq_0_pi [of x] by linarith

lemma across_nonzero:
  assumes "\<bar>f\<bar> < pi / 2" "\<bar>g\<bar> < pi / 2" "\<bar>l\<bar> < 2 * pi" "\<not> (g = f \<and> l = 0)" "\<not> (g = - f \<and> \<bar>l\<bar> = pi)"
  shows "across f g l \<noteq> 0"
proof
  assume "across f g l = 0"
  then have z: "eastward g l = 0" "northward f g l = 0" by (simp_all add: across_def sum_squares_eq_zero_iff)
  have "0 < cos g" using assms(2) by (intro cos_gt_zero_pi) linarith+
  with z(1) have "sin l = 0" by (simp add: eastward_def)
  then obtain i :: int where l: "l = of_int i * pi" by (auto simp: sin_zero_iff_int2)
  with assms(3) have "\<bar>i\<bar> < 2" by (simp add: abs_mult)
  then have "i = 0 \<or> i = 1 \<or> i = - 1" by linarith
  then show False
  proof (elim disjE)
    assume i: "i = 0"
    have "northward f g l = sin (g - f)" by (simp add: l i northward_def sin_diff mult.commute)
    with z(2) have "sin (g - f) = 0" by linarith
    moreover have "\<bar>g - f\<bar> < pi" using assms(1,2) by linarith
    ultimately have "g - f = 0" by (rule sin_zero_near [rotated])
    moreover have "l = 0" by (simp add: l i)
    ultimately show False using assms(4) by linarith
  next
    assume i: "i = 1"
    have "northward f g l = sin (g + f)" by (simp add: l i northward_def sin_add mult.commute)
    with z(2) have "sin (g + f) = 0" by linarith
    moreover have "\<bar>g + f\<bar> < pi" using assms(1,2) by linarith
    ultimately have "g + f = 0" by (rule sin_zero_near [rotated])
    moreover have "\<bar>l\<bar> = pi" by (simp add: l i)
    ultimately show False using assms(5) by linarith
  next
    assume i: "i = - 1"
    have "northward f g l = sin (g + f)" by (simp add: l i northward_def sin_add mult.commute)
    with z(2) have "sin (g + f) = 0" by linarith
    moreover have "\<bar>g + f\<bar> < pi" using assms(1,2) by linarith
    ultimately have "g + f = 0" by (rule sin_zero_near [rotated])
    moreover have "\<bar>l\<bar> = pi" by (simp add: l i)
    ultimately show False using assms(5) by linarith
  qed
qed

lemma bearing_ratio:
  assumes "\<bar>f\<bar> < pi / 2" "\<bar>g\<bar> < pi / 2" "f \<noteq> 0 \<or> g \<noteq> 0" "across f g l \<noteq> 0"
  shows "\<bar>cos f * cos g * sin l / across f g l\<bar> < 1"
proof -
  let ?e = "eastward g l" and ?n = "northward f g l"
  have cf: "0 < cos f" "cos f \<le> 1" using assms(1) by (auto intro: cos_gt_zero_pi)
  have pos: "0 < across f g l" using assms(4) by (simp add: across_def order_less_le)
  have "(cos f * ?e) * (cos f * ?e) < across f g l * across f g l"
  proof (cases "f = 0")
    case True
    with assms(3) have "g \<noteq> 0" by simp
    then have "sin g \<noteq> 0" using assms(2) sin_zero_near [of g] by linarith
    then show ?thesis using True by (simp add: across_sq northward_def zero_less_mult_iff) linarith
  next
    case False
    have "cos f \<noteq> 1"
    proof
      assume "cos f = 1"
      then have "sin f = 0" using sin_sq [of f] by simp
      then show False using False assms(1) sin_zero_near [of f] by linarith
    qed
    then have "cos f < 1" using cos_le_one [of f] by linarith
    with cf have lt: "cos f * cos f < 1" using mult_strict_mono [of "cos f" 1 "cos f" 1] by simp
    show ?thesis
    proof (cases "?e = 0")
      case True
      then show ?thesis using pos by simp
    next
      case False
      then have "0 < ?e * ?e" by (simp add: zero_less_mult_iff neq_iff disj_commute)
      then have "cos f * cos f * (?e * ?e) < 1 * (?e * ?e)" using lt by (intro mult_strict_right_mono)
      moreover have "?e * ?e \<le> across f g l * across f g l" by (simp add: across_sq)
      ultimately show ?thesis by (simp add: ac_simps)
    qed
  qed
  then have "\<bar>cos f * ?e\<bar> < across f g l"
    using pos by (rule_tac power2_less_imp_less) (simp_all add: power2_eq_square)
  then show ?thesis using pos by (simp add: eastward_def abs_mult ac_simps)
qed

section \<open>The great circle\<close>

definition rad :: "real \<Rightarrow> real" where
  "rad x = x * pi / 180"

lemma rad_bounds:
  "\<bar>x\<bar> < 90 \<Longrightarrow> \<bar>rad x\<bar> < pi / 2" "\<bar>x\<bar> \<le> 359 \<Longrightarrow> \<bar>rad x\<bar> < 2 * pi" "rad x = rad y \<longleftrightarrow> x = y"
  "rad (- x) = - rad x" "rad (x - y) = rad x - rad y" "rad x = 0 \<longleftrightarrow> x = 0" "\<bar>rad x\<bar> = pi \<longleftrightarrow> \<bar>x\<bar> = 180"
proof -
  show "\<bar>x\<bar> < 90 \<Longrightarrow> \<bar>rad x\<bar> < pi / 2" by (simp add: rad_def abs_mult)
  assume "\<bar>x\<bar> \<le> 359"
  then have "\<bar>x\<bar> * pi \<le> 359 * pi" by (intro mult_right_mono) simp_all
  moreover have "359 * pi < 360 * pi" by simp
  ultimately have "\<bar>x\<bar> * pi < 360 * pi" by linarith
  then show "\<bar>rad x\<bar> < 2 * pi" by (simp add: rad_def abs_mult)
next
  show "rad x = rad y \<longleftrightarrow> x = y" "rad (- x) = - rad x" "rad (x - y) = rad x - rad y" "rad x = 0 \<longleftrightarrow> x = 0"
    by (simp_all add: rad_def diff_divide_distrib left_diff_distrib)
  have "\<bar>rad x\<bar> * 180 = \<bar>x\<bar> * pi" by (simp add: rad_def abs_mult)
  then have "\<bar>rad x\<bar> = pi \<longleftrightarrow> 180 * pi = \<bar>x\<bar> * pi" by linarith
  then show "\<bar>rad x\<bar> = pi \<longleftrightarrow> \<bar>x\<bar> = 180" by auto
qed

definition reduced_of :: "real \<Rightarrow> real \<Rightarrow> reduced" where
  "reduced_of f g = \<lparr>r_sinU1 = sin f, r_cosU1 = cos f, r_sinU2 = sin g, r_cosU2 = cos g\<rparr>"

lemma curvature_sphere [simp]: "curvature exact 0 x = 0"
  by (simp add: curvature_def)

lemma cos_arcsin_pos:
  assumes "\<bar>x\<bar> < 1"
  shows "0 < cos (arcsin x)"
  using assms arcsin_lt_bounded [of x] by (intro cos_gt_zero_pi) (simp_all add: abs_less_iff)

lemma sphere_step:
  assumes "\<bar>f\<bar> < pi / 2" "\<bar>g\<bar> < pi / 2" "f \<noteq> 0 \<or> g \<noteq> 0" "across f g l \<noteq> 0"
  shows "\<exists>v. vincenty_step exact 0 l (reduced_of f g) l = Some (l, v) \<and> v_sig v = arctan2 (across f g l) (along f g l)"
proof -
  note r = bearing_ratio [OF assms]
  then have bounds: "\<not> cos f * cos g * sin l / across f g l < - 1" "\<not> 1 < cos f * cos g * sin l / across f g l"
    by linarith+
  have c: "cos (arcsin (cos f * cos g * sin l / across f g l)) \<noteq> 0" using cos_arcsin_pos [OF r] by simp
  have s: "sqrt (cos g * sin l * (cos g * sin l) + northing exact (reduced_of f g) (cos l) * northing exact (reduced_of f g) (cos l))
      = across f g l"
    by (simp add: across_def eastward_def northward_def northing_def reduced_of_def)
  have a: "sin f * sin g + cos f * cos g * cos l = along f g l" by (simp add: along_def)
  have nz: "cos g * sin l * (cos g * sin l) + northing exact (reduced_of f g) (cos l) * northing exact (reduced_of f g) (cos l) \<noteq> 0"
    using s assms(4) by (metis real_sqrt_zero)
  show ?thesis
    using s nz bounds c assms(4) by (simp add: vincenty_step_def Let_def reduced_of_def a)
qed

lemma sphere_loop:
  assumes "\<bar>f\<bar> < pi / 2" "\<bar>g\<bar> < pi / 2" "f \<noteq> 0 \<or> g \<noteq> 0" "across f g l \<noteq> 0" "\<bar>l - 2 * pi\<bar> > 1 / 10 ^ 12"
  shows "\<exists>v. vincenty_loop 20 exact 0 l (reduced_of f g) l (2 * pi) None = Computed (l, v)
    \<and> v_sig v = arctan2 (across f g l) (along f g l)"
proof -
  obtain v where v: "vincenty_step exact 0 l (reduced_of f g) l = Some (l, v)"
    and sig: "v_sig v = arctan2 (across f g l) (along f g l)"
    using sphere_step [OF assms(1-4)] by blast
  have [simp]: "db exact x = x" for x by (simp add: exact_def)
  have "vincenty_loop 19 exact 0 l (reduced_of f g) l l (Some v) = Computed (l, v)"
    by (subst vincenty_loop.simps) simp
  then have "vincenty_loop 20 exact 0 l (reduced_of f g) l (2 * pi) None = Computed (l, v)"
    using assms(5) v by (subst vincenty_loop.simps) simp
  with sig show ?thesis by blast
qed

lemma sphere_length:
  assumes "a \<noteq> 0"
  shows "arc_length exact a a v = a * v_sig v"
  using assms by (simp add: arc_length_def Let_def)

lemma vincenty_great_circle:
  fixes lat1 lat2 lon1 lon2 :: real
  assumes "\<bar>lat1\<bar> < 90" "\<bar>lat2\<bar> < 90" "\<bar>lon1\<bar> \<le> 180" "\<bar>lon2\<bar> \<le> 180" "\<bar>lon2 - lon1\<bar> \<le> 359"
    and "lat1 \<noteq> 0 \<or> lat2 \<noteq> 0" "0 < a" and nz: "across (rad lat1) (rad lat2) (rad (lon2 - lon1)) \<noteq> 0"
  defines "f \<equiv> rad lat1" and "g \<equiv> rad lat2" and "l \<equiv> rad (lon2 - lon1)"
  shows "vincenty exact lat1 lon1 lat2 lon2 a 0 =
    Computed (a * arctan2 (across f g l) (along f g l),
      wrap360 exact (arctan2 (eastward g l) (northward f g l) * 180 / pi),
      wrap360 exact (arctan2 (cos f * sin l) (- sin f * cos g + cos f * sin g * cos l) * 180 / pi))"
proof -
  have fg: "\<bar>f\<bar> < pi / 2" "\<bar>g\<bar> < pi / 2" "f \<noteq> 0 \<or> g \<noteq> 0" and nz: "across f g l \<noteq> 0"
    using assms(1,2,6) nz rad_bounds(1) [of lat1] rad_bounds(1) [of lat2] by (simp_all add: f_def g_def l_def rad_bounds(6))
  have u: "\<lparr>r_sinU1 = sin (arctan (tan f)), r_cosU1 = cos (arctan (tan f)), r_sinU2 = sin (arctan (tan g)),
      r_cosU2 = cos (arctan (tan g))\<rparr> = reduced_of f g"
    using fg(1,2) by (simp add: reduced_of_def arctan_tan abs_less_iff)
  have apart: "\<not> (lat2 - lat1 = 0 \<and> lon2 - lon1 = 0)"
  proof
    assume "lat2 - lat1 = 0 \<and> lon2 - lon1 = 0"
    then have "g = f" "l = 0" by (simp_all add: f_def g_def l_def rad_def)
    then show False using nz by (simp add: across_def eastward_def northward_def)
  qed
  have "l \<le> 359 / 180 * pi"
  proof -
    have "(lon2 - lon1) * pi \<le> 359 * pi" using assms(5) by (intro mult_right_mono) simp_all
    then show ?thesis by (simp add: l_def rad_def)
  qed
  then have gap: "\<bar>l - 2 * pi\<bar> > 1 / 10 ^ 12" using pi_ge_two by simp
  obtain v where v: "vincenty_loop 20 exact 0 l (reduced_of f g) l (2 * pi) None = Computed (l, v)"
    and sig: "v_sig v = arctan2 (across f g l) (along f g l)"
    using sphere_loop [OF fg nz gap] by blast
  have deg: "lon2 * pi / 180 - lon1 * pi / 180 = l" "lat1 * pi / 180 = f" "lat2 * pi / 180 = g"
    by (simp_all add: l_def f_def g_def rad_bounds) (simp_all add: rad_def)
  have "(lat2 - lat1 = 0 \<and> lon2 - lon1 = 0) = False" using apart by simp
  with v sig assms(7) show ?thesis unfolding vincenty_def
    by (simp add: CheckLatLon_in_range assms(1-4) deg u sphere_length)
      (auto simp: northing_def reduced_of_def eastward_def northward_def Let_def)
qed

text \<open>
  C22. \<open>vincenty\<close> without flattening, in exact arithmetic, is the great circle: the distance is the
  radius times the central angle of the two points, and the first bearing, between 0 and 360
  degrees, points along the circle. Outside are the points where the code divides by zero
  (both on the equator, or antipodes) and longitudes almost a full turn apart.
\<close>
theorem vincenty_sphere:
  assumes "\<bar>lat1\<bar> < 90" "\<bar>lat2\<bar> < 90" "\<bar>lon1\<bar> \<le> 180" "\<bar>lon2\<bar> \<le> 180" "\<bar>lon2 - lon1\<bar> \<le> 359"
    and "lat1 \<noteq> 0 \<or> lat2 \<noteq> 0" "0 < a" "\<not> (lat2 = lat1 \<and> lon2 = lon1)" "\<not> (lat2 = - lat1 \<and> \<bar>lon2 - lon1\<bar> = 180)"
  shows "\<exists>arc az1 az2. vincenty exact lat1 lon1 lat2 lon2 a 0 = Computed (a * arc, az1, az2)
    \<and> 0 < arc \<and> arc < pi
    \<and> cos arc = sin (rad lat1) * sin (rad lat2) + cos (rad lat1) * cos (rad lat2) * cos (rad (lon2 - lon1))
    \<and> 0 \<le> az1 \<and> az1 < 360 \<and> 0 \<le> az2 \<and> az2 < 360
    \<and> sin arc * sin (rad az1) = cos (rad lat2) * sin (rad (lon2 - lon1))
    \<and> sin arc * cos (rad az1) = cos (rad lat1) * sin (rad lat2) - sin (rad lat1) * cos (rad lat2) * cos (rad (lon2 - lon1))"
proof -
  define f g l where fgl: "f = rad lat1" "g = rad lat2" "l = rad (lon2 - lon1)"
  have b: "\<bar>f\<bar> < pi / 2" "\<bar>g\<bar> < pi / 2" "\<bar>l\<bar> < 2 * pi" "\<not> (g = f \<and> l = 0)" "\<not> (g = - f \<and> \<bar>l\<bar> = pi)"
    using assms(8,9) rad_bounds(1) [OF assms(1)] rad_bounds(1) [OF assms(2)] rad_bounds(2) [OF assms(5)]
    unfolding fgl rad_bounds(7) by (auto simp: rad_bounds(3,6) simp flip: rad_bounds(4))
  note nz = across_nonzero [OF b]
  note arc = across_arc [OF nz]
  let ?az = "arctan2 (eastward g l) (northward f g l) * 180 / pi"
  have "same_direction (wrap360 exact ?az) ?az" using wrap360_exact by blast
  then have "sin (rad (wrap360 exact ?az)) = sin (arctan2 (eastward g l) (northward f g l))"
    "cos (rad (wrap360 exact ?az)) = cos (arctan2 (eastward g l) (northward f g l))"
    by (simp_all add: same_direction_def rad_def)
  then have "across f g l * sin (rad (wrap360 exact ?az)) = eastward g l"
    "across f g l * cos (rad (wrap360 exact ?az)) = northward f g l"
    using arctan2_polar_inverse [of "northward f g l" "eastward g l"] by (simp_all add: across_def add.commute)
  with arc vincenty_great_circle [OF assms(1-7), folded fgl, OF nz] show ?thesis
    unfolding fgl [symmetric] using wrap360_exact
    by (intro exI conjI) (auto simp: along_def eastward_def northward_def)
qed

lemma vincenty_sphere_witness:
  "\<exists>arc az1 az2. vincenty exact 45 0 45 90 6378137 0 = Computed (6378137 * arc, az1, az2) \<and> cos arc = 1 / 2"
  using vincenty_sphere [of 45 45 0 90 6378137]
  by (auto simp: rad_def sin_45 cos_45)

section \<open>The way back\<close>

lemma direct_step_sphere:
  "direct_step exact BAZ 0 t s = (t, \<lparr>t_sinSigma = sin s, t_cosSigma = cos s,
     t_cos2Sigmam = cos (BAZ + s), t_E = 2 * cos (BAZ + s) * cos (BAZ + s) - 1\<rparr>)"
  by (simp add: direct_step_def Let_def)

lemma direct_loop_sphere:
  assumes "ctr < 100"
  shows "direct_loop (Suc fuel) exact ctr BAZ 0 t t 1 None =
    Computed (t, \<lparr>t_sinSigma = sin t, t_cosSigma = cos t, t_cos2Sigmam = cos (BAZ + t),
      t_E = 2 * cos (BAZ + t) * cos (BAZ + t) - 1\<rparr>)"
proof -
  have [simp]: "db exact x = x" for x by (simp add: exact_def)
  have "direct_loop fuel exact ctr BAZ 0 t t 0 (Some v) = Computed (t, v)" for v
    by (subst direct_loop.simps) simp
  then show ?thesis using assms by (subst direct_loop.simps) (simp add: direct_step_sphere)
qed

lemma tan_cos: "\<bar>f\<bar> < pi / 2 \<Longrightarrow> sqrt (tan f * tan f + 1) = 1 / cos f"
proof -
  assume "\<bar>f\<bar> < pi / 2"
  then have c: "0 < cos f" by (intro cos_gt_zero_pi) linarith+
  then have "tan f * tan f + 1 = (1 / cos f)\<^sup>2" using sin_sq [of f] by (simp add: tan_def field_simps power2_eq_square)
  then show ?thesis using c by simp
qed

text \<open>On a sphere, the destination by the angle \<open>s\<close> and the bearing \<open>z\<close>.\<close>

lemma invvincenty_great_circle:
  fixes lat1 lon1 az d a :: real
  assumes "\<bar>lat1\<bar> < 90" "\<bar>lon1\<bar> \<le> 180" "0 < a" "ctr < 100"
  defines "f \<equiv> rad lat1" and "z \<equiv> rad az" and "s \<equiv> d / a"
  defines "x \<equiv> cos f * cos s - sin f * sin s * cos z" and "h \<equiv> sin f * cos s + cos f * sin s * cos z"
  shows "\<exists>az_back. invvincenty (Suc fuel) exact ctr lat1 lon1 az d a 0 = Computed
    (arctan2 h (sqrt (x * x + (sin s * sin z) * (sin s * sin z))) * 180 / pi,
     wrap_longitude exact ((rad lon1 + arctan2 (sin s * sin z) x) * 180 / pi), az_back)"
proof -
  have f: "\<bar>f\<bar> < pi / 2" using rad_bounds(1) [OF assms(1)] by (simp add: f_def)
  have cf: "0 < cos f" using f by (intro cos_gt_zero_pi) linarith+
  have t: "tan f * cos f = sin f" using cf by (simp add: tan_def)
  have den: "sin z * cos f * (sin z * cos f) + (sin f * sin s - cos f * cos s * cos z) * (sin f * sin s - cos f * cos s * cos z)
      = x * x + (sin s * sin z) * (sin s * sin z)"
    unfolding x_def using sin_sq [of f] sin_sq [of s] sin_sq [of z] by algebra
  have deg: "lat1 * pi / 180 = f" "az * pi / 180 = z" "lon1 * pi / 180 = rad lon1"
    by (simp_all add: f_def z_def rad_def)
  show ?thesis
    unfolding invvincenty_def using assms(3,4)
    by (simp add: CheckLatLon_in_range assms(1,2) deg tan_cos [OF f] t direct_loop_sphere Let_def s_def [symmetric]
          split del: if_split)
      (simp add: destination_def Let_def den x_def [symmetric] h_def [symmetric] split del: if_split)
qed

lemma destination_seen_back:
  fixes f s z h x y g l :: real
  assumes "h = sin f * cos s + cos f * sin s * cos z" "x = cos f * cos s - sin f * sin s * cos z"
    and "y = sin s * sin z" "sin g = h" "cos g * sin l = y" "cos g * cos l = x" "0 < s" "s < pi"
  shows "eastward g l = sin s * sin z" "northward f g l = sin s * cos z" "along f g l = cos s" "across f g l = sin s"
proof -
  have c: "cos g * cos l * sin f = x * sin f" "cos g * cos l * cos f = x * cos f" by (simp_all add: assms(6))
  show e: "eastward g l = sin s * sin z" using assms by (simp add: eastward_def)
  have "northward f g l = cos f * h - sin f * x"
    using c by (simp add: northward_def assms(4) ac_simps)
  also have "\<dots> = sin s * cos z" unfolding assms(1,2) using sin_sq [of f] by algebra
  finally show n: "northward f g l = sin s * cos z" .
  have "along f g l = sin f * h + cos f * x" using c by (simp add: along_def assms(4) ac_simps)
  also have "\<dots> = cos s" unfolding assms(1,2) using sin_sq [of f] by algebra
  finally show "along f g l = cos s" .
  have "sin s * sin z * (sin s * sin z) + sin s * cos z * (sin s * cos z) = (sin s)\<^sup>2"
    using sin_sq [of z] by algebra
  moreover have "0 < sin s" using assms(7,8) by (rule sin_gt_zero)
  ultimately show "across f g l = sin s" by (simp add: across_def e n)
qed

lemma rad_degrees [simp]: "rad (x * 180 / pi) = x"
  by (simp add: rad_def)

lemma same_direction_rad: "same_direction x y \<longleftrightarrow> sin (rad x) = sin (rad y) \<and> cos (rad x) = cos (rad y)"
  by (simp add: same_direction_def rad_def)

text \<open>
  C21. On a sphere, in exact arithmetic, the two routines are inverse: \<open>vincenty\<close> finds between a
  point and the point that \<open>invvincenty\<close> reaches from it the distance, below half the
  circumference, and the bearing that \<open>invvincenty\<close> was given. This needs luck with the counter
  that \<open>invvincenty\<close> leaves uninitialised: from 100 on its loop does not run, and every output is
  computed from variables that were never assigned.
\<close>
theorem geodesic_round_trip:
  assumes "\<bar>lat1\<bar> < 90" "lat1 \<noteq> 0" "\<bar>lon1\<bar> \<le> 180" "0 < a" "0 < d" "d < pi * a"
    and "invvincenty (Suc fuel) exact ctr lat1 lon1 az d a 0 = outcome"
    and "\<And>lat2 lon2 az_back. outcome = Computed (lat2, lon2, az_back) \<Longrightarrow> \<bar>lat2\<bar> < 90 \<and> \<bar>lon2 - lon1\<bar> \<le> 359"
  shows "if ctr < 100
    then \<exists>lat2 lon2 az_back az1 az2. outcome = Computed (lat2, lon2, az_back)
      \<and> vincenty exact lat1 lon1 lat2 lon2 a 0 = Computed (d, az1, az2) \<and> (0 \<le> az \<and> az < 360 \<longrightarrow> az1 = az)
    else outcome = Uninitialised"
proof (cases "ctr < 100")
  case False
  then show ?thesis using assms(4,7)
    by (auto simp: invvincenty_def Let_def direct_loop.simps [of "Suc fuel"] split del: if_split split: prod.split)
next
  case True
  define f z s where fzs: "f = rad lat1" "z = rad az" "s = d / a"
  define x y h where xyh: "x = cos f * cos s - sin f * sin s * cos z" "y = sin s * sin z"
    "h = sin f * cos s + cos f * sin s * cos z"
  define lat2 lon2 where there: "lat2 = arctan2 h (sqrt (x * x + y * y)) * 180 / pi"
    "lon2 = wrap_longitude exact ((rad lon1 + arctan2 y x) * 180 / pi)"
  obtain az_back where out: "outcome = Computed (lat2, lon2, az_back)"
    using invvincenty_great_circle [OF assms(1,3,4) True, of fuel az d] assms(7)
    unfolding there xyh fzs by auto
  note range = assms(8) [OF out]
  have s: "0 < s" "s < pi" using assms(4-6) by (simp_all add: fzs field_simps)
  have "h * h + (x * x + y * y) = 1"
    unfolding xyh using sin_sq [of f] sin_sq [of s] sin_sq [of z] by algebra
  moreover have g: "rad lat2 = arctan2 h (sqrt (x * x + y * y))" by (simp add: there rad_def)
  ultimately have sg: "sin (rad lat2) = h" and cg: "cos (rad lat2) = sqrt (x * x + y * y)"
    using arctan2_polar_inverse [of "sqrt (x * x + y * y)" h] by (simp_all add: add.commute)
  have "sin (rad lon2) = sin (rad lon1 + arctan2 y x)" "cos (rad lon2) = cos (rad lon1 + arctan2 y x)"
    using wrap_longitude_exact [of "(rad lon1 + arctan2 y x) * 180 / pi"] unfolding there same_direction_rad rad_degrees by blast+
  then have "sin (rad (lon2 - lon1)) = sin (rad lon1 + arctan2 y x - rad lon1)"
    "cos (rad (lon2 - lon1)) = cos (rad lon1 + arctan2 y x - rad lon1)"
    unfolding rad_bounds(5) sin_diff [of "rad lon2"] cos_diff [of "rad lon2"] sin_diff [of "rad lon1 + arctan2 y x"]
      cos_diff [of "rad lon1 + arctan2 y x"] by simp_all
  then have "cos (rad lat2) * sin (rad (lon2 - lon1)) = y" "cos (rad lat2) * cos (rad (lon2 - lon1)) = x"
    using arctan2_polar_inverse [of x y] by (simp_all add: cg)
  note seen = destination_seen_back [OF xyh(3,1,2) sg this s]
  have "\<bar>lon2\<bar> \<le> 180" using wrap_longitude_exact [of "(rad lon1 + arctan2 y x) * 180 / pi"] by (simp add: there abs_le_iff)
  then obtain az2 where v: "vincenty exact lat1 lon1 lat2 lon2 a 0 = Computed (a * arctan2 (sin s) (cos s),
      wrap360 exact (arctan2 (sin s * sin z) (sin s * cos z) * 180 / pi), az2)"
    using vincenty_great_circle [of lat1 lat2 lon1 lon2 a, folded fzs(1)] assms(1-4) range s
    by (auto simp: seen sin_gt_zero order_less_imp_not_eq2)
  have "a * arctan2 (sin s) (cos s) = d"
    using arctan2_polar [of 1 s] s assms(4) by (simp add: fzs)
  moreover have "wrap360 exact (arctan2 (sin s * sin z) (sin s * cos z) * 180 / pi) = az" if "0 \<le> az" "az < 360"
  proof (rule same_direction_unique)
    let ?t = "arctan2 (sin s * sin z) (sin s * cos z)"
    have "sqrt ((sin s * cos z) * (sin s * cos z) + (sin s * sin z) * (sin s * sin z)) = across f (rad lat2) (rad (lon2 - lon1))"
      by (simp add: across_def seen add.commute)
    then have "sin s * sin ?t = sin s * sin z" "sin s * cos ?t = sin s * cos z"
      using arctan2_polar_inverse [of "sin s * cos z" "sin s * sin z"] by (simp_all add: seen)
    then have "sin ?t = sin z" "cos ?t = cos z" using sin_gt_zero [OF s] by simp_all
    then have "same_direction (?t * 180 / pi) az" unfolding same_direction_rad rad_degrees by (simp add: fzs)
    then show "same_direction (wrap360 exact (?t * 180 / pi)) az"
      using wrap360_exact [of "?t * 180 / pi"] by (simp add: same_direction_def)
  qed (use that wrap360_exact in auto)
  ultimately show ?thesis using True out v by auto
qed

lemma north_15: "\<exists>az_back. invvincenty (Suc 0) exact 0 45 0 0 (pi / 12) 1 0 = Computed (60, 0, az_back)"
proof -
  have r: "rad 45 = pi / 4" "rad 0 = 0" by (simp_all add: rad_def)
  have "sin (pi / 4) * cos (pi / 12) + cos (pi / 4) * sin (pi / 12) = sin (pi / 4 + pi / 12)"
    "cos (pi / 4) * cos (pi / 12) - sin (pi / 4) * sin (pi / 12) = cos (pi / 4 + pi / 12)"
    by (simp_all only: sin_add cos_add)
  moreover have "pi / 4 + pi / 12 = pi / 3" by simp
  ultimately have sum: "sin (pi / 4) * cos (pi / 12) + cos (pi / 4) * sin (pi / 12) = sin (pi / 3)"
    "cos (pi / 4) * cos (pi / 12) - sin (pi / 4) * sin (pi / 12) = cos (pi / 3)" by (simp_all only:)
  have third: "arctan2 (sin (pi / 3)) (cos (pi / 3)) = pi / 3" and "arctan2 0 (cos (pi / 3)) = 0"
    using arctan2_polar [of 1 "pi / 3"] arctan2_polar [of "cos (pi / 3)" 0] by (simp_all add: cos_60)
  moreover have "arctan2 (sin (pi / 3)) (cos (pi / 3)) * 180 / pi = 60" unfolding third by simp
  moreover have "0 < cos (pi / 3)" by (simp add: cos_60)
  then have "sqrt (cos (pi / 3) * cos (pi / 3) + 0) = cos (pi / 3)" by simp
  moreover have "wrap_longitude exact 0 = 0" by (simp add: wrap_longitude_def fmod_small)
  ultimately show ?thesis
    using invvincenty_great_circle [of 45 0 1 0 0 0 "pi / 12"] by (simp add: r sum del: One_nat_def)
qed

lemma geodesic_round_trip_witness:
  "\<exists>lat2 lon2 az2. vincenty exact 45 0 lat2 lon2 1 0 = Computed (pi / 12, 0, az2)"
proof -
  obtain b where b: "invvincenty (Suc 0) exact 0 45 0 0 (pi / 12) 1 0 = Computed (60, 0, b)" using north_15 by blast
  have "if (0 :: int) < 100
    then \<exists>lat2 lon2 az_back az1 az2. Computed (60 :: real, 0 :: real, b) = Computed (lat2, lon2, az_back)
      \<and> vincenty exact 45 0 lat2 lon2 1 0 = Computed (pi / 12, az1, az2) \<and> (0 \<le> (0 :: real) \<and> (0 :: real) < 360 \<longrightarrow> az1 = 0)
    else Computed (60 :: real, 0 :: real, b) = Uninitialised"
    by (rule geodesic_round_trip [OF _ _ _ _ _ _ b]) simp_all
  then show ?thesis by auto
qed

text \<open>
  The two sides of the date line: between a point at longitude -180 and one at 180, which lie
  on one meridian, \<open>vincenty\<close> starts with the difference of a full turn, takes its iteration for
  converged before the first turn, and computes its outputs from variables never assigned.
\<close>
theorem vincenty_date_line:
  assumes "\<bar>lat1\<bar> < 90" "\<bar>lat2\<bar> < 90"
  shows "vincenty exact lat1 (-180) lat2 180 a f = Uninitialised"
proof -
  have [simp]: "db exact x = x" for x by (simp add: exact_def)
  show ?thesis
    using CheckLatLon_in_range [OF assms(1), of "-180"] CheckLatLon_in_range [OF assms(2), of 180]
    by (simp add: vincenty_def Let_def vincenty_loop.simps)
qed

lemma vincenty_date_line_witness: "vincenty exact 45 (-180) 45 180 6378137 (1 / 298) = Uninitialised"
  by (rule vincenty_date_line) simp_all

end
