(* ===== verification/SampleTrackers.thy ===== *)
theory SampleTrackers
  imports CreateMotion
begin

text \<open>
  The two camera programs, Samples/tracker.c and Samples/wander.c: the search for the target
  colour in a frame, the search for the floor, the steering of the robot and the keys. OpenCV is
  outside: a frame reaches the model as the HSV picture the code has asked OpenCV for, a list of
  rows of pixels, and the back projection as its rows of bytes; the windows are not modelled.
\<close>

section \<open>Pictures\<close>

record pixel =
  px_hue :: byte
  px_saturation :: byte
  px_value :: byte

type_synonym picture = "pixel list list"

definition FRAME_WIDTH :: int where
  "FRAME_WIDTH = 320"

definition FRAME_HEIGHT :: int where
  "FRAME_HEIGHT = 240"

definition CAM_FOV :: int where
  "CAM_FOV = 15"

definition NO_COLOR :: int where
  "NO_COLOR = -2147483647"

section \<open>Finding the colour\<close>

text \<open>The limits of tracker.c are around the pixel's own saturation.\<close>

definition tracker_match :: "pixel \<Rightarrow> pixel \<Rightarrow> bool" where
  "tracker_match clr px =
     (let tol = 5; s = uint (px_saturation px);
          ulimit = (if s < tol then 0 else s - tol);
          llimit = (if s > 255 - tol then 255 else s + tol)
      in px_hue px = px_hue clr \<and> s \<ge> ulimit \<and> s \<le> llimit)"

definition wander_match :: "pixel \<Rightarrow> pixel \<Rightarrow> bool" where
  "wander_match clr px =
     (let tol = 5; s = uint (px_saturation clr); v = uint (px_value px);
          ulimit = (if s < tol then 0 else s - tol);
          llimit = (if s > 255 - tol then 255 else s + tol)
      in px_hue px = px_hue clr \<and> uint (px_saturation px) \<ge> ulimit \<and> uint (px_saturation px) \<le> llimit
         \<and> v > uint (px_value clr) - tol \<and> v < uint (px_value clr) + tol)"

text \<open>The nested loops over rows and columns; \<open>offset\<close> is subtracted from each column.\<close>

definition count_pixel :: "(pixel \<Rightarrow> bool) \<Rightarrow> int \<Rightarrow> pixel \<Rightarrow> nat \<Rightarrow> int \<times> int \<Rightarrow> int \<times> int" where
  "count_pixel match offset px x st =
     (case st of
        (numfound, total_x) \<Rightarrow>
          if match px then (wrap32 (numfound + 1), wrap32 (total_x + (int x - offset))) else (numfound, total_x))"

fun count_row :: "(pixel \<Rightarrow> bool) \<Rightarrow> int \<Rightarrow> nat \<Rightarrow> pixel list \<Rightarrow> int \<times> int \<Rightarrow> int \<times> int" where
  "count_row match offset x [] st = st"
| "count_row match offset x (px # row) st = count_row match offset (Suc x) row (count_pixel match offset px x st)"

definition average_x :: "(pixel \<Rightarrow> bool) \<Rightarrow> int \<Rightarrow> picture \<Rightarrow> int" where
  "average_x match offset img =
     (case fold (count_row match offset 0) img (0, 0) of
        (numfound, total_x) \<Rightarrow> if numfound = 0 then NO_COLOR else cdiv total_x numfound)"

definition tracker_extractColor :: "picture \<Rightarrow> pixel \<Rightarrow> int" where
  "tracker_extractColor img clr = average_x (tracker_match clr) (FRAME_WIDTH div 2) img"

text \<open>The debugging variant also returns the picture of the matching pixels; the others stay as they were.\<close>

definition tracker_extractColorDebug :: "picture \<Rightarrow> pixel \<Rightarrow> picture \<Rightarrow> int \<times> picture" where
  "tracker_extractColorDebug img clr blank =
     (average_x (tracker_match clr) (FRAME_WIDTH div 2) img,
      map2 (map2 (\<lambda>px out. if tracker_match clr px then px else out)) img blank)"

definition wander_extractColor :: "picture \<Rightarrow> pixel \<Rightarrow> int" where
  "wander_extractColor smooth clr =
     (if 0 = px_hue clr \<and> 0 = px_saturation clr \<and> 0 = px_value clr then NO_COLOR
      else average_x (wander_match clr) 0 smooth)"

section \<open>Finding the floor\<close>

text \<open>
  The rows of the back projection one after the other, \<open>widthStep\<close> bytes each; the code tests
  the byte before the one at \<open>(x, y)\<close>. \<open>floor_edge\<close> is the row at which a column stops being
  floor, from the bottom up; a column that is floor all the way up to row 1 has none.
\<close>

definition floor_edge :: "byte list \<Rightarrow> nat \<Rightarrow> nat \<Rightarrow> nat option" where
  "floor_edge backproj widthStep x =
     find (\<lambda>y. backproj ! (widthStep * y + x - 1) \<noteq> 255) (rev [1..<nat FRAME_HEIGHT])"

definition floor_column :: "byte list \<Rightarrow> nat \<Rightarrow> nat \<Rightarrow> nat \<times> nat \<Rightarrow> nat \<times> nat" where
  "floor_column backproj widthStep i best =
     (let x = (nat FRAME_WIDTH div 2 + i) mod nat FRAME_WIDTH
      in case floor_edge backproj widthStep x of
           None \<Rightarrow> best
         | Some y \<Rightarrow> if y < snd best then (x, y) else best)"

definition findFloor :: "byte list \<Rightarrow> nat \<Rightarrow> int" where
  "findFloor backproj widthStep =
     int (fst (fold (floor_column backproj widthStep) [0..<nat FRAME_WIDTH] (0, nat FRAME_HEIGHT)))
       - FRAME_WIDTH div 2"

section \<open>Steering\<close>

text \<open>Velocity and radius for a position in the picture; \<open>None\<close> is the division by zero.\<close>

definition steer :: "int \<Rightarrow> (int \<times> int) option" where
  "steer Xpos =
     (let tol = 20 in
      if NO_COLOR = Xpos then Some (120, -1)
      else if Xpos < tol \<and> Xpos > - tol then Some (250, 0)
      else if cdiv (FRAME_WIDTH div 2) Xpos = 0 then None
      else (let angle = cdiv (- CAM_FOV) (cdiv (FRAME_WIDTH div 2) Xpos) in
            if angle < 0 then Some (200 - 5*angle, -200 + 10*angle)
            else Some (200 - 5*angle, 200 - 10*angle)))"

record tracker = create +
  tk_vel :: int
  tk_rad :: int
  tk_running :: bool
  tk_color :: pixel

definition tracker_moveCreate :: "int \<Rightarrow> ('a tracker_scheme, bool) state" where
  "tracker_moveCreate Xpos = do {
     running \<leftarrow> gets tk_running;
     if \<not> running then ret True
     else (case steer Xpos of
        None \<Rightarrow> do { emit EvAbort; ret False }
      | Some (v, r) \<Rightarrow> do {
          modify (\<lambda>s. s\<lparr>tk_vel := v, tk_rad := r\<rparr>);
          drive (to_short v) (to_short r);
          ret True
        })
   }"

text \<open>One turn of the loop of tracker.c: the frame, then two polls of the keyboard.\<close>

definition tracker_turn :: "picture \<Rightarrow> int \<Rightarrow> int \<Rightarrow> ('a tracker_scheme, bool option) state" where
  "tracker_turn frame key1 key2 = do {
     clr \<leftarrow> gets tk_color;
     ok \<leftarrow> tracker_moveCreate (tracker_extractColor frame clr);
     if \<not> ok then ret None
     else do {
       running \<leftarrow> gets tk_running;
       (if key1 AND 255 = 32 then
          (if running then do {
             directDrive 0 0;
             modify (\<lambda>s. s\<lparr>tk_running := False\<rparr>)
           } else modify (\<lambda>s. s\<lparr>tk_running := True\<rparr>))
        else ret ());
       ret (Some (key2 AND 255 \<noteq> 27))
     }
   }"

definition tracker_mouse :: "bool \<Rightarrow> picture \<Rightarrow> nat \<Rightarrow> nat \<Rightarrow> ('a tracker_scheme, unit) state" where
  "tracker_mouse left_button frame x y =
     (if left_button then modify (\<lambda>s. s\<lparr>tk_color := frame ! y ! x\<rparr>) else ret ())"

fun tracker_loop :: "(picture \<times> int \<times> int) list \<Rightarrow> ('a tracker_scheme, bool option) state" where
  "tracker_loop [] = ret (Some True)"
| "tracker_loop ((frame, k1, k2) # fs) = do {
     r \<leftarrow> tracker_turn frame k1 k2;
     (case r of
        None \<Rightarrow> ret None
      | Some go_on \<Rightarrow> if go_on then tracker_loop fs else do { stopOI; ret (Some False) })
   }"

text \<open>
  \<open>main\<close> of tracker.c: \<open>args\<close> is the command line without the program's name. The test for
  \<open>-d\<close> compares addresses, so the debugging variant is never chosen.
\<close>

definition tracker_main :: "string list \<Rightarrow> (picture \<times> int \<times> int) list \<Rightarrow> ('a tracker_scheme, bool option) state" where
  "tracker_main args frames =
     (case args of
        [] \<Rightarrow> do { emit (EvPrintf ''Give location of serial port'' []); ret (Some False) }
      | device # _ \<Rightarrow> do {
          startOI device;
          enterSafeMode;
          tracker_loop frames
        })"

section \<open>Wandering\<close>

record wander = create +
  wd_running :: bool
  wd_yThreshold :: int
  wd_color :: pixel

text \<open>\<open>waitAngle\<close> takes fuel; \<open>None\<close> while it has not ended, \<open>Some False\<close> for the division by zero.\<close>

definition bump_turn :: "nat \<Rightarrow> short \<Rightarrow> short \<Rightarrow> int \<Rightarrow> ('a create_scheme, bool option) state" where
  "bump_turn fuel v r angle = do {
     drive v r;
     w \<leftarrow> waitAngle fuel angle 1;
     ret (map_option (\<lambda>_. True) w)
   }"

definition wander_moveCreate :: "nat \<Rightarrow> int \<Rightarrow> ('a wander_scheme, bool option) state" where
  "wander_moveCreate fuel Xpos = do {
     running \<leftarrow> gets wd_running;
     if \<not> running then ret (Some True)
     else do {
       bumper \<leftarrow> getBumpsAndWheelDrops;
       if 0 \<noteq> bumper then
         (if 1 = bumper then bump_turn fuel 120 1 45
          else if 2 = bumper then bump_turn fuel 120 (-1) (-45)
          else if 3 = bumper then bump_turn fuel 250 (-1) (-90)
          else ret (Some True))
       else (case steer Xpos of
          None \<Rightarrow> do { emit EvAbort; ret (Some False) }
        | Some (v, r) \<Rightarrow> do { drive (to_short v) (to_short r); ret (Some True) })
     }
   }"

definition printSensors :: "('a create_scheme, bool) state" where
  "printSensors = do {
     p \<leftarrow> getAllSensors;
     (case p of
        Ptr sensors \<Rightarrow> do {
          modify (\<lambda>s. s\<lparr>trace := trace s @ map (\<lambda>i. EvPrintf ''Sensor %d: %d'' [int i, sensors ! i]) [0..<36]\<rparr>);
          ret True
        }
      | _ \<Rightarrow> do { emit EvAbort; ret False })
   }"

text \<open>The keys of the loop; \<open>False\<close> in the pair is the end of the loop, in the option the crash.\<close>

definition wander_key :: "int \<Rightarrow> ('a wander_scheme, bool option) state" where
  "wander_key key0 = do {
     let key = key0 AND 255;
     running \<leftarrow> gets wd_running;
     ok \<leftarrow> (if 32 = key then
              (if running then do {
                 ok \<leftarrow> printSensors;
                 if ok then do {
                   directDrive 0 0;
                   modify (\<lambda>s. s\<lparr>wd_running := False\<rparr>);
                   ret True
                 } else ret False
               } else do { modify (\<lambda>s. s\<lparr>wd_running := True\<rparr>); ret True })
            else ret True);
     if \<not> ok then ret None
     else do {
       modify (\<lambda>s. if key = 46 \<and> wd_yThreshold s < FRAME_HEIGHT then s\<lparr>wd_yThreshold := wd_yThreshold s + 1\<rparr> else s);
       modify (\<lambda>s. if key = 44 \<and> wd_yThreshold s > 1 then s\<lparr>wd_yThreshold := wd_yThreshold s - 1\<rparr> else s);
       modify (\<lambda>s. if key = 114 then s\<lparr>wd_color := \<lparr>px_hue = 0, px_saturation = 0, px_value = 0\<rparr>\<rparr> else s);
       ret (Some (27 \<noteq> key))
     }
   }"

definition wander_turn :: "nat \<Rightarrow> picture \<Rightarrow> byte list \<Rightarrow> nat \<Rightarrow> int \<Rightarrow> ('a wander_scheme, bool option) state" where
  "wander_turn fuel smooth backproj widthStep key = do {
     clr \<leftarrow> gets wd_color;
     let avgX = wander_extractColor smooth clr;
     let avgX = (if NO_COLOR = avgX then findFloor backproj widthStep else avgX);
     r \<leftarrow> wander_moveCreate fuel avgX;
     (case r of
        None \<Rightarrow> ret None
      | Some ok \<Rightarrow> if \<not> ok then ret None else wander_key key)
   }"

definition wander_mouse :: "bool \<Rightarrow> picture \<Rightarrow> nat \<Rightarrow> nat \<Rightarrow> ('a wander_scheme, unit) state" where
  "wander_mouse left_button smooth x y =
     (if left_button then modify (\<lambda>s. s\<lparr>wd_color := smooth ! y ! x\<rparr>) else ret ())"

text \<open>The rows of \<open>frames\<close>: the smoothed picture, the back projection with its row width, the key.\<close>

fun wander_loop :: "nat \<Rightarrow> (picture \<times> byte list \<times> nat \<times> int) list \<Rightarrow> ('a wander_scheme, bool option) state" where
  "wander_loop fuel [] = ret (Some True)"
| "wander_loop fuel ((smooth, backproj, widthStep, key) # fs) = do {
     r \<leftarrow> wander_turn fuel smooth backproj widthStep key;
     (case r of
        None \<Rightarrow> ret None
      | Some go_on \<Rightarrow> if go_on then wander_loop fuel fs else do { stopOI; ret (Some False) })
   }"

text \<open>Without a camera the program leaves with the port open and the robot in Safe mode.\<close>

definition wander_main ::
  "nat \<Rightarrow> string list \<Rightarrow> bool \<Rightarrow> (picture \<times> byte list \<times> nat \<times> int) list \<Rightarrow> ('a wander_scheme, bool option) state" where
  "wander_main fuel args camera frames =
     (case args of
        [] \<Rightarrow> do { emit (EvPrintf ''Give location of serial port'' []); ret (Some False) }
      | device # _ \<Rightarrow> do {
          modify (\<lambda>s. s\<lparr>wd_yThreshold := FRAME_HEIGHT div 4\<rparr>);
          startOI device;
          enterSafeMode;
          if \<not> camera then do { emit (EvPrintf ''Could not connect to camera'' []); ret (Some False) }
          else wander_loop fuel frames
        })"

section \<open>Where the picture can send the robot\<close>

definition seen :: "int \<Rightarrow> int \<times> int \<Rightarrow> bool" where
  "seen n st \<longleftrightarrow> 0 \<le> fst st \<and> fst st \<le> n \<and> -160 * fst st \<le> snd st \<and> snd st \<le> 159 * fst st"

lemma seen_pixel:
  assumes "seen n st" "x < 320" "n < 13000000"
  shows "seen (n + 1) (count_pixel match 160 px x st)"
proof -
  obtain f t where st: "st = (f, t)" by (cases st)
  have b: "0 \<le> f" "f \<le> n" "-160 * f \<le> t" "t \<le> 159 * f" using assms(1) by (simp_all add: seen_def st)
  with assms(2,3) have "wrap32 (f + 1) = f + 1" "wrap32 (t + (int x - 160)) = t + (int x - 160)"
    by (auto intro!: wrap32_id)
  with b assms(2) show ?thesis by (simp add: st seen_def count_pixel_def)
qed

lemma seen_row:
  "seen n st \<Longrightarrow> x + length row \<le> 320 \<Longrightarrow> n + int (length row) \<le> 13000000 \<Longrightarrow>
   seen (n + int (length row)) (count_row match 160 x row st)"
proof (induction row arbitrary: n x st)
  case Nil
  then show ?case by simp
next
  case (Cons px row)
  then have "seen (n + 1) (count_pixel match 160 px x st)" by (intro seen_pixel) simp_all
  from Cons.IH [OF this, of "Suc x"] Cons.prems(2,3) show ?case by (simp add: add_ac)
qed

lemma seen_picture:
  "seen n st \<Longrightarrow> \<forall>row \<in> set img. length row \<le> 320 \<Longrightarrow> n + 320 * int (length img) \<le> 13000000 \<Longrightarrow>
   seen (n + 320 * int (length img)) (fold (count_row match 160 0) img st)"
proof (induction img arbitrary: n st)
  case Nil
  then show ?case by simp
next
  case (Cons row img)
  then have "seen (n + int (length row)) (count_row match 160 0 row st)" by (intro seen_row) auto
  moreover have "int (length row) \<le> 320" using Cons.prems(2) by simp
  ultimately have "seen (n + 320) (count_row match 160 0 row st)" by (auto simp: seen_def)
  from Cons.IH [OF this] Cons.prems(2,3) show ?case by (simp add: algebra_simps)
qed

lemma cdiv_between:
  assumes "0 < b" "-160 * b \<le> a" "a \<le> 159 * b"
  shows "-160 \<le> cdiv a b \<and> cdiv a b \<le> 159"
proof (cases "0 \<le> a")
  case True
  have "a div b \<le> 159" using assms zdiv_mono1 [of a "159 * b" b] by simp
  moreover have "0 \<le> a div b" using True assms(1) by (simp add: pos_imp_zdiv_nonneg_iff)
  moreover have "cdiv a b = a div b" using True assms(1) by (auto simp: cdiv_def sgn_if)
  ultimately show ?thesis by simp
next
  case False
  have "- a div b \<le> 160" using assms zdiv_mono1 [of "- a" "160 * b" b] by simp
  moreover have "0 \<le> - a div b" using False assms(1) by (simp add: pos_imp_zdiv_nonneg_iff)
  moreover have "cdiv a b = - (- a div b)" using False assms(1) by (simp add: cdiv_def sgn_if)
  ultimately show ?thesis by simp
qed

lemma extractColor_range:
  assumes "\<forall>row \<in> set img. length row \<le> 320" "length img \<le> 40000"
  shows "tracker_extractColor img clr \<in> insert NO_COLOR {-160..159}"
proof -
  obtain f t where st: "fold (count_row (tracker_match clr) 160 0) img (0, 0) = (f, t)"
    by (cases "fold (count_row (tracker_match clr) 160 0) img (0, 0)")
  have "seen (0 + 320 * int (length img)) (f, t)"
    unfolding st [symmetric] using assms by (intro seen_picture) (simp_all add: seen_def)
  then show ?thesis
    using st cdiv_between [of f t] by (auto simp: tracker_extractColor_def average_x_def FRAME_WIDTH_def seen_def)
qed

definition good_drive :: "int \<Rightarrow> bool" where
  "good_drive x =
     (case steer x of
        None \<Rightarrow> False
      | Some (v, r) \<Rightarrow> 120 \<le> v \<and> v \<le> 275 \<and> -350 \<le> r \<and> r \<le> 190
          \<and> (if x \<ge> 20 then r < 0 else if x \<le> -20 \<and> x \<noteq> NO_COLOR then 0 < r else True))"

lemma steer_inside: "x \<in> insert NO_COLOR {-160..159} \<Longrightarrow> good_drive x"
proof -
  have "\<forall>x \<in> set (NO_COLOR # [-160..159]). good_drive x" by code_simp
  then have "\<forall>x \<in> insert NO_COLOR {-160..159}. good_drive x" by (simp only: list.set set_upto)
  then show "x \<in> insert NO_COLOR {-160..159} \<Longrightarrow> good_drive x" by blast
qed

lemma steer_outside: "160 < x \<Longrightarrow> steer x = None"
  by (auto simp: steer_def NO_COLOR_def FRAME_WIDTH_def cdiv_def sgn_if)



text \<open>The saturation test of tracker.c is always true: only the hue counts.\<close>

lemma tracker_match_hue: "tracker_match clr px \<longleftrightarrow> px_hue px = px_hue clr"
  by (auto simp: tracker_match_def Let_def)

end
