(* ===== verification/StatusMessages.thy ===== *)
theory StatusMessages
  imports IMU
begin

text \<open>
  The status messages the robots exchange (CreateMessageSet.h) and the client that sends them
  (iClient.c). A C string in a buffer is the bytes before the first zero; the structure's
  image in memory is the little-endian one of the ARM and x86 targets, without padding.
\<close>

section \<open>C strings in buffers\<close>

definition cstr :: "byte list \<Rightarrow> byte list" where
  "cstr bs = takeWhile (\<lambda>b. b \<noteq> 0) bs"

definition bytes_of :: "string \<Rightarrow> byte list" where
  "bytes_of s = map (\<lambda>c. of_char c) s"

text \<open>\<open>strlen\<close> of a buffer: \<open>None\<close> when it holds no terminator and the scan leaves it.\<close>

definition strlen :: "byte list \<Rightarrow> nat option" where
  "strlen bs = (if 0 \<in> set bs then Some (length (cstr bs)) else None)"

lemma cstr_no_zero [simp]: "0 \<notin> set (cstr bs)"
  by (auto simp: cstr_def dest: set_takeWhileD)

lemma cstr_id: "0 \<notin> set bs \<Longrightarrow> cstr bs = bs"
  by (auto simp: cstr_def takeWhile_eq_all_conv)

lemma cstr_append_zero: "0 \<notin> set bs \<Longrightarrow> cstr (bs @ 0 # cs) = bs"
  by (induction bs) (auto simp: cstr_def)

lemma length_cstr: "length (cstr bs) \<le> length bs"
  by (simp add: cstr_def length_takeWhile_le)

lemma cstr_prefix: "take (length (cstr bs)) bs = cstr bs"
  by (simp add: cstr_def takeWhile_eq_take [symmetric])

lemma cstr_cstr_append [simp]: "cstr (cstr bs @ 0 # cs) = cstr bs"
  by (rule cstr_append_zero) simp

section \<open>The structures\<close>

definition MSG_TYPE_STATUS :: int where
  "MSG_TYPE_STATUS = 1"

definition MSG_TYPE_TERMINATION :: int where
  "MSG_TYPE_TERMINATION = 2"

definition MSG_TYPE_DETECTION :: int where
  "MSG_TYPE_DETECTION = 3"

record create_status =
  st_pos_x :: int
  st_pos_y :: int
  st_heading :: int
  st_velocity :: int
  st_category :: int
  st_uid :: "byte list"

text \<open>Values of the C type: five \<open>int\<close>s and 32 bytes.\<close>

definition status_ok :: "create_status \<Rightarrow> bool" where
  "status_ok s \<longleftrightarrow> is_int32 (st_pos_x s) \<and> is_int32 (st_pos_y s) \<and> is_int32 (st_heading s)
     \<and> is_int32 (st_velocity s) \<and> is_int32 (st_category s) \<and> length (st_uid s) = 32"

definition status_bytes :: "create_status \<Rightarrow> byte list" where
  "status_bytes s = int_bytes (st_pos_x s) @ int_bytes (st_pos_y s) @ int_bytes (st_heading s)
     @ int_bytes (st_velocity s) @ int_bytes (st_category s) @ st_uid s"

definition bytes_status :: "byte list \<Rightarrow> create_status" where
  "bytes_status bs = \<lparr>st_pos_x = bytes_int (take 4 bs), st_pos_y = bytes_int (take 4 (drop 4 bs)),
     st_heading = bytes_int (take 4 (drop 8 bs)), st_velocity = bytes_int (take 4 (drop 12 bs)),
     st_category = bytes_int (take 4 (drop 16 bs)), st_uid = take 32 (drop 20 bs)\<rparr>"

lemma bytes_status_bytes: "status_ok s \<Longrightarrow> bytes_status (status_bytes s @ rest) = s"
  by (cases s) (simp add: status_ok_def bytes_status_def status_bytes_def)


section \<open>The client\<close>

text \<open>
  \<open>sendStatus\<close>: the packet is the type byte, the structure and a zero. \<open>memcpy\<close> copies
  \<open>strlen(uid) + 1\<close> bytes into \<open>uid[32]\<close>; a name without a terminator in its 32 bytes is read
  and written out of bounds (\<open>None\<close>).
\<close>

definition copy_status :: "create_status \<Rightarrow> create_status option" where
  "copy_status tmp =
     (case strlen (st_uid tmp) of
        None \<Rightarrow> None
      | Some n \<Rightarrow>
          if n + 1 > 32 then None
          else Some (tmp\<lparr>st_uid := overlay 0 (take (n + 1) (st_uid tmp)) (replicate 32 0)\<rparr>))"

definition status_packet :: "create_status \<Rightarrow> byte list option" where
  "status_packet tmp =
     (case copy_status tmp of
        None \<Rightarrow> None
      | Some packet \<Rightarrow>
          Some (overlay 1 (status_bytes packet) (overlay 0 [word_of_int MSG_TYPE_STATUS] (replicate 54 0))))"

text \<open>
  The globals of iClient.c. \<open>sendto\<close> uses the write oracle of the platform; when it fails the
  process exits. The result is \<open>None\<close> for the out-of-bounds copy, \<open>Some False\<close> for the exit.
\<close>

record client = imu +
  cl_sd :: int
  cl_rc :: int

definition os_sendto :: "int \<Rightarrow> byte list \<Rightarrow> ('a os_scheme, int) state" where
  "os_sendto fd buf = State (\<lambda>s.
     case wr s (tick s) of
       WErr \<Rightarrow> (-1, advance s)
     | WOk k \<Rightarrow> (int (length buf), (advance s)\<lparr>trace := trace s @ [EvSend fd buf]\<rparr>))"

definition sendStatus :: "create_status \<Rightarrow> ('a client_scheme, bool option) state" where
  "sendStatus tmp =
     (case status_packet tmp of
        None \<Rightarrow> ret None
      | Some buff \<Rightarrow> do {
          sd \<leftarrow> gets cl_sd;
          rc \<leftarrow> os_sendto sd buff;
          modify (\<lambda>s. s\<lparr>cl_rc := rc\<rparr>);
          if rc < 0 then do {
            emit (EvPrintf ''iClient : cannot send data'' []);
            emit (EvClose sd);
            emit (EvExit 1);
            ret (Some False)
          } else ret (Some True)
        })"

definition viewClientStatus :: "create_status \<Rightarrow> ('a client_scheme, bool) state" where
  "viewClientStatus local = do {
     emit (EvPrintf ''iClient: sending status %s, POS[%d,%d]'' [st_pos_x local, st_pos_y local]);
     case strlen (st_uid local) of
       None \<Rightarrow> ret False
     | Some n \<Rightarrow>
         if n + 1 > 32 then ret False
         else do {
           emit (EvPrintf ''iClient: sending packet %s, POS[%d,%d]'' [st_pos_x local, st_pos_y local]);
           ret True
         }
   }"

definition closeClient :: "('a client_scheme, unit) state" where
  "closeClient = do { sd \<leftarrow> gets cl_sd; emit (EvClose sd) }"

lemma copy_status_ok:
  assumes "status_ok s" "strlen (st_uid s) = Some n" "n < 32"
  obtains p where "copy_status s = Some p" "status_ok p" "cstr (st_uid p) = cstr (st_uid s)"
    "p = s\<lparr>st_uid := cstr (st_uid s) @ replicate (32 - n) 0\<rparr>"
proof -
  have n: "n = length (cstr (st_uid s))" and z: "0 \<in> set (st_uid s)"
    using assms(2) by (auto simp: strlen_def split: if_splits)
  have len: "length (st_uid s) = 32" using assms(1) by (simp add: status_ok_def)
  have "st_uid s ! n = 0"
    using nth_length_takeWhile [of "\<lambda>b. b \<noteq> 0" "st_uid s"] z cstr_id [of "st_uid s"] cstr_no_zero [of "st_uid s"]
    unfolding n cstr_def by (metis length_takeWhile_le order_le_less takeWhile_eq_all_conv takeWhile_eq_take take_all_iff order_refl)
  then have "take (n + 1) (st_uid s) = cstr (st_uid s) @ [0]"
    using len assms(3) cstr_prefix [of "st_uid s"] by (simp add: take_Suc_conv_app_nth n)
  then have uid: "overlay 0 (take (n + 1) (st_uid s)) (replicate 32 0) = cstr (st_uid s) @ replicate (32 - n) 0"
    using assms(3) n by (simp add: overlay_def Suc_diff_Suc [symmetric] flip: replicate_Suc)
  show thesis
  proof (rule that)
    show "copy_status s = Some (s\<lparr>st_uid := cstr (st_uid s) @ replicate (32 - n) 0\<rparr>)"
      using assms(2,3) uid by (simp add: copy_status_def)
    show "status_ok (s\<lparr>st_uid := cstr (st_uid s) @ replicate (32 - n) 0\<rparr>)"
      using assms(1,3) n by (simp add: status_ok_def)
    show "cstr (st_uid (s\<lparr>st_uid := cstr (st_uid s) @ replicate (32 - n) 0\<rparr>)) = cstr (st_uid s)"
      using assms(3) by (cases "32 - n") simp_all
  qed simp
qed

lemma length_status_bytes: "status_ok s \<Longrightarrow> length (status_bytes s) = 52"
  by (simp add: status_bytes_def status_ok_def)

end
