(* ===== verification/StatusServer.thy ===== *)
theory StatusServer
  imports StatusMessages
begin

text \<open>
  The server of iServer.c: the table of robots with its binary search, the map of the last
  status of each, and the thread that receives packets. The table lookup is shown equal to a
  linear search, the map to be a keyed store, and the thread to keep the latest status of
  every robot it hears, on a C library whose \<open>inet_ntoa\<close> gives different addresses different
  results; on one with the static buffer POSIX allows, it hears nobody.
\<close>

section \<open>Comparing and searching\<close>

text \<open>\<open>strcmp\<close> on C strings without their terminators.\<close>

fun strcmp :: "byte list \<Rightarrow> byte list \<Rightarrow> int" where
  "strcmp [] [] = 0"
| "strcmp [] (y # ys) = - uint y"
| "strcmp (x # xs) [] = uint x"
| "strcmp (x # xs) (y # ys) = (if x = y then strcmp xs ys else uint x - uint y)"

text \<open>\<open>bsearch\<close> of the C library.\<close>

function bsearch :: "('k \<Rightarrow> 'e \<Rightarrow> int) \<Rightarrow> 'k \<Rightarrow> 'e list \<Rightarrow> nat \<Rightarrow> nat \<Rightarrow> 'e option" where
  "bsearch cmp key base l u =
     (if l < u then
        (let idx = (l + u) div 2; c = cmp key (base ! idx) in
         if c < 0 then bsearch cmp key base l idx
         else if c > 0 then bsearch cmp key base (idx + 1) u
         else Some (base ! idx))
      else None)"
  by pat_completeness auto
termination
  by (relation "measure (\<lambda>(cmp, key, base, l, u). u - l)") auto

declare bsearch.simps [simp del]

locale search_order =
  fixes cmp :: "'k \<Rightarrow> 'k \<Rightarrow> int" and valid :: "'k \<Rightarrow> bool"
  assumes cmp_zero: "valid x \<Longrightarrow> valid y \<Longrightarrow> cmp x y = 0 \<longleftrightarrow> x = y"
    and cmp_flip: "valid x \<Longrightarrow> valid y \<Longrightarrow> cmp x y < 0 \<longleftrightarrow> cmp y x > 0"
    and cmp_trans: "valid x \<Longrightarrow> valid y \<Longrightarrow> valid z \<Longrightarrow> cmp x y < 0 \<Longrightarrow> cmp y z < 0 \<Longrightarrow> cmp x z < 0"
begin

definition sorted_keys :: "('k \<times> 'v) list \<Rightarrow> bool" where
  "sorted_keys xs \<longleftrightarrow> (\<forall>i j. i < j \<longrightarrow> j < length xs \<longrightarrow> cmp (fst (xs ! i)) (fst (xs ! j)) < 0)
     \<and> (\<forall>x \<in> set xs. valid (fst x))"

lemma valid_nth: "sorted_keys xs \<Longrightarrow> i < length xs \<Longrightarrow> valid (fst (xs ! i))"
  by (simp add: sorted_keys_def)

lemma search_finds:
  assumes "sorted_keys xs" "valid k" "u \<le> length xs"
    and "\<forall>i < length xs. fst (xs ! i) = k \<longrightarrow> l \<le> i \<and> i < u"
  shows "bsearch (\<lambda>k e. cmp k (fst e)) k xs l u = find (\<lambda>e. fst e = k) xs"
  using assms(3,4)
proof (induction "u - l" arbitrary: l u rule: less_induct)
  case less
  show ?case
  proof (cases "l < u")
    case False
    with less.prems have "find (\<lambda>e. fst e = k) xs = None"
      by (auto simp: find_None_iff in_set_conv_nth)
    with False show ?thesis by (simp add: bsearch.simps)
  next
    case True
    define m where "m = (l + u) div 2"
    have m: "l \<le> m" "m < u" "m < length xs" using True less.prems(1) by (auto simp: m_def)
    have vm: "valid (fst (xs ! m))" by (rule valid_nth [OF assms(1) m(3)])
    have order: "cmp (fst (xs ! i)) (fst (xs ! j)) < 0" if "i < j" "j < length xs" for i j
      using assms(1) that by (simp add: sorted_keys_def)
    consider "cmp k (fst (xs ! m)) < 0" | "cmp k (fst (xs ! m)) > 0" | "cmp k (fst (xs ! m)) = 0" by linarith
    then show ?thesis
    proof cases
      case 1
      have "l \<le> i \<and> i < m" if "i < length xs" "fst (xs ! i) = k" for i
      proof -
        have "\<not> m < i" using order [of m i] that 1 cmp_flip [OF assms(2) vm] by auto
        moreover have "i \<noteq> m" using that 1 cmp_zero [OF assms(2) vm] by auto
        ultimately show ?thesis using that less.prems(2) by auto
      qed
      then have "bsearch (\<lambda>k e. cmp k (fst e)) k xs l m = find (\<lambda>e. fst e = k) xs"
        using less.hyps [of m l] m less.prems(1) by auto
      with 1 True show ?thesis by (subst bsearch.simps) (simp add: m_def)
    next
      case 2
      have "m + 1 \<le> i \<and> i < u" if "i < length xs" "fst (xs ! i) = k" for i
      proof -
        have "\<not> i < m" using order [of i m] that 2 m(3) by auto
        moreover have "i \<noteq> m" using that 2 cmp_zero [OF assms(2) vm] by auto
        ultimately show ?thesis using that less.prems(2) by auto
      qed
      then have "bsearch (\<lambda>k e. cmp k (fst e)) k xs (m + 1) u = find (\<lambda>e. fst e = k) xs"
        using less.hyps [of u "m + 1"] m less.prems(1) by auto
      with 2 True show ?thesis by (subst bsearch.simps) (simp add: m_def)
    next
      case 3
      then have k: "fst (xs ! m) = k" using cmp_zero [OF assms(2) vm] by simp
      have "i = m" if "i < length xs" "fst (xs ! i) = k" for i
        using order [of i m] order [of m i] that k m(3) cmp_zero [OF assms(2) assms(2)]
        by (metis less_irrefl linorder_neqE_nat)
      then have "find (\<lambda>e. fst e = k) xs = Some (xs ! m)"
        using k m(3) by (subst find_Some_iff) (metis less_irrefl less_trans)
      with 3 True show ?thesis by (subst bsearch.simps) (simp add: m_def)
    qed
  qed
qed

end

lemma strcmp_zero: "0 \<notin> set xs \<Longrightarrow> 0 \<notin> set ys \<Longrightarrow> strcmp xs ys = 0 \<longleftrightarrow> xs = ys"
proof (induction xs ys rule: strcmp.induct)
  case (4 x xs y ys)
  then show ?case by (cases "x = y") (simp_all, metis word_uint_eqI)
qed (auto simp: uint_0_iff)

lemma strcmp_flip: "strcmp ys xs = - strcmp xs ys"
  by (induction xs ys rule: strcmp.induct) auto

lemma strcmp_trans:
  "0 \<notin> set xs \<Longrightarrow> 0 \<notin> set ys \<Longrightarrow> 0 \<notin> set zs \<Longrightarrow> strcmp xs ys < 0 \<Longrightarrow> strcmp ys zs < 0 \<Longrightarrow> strcmp xs zs < 0"
proof (induction xs ys arbitrary: zs rule: strcmp.induct)
  case (1 zs)
  then show ?case by simp
next
  case (2 y ys zs)
  then show ?case
    by (cases zs) (auto simp: word_gt_0 uint_0_iff order_less_le)
next
  case (3 x xs zs)
  then show ?case using uint_byte_bounds(1) [of x] by (simp add: order_less_le)
next
  case (4 x xs y ys zs)
  then show ?case
    by (cases zs) (auto split: if_splits simp: order_less_le)
qed

interpretation names: search_order strcmp "\<lambda>xs. 0 \<notin> set xs"
proof unfold_locales
  fix x y z :: "byte list"
  assume v: "0 \<notin> set x" "0 \<notin> set y"
  show "strcmp x y = 0 \<longleftrightarrow> x = y" by (rule strcmp_zero [OF v])
  show "strcmp x y < 0 \<longleftrightarrow> strcmp y x > 0" using strcmp_flip [of x y] by simp
  assume "0 \<notin> set z" "strcmp x y < 0" "strcmp y z < 0"
  with v show "strcmp x z < 0" by (rule strcmp_trans)
qed


section \<open>The table and the map\<close>

definition robots :: "(byte list \<times> int) list" where
  "robots = [(bytes_of ''DarcLord'', 0), (bytes_of ''DarcMaster'', 1), (bytes_of ''HammerBot'', 2),
     (bytes_of ''HulkX90'', 3), (bytes_of ''SpinBot'', 4), (bytes_of ''SquashBot'', 5),
     (bytes_of ''TrundleBot'', 6), (bytes_of ''Twitch'', 7), (bytes_of ''Twonky'', 8),
     (bytes_of ''ZoomBot'', 9)]"

text \<open>\<open>compare\<close>: the key against the name of a table entry.\<close>

definition compare :: "byte list \<Rightarrow> byte list \<times> int \<Rightarrow> int" where
  "compare key item = strcmp key (fst item)"

definition findIndex :: "byte list \<Rightarrow> int" where
  "findIndex key =
     (case bsearch compare (cstr key) robots 0 10 of
        Some item \<Rightarrow> snd item
      | None \<Rightarrow> -1)"

record key_value =
  kv_key :: "byte list"
  kv_value :: create_status

type_synonym status_map = "key_value list"

definition put :: "status_map \<Rightarrow> byte list \<Rightarrow> create_status \<Rightarrow> status_map" where
  "put m key v =
     (let index = findIndex key in
      if index < 0 then m
      else m[nat index := (m ! nat index)
               \<lparr>kv_key := overlay 0 (cstr key) (kv_key (m ! nat index)), kv_value := v\<rparr>])"

text \<open>\<open>find\<close> returns a pointer into the map; the value is what it points to at that time.\<close>

definition find_status :: "status_map \<Rightarrow> byte list \<Rightarrow> create_status option" where
  "find_status m key =
     (let index = findIndex key in
      if index \<ge> 0 then Some (kv_value (m ! nat index)) else None)"

lemma robots_sorted: "names.sorted_keys robots"
proof -
  have "\<forall>j < 10. \<forall>i < j. strcmp (fst (robots ! i)) (fst (robots ! j)) < 0" by code_simp
  moreover have "length robots = 10" "\<forall>x \<in> set robots. 0 \<notin> set (fst x)" by code_simp+
  ultimately show ?thesis by (simp add: names.sorted_keys_def)
qed

lemma length_robots: "length robots = 10"
  by code_simp

lemma find_map_of: "distinct (map fst xs) \<Longrightarrow>
  (case find (\<lambda>e. fst e = k) xs of Some e \<Rightarrow> Some (snd e) | None \<Rightarrow> None) = map_of xs k"
  by (induction xs) auto

lemma findIndex_map_of:
  "findIndex key = (case map_of robots (cstr key) of Some i \<Rightarrow> i | None \<Rightarrow> -1)"
proof -
  have "bsearch compare (cstr key) robots 0 10 = find (\<lambda>e. fst e = cstr key) robots"
    using names.search_finds [OF robots_sorted, of "cstr key" 10 0] length_robots
    by (simp add: compare_def [abs_def])
  moreover have "distinct (map fst robots)" by code_simp
  from find_map_of [OF this, of "cstr key"]
  have "map_of robots (cstr key) = (case find (\<lambda>e. fst e = cstr key) robots of Some e \<Rightarrow> Some (snd e) | None \<Rightarrow> None)"
    by simp
  ultimately show ?thesis
    by (simp add: findIndex_def split: option.split)
qed

section \<open>A keyed store\<close>

text \<open>The value of the last pair whose key has the name of \<open>k'\<close>; unknown names do not count.\<close>

fun latest :: "('n \<Rightarrow> bool) \<Rightarrow> ('k \<Rightarrow> 'n) \<Rightarrow> ('k \<times> 'v) list \<Rightarrow> 'k \<Rightarrow> 'v option \<Rightarrow> 'v option" where
  "latest known name [] k' d = d"
| "latest known name ((k, v) # kvs) k' d =
     latest known name kvs k' (if known (name k) \<and> name k' = name k then Some v else d)"

locale keyed_store =
  fixes store :: "'m \<Rightarrow> 'k \<Rightarrow> 'v \<Rightarrow> 'm" and look :: "'m \<Rightarrow> 'k \<Rightarrow> 'v option"
    and name :: "'k \<Rightarrow> 'n" and known :: "'n \<Rightarrow> bool" and wf :: "'m \<Rightarrow> bool"
  assumes wf_store: "wf m \<Longrightarrow> wf (store m k v)"
    and look_store: "wf m \<Longrightarrow> known (name k) \<Longrightarrow>
      look (store m k v) k' = (if name k' = name k then Some v else look m k')"
    and store_unknown: "\<not> known (name k) \<Longrightarrow> store m k v = m"
begin

lemma look_fold:
  "wf m \<Longrightarrow> look (fold (\<lambda>(k, v) m. store m k v) kvs m) k' = latest known name kvs k' (look m k')"
proof (induction kvs arbitrary: m)
  case Nil
  then show ?case by simp
next
  case (Cons kv kvs)
  obtain k v where kv: "kv = (k, v)" by (cases kv)
  show ?case
  proof (cases "known (name k)")
    case True
    with Cons show ?thesis by (simp add: kv wf_store look_store)
  next
    case False
    with Cons show ?thesis by (simp add: kv store_unknown)
  qed
qed

end

definition known_robot :: "byte list \<Rightarrow> bool" where
  "known_robot n \<longleftrightarrow> n \<in> fst ` set robots"

lemma robots_range: "map_of robots n = Some i \<Longrightarrow> 0 \<le> i \<and> i < 10"
proof -
  assume "map_of robots n = Some i"
  then have "i \<in> snd ` set robots" by (force dest: map_of_SomeD)
  moreover have "snd ` set robots = {0..<10}" by code_simp
  ultimately show ?thesis by simp
qed

lemma findIndex_nat: "findIndex key < 10"
  using robots_range by (auto simp: findIndex_map_of split: option.split)

lemma findIndex_neg: "findIndex key < 0 \<longleftrightarrow> \<not> known_robot (cstr key)"
  using robots_range [of "cstr key"]
  by (auto simp: findIndex_map_of known_robot_def map_of_eq_None_iff split: option.split)
    (metis image_eqI map_of_eq_None_iff option.distinct(1))+


lemma put_unknown: "\<not> known_robot (cstr k) \<Longrightarrow> put m k v = m"
  by (simp add: put_def findIndex_neg)

lemma put_find:
  assumes "length m = 10"
  shows "length (put m k v) = 10"
    and "known_robot (cstr k) \<Longrightarrow>
      find_status (put m k v) k' = (if cstr k' = cstr k then Some v else find_status m k')"
proof -
  show "length (put m k v) = 10" using assms by (simp add: put_def Let_def)
  assume k: "known_robot (cstr k)"
  then have i: "0 \<le> findIndex k" "nat (findIndex k) < 10"
    using findIndex_neg [of k] findIndex_nat [of k] by auto
  have same: "cstr k' = cstr k" if "findIndex k' = findIndex k"
  proof -
    from i that have "map_of robots (cstr k') = Some (findIndex k)" "map_of robots (cstr k) = Some (findIndex k)"
      by (auto simp: findIndex_map_of split: option.splits)
    then have "(cstr k', findIndex k) \<in> set robots" "(cstr k, findIndex k) \<in> set robots"
      by (auto dest: map_of_SomeD)
    moreover have "distinct (map snd robots)" by code_simp
    ultimately show ?thesis by (metis distinct_map fst_conv inj_onD snd_conv)
  qed
  show "find_status (put m k v) k' = (if cstr k' = cstr k then Some v else find_status m k')"
  proof (cases "cstr k' = cstr k")
    case True
    then have "findIndex k' = findIndex k" by (simp add: findIndex_map_of)
    with True i assms show ?thesis by (simp add: find_status_def put_def Let_def)
  next
    case False
    with same have "findIndex k' \<noteq> findIndex k" by auto
    with False i assms show ?thesis
      by (auto simp: find_status_def put_def Let_def nth_list_update eq_nat_nat_iff)
  qed
qed

interpretation status_store: keyed_store put find_status cstr known_robot "\<lambda>m. length m = 10"
  by unfold_locales (use put_find put_unknown in auto)

section \<open>Starting and stopping\<close>

record server = client +
  sv_sock :: int
  sv_rc :: int
  sv_not_done :: int
  sv_no_data :: int
  sv_thread_mode :: int
  sv_buff :: "byte list"
  sv_status :: create_status
  sv_terminated :: "byte list"
  sv_detected :: "byte list"
  sv_map :: status_map

text \<open>
  What the network answers during the initialisation: whether \<open>gethostbyname\<close> knows the group,
  whether the address is multicast, the socket and the results of \<open>bind\<close> and \<open>setsockopt\<close>.
\<close>

record network =
  net_group :: bool
  net_multicast :: bool
  net_socket :: int
  net_bind :: int
  net_setsockopt :: int

text \<open>The value is \<open>False\<close> when the code calls \<open>exit(1)\<close>.\<close>

definition give_up :: "string \<Rightarrow> ('a os_scheme, bool) state" where
  "give_up msg = do { emit (EvPrintf msg []); emit (EvExit 1); ret False }"

definition initializeServer :: "network \<Rightarrow> ('a server_scheme, bool) state" where
  "initializeServer net = do {
     modify (\<lambda>s. s\<lparr>sv_sock := 0, sv_rc := 0, sv_buff := replicate 54 0\<rparr>);
     if \<not> net_group net then give_up ''iServer : unknown group''
     else if \<not> net_multicast net then give_up ''iServer : given address is not multicast''
     else do {
       modify (\<lambda>s. s\<lparr>sv_sock := net_socket net\<rparr>);
       if net_socket net < 0 then give_up ''iServer : cannot create socket''
       else if net_bind net < 0 then give_up ''iServer : cannot bind port 1500''
       else do {
         modify (\<lambda>s. s\<lparr>sv_rc := net_setsockopt net\<rparr>);
         if net_setsockopt net < 0 then give_up ''iServer : cannot join multicast group''
         else do {
           emit (EvPrintf ''iServer : listening to mgroup'' []);
           modify (\<lambda>s. s\<lparr>sv_not_done := 1\<rparr>);
           ret True
         }
       }
     }
   }"

definition startServer :: "network \<Rightarrow> ('a server_scheme, bool) state" where
  "startServer net = do {
     emit (EvMutexInit ServerMutex);
     ok \<leftarrow> initializeServer net;
     if \<not> ok then ret False
     else do {
       modify (\<lambda>s. s\<lparr>sv_thread_mode := 1\<rparr>);
       emit (EvMutexInit StatusCacheMutex);
       emit (EvThreadCreate ''serverThreadFunc'');
       emit (EvPrintf ''Started Server Thread'' []);
       ret True
     }
   }"

definition closeServer :: "('a server_scheme, unit) state" where
  "closeServer = do {
     emit (EvLock StatusCacheMutex);
     modify (\<lambda>s. s\<lparr>sv_not_done := 0\<rparr>);
     rc \<leftarrow> gets sv_rc;
     emit (EvClose rc);
     modify (\<lambda>s. s\<lparr>sv_rc := 0\<rparr>);
     sock \<leftarrow> gets sv_sock;
     emit (EvShutdown sock);
     modify (\<lambda>s. s\<lparr>sv_sock := 0\<rparr>);
     emit (EvUnlock StatusCacheMutex);
     emit (EvThreadJoin ''server_thread'');
     emit (EvPrintf ''Exiting Server...'' []);
     emit (EvMutexDestroy StatusCacheMutex);
     emit (EvMutexDestroy ServerMutex)
   }"

definition startClient :: "network \<Rightarrow> ('a client_scheme, bool) state" where
  "startClient net = do {
     modify (\<lambda>s. s\<lparr>cl_sd := 0, cl_rc := 0\<rparr>);
     if \<not> net_group net then give_up ''iClient : unknown host''
     else do {
       modify (\<lambda>s. s\<lparr>cl_sd := net_socket net\<rparr>);
       if net_socket net < 0 then give_up ''iClient : cannot open socket''
       else if net_bind net < 0 then do {
         emit (EvPerror ''bind'');
         emit (EvExit 1);
         ret False
       }
       else if net_setsockopt net < 0 then give_up ''iClient : cannot set ttl''
       else do {
         emit (EvPrintf ''iClient : sending data on multicast group'' []);
         ret True
       }
     }
   }"

section \<open>The server thread\<close>

text \<open>
  What \<open>select\<close> and \<open>recvfrom\<close> say in one turn of the loop: nothing within five seconds, a
  failed read, or a datagram from an address.
\<close>

datatype arrival = Quiet | NotReady | Failed | Datagram int "byte list"

definition dispatch :: "('a server_scheme, unit) state" where
  "dispatch = do {
     buff \<leftarrow> gets sv_buff;
     let msg_type = uint (buff ! 0);
     if msg_type = MSG_TYPE_STATUS then do {
       modify (\<lambda>s. s\<lparr>sv_status := bytes_status (drop 1 buff)\<rparr>);
       modify (\<lambda>s. s\<lparr>sv_map := put (sv_map s) (st_uid (sv_status s)) (sv_status s)\<rparr>)
     } else if msg_type = MSG_TYPE_TERMINATION then
       modify (\<lambda>s. s\<lparr>sv_terminated := take 32 (drop 1 buff)\<rparr>)
     else if msg_type = MSG_TYPE_DETECTION then
       modify (\<lambda>s. s\<lparr>sv_detected := take 32 (drop 1 buff)\<rparr>)
     else emit (EvPrintf ''iServer: unknown message type received'' [])
   }"

text \<open>
  One turn. \<open>inet_ntoa\<close> gives the address of a string; the code compares those two addresses.
  A packet that is skipped stays in \<open>read_buff\<close>.
\<close>

definition server_turn :: "(int \<Rightarrow> nat) \<Rightarrow> int \<Rightarrow> arrival \<Rightarrow> ('a server_scheme, unit) state" where
  "server_turn inet_ntoa local a =
     (case a of
        Quiet \<Rightarrow> ret ()
      | NotReady \<Rightarrow> ret ()
      | Failed \<Rightarrow> do {
          modify (\<lambda>s. s\<lparr>sv_no_data := 0\<rparr>);
          emit (EvPrintf ''iServer : cannot receive data'' [])
        }
      | Datagram from bs \<Rightarrow> do {
          modify (\<lambda>s. s\<lparr>sv_no_data := 0\<rparr>);
          modify (\<lambda>s. s\<lparr>sv_buff := overlay 0 (take 54 bs) (sv_buff s)\<rparr>);
          if inet_ntoa from = inet_ntoa local then ret ()
          else do {
            emit (EvLock StatusCacheMutex);
            dispatch;
            modify (\<lambda>s. s\<lparr>sv_buff := replicate 54 0\<rparr>);
            emit (EvUnlock StatusCacheMutex)
          }
        })"

fun server_loop :: "(int \<Rightarrow> nat) \<Rightarrow> int \<Rightarrow> arrival list \<Rightarrow> ('a server_scheme, unit) state" where
  "server_loop inet_ntoa local [] = ret ()"
| "server_loop inet_ntoa local (a # as) = do {
     nd \<leftarrow> gets sv_not_done;
     if nd \<noteq> 0 then do {
       server_turn inet_ntoa local a;
       server_loop inet_ntoa local as
     } else ret ()
   }"

definition serverThreadFunc :: "(int \<Rightarrow> nat) \<Rightarrow> int \<Rightarrow> arrival list \<Rightarrow> ('a server_scheme, unit) state" where
  "serverThreadFunc inet_ntoa local as = do {
     modify (\<lambda>s. s\<lparr>sv_no_data := 1\<rparr>);
     server_loop inet_ntoa local as
   }"

definition getStatus :: "byte list \<Rightarrow> ('a server_scheme, create_status option) state" where
  "getStatus uid = gets (\<lambda>s. find_status (sv_map s) uid)"


section \<open>What the server keeps\<close>

lemma terminated_short:
  assumes "status_ok st" "0 \<in> set (st_uid st)"
  shows "\<exists>n < 32. strlen (st_uid st) = Some n"
proof -
  have len: "length (st_uid st) = 32" using assms(1) by (simp add: status_ok_def)
  have "length (cstr (st_uid st)) \<noteq> 32"
    using cstr_prefix [of "st_uid st"] cstr_no_zero [of "st_uid st"] assms(2) len by (metis order_refl take_all)
  then show ?thesis
    using length_cstr [of "st_uid st"] assms(2) len by (simp add: strlen_def)
qed

lemma packet_layout:
  assumes "status_ok st" "strlen (st_uid st) = Some n" "n < 32"
  obtains p where "copy_status st = Some p" "status_ok p" "cstr (st_uid p) = cstr (st_uid st)"
    "status_packet st = Some (1 # status_bytes p @ [0])"
proof -
  obtain p where p: "copy_status st = Some p" "status_ok p" "cstr (st_uid p) = cstr (st_uid st)"
    using assms by (rule copy_status_ok)
  have "overlay 1 (status_bytes p) (overlay 0 [word_of_int MSG_TYPE_STATUS] (replicate 54 0))
      = 1 # status_bytes p @ [0]"
    using length_status_bytes [OF p(2)]
    by (simp add: overlay_def MSG_TYPE_STATUS_def numeral_eq_Suc)
  with p show thesis by (intro that) (simp_all add: status_packet_def)
qed

text \<open>
  The packet on the wire: for every status whose name is terminated within its 32 bytes,
  \<open>sendStatus\<close> sends 54 bytes whose type byte is 1 and from whose next 52 bytes the receiver
  reads back the same five numbers and the same name.
\<close>
theorem status_round_trip:
  assumes "status_ok st" "strlen (st_uid st) = Some n"
  shows "\<exists>pkt. status_packet st = Some pkt \<and> length pkt = 54 \<and> pkt ! 0 = 1
     \<and> (bytes_status (drop 1 pkt))\<lparr>st_uid := []\<rparr> = st\<lparr>st_uid := []\<rparr>
     \<and> cstr (st_uid (bytes_status (drop 1 pkt))) = cstr (st_uid st)"
proof -
  have "0 \<in> set (st_uid st)" using assms(2) by (simp add: strlen_def split: if_splits)
  with terminated_short [OF assms(1)] assms(2) have "n < 32" by auto
  with assms obtain p where p: "copy_status st = Some p" "status_ok p" "cstr (st_uid p) = cstr (st_uid st)"
    "status_packet st = Some (1 # status_bytes p @ [0])" by (rule packet_layout)
  moreover have "p\<lparr>st_uid := []\<rparr> = st\<lparr>st_uid := []\<rparr>"
    using p(1) by (auto simp: copy_status_def split: option.splits if_splits)
  ultimately show ?thesis
    using length_status_bytes [OF p(2)] bytes_status_bytes [OF p(2)] by simp
qed

definition hammer :: create_status where
  "hammer = \<lparr>st_pos_x = 2000, st_pos_y = -300, st_heading = 0, st_velocity = 0, st_category = 0,
     st_uid = bytes_of ''HammerBot'' @ replicate 23 0\<rparr>"

lemma hammer_ok: "status_ok hammer" "strlen (st_uid hammer) = Some 9"
  by code_simp+

theorem status_round_trip_witness:
  "\<exists>pkt. status_packet hammer = Some pkt \<and> length pkt = 54
     \<and> st_pos_y (bytes_status (drop 1 pkt)) = -300"
proof -
  from status_round_trip [OF hammer_ok] obtain pkt where "status_packet hammer = Some pkt" "length pkt = 54"
    "(bytes_status (drop 1 pkt))\<lparr>st_uid := []\<rparr> = hammer\<lparr>st_uid := []\<rparr>" by blast
  moreover have "st_pos_y r = st_pos_y (r\<lparr>st_uid := []\<rparr>)" for r :: create_status by simp
  ultimately show ?thesis by (metis hammer_def create_status.select_convs(2))
qed

lemma uint_one_byte: "uint (1 :: byte) = 1"
  by simp

lemma server_turn_status:
  assumes "status_ok st" "strlen (st_uid st) = Some n" "n < 32"
    and "inet_ntoa from \<noteq> inet_ntoa local" "length (sv_buff s) = 54"
  shows "sv_map (exec_of (server_turn inet_ntoa local (Datagram from (the (status_packet st)))) s)
       = put (sv_map s) (st_uid (the (copy_status st))) (the (copy_status st))
     \<and> sv_buff (exec_of (server_turn inet_ntoa local (Datagram from (the (status_packet st)))) s) = replicate 54 0
     \<and> sv_not_done (exec_of (server_turn inet_ntoa local (Datagram from (the (status_packet st)))) s) = sv_not_done s"
proof -
  obtain p where p: "copy_status st = Some p" "status_ok p"
    "status_packet st = Some (1 # status_bytes p @ [0])"
    using assms(1-3) by (rule packet_layout)
  have "overlay 0 (take 54 (1 # status_bytes p @ [0])) (sv_buff s) = 1 # status_bytes p @ [0]"
    using length_status_bytes [OF p(2)] assms(5) by (simp add: overlay_def)
  then show ?thesis
    using p assms(4) bytes_status_bytes [OF p(2), of "[0]"]
    by (simp add: server_turn_def dispatch_def MSG_TYPE_STATUS_def Let_def)
qed


text \<open>A packet from the robot at an address, and what the server stores of a status.\<close>

definition packet_from :: "int \<times> create_status \<Rightarrow> arrival" where
  "packet_from m = Datagram (fst m) (the (status_packet (snd m)))"

definition stored :: "int \<times> create_status \<Rightarrow> byte list \<times> create_status" where
  "stored m = (st_uid (snd m), the (copy_status (snd m)))"

definition sendable :: "(int \<Rightarrow> nat) \<Rightarrow> int \<Rightarrow> int \<times> create_status \<Rightarrow> bool" where
  "sendable inet_ntoa local m \<longleftrightarrow>
     status_ok (snd m) \<and> 0 \<in> set (st_uid (snd m)) \<and> inet_ntoa (fst m) \<noteq> inet_ntoa local"

lemma server_loop_map:
  assumes "sv_not_done s \<noteq> 0" "length (sv_buff s) = 54" "\<forall>m \<in> set msgs. sendable inet_ntoa local m"
  shows "sv_map (exec_of (server_loop inet_ntoa local (map packet_from msgs)) s)
     = fold (\<lambda>(k, v) m. put m k v) (map (\<lambda>m. (st_uid (snd (stored m)), snd (stored m))) msgs) (sv_map s)"
  using assms
proof (induction msgs arbitrary: s)
  case Nil
  then show ?case by simp
next
  case (Cons m msgs)
  obtain x s1 where turn: "run_state (server_turn inet_ntoa local (packet_from m)) s = (x, s1)"
    by (cases "run_state (server_turn inet_ntoa local (packet_from m)) s")
  from Cons.prems(3) have ok: "status_ok (snd m)" "0 \<in> set (st_uid (snd m))" "inet_ntoa (fst m) \<noteq> inet_ntoa local"
    by (auto simp: sendable_def)
  from terminated_short [OF ok(1,2)] obtain n where "n < 32" "strlen (st_uid (snd m)) = Some n" by auto
  from server_turn_status [OF ok(1) this(2,1) ok(3) Cons.prems(2)] turn
  have s1: "sv_map s1 = put (sv_map s) (st_uid (snd (stored m))) (snd (stored m))"
    "length (sv_buff s1) = 54" "sv_not_done s1 = sv_not_done s"
    by (simp_all add: packet_from_def stored_def)
  with Cons.IH [of s1] Cons.prems turn show ?case by simp
qed

lemma latest_cong:
  "(\<And>m. m \<in> set ms \<Longrightarrow> name (fst (f m)) = name (fst (g m)) \<and> snd (f m) = snd (g m)) \<Longrightarrow>
   latest known name (map f ms) k' d = latest known name (map g ms) k' d"
proof (induction ms arbitrary: d)
  case (Cons m ms)
  obtain a v b w where "f m = (a, v)" "g m = (b, w)" by fastforce
  with Cons show ?case by fastforce
qed simp


definition no_status :: create_status where
  "no_status = \<lparr>st_pos_x = 0, st_pos_y = 0, st_heading = 0, st_velocity = 0, st_category = 0,
     st_uid = replicate 32 0\<rparr>"

definition listening :: server where
  "listening = \<lparr>wr = \<lambda>_. WErr, rd = \<lambda>_. RErr, opn = \<lambda>_. 3, alloc = \<lambda>_. True, clock = \<lambda>_. (0, 0),
     char_signed = True, tick = 0, trace = [], oi_fd = 3, oi_debug = 0, oi_thread_mode = 1,
     oi_cache = None, oi_over = 0, junk_cache = undefined, junk_byte = 0, im_fd = 5, im_out = None,
     im_thread_mode = 1, im_cache = None, junk_imu = undefined, cl_sd = 6, cl_rc = 0, sv_sock = 4, sv_rc = 0, sv_not_done = 1, sv_no_data = 1,
     sv_thread_mode = 1, sv_buff = replicate 54 0, sv_status = no_status,
     sv_terminated = replicate 32 0, sv_detected = replicate 32 0,
     sv_map = replicate 10 \<lparr>kv_key = replicate 32 0, kv_value = no_status\<rparr>\<rparr>"


lemma server_turn_deaf:
  assumes "\<forall>a b. inet_ntoa a = inet_ntoa b"
  shows "sv_map (exec_of (server_turn inet_ntoa local a) s) = sv_map s
    \<and> sv_status (exec_of (server_turn inet_ntoa local a) s) = sv_status s"
  using assms by (cases a) (auto simp: server_turn_def)

text \<open>
  With the static result buffer POSIX allows for \<open>inet_ntoa\<close>, the server is deaf: the test
  meant to skip the robot's own packets compares the buffer with itself, so no packet, from
  any sender, ever changes what \<open>getStatus\<close> answers.
\<close>
lemma server_deaf_with_static_buffer:
  assumes "\<forall>a b. inet_ntoa a = inet_ntoa b"
  shows "value_of (getStatus uid) (exec_of (serverThreadFunc inet_ntoa local as) s) = value_of (getStatus uid) s"
proof -
  have "sv_map (exec_of (server_loop inet_ntoa local as) s) = sv_map s" for s :: "'a server_scheme"
  proof (induction as arbitrary: s)
    case Nil
    then show ?case by simp
  next
    case (Cons a as)
    obtain x s1 where "run_state (server_turn inet_ntoa local a) s = (x, s1)"
      by (cases "run_state (server_turn inet_ntoa local a) s")
    with Cons server_turn_deaf [OF assms, of local a s] show ?case by simp
  qed
  then show ?thesis by (simp add: serverThreadFunc_def getStatus_def)
qed

theorem server_deaf_with_static_buffer_witness:
  "value_of (getStatus (bytes_of ''HammerBot''))
     (exec_of (serverThreadFunc (\<lambda>_. 0) 7 [packet_from (1, hammer)]) listening)
   = value_of (getStatus (bytes_of ''HammerBot'')) listening"
  using server_deaf_with_static_buffer [of "\<lambda>_. 0" "bytes_of ''HammerBot''" 7 "[packet_from (1, hammer)]" listening]
  by simp

text \<open>
  \<open>closeServer\<close> closes the wrong descriptor: after a successful \<open>startServer\<close> the value it
  closes is the result of \<open>setsockopt\<close>, and the socket is shut down but never closed. On
  success \<open>setsockopt\<close> returns 0, so what is closed is the standard input.
\<close>
theorem closeServer_leaks_socket:
  assumes "value_of (startServer net) s = True" "net_setsockopt net = 0"
  shows "\<exists>evs. trace (exec_of closeServer (exec_of (startServer net) s))
       = trace (exec_of (startServer net) s) @ evs
     \<and> EvClose 0 \<in> set evs \<and> EvShutdown (net_socket net) \<in> set evs
     \<and> (net_socket net = 0 \<or> EvClose (net_socket net) \<notin> set evs)"
proof -
  have "net_group net \<and> net_multicast net \<and> \<not> net_socket net < 0 \<and> \<not> net_bind net < 0 \<and> \<not> net_setsockopt net < 0"
    using assms(1) by (auto simp: startServer_def initializeServer_def give_up_def split: if_splits)
  then show ?thesis
    using assms(2) by (simp add: startServer_def initializeServer_def closeServer_def)
qed

theorem closeServer_leaks_socket_witness:
  "EvClose 4 \<notin> set (trace (exec_of closeServer (exec_of (startServer
      \<lparr>net_group = True, net_multicast = True, net_socket = 4, net_bind = 0, net_setsockopt = 0\<rparr>) listening)))"
  using closeServer_leaks_socket [of "\<lparr>net_group = True, net_multicast = True, net_socket = 4, net_bind = 0, net_setsockopt = 0\<rparr>" listening]
  by (simp add: startServer_def initializeServer_def closeServer_def listening_def)

end
