(* ===== verification/SensorContracts.thy ===== *)
theory SensorContracts
  imports CreateContracts
begin

text \<open>
  What the sensor reads promise: every value comes from the bytes the port delivered in that
  call, errors come only from a failing system call, and the group read agrees with the
  single-sensor reads on every packet.
\<close>

definition raw_outcome :: "'a os_scheme \<Rightarrow> oi_sensor \<Rightarrow> byte list \<Rightarrow> nat \<Rightarrow> int \<times> byte list \<Rightarrow> event list \<Rightarrow> bool" where
  "raw_outcome s packet buffer n r evs \<longleftrightarrow>
     length (received evs) \<le> n \<and> snd r = overlay 0 (received evs) buffer
     \<and> (fst r = -1 \<and> (\<exists>t. wr s t = WErr \<or> rd s t = RErr)
        \<or> fst r = int (length (received evs))
            \<and> (sent evs = [142, to_byte (sensor_code packet)] \<or> 4 \<le> zero_writes evs))"

lemma readRawSensor_run:
  obtains r t evs where "run_state (readRawSensor packet buffer n) s = (r, s\<lparr>tick := t, trace := trace s @ evs\<rparr>)"
    "raw_outcome s packet buffer (nat n) r evs"
proof -
  let ?s = "s\<lparr>trace := trace s @ [EvLock CreateMutex]\<rparr>"
  let ?cmd = "[opcode OPCODE_SENSORS, to_byte (sensor_code packet)]"
  obtain v t es where w: "run_state (cwrite ?cmd 2) ?s = (v, ?s\<lparr>tick := t, trace := trace ?s @ es\<rparr>)"
    "write_outcome ?s ?cmd 2 v es" "received es = []" by (rule cwrite_run)
  let ?s1 = "?s\<lparr>tick := t, trace := trace ?s @ es\<rparr>"
  obtain r u fs where c: "run_state (cread n) ?s1 = (r, ?s1\<lparr>tick := u, trace := trace ?s1 @ fs\<rparr>)"
    "read_outcome ?s1 (nat n) r fs" "sent fs = []" by (rule cread_run)
  show thesis
  proof (cases "v < 0")
    case True
    with w show thesis
      by (intro that [where r = "(-1, buffer)" and t = t and evs = "EvLock CreateMutex # es @ [EvPerror ''Could not request sensor'', EvUnlock CreateMutex]"])
        (auto simp: readRawSensor_def raw_outcome_def write_outcome_def)
  next
    case False
    let ?tail = "if fst r < 0 then [EvPerror ''Could not read sensor'', EvUnlock CreateMutex] else [EvUnlock CreateMutex]"
    have quiet: "received ?tail = []" "sent ?tail = []" by simp_all
    show thesis
    proof (rule that)
      show "run_state (readRawSensor packet buffer n) s =
         ((if fst r < 0 then -1 else fst r, overlay 0 (snd r) buffer),
          s\<lparr>tick := u, trace := trace s @ (EvLock CreateMutex # es @ fs @ ?tail)\<rparr>)"
        using w(1) c(1) False by (simp add: readRawSensor_def)
      show "raw_outcome s packet buffer (nat n) (if fst r < 0 then -1 else fst r, overlay 0 (snd r) buffer)
          (EvLock CreateMutex # es @ fs @ ?tail)"
        using w(2,3) c(2,3) False by (auto simp: raw_outcome_def write_outcome_def read_outcome_def quiet)
    qed
  qed
qed

definition sensor_outcome :: "'a os_scheme \<Rightarrow> wire_format \<Rightarrow> int \<Rightarrow> event list \<Rightarrow> bool" where
  "sensor_outcome s fmt v evs \<longleftrightarrow>
     v = INT_MIN \<and> (\<exists>t. \<not> alloc s t \<or> wr s t = WErr \<or> rd s t = RErr)
     \<or> length (received evs) \<le> format_width fmt
       \<and> v = decode_sensor (char_signed s) fmt
               (received evs @ replicate (format_width fmt - length (received evs)) 0)"

lemma readSensor_run:
  assumes "sensor_format packet = Some fmt"
  obtains v t evs where "run_state (readSensor packet) s = (v, s\<lparr>tick := t, trace := trace s @ evs\<rparr>)"
    "sensor_outcome s fmt v evs"
proof (cases "alloc s (tick s)")
  case False
  with assms show thesis
    by (intro that [where v = INT_MIN and t = "Suc (tick s)" and evs = "[]"])
      (auto simp: readSensor_def sensor_outcome_def os_malloc_def advance_def)
next
  case True
  let ?w = "format_width fmt"
  obtain r t evs where run: "run_state (readRawSensor packet (replicate ?w 0) (int ?w)) (advance s)
      = (r, (advance s)\<lparr>tick := t, trace := trace (advance s) @ evs\<rparr>)"
    "raw_outcome (advance s) packet (replicate ?w 0) (nat (int ?w)) r evs" by (rule readRawSensor_run)
  show thesis
  proof (rule that)
    show "run_state (readSensor packet) s =
       (if fst r = -1 then INT_MIN else decode_sensor (char_signed s) fmt (snd r),
        s\<lparr>tick := t, trace := trace s @ evs\<rparr>)"
      using assms True run(1) by (simp add: readSensor_def os_malloc_def advance_def)
    show "sensor_outcome s fmt (if fst r = -1 then INT_MIN else decode_sensor (char_signed s) fmt (snd r)) evs"
      using run(2) by (auto simp: sensor_outcome_def raw_outcome_def overlay_def)
  qed
qed

lemma decode_sensor_range: "-32768 \<le> decode_sensor cs fmt buf \<and> decode_sensor cs fmt buf \<le> 65535"
proof (cases fmt)
  case OneByteUnsigned
  then show ?thesis using uint_byte_bounds [of "buf ! 0"] unfolding OneByteUnsigned decode_sensor.simps by linarith
next
  case OneByteSigned
  have "-128 \<le> sint (buf ! 0) \<and> sint (buf ! 0) < 128"
    using sint_ge [of "buf ! 0"] sint_lt [of "buf ! 0"] by simp
  moreover have "0 \<le> uint (buf ! 0) \<and> uint (buf ! 0) < 256"
    using uint_byte_bounds by blast
  ultimately show ?thesis unfolding OneByteSigned decode_sensor.simps to_char_def by (cases cs) (simp, simp only: if_False, linarith)
next
  case TwoByteUnsigned
  then show ?thesis using or_shift8_bounds [of "buf ! 0" "buf ! 1"] by simp
next
  case TwoByteSigned
  then show ?thesis
    using sint_short_bounds [of "to_short (or_shift8 (buf ! 0) (buf ! 1))"] by simp
qed



text \<open>The values of a wire format, as C types them.\<close>

fun wire_values :: "bool \<Rightarrow> wire_format \<Rightarrow> int set" where
  "wire_values cs OneByteUnsigned = {0..255}"
| "wire_values cs OneByteSigned = (if cs then {-128..127} else {0..255})"
| "wire_values cs TwoByteUnsigned = {0..65535}"
| "wire_values cs TwoByteSigned = {-32768..32767}"

lemma decode_sensor_typed: "decode_sensor cs fmt buf \<in> wire_values cs fmt"
proof (cases fmt)
  case OneByteSigned
  then show ?thesis using sint_ge [of "buf ! 0"] sint_lt [of "buf ! 0"] uint_byte_bounds [of "buf ! 0"]
    by (auto simp: to_char_def)
next
  case TwoByteSigned
  then show ?thesis using sint_short_bounds [of "to_short (or_shift8 (buf ! 0) (buf ! 1))"] by simp
qed (use uint_byte_bounds [of "buf ! 0"] or_shift8_bounds [of "buf ! 0" "buf ! 1"] in auto)

text \<open>
  C37. \<open>readSensor\<close> is well typed: whatever packet is asked for and whatever the port, the
  allocator and the robot do, the value is \<open>INT_MIN\<close> or lies in the range of the packet's wire
  type, one or two bytes, signed or not.
\<close>
theorem readSensor_typed:
  "value_of (readSensor packet) s = INT_MIN
   \<or> (\<exists>fmt. sensor_format packet = Some fmt \<and> value_of (readSensor packet) s \<in> wire_values (char_signed s) fmt)"
proof (cases "sensor_format packet")
  case None
  then show ?thesis by (simp add: readSensor_def)
next
  case (Some fmt)
  obtain v t evs where run: "run_state (readSensor packet) s = (v, s\<lparr>tick := t, trace := trace s @ evs\<rparr>)"
    "sensor_outcome s fmt v evs" using Some by (rule readSensor_run)
  then show ?thesis using Some decode_sensor_typed by (auto simp: sensor_outcome_def)
qed

section \<open>The group read\<close>

text \<open>
  Packet group 6 holds packets 7 to 42 in order; 15 and 16 are unused bytes. The offset of a
  packet is the total width of those before it.
\<close>

definition known_packets :: "oi_sensor list" where
  "known_packets = [SENSOR_BUMPS_AND_WHEEL_DROPS, SENSOR_WALL, SENSOR_CLIFF_LEFT,
     SENSOR_CLIFF_FRONT_LEFT, SENSOR_CLIFF_FRONT_RIGHT, SENSOR_CLIFF_RIGHT, SENSOR_VIRTUAL_WALL,
     SENSOR_OVERCURRENT, SENSOR_INFRARED, SENSOR_BUTTONS, SENSOR_DISTANCE, SENSOR_ANGLE,
     SENSOR_CHARGING_STATE, SENSOR_VOLTAGE, SENSOR_CURRENT, SENSOR_BATTERY_TEMP,
     SENSOR_BATTERY_CHARGE, SENSOR_BATTERY_CAPACITY, SENSOR_WALL_SIGNAL, SENSOR_CLIFF_LEFT_SIGNAL,
     SENSOR_CLIFF_FRONT_LEFT_SIGNAL, SENSOR_CLIFF_FRONT_RIGHT_SIGNAL, SENSOR_CLIFF_RIGHT_SIGNAL,
     SENSOR_DIGITAL_INPUTS, SENSOR_ANALOG_SIGNAL, SENSOR_CHARGING_SOURCES_AVAILABLE,
     SENSOR_OI_MODE, SENSOR_SONG_NUMBER, SENSOR_SONG_IS_PLAYING, SENSOR_NUM_STREAM_PACKETS,
     SENSOR_REQUESTED_VELOCITY, SENSOR_REQUESTED_RADIUS, SENSOR_REQUESTED_RIGHT_VEL,
     SENSOR_REQUESTED_LEFT_VEL]"

definition packet_width :: "nat \<Rightarrow> nat" where
  "packet_width code =
     (case find (\<lambda>p. sensor_code p = int code) known_packets of
        None \<Rightarrow> 1
      | Some p \<Rightarrow> (case sensor_format p of None \<Rightarrow> 1 | Some fmt \<Rightarrow> format_width fmt))"

definition packet_offset :: "oi_sensor \<Rightarrow> nat" where
  "packet_offset p = sum_list (map packet_width [7..<nat (sensor_code p)])"

lemma packet_offsets:
  "map packet_offset known_packets =
     [0,1,2,3,4,5,6,7,10,11,12,14,16,17,19,21,22,24,26,28,30,32,34,36,37,39,40,41,42,43,44,46,48,50]"
  by code_simp

lemma known_packet: "sensor_format p = Some fmt \<Longrightarrow> p \<in> set known_packets"
  by (cases p) (simp_all add: known_packets_def)

lemma decode_all_cases:
  "length buf = 52 \<Longrightarrow>
   list_all (\<lambda>(p, off). decode_all cs buf ! nat (sensor_code p - 7)
       = decode_sensor cs (the (sensor_format p)) (drop off buf))
     (zip known_packets [0,1,2,3,4,5,6,7,10,11,12,14,16,17,19,21,22,24,26,28,30,32,34,36,37,39,40,41,42,43,44,46,48,50])"
  unfolding known_packets_def decode_all_def by (simp add: upt_rec nth_Cons' eval_nat_numeral)


lemma in_zip_map: "p \<in> set ps \<Longrightarrow> (p, f p) \<in> set (zip ps (map f ps))"
  by (induction ps) auto

text \<open>
  C10. \<open>getAllSensors\<close> and \<open>readSensor\<close> agree: in the array computed from the 52 bytes of
  group 6, the entry of every packet (its number less 7) is the decoding \<open>readSensor\<close> would
  make of that packet's bytes, at the offset the packet widths add up to.
\<close>
theorem getAllSensors_agrees:
  assumes "sensor_format p = Some fmt" "length buf = 52"
  shows "decode_all cs buf ! nat (sensor_code p - 7) = decode_sensor cs fmt (drop (packet_offset p) buf)
     \<and> packet_offset p + format_width fmt \<le> 52"
proof -
  from assms(1) have p: "p \<in> set known_packets" by (rule known_packet)
  have pair: "(p, packet_offset p) \<in> set (zip known_packets (map packet_offset known_packets))"
    using p by (rule in_zip_map)
  with decode_all_cases [OF assms(2), of cs] assms(1)
  have "decode_all cs buf ! nat (sensor_code p - 7) = decode_sensor cs fmt (drop (packet_offset p) buf)"
    unfolding packet_offsets list_all_iff by fastforce
  moreover have "list_all (\<lambda>(p, off). off + format_width (the (sensor_format p)) \<le> 52)
      (zip known_packets (map packet_offset known_packets))"
    unfolding packet_offsets unfolding known_packets_def by simp
  ultimately show ?thesis
    using pair assms(1) by (force simp: list_all_iff)
qed

theorem getAllSensors_agrees_witness:
  "decode_all True (map word_of_nat [0..<52]) ! 12 = 12 * 256 + 13"
  using getAllSensors_agrees [of SENSOR_DISTANCE TwoByteSigned "map word_of_nat [0..<52]" True]
  by (simp add: decode_all_def or_shift8_add to_short_def nth_append)

lemma length_decode_all [simp]: "length (decode_all cs buf) = 36"
  by (simp add: decode_all_def)

lemma getAllSensors_run:
  obtains p t evs where "run_state getAllSensors s = (p, s\<lparr>tick := t, trace := trace s @ evs\<rparr>)"
    "p = NULL \<or> p = Ptr (decode_all (char_signed s) (received evs)) \<and> length (received evs) = 52"
proof (cases "alloc s (tick s)")
  case False
  show thesis
    by (rule that [where p = NULL and t = "Suc (tick s)" and
        evs = "[EvPrintf ''Could not get all sensors:  Memory allocation failed'' []]"])
      (use False in \<open>simp_all add: getAllSensors_def os_malloc_def advance_def\<close>)
next
  case True
  obtain r t evs where run: "run_state (readRawSensor SENSOR_GROUP_ALL (replicate 52 0) 52) (advance s)
      = (r, (advance s)\<lparr>tick := t, trace := trace (advance s) @ evs\<rparr>)"
    "raw_outcome (advance s) SENSOR_GROUP_ALL (replicate 52 0) (nat 52) r evs" by (rule readRawSensor_run)
  let ?out = "if fst r < 52 then evs @ [EvPrintf ''Could not get all sensors:  Incomplete data'' []] else evs"
  show thesis
  proof (rule that)
    show "run_state getAllSensors s =
       (if fst r < 52 then NULL else Ptr (decode_all (char_signed s) (snd r)), s\<lparr>tick := t, trace := trace s @ ?out\<rparr>)"
      using True run(1) by (simp add: getAllSensors_def os_malloc_def advance_def)
    show "(if fst r < 52 then NULL else Ptr (decode_all (char_signed s) (snd r))) = NULL \<or>
       (if fst r < 52 then NULL else Ptr (decode_all (char_signed s) (snd r)))
         = Ptr (decode_all (char_signed s) (received ?out)) \<and> length (received ?out) = 52"
      using run(2) by (auto simp: raw_outcome_def)
  qed
qed

text \<open>
  \<open>getAllSensors\<close>: a result that is not \<open>NULL\<close> is an array of 36 values computed from
  exactly the 52 bytes that arrived in this call, so the indices the sensor threads use
  (up to 33) are in bounds.
\<close>
theorem getAllSensors_contract:
  "\<exists>evs. trace (exec_of getAllSensors s) = trace s @ evs
     \<and> (value_of getAllSensors s = NULL
        \<or> (\<exists>xs. value_of getAllSensors s = Ptr xs \<and> length xs = 36
              \<and> length (received evs) = 52 \<and> xs = decode_all (char_signed s) (received evs)))"
  by (rule getAllSensors_run [of s]) auto

section \<open>The battery\<close>

lemma cdiv_pos: "0 \<le> a \<Longrightarrow> 0 < b \<Longrightarrow> cdiv a b = a div b"
  by (cases "a = 0") (simp_all add: cdiv_def)

text \<open>
  \<open>getCharge\<close> in multi-threaded mode: for a battery reading that makes sense, the value
  is the charge in percent of the capacity, rounded down, between 0 and 100.
\<close>
theorem getCharge_percent:
  assumes "oi_thread_mode s \<noteq> 0"
    and "0 \<le> sc_charge (the_cache s)" "sc_charge (the_cache s) \<le> sc_capacity (the_cache s)"
    and "0 < sc_capacity (the_cache s)" "sc_capacity (the_cache s) \<le> 65535"
  shows "value_of getCharge s = 100 * sc_charge (the_cache s) div sc_capacity (the_cache s)
     \<and> 0 \<le> value_of getCharge s \<and> value_of getCharge s \<le> 100"
proof -
  let ?c = "sc_charge (the_cache s)" and ?m = "sc_capacity (the_cache s)"
  have "?c \<noteq> INT_MIN" "?m \<noteq> INT_MIN" using assms by (auto simp: INT_MIN_def)
  then have val: "value_of getCharge s = 100 * ?c div ?m"
    using assms by (simp add: getCharge_def cached_def wrap32_id cdiv_pos mult.commute)
  have "100 * ?c div ?m \<le> 100 * ?m div ?m"
    using assms by (intro zdiv_mono1) simp_all
  with assms show ?thesis unfolding val by (simp add: pos_imp_zdiv_nonneg_iff)
qed

theorem getCharge_percent_witness:
  "value_of getCharge ((fresh_process (\<lambda>_. WErr) (\<lambda>_. RErr))\<lparr>oi_thread_mode := 1,
      oi_cache := Some (blank_cache\<lparr>sc_charge := 2000, sc_capacity := 2700\<rparr>)\<rparr>) = 74"
  using getCharge_percent [of "(fresh_process (\<lambda>_. WErr) (\<lambda>_. RErr))\<lparr>oi_thread_mode := 1,
      oi_cache := Some (blank_cache\<lparr>sc_charge := 2000, sc_capacity := 2700\<rparr>)\<rparr>"]
  by (simp add: the_cache_def)

end
