(* ===== verification/CreateOdometry.thy ===== *)
theory CreateOdometry
  imports SensorContracts
begin

text \<open>
  The wait loops on a robot that moves. \<open>odometer_loop\<close> is the contract the two loops share:
  an iteration adds one reading, between \<open>lo\<close> and \<open>hi\<close>, and stops at the goal. Termination and
  the bounds on the result are proved once from it and used for \<open>waitDistance\<close> and
  \<open>waitAngle\<close> on a port that answers every query with such a reading.
\<close>

section \<open>The contract\<close>

locale odometer_loop =
  fixes loop :: "nat \<Rightarrow> int \<Rightarrow> ('s, int option) state"
    and moving :: "'s \<Rightarrow> bool"
    and goal lo hi :: int
  assumes loop_0: "run_state (loop 0 c) s = (None, s)"
    and loop_Suc: "moving s \<Longrightarrow> \<exists>v s'. lo \<le> v \<and> v \<le> hi \<and> moving s'
      \<and> run_state (loop (Suc n) c) s =
          (if reached goal (wrap32 (c + v)) then (Some (wrap32 (c + v)), s')
           else run_state (loop n (wrap32 (c + v))) s')"
begin

lemma loop_arrives:
  assumes "moving s" "0 \<le> c" "c < goal" "1 \<le> lo" "goal + hi < 2147483648" "goal - c \<le> int n * lo"
  shows "\<exists>v s'. run_state (loop n c) s = (Some v, s') \<and> goal \<le> v \<and> v < goal + hi \<and> moving s'"
  using assms
proof (induction n arbitrary: c s)
  case 0
  then show ?case by simp
next
  case (Suc n)
  from loop_Suc [OF Suc.prems(1), of n c] obtain v s' where v: "lo \<le> v" "v \<le> hi" "moving s'"
    and run: "run_state (loop (Suc n) c) s = (if reached goal (wrap32 (c + v)) then (Some (wrap32 (c + v)), s')
           else run_state (loop n (wrap32 (c + v))) s')" by blast
  have w: "wrap32 (c + v) = c + v"
    using v Suc.prems by (intro wrap32_id) linarith+
  show ?case
  proof (cases "goal \<le> c + v")
    case True
    with run w v Suc.prems show ?thesis by (simp add: reached_def)
  next
    case False
    with Suc.prems have "\<not> reached goal (c + v)" by (simp add: reached_def)
    moreover have "goal - (c + v) \<le> int n * lo"
      using Suc.prems v by (simp add: algebra_simps)
    ultimately show ?thesis
      using Suc.IH [of s' "c + v"] False v Suc.prems run w by simp
  qed
qed

lemma loop_stands:
  assumes "moving s" "lo = 0" "hi = 0" "0 < goal"
  shows "fst (run_state (loop n 0) s) = None"
  using assms(1)
proof (induction n arbitrary: s)
  case 0
  then show ?case by (simp add: loop_0)
next
  case (Suc n)
  from loop_Suc [OF Suc.prems, of n 0] assms(2,3) obtain s' where "moving s'"
    "run_state (loop (Suc n) 0) s = (if reached goal (wrap32 0) then (Some (wrap32 0), s')
           else run_state (loop n (wrap32 0)) s')" by force
  moreover have "wrap32 0 = 0" "\<not> reached goal 0"
    using assms(4) by (simp_all add: wrap32_id reached_def)
  ultimately show ?case using Suc.IH by simp
qed

end

section \<open>A port that answers\<close>

definition steady :: "int \<Rightarrow> int \<Rightarrow> 'a create_scheme \<Rightarrow> bool" where
  "steady lo hi s \<longleftrightarrow> oi_thread_mode s = 0 \<and> (\<forall>t. alloc s t) \<and> accepts s
     \<and> (\<forall>t. \<exists>w. lo \<le> sint w \<and> sint w \<le> hi \<and> rd s t = ROk [hi_byte w, lo_byte w])"

lemma steady_update [simp]:
  "steady lo hi (s\<lparr>tick := t, trace := es\<rparr>) = steady lo hi s"
  "steady lo hi (s\<lparr>trace := es\<rparr>) = steady lo hi s"
  "steady lo hi (s\<lparr>tick := t\<rparr>) = steady lo hi s"
  by (simp_all add: steady_def accepts_def)

lemma read_loop_two:
  assumes "rd s (tick s) = ROk [a, b]"
  shows "read_loop fd 2 [] 0 s = ((2, [a, b]), s\<lparr>tick := Suc (tick s), trace := trace s @ [EvRead fd [a, b]]\<rparr>)"
  using assms by (subst read_loop_ok [OF _ _ refl refl]) (auto simp: read_loop_done)

lemma cread_two:
  assumes "rd s (tick s) = ROk [a, b]"
  obtains t evs where "run_state (cread 2) s = ((2, [a, b]), s\<lparr>tick := t, trace := trace s @ evs\<rparr>)"
    "received evs = [a, b]"
proof (rule that)
  show "run_state (cread 2) s = ((2, [a, b]), s\<lparr>tick := Suc (tick s), trace := trace s @ (EvRead (oi_fd s) [a, b] #
    (if oi_debug s = 0 then [] else EvPrintf ''Read:   '' [] # map (\<lambda>b. EvPrintf ''%d '' [uint b]) [a, b]
        @ [EvPrintf ''Read %d of %d bytes'' [2, 2]]) @ [EvFlush (oi_fd s)])\<rparr>)"
    using read_loop_two [OF assms] by (simp add: cread_def print_bytes_def)
qed simp

lemma readSensor_steady:
  assumes "steady lo hi s" "sensor_format p = Some TwoByteSigned"
  obtains v t evs where "run_state (readSensor p) s = (v, s\<lparr>tick := t, trace := trace s @ evs\<rparr>)"
    "lo \<le> v" "v \<le> hi" "v \<noteq> INT_MIN" "\<exists>a b. received evs = [a, b] \<and> be16 a b = v"
proof -
  let ?s = "(advance s)\<lparr>trace := trace s @ [EvLock CreateMutex]\<rparr>"
  let ?cmd = "[opcode OPCODE_SENSORS, to_byte (sensor_code p)]"
  from assms(1) have "accepts ?s" by (simp add: steady_def accepts_def)
  then obtain t es where w: "run_state (cwrite ?cmd 2) ?s = (int 2, ?s\<lparr>tick := t, trace := trace ?s @ es\<rparr>)"
    "received es = []" by (rule cwrite_accepts [where n = 2 and buf = ?cmd]) simp_all
  let ?s1 = "?s\<lparr>tick := t, trace := trace ?s @ es\<rparr>"
  from assms(1) obtain v where v: "lo \<le> sint v" "sint v \<le> hi" "rd ?s1 (tick ?s1) = ROk [hi_byte v, lo_byte v]"
    unfolding steady_def advance_def by force
  obtain u fs where c: "run_state (cread 2) ?s1 = ((2, [hi_byte v, lo_byte v]), ?s1\<lparr>tick := u, trace := trace ?s1 @ fs\<rparr>)"
    "received fs = [hi_byte v, lo_byte v]" using v(3) by (rule cread_two)
  let ?es = "EvLock CreateMutex # es @ fs @ [EvUnlock CreateMutex]"
  show thesis
  proof (rule that)
    have "alloc s (tick s)" using assms(1) by (simp add: steady_def)
    then show "run_state (readSensor p) s = (sint v, s\<lparr>tick := u, trace := trace s @ ?es\<rparr>)"
      using assms(2) w(1) c(1) 
      by (simp add: readSensor_def readRawSensor_def os_malloc_def advance_def to_short_bytes)
    show "lo \<le> sint v" "sint v \<le> hi" by (rule v)+
    show "sint v \<noteq> INT_MIN" using sint_short_bounds [of v] by (simp add: INT_MIN_def)
    show "\<exists>a b. received ?es = [a, b] \<and> be16 a b = sint v"
      using w(2) c(2) by simp
  qed
qed

lemma getDistance_steady:
  assumes "steady lo hi s"
  obtains v t evs where "run_state getDistance s = (v, s\<lparr>tick := t, trace := trace s @ evs\<rparr>)"
    "lo \<le> v" "v \<le> hi" "v \<noteq> INT_MIN" "\<exists>a b. received evs = [a, b] \<and> be16 a b = v"
proof -
  obtain v t evs where *: "run_state (readSensor SENSOR_DISTANCE) s = (v, s\<lparr>tick := t, trace := trace s @ evs\<rparr>)"
    "lo \<le> v" "v \<le> hi" "v \<noteq> INT_MIN" "\<exists>a b. received evs = [a, b] \<and> be16 a b = v"
    by (rule readSensor_steady [OF assms, of SENSOR_DISTANCE]) simp
  have "run_state getDistance s = run_state (readSensor SENSOR_DISTANCE) s"
    using assms by (simp add: getDistance_def steady_def)
  with * show thesis by (intro that) simp_all
qed

lemma getAngle_steady:
  assumes "steady lo hi s"
  obtains v t evs where "run_state getAngle s = (v, s\<lparr>tick := t, trace := trace s @ evs\<rparr>)"
    "lo \<le> v" "v \<le> hi" "v \<noteq> INT_MIN" "\<exists>a b. received evs = [a, b] \<and> be16 a b = v"
proof -
  obtain v t evs where *: "run_state (readSensor SENSOR_ANGLE) s = (v, s\<lparr>tick := t, trace := trace s @ evs\<rparr>)"
    "lo \<le> v" "v \<le> hi" "v \<noteq> INT_MIN" "\<exists>a b. received evs = [a, b] \<and> be16 a b = v"
    by (rule readSensor_steady [OF assms, of SENSOR_ANGLE]) simp
  have "run_state getAngle s = run_state (readSensor SENSOR_ANGLE) s"
    using assms by (simp add: getAngle_def steady_def)
  with * show thesis by (intro that) simp_all
qed

lemma waitDistance_step:
  assumes "steady lo hi s"
  shows "\<exists>v s'. lo \<le> v \<and> v \<le> hi \<and> steady lo hi s'
    \<and> run_state (waitDistance_loop (Suc n) goal 0 c) s =
        (if reached goal (wrap32 (c + v)) then (Some (wrap32 (c + v)), s')
         else run_state (waitDistance_loop n goal 0 (wrap32 (c + v))) s')"
proof -
  let ?s = "s\<lparr>trace := trace s @ [EvUsleep 20000]\<rparr>"
  have "steady lo hi ?s" using assms by simp
  then obtain v t evs where run: "run_state getDistance ?s = (v, ?s\<lparr>tick := t, trace := trace ?s @ evs\<rparr>)"
    "lo \<le> v" "v \<le> hi" "v \<noteq> INT_MIN" by (rule getDistance_steady)
  with assms show ?thesis
    by (intro exI [where x = v] exI [where x = "s\<lparr>tick := t, trace := trace s @ EvUsleep 20000 # evs @ [EvPrintf ''Count %d out of %d'' [wrap32 (c + v), goal]]\<rparr>"])
      (auto simp: INT_MIN_def Let_def)
qed

lemma waitAngle_step:
  assumes "steady lo hi s"
  shows "\<exists>v s' evs a b a' b'. lo \<le> v \<and> v \<le> hi \<and> steady lo hi s'
    \<and> run_state (waitAngle_loop (Suc n) goal 0 c) s =
        (if reached goal (wrap32 (c + v)) then (Some (wrap32 (c + v)), s')
         else run_state (waitAngle_loop n goal 0 (wrap32 (c + v))) s')
    \<and> trace s' = trace s @ evs \<and> received evs = [a, b, a', b'] \<and> be16 a b = v \<and> lo \<le> be16 a' b' \<and> be16 a' b' \<le> hi"
proof -
  let ?s = "s\<lparr>trace := trace s @ [EvUsleep 20000]\<rparr>"
  have "steady lo hi ?s" using assms by simp
  then obtain v t evs where run: "run_state getAngle ?s = (v, ?s\<lparr>tick := t, trace := trace ?s @ evs\<rparr>)"
    "lo \<le> v" "v \<le> hi" "v \<noteq> INT_MIN" and r1: "\<exists>a b. received evs = [a, b] \<and> be16 a b = v"
    by (rule getAngle_steady)
  let ?s1 = "?s\<lparr>tick := t, trace := trace ?s @ evs\<rparr>"
  have "steady lo hi ?s1" using assms by simp
  then obtain w u fs where run1: "run_state getAngle ?s1 = (w, ?s1\<lparr>tick := u, trace := trace ?s1 @ fs\<rparr>)"
    "lo \<le> w" "w \<le> hi" and r2: "\<exists>a b. received fs = [a, b] \<and> be16 a b = w" by (rule getAngle_steady)
  let ?es = "EvUsleep 20000 # evs @ fs @ [EvPrintf ''Turn count %d'' [w]]"
  let ?s2 = "s\<lparr>tick := u, trace := trace s @ ?es\<rparr>"
  have "run_state (waitAngle_loop (Suc n) goal 0 c) s =
        (if reached goal (wrap32 (c + v)) then (Some (wrap32 (c + v)), ?s2)
         else run_state (waitAngle_loop n goal 0 (wrap32 (c + v))) ?s2)"
    using run run1 by (auto simp: INT_MIN_def Let_def)
  moreover obtain a b a' b' where "received ?es = [a, b, a', b']" "be16 a b = v" "be16 a' b' = w"
    using r1 r2 by force
  moreover have "steady lo hi ?s2" using assms by simp
  moreover have "trace ?s2 = trace s @ ?es" by simp
  ultimately show ?thesis using run(2,3) run1(2,3) by metis
qed

section \<open>The loops of the library\<close>

interpretation distance_loop: odometer_loop "\<lambda>n c. waitDistance_loop n goal 0 c" "steady lo hi" goal lo hi
  for goal lo hi
  by unfold_locales (simp, rule waitDistance_step)

interpretation angle_loop: odometer_loop "\<lambda>n c. waitAngle_loop n goal 0 c" "steady lo hi" goal lo hi
  for goal lo hi
proof unfold_locales
  fix s :: "'a create_scheme" and n c
  show "run_state (waitAngle_loop 0 goal 0 c) s = (None, s)" by simp
  assume "steady lo hi s"
  from waitAngle_step [OF this, of n goal c]
  show "\<exists>v s'. lo \<le> v \<and> v \<le> hi \<and> steady lo hi s' \<and> run_state (waitAngle_loop (Suc n) goal 0 c) s =
      (if reached goal (wrap32 (c + v)) then (Some (wrap32 (c + v)), s')
       else run_state (waitAngle_loop n goal 0 (wrap32 (c + v))) s')" by blast
qed

lemma waitDistance_start:
  assumes "steady lo hi s"
  obtains s' where "steady lo hi s'"
    "run_state (waitDistance fuel goal 0) s = run_state (waitDistance_loop fuel goal 0 0) s'"
proof -
  obtain v t evs where "run_state getDistance s = (v, s\<lparr>tick := t, trace := trace s @ evs\<rparr>)" "v \<noteq> INT_MIN"
    using assms by (rule getDistance_steady)
  then show thesis using assms by (intro that) (auto simp: waitDistance_def)
qed

text \<open>
  C19. \<open>waitDistance\<close>, not interruptible, on a robot that moves between \<open>lo \<ge> 1\<close> and \<open>hi\<close> mm per
  reading: it ends within \<open>goal / lo\<close> iterations, at a distance that has reached the goal and
  overshoots it by less than one reading.
\<close>
theorem waitDistance_arrives:
  assumes "steady lo hi s" "1 \<le> lo" "0 < goal" "goal + hi < 2147483648" "goal \<le> int fuel * lo"
  shows "\<exists>v. value_of (waitDistance fuel goal 0) s = Some v \<and> goal \<le> v \<and> v < goal + hi"
proof -
  obtain s' where s': "steady lo hi s'"
    "run_state (waitDistance fuel goal 0) s = run_state (waitDistance_loop fuel goal 0 0) s'"
    using assms(1) by (rule waitDistance_start)
  from distance_loop.loop_arrives [OF s'(1) order_refl assms(3) assms(2) assms(4), of fuel] assms(5) s'(2)
  show ?thesis by force
qed

definition rolling :: "short \<Rightarrow> create" where
  "rolling w = fresh_process (\<lambda>_. WOk 2) (\<lambda>_. ROk [hi_byte w, lo_byte w])"

lemma steady_rolling: "steady (sint w) (sint w) (rolling w)"
  by (auto simp: steady_def rolling_def accepts_def fresh_process_def)

theorem waitDistance_arrives_witness:
  "\<exists>v. value_of (waitDistance 34 1000 0) (rolling 30) = Some v \<and> 1000 \<le> v \<and> v < 1030"
  using waitDistance_arrives [OF steady_rolling [of 30], of 1000 34] by simp

text \<open>
  \<open>waitDistance\<close> without interruption never returns when the robot does not move: no
  number of iterations is enough for a positive goal.
\<close>
theorem waitDistance_stuck:
  assumes "steady 0 0 s" "0 < goal"
  shows "value_of (waitDistance fuel goal 0) s = None"
proof -
  obtain s' where s': "steady 0 0 s'"
    "run_state (waitDistance fuel goal 0) s = run_state (waitDistance_loop fuel goal 0 0) s'"
    using assms(1) by (rule waitDistance_start)
  from distance_loop.loop_stands [OF s'(1) refl refl assms(2), of fuel] s'(2) show ?thesis by simp
qed

theorem waitDistance_stuck_witness:
  "value_of (waitDistance 500 100 0) (rolling 0) = None"
  using waitDistance_stuck [of "rolling 0" 100 500] steady_rolling [of 0] by simp

section \<open>The angle that goes missing\<close>

text \<open>The sum of the 16-bit readings in a byte stream.\<close>

fun reported :: "byte list \<Rightarrow> int" where
  "reported (a # b # bs) = be16 a b + reported bs"
| "reported _ = 0"

lemma waitAngle_loop_reports:
  assumes "steady w w s" "0 \<le> c" "c < goal" "0 \<le> w" "goal + w < 2147483648"
    and "run_state (waitAngle_loop n goal 0 c) s = (Some v, s')"
  shows "\<exists>evs. trace s' = trace s @ evs \<and> reported (received evs) = 2 * (v - c)"
  using assms
proof (induction n arbitrary: c s)
  case 0
  then show ?case by simp
next
  case (Suc n)
  from waitAngle_step [OF Suc.prems(1), of n goal c] obtain s1 es a b a' b' where st: "steady w w s1"
    and run: "run_state (waitAngle_loop (Suc n) goal 0 c) s =
        (if reached goal (wrap32 (c + w)) then (Some (wrap32 (c + w)), s1)
         else run_state (waitAngle_loop n goal 0 (wrap32 (c + w))) s1)"
    and es: "trace s1 = trace s @ es" "received es = [a, b, a', b']" "be16 a b = w" "be16 a' b' = w"
    by (metis order_antisym)
  have w: "wrap32 (c + w) = c + w"
    using Suc.prems by (intro wrap32_id) linarith+
  show ?case
  proof (cases "goal \<le> c + w")
    case True
    then have "v = c + w" "s' = s1"
      using run Suc.prems w by (auto simp: reached_def)
    with es show ?thesis by simp
  next
    case False
    with run Suc.prems w have "run_state (waitAngle_loop n goal 0 (c + w)) s1 = (Some v, s')"
      by (auto simp: reached_def)
    with Suc.IH [OF st, of "c + w"] False Suc.prems obtain fs where
      "trace s' = trace s1 @ fs" "reported (received fs) = 2 * (v - (c + w))" by auto
    with es show ?thesis by (intro exI [where x = "es @ fs"]) simp
  qed
qed

text \<open>
  \<open>waitAngle\<close> misses half of the turn: its progress message reads the sensor again and
  throws that reading away. On a robot that reports \<open>w\<close> degrees at every reading, a call that
  returns \<open>v\<close> has read \<open>w + 2 v\<close> degrees from the robot; and it returns only once \<open>v\<close> itself
  has reached the goal.
\<close>
theorem waitAngle_loses_half:
  assumes "steady w w s" "1 \<le> w" "0 < goal" "goal + w < 2147483648" "goal \<le> int fuel * w"
  shows "\<exists>v evs. value_of (waitAngle fuel goal 0) s = Some v \<and> goal \<le> v
     \<and> trace (exec_of (waitAngle fuel goal 0) s) = trace s @ evs
     \<and> reported (received evs) = w + 2 * v"
proof -
  obtain u t es where first: "run_state getAngle s = (u, s\<lparr>tick := t, trace := trace s @ es\<rparr>)"
    "w \<le> u" "u \<le> w" "u \<noteq> INT_MIN" and r: "\<exists>a b. received es = [a, b] \<and> be16 a b = u"
    using assms(1) by (rule getAngle_steady)
  let ?s = "s\<lparr>tick := t, trace := trace s @ es\<rparr>"
  have st: "steady w w ?s" using assms(1) by simp
  from angle_loop.loop_arrives [OF st order_refl assms(3,2,4), of fuel] assms(5)
  obtain v s' where run: "run_state (waitAngle_loop fuel goal 0 0) ?s = (Some v, s')" and v: "goal \<le> v"
    by auto
  from waitAngle_loop_reports [OF st order_refl assms(3) _ assms(4) run] assms(2) obtain fs where
    "trace s' = trace ?s @ fs" "reported (received fs) = 2 * v" by auto
  moreover have "run_state (waitAngle fuel goal 0) s = (Some v, s')"
    using first run by (simp add: waitAngle_def)
  moreover have "reported (received (es @ fs)) = u + reported (received fs)"
    using r by auto
  ultimately show ?thesis
    using v first(2,3) by (intro exI [where x = v] exI [where x = "es @ fs"]) simp
qed

theorem waitAngle_loses_half_witness:
  "\<exists>v evs. value_of (waitAngle 90 90 0) (rolling 1) = Some v \<and> 90 \<le> v
     \<and> trace (exec_of (waitAngle 90 90 0) (rolling 1)) = trace (rolling 1) @ evs
     \<and> reported (received evs) = 1 + 2 * v"
  using waitAngle_loses_half [of 1 "rolling 1" 90 90] steady_rolling [of 1] by simp


section \<open>A drive of a given distance\<close>

lemma drive_steady:
  assumes "steady lo hi s"
  obtains t evs where "run_state (drive vel rad) s = (0, s\<lparr>tick := t, trace := trace s @ evs\<rparr>)"
    "sent evs = drive_cmd vel rad"
proof -
  from assms have "accepts s" by (simp add: steady_def)
  then obtain t evs where "run_state (drive vel rad) s = (0, s\<lparr>tick := t, trace := trace s @ evs\<rparr>)"
    "sent evs = drive_cmd vel rad" unfolding drive_def by (rule locked_cmd_accepts)
  then show thesis by (rule that)
qed

lemma drive_stop_bytes: "drive_cmd 0 0 = [137, 0, 0, 128, 0]"
  by code_simp



end
