(* ===== verification/CreateConcurrency.thy ===== *)
theory CreateConcurrency
  imports CreateOdometry
begin

text \<open>
  The sensor thread and the client at work on one cache. A configuration is the library's
  state, where the thread is in its loop, and ghost sums: the distance and angle the robot
  reported since the thread started, and what the client was handed. The steps are the
  critical sections of the code, in any order; the invariant says that no distance and no
  angle is lost or handed out twice.
\<close>

datatype thread_pc = Starting | Polling | Publishing "int list" | Exited | Dead

record 'a config =
  shared :: "'a create_scheme"
  pc :: thread_pc
  robot_distance :: int
  robot_angle :: int
  taken_distance :: int
  taken_angle :: int

text \<open>Client calls that only read: they leave the statics of the library alone.\<close>

definition bystanders :: "('a create_scheme, int) state set" where
  "bystanders = {getCharge, getVelocity, getTurningRadius, getOvercurrent, getBumpsAndWheelDrops,
     getCliffs, enterSafeMode, enterFullMode, enterPassiveMode}
     \<union> (\<lambda>(v, r). drive v r) ` UNIV \<union> (\<lambda>(l, r). directDrive l r) ` UNIV
     \<union> (\<lambda>(f, c, i). setLEDState f c i) ` UNIV"

inductive mt_step :: "('a, 'b) config_scheme \<Rightarrow> ('a, 'b) config_scheme \<Rightarrow> bool" where
  zero: "pc c = Starting \<Longrightarrow>
    mt_step c (c\<lparr>shared := exec_of thread_zero (shared c), pc := Polling,
      robot_distance := 0, robot_angle := 0, taken_distance := 0, taken_angle := 0\<rparr>)"
| query: "pc c = Polling \<Longrightarrow> run_state getAllSensors (shared c) = (Ptr xs, s') \<Longrightarrow>
    mt_step c (c\<lparr>shared := s', pc := Publishing xs\<rparr>)"
| query_null: "pc c = Polling \<Longrightarrow> run_state getAllSensors (shared c) = (NULL, s') \<Longrightarrow>
    mt_step c (c\<lparr>shared := exec_of publish_null s', pc := Dead\<rparr>)"
| publish: "pc c = Publishing xs \<Longrightarrow> run_state (publish xs) (shared c) = (finished, s') \<Longrightarrow>
    mt_step c (c\<lparr>shared := s', pc := (if finished \<noteq> 0 then Exited else Polling),
      robot_distance := robot_distance c + xs ! 12, robot_angle := robot_angle c + xs ! 13\<rparr>)"
| take_distance: "pc c \<noteq> Dead \<Longrightarrow> run_state getDistance (shared c) = (d, s') \<Longrightarrow>
    mt_step c (c\<lparr>shared := s', taken_distance := taken_distance c + d\<rparr>)"
| take_angle: "pc c \<noteq> Dead \<Longrightarrow> run_state getAngle (shared c) = (a, s') \<Longrightarrow>
    mt_step c (c\<lparr>shared := s', taken_angle := taken_angle c + a\<rparr>)"
| other: "pc c \<noteq> Dead \<Longrightarrow> m \<in> bystanders \<Longrightarrow>
    mt_step c (c\<lparr>shared := exec_of m (shared c)\<rparr>)"
| shut_down: "pc c \<noteq> Dead \<Longrightarrow>
    mt_step c (c\<lparr>shared := exec_of (modify (\<lambda>s. s\<lparr>oi_cache := Some ((the_cache s)\<lparr>sc_shut_down := 1\<rparr>)\<rparr>)) (shared c)\<rparr>)"

text \<open>\<open>startOI_MT\<close> has just returned: the mode is set, the cache allocated, the thread created.\<close>

definition mt_start :: "('a, 'b) config_scheme \<Rightarrow> bool" where
  "mt_start c \<longleftrightarrow> oi_thread_mode (shared c) = 1 \<and> pc c = Starting"

inductive mt_reachable :: "('a, 'b) config_scheme \<Rightarrow> bool" where
  start: "mt_start c \<Longrightarrow> mt_reachable c"
| step: "mt_reachable c \<Longrightarrow> mt_step c c' \<Longrightarrow> mt_reachable c'"

text \<open>Both sums agree with the cache modulo the width of an \<open>int\<close>.\<close>

definition conserved :: "('a, 'b) config_scheme \<Rightarrow> bool" where
  "conserved c \<longleftrightarrow> oi_thread_mode (shared c) = 1 \<and>
     (pc c = Starting \<or> pc c = Dead \<or>
       (taken_distance c + sc_distance (the_cache (shared c))) mod 2 ^ 32 = robot_distance c mod 2 ^ 32
     \<and> (taken_angle c + sc_angle (the_cache (shared c))) mod 2 ^ 32 = robot_angle c mod 2 ^ 32)"

lemma wrap32_mod: "wrap32 x mod 2 ^ 32 = x mod 2 ^ 32"
proof -
  have "take_bit 32 (signed_take_bit 31 x) = take_bit 32 x"
    by (simp add: take_bit_signed_take_bit)
  then show ?thesis unfolding wrap32_def take_bit_eq_mod .
qed

lemma wrap32_sum:
  "(t + d) mod 2 ^ 32 = r mod 2 ^ 32 \<Longrightarrow> (t + wrap32 (d + x)) mod 2 ^ 32 = (r + x) mod 2 ^ 32" for x :: int
  by (metis (no_types, opaque_lifting) add.assoc mod_add_left_eq mod_add_right_eq wrap32_mod)

lemma statics_eq:
  "statics s' = statics s \<Longrightarrow> the_cache s' = the_cache s \<and> oi_thread_mode s' = oi_thread_mode s"
  by (auto simp: statics_def the_cache_def split: option.split)

lemma bystander_statics:
  assumes "m \<in> bystanders"
  shows "keeps statics m"
proof -
  have "keeps statics getCharge" "keeps statics getVelocity" "keeps statics getTurningRadius"
    "keeps statics getOvercurrent" "keeps statics getBumpsAndWheelDrops" "keeps statics getCliffs"
    unfolding getCharge_def getVelocity_def getTurningRadius_def getOvercurrent_def
      getBumpsAndWheelDrops_def getCliffs_def by (rule keeps_bind kept)+
  with assms show ?thesis by (auto simp: bystanders_def command_defs kept)
qed

lemma publish_effect:
  "run_state (publish xs) s = (fin, s') \<Longrightarrow>
   \<exists>now. the_cache s' = thread_store now xs (the_cache s) \<and> oi_thread_mode s' = oi_thread_mode s
     \<and> fin = sc_shut_down (the_cache s)"
  by (auto simp: publish_def getTime_def os_time_def advance_def thread_store_def)

lemma take_effect:
  assumes "oi_thread_mode s = 1"
  shows "run_state getDistance s = (d, s') \<Longrightarrow>
      d = sc_distance (the_cache s) \<and> the_cache s' = (the_cache s)\<lparr>sc_distance := 0\<rparr> \<and> oi_thread_mode s' = 1"
    and "run_state getAngle s = (d, s') \<Longrightarrow>
      d = sc_angle (the_cache s) \<and> the_cache s' = (the_cache s)\<lparr>sc_angle := 0\<rparr> \<and> oi_thread_mode s' = 1"
  using assms by (auto simp: getDistance_def getAngle_def)

lemma conserved_step:
  assumes "mt_step c c'" "conserved c"
  shows "conserved c'"
  using assms
proof (cases rule: mt_step.cases)
  case zero
  with assms(2) show ?thesis by (simp add: conserved_def thread_zero_def)
next
  case (query xs s')
  then show ?thesis
    using assms(2) statics_eq [OF keepsD [OF keeps_statics_all query(3)]] by (auto simp: conserved_def)
next
  case (query_null s')
  then show ?thesis
    using assms(2) statics_eq [OF keepsD [OF keeps_statics_all query_null(3)]]
    by (auto simp: conserved_def publish_null_def getTime_def os_time_def advance_def)
next
  case (publish xs fin s')
  then show ?thesis
    using assms(2) publish_effect [OF publish(3)]
    by (auto simp: conserved_def thread_store_def intro!: wrap32_sum [simplified])
next
  case (take_distance d s')
  then show ?thesis
    using assms(2) take_effect(1) [OF _ take_distance(3)] by (auto simp: conserved_def algebra_simps)
next
  case (take_angle a s')
  then show ?thesis
    using assms(2) take_effect(2) [OF _ take_angle(3)] by (auto simp: conserved_def algebra_simps)
next
  case (other m)
  obtain x s' where "run_state m (shared c) = (x, s')" by (cases "run_state m (shared c)")
  with other show ?thesis
    using assms(2) statics_eq [OF keepsD [OF bystander_statics [OF other(3)]], of "shared c" x s']
    by (auto simp: conserved_def)
next
  case shut_down
  with assms(2) show ?thesis by (auto simp: conserved_def)
qed

lemma conserved_reachable: "mt_reachable c \<Longrightarrow> conserved c"
  by (induction rule: mt_reachable.induct) (auto simp: conserved_def mt_start_def dest: conserved_step)

text \<open>
  C1. The sensor thread and its client lose nothing: in every reachable configuration of the
  multi-threaded mode with a live thread, the distance handed out by \<open>getDistance\<close> plus the
  distance waiting in the cache is the sum of the distances the robot reported (modulo the
  width of an \<open>int\<close>), whatever the interleaving; the same holds for the angle.
\<close>
theorem no_reading_lost:
  assumes "mt_reachable c" "pc c = Polling"
  shows "(taken_distance c + sc_distance (the_cache (shared c))) mod 2 ^ 32 = robot_distance c mod 2 ^ 32
     \<and> (taken_angle c + sc_angle (the_cache (shared c))) mod 2 ^ 32 = robot_angle c mod 2 ^ 32"
  using conserved_reachable [OF assms(1)] assms(2) by (simp add: conserved_def)


text \<open>A short run for the witnesses: the thread starts, polls and publishes 257 mm.\<close>

definition mt_readings :: "int list" where
  "mt_readings = decode_all True (replicate 52 1)"

definition mt_port :: create where
  "mt_port = (fresh_process (\<lambda>_. WOk 2) (\<lambda>_. ROk (replicate 52 1)))\<lparr>oi_thread_mode := 1, oi_cache := Some blank_cache\<rparr>"

definition mt_begin :: "(unit, unit) config_scheme" where
  "mt_begin = \<lparr>shared = mt_port, pc = Starting, robot_distance = 0, robot_angle = 0,
     taken_distance = 0, taken_angle = 0\<rparr>"

definition mt_polling :: "(unit, unit) config_scheme" where
  "mt_polling = mt_begin\<lparr>shared := exec_of thread_zero mt_port, pc := Polling\<rparr>"

definition mt_publishing :: "(unit, unit) config_scheme" where
  "mt_publishing = mt_polling\<lparr>shared := exec_of getAllSensors (shared mt_polling), pc := Publishing mt_readings\<rparr>"

definition mt_published :: "(unit, unit) config_scheme" where
  "mt_published = mt_publishing\<lparr>shared := exec_of (publish mt_readings) (shared mt_publishing), pc := Polling,
     robot_distance := 257, robot_angle := 257\<rparr>"

lemma mt_values:
  "value_of getAllSensors (shared mt_polling) = Ptr mt_readings"
  "value_of (publish mt_readings) (shared mt_publishing) = 0"
  "mt_readings ! 12 = 257" "mt_readings ! 13 = 257"
  by code_simp+

lemma mt_published_reachable: "mt_reachable mt_published"
proof -
  have "mt_reachable mt_begin" by (rule mt_reachable.start) (simp add: mt_start_def mt_begin_def mt_port_def)
  moreover have "mt_step mt_begin mt_polling"
    using mt_step.zero [of mt_begin] by (simp add: mt_begin_def mt_polling_def)
  moreover have "mt_step mt_polling mt_publishing"
    unfolding mt_publishing_def
    by (rule mt_step.query) (simp add: mt_polling_def, simp add: mt_values(1) [symmetric] prod_eq_iff)
  moreover have "mt_step mt_publishing mt_published"
    using mt_step.publish [of mt_publishing mt_readings 0 "exec_of (publish mt_readings) (shared mt_publishing)"] mt_values(2-)
    by (simp add: mt_published_def prod_eq_iff mt_publishing_def [THEN arg_cong [where f = pc]]
        mt_publishing_def [THEN arg_cong [where f = robot_distance]] mt_publishing_def [THEN arg_cong [where f = robot_angle]]
        mt_polling_def mt_begin_def)
  ultimately show ?thesis by (meson mt_reachable.step)
qed

theorem no_reading_lost_witness:
  "sc_distance (the_cache (shared mt_published)) mod 2 ^ 32 = 257"
  using no_reading_lost [OF mt_published_reachable]
  by (simp add: mt_published_def mt_publishing_def mt_polling_def mt_begin_def)

text \<open>
  Stopping the thread: once \<open>stopOI_MT\<close> has set the flag, the thread does not poll again
  after its next publication; it exits, having published that last reading.
\<close>
lemma thread_exits_on_shutdown:
  assumes "pc c = Publishing xs" "sc_shut_down (the_cache (shared c)) \<noteq> 0" "mt_step c c'"
    and "oi_thread_mode (shared c) = 1"
  shows "pc c' = Exited \<and> sc_velocity (the_cache (shared c')) = xs ! 32
     \<or> pc c' = Publishing xs \<and> sc_shut_down (the_cache (shared c')) \<noteq> 0"
  using assms(3)
proof (cases rule: mt_step.cases)
  case (publish ys fin s')
  then show ?thesis using assms(1,2) publish_effect [OF publish(3)] by (auto simp: thread_store_def)
next
  case (take_distance d s')
  then show ?thesis using assms(1,2,4) take_effect(1) [OF _ take_distance(3)] by auto
next
  case (take_angle a s')
  then show ?thesis using assms(1,2,4) take_effect(2) [OF _ take_angle(3)] by auto
next
  case (other m)
  obtain x s' where "run_state m (shared c) = (x, s')" by (cases "run_state m (shared c)")
  with other assms(1,2) show ?thesis
    using statics_eq [OF keepsD [OF bystander_statics [OF other(3)]], of "shared c" x s'] by auto
qed (use assms(1,2) in auto)


definition mt_stopping :: "(unit, unit) config_scheme" where
  "mt_stopping = mt_publishing\<lparr>shared := exec_of (modify (\<lambda>s. s\<lparr>oi_cache :=
     Some ((the_cache s)\<lparr>sc_shut_down := 1\<rparr>)\<rparr>)) (shared mt_publishing)\<rparr>"

lemma mt_stopping_values:
  "value_of (publish mt_readings) (shared mt_stopping) = 1" "oi_thread_mode (shared mt_stopping) = 1"
  "sc_shut_down (the_cache (shared mt_stopping)) = 1"
  by code_simp+

lemma mt_stopping_step:
  "mt_step mt_stopping (mt_stopping\<lparr>shared := exec_of (publish mt_readings) (shared mt_stopping), pc := Exited,
     robot_distance := robot_distance mt_stopping + mt_readings ! 12,
     robot_angle := robot_angle mt_stopping + mt_readings ! 13\<rparr>)"
  using mt_step.publish [of mt_stopping mt_readings 1 "exec_of (publish mt_readings) (shared mt_stopping)"]
    mt_stopping_values(1)
  by (simp add: prod_eq_iff mt_publishing_def mt_stopping_def [THEN arg_cong [where f = pc]])

theorem thread_exits_on_shutdown_witness:
  "sc_velocity (the_cache (exec_of (publish mt_readings) (shared mt_stopping))) = mt_readings ! 32"
  using thread_exits_on_shutdown [OF _ _ mt_stopping_step, of mt_readings]
  by (simp add: mt_stopping_values mt_publishing_def mt_stopping_def [THEN arg_cong [where f = pc]])

end
