(* ===== verification/CreateLifecycle.thy ===== *)
theory CreateLifecycle
  imports CreateConcurrency
begin

text \<open>
  Properties of whole sessions with the create library: the locking discipline of any sequence
  of calls, opening the port, and the collision check on a port that fails.
\<close>

text \<open>
  C2. Any sequence of calls of the library, with any arguments and whatever the system
  answers, takes one mutex at a time, releases what it took, and moves bytes on the serial
  port only while it holds \<open>create_mutex\<close>.
\<close>
theorem api_locking:
  "\<exists>evs. trace (exec_of (exec_calls fuel calls) s) = trace s @ evs \<and> replay None evs = Some None"
  using segD [OF seg_exec_calls [of fuel calls], of s] .

lemma locked_cmd_late_accepts:
  assumes "accepts s"
  obtains t evs where "run_state (locked_cmd_late msg cmd) s = (0, s\<lparr>tick := t, trace := trace s @ evs\<rparr>)"
    "sent evs = cmd" "received evs = []"
proof -
  let ?s = "s\<lparr>trace := trace s @ [EvLock CreateMutex]\<rparr>"
  have "accepts ?s" using assms by (simp add: accepts_def)
  then obtain t evs where run: "run_state (cwrite cmd (length cmd)) ?s = (int (length cmd), ?s\<lparr>tick := t, trace := trace ?s @ evs\<rparr>)"
    "sent evs = take (length cmd) cmd" "received evs = []" by (rule cwrite_accepts [OF _ order_refl])
  let ?es = "EvLock CreateMutex # evs @ [EvUnlock CreateMutex]"
  have "run_state (locked_cmd_late msg cmd) s = (0, s\<lparr>tick := t, trace := trace s @ ?es\<rparr>)"
    using run(1) by (simp add: locked_cmd_late_def)
  with run(2,3) show thesis by (intro that [where evs = ?es]) simp_all
qed

definition greeting :: "('a create_scheme, unit) state" where
  "greeting = do { enterPassiveMode; enterSafeMode; setLEDState 0 128 255; ret () }"

lemma greeting_accepts:
  assumes "accepts s"
  obtains t evs where "run_state greeting s = ((), s\<lparr>tick := t, trace := trace s @ evs\<rparr>)"
    "sent evs = [128, 131, 139, 0, 128, 255]"
proof -
  obtain t e1 where 1: "run_state enterPassiveMode s = (0, s\<lparr>tick := t, trace := trace s @ e1\<rparr>)" "sent e1 = [128]"
    unfolding enterPassiveMode_def opcode.simps by (rule locked_cmd_accepts [OF assms])
  let ?s1 = "s\<lparr>tick := t, trace := trace s @ e1\<rparr>"
  have a1: "accepts ?s1" using assms by (simp add: accepts_def)
  obtain u e2 where 2: "run_state enterSafeMode ?s1 = (0, ?s1\<lparr>tick := u, trace := trace ?s1 @ e2\<rparr>)" "sent e2 = [131]"
    unfolding enterSafeMode_def opcode.simps by (rule locked_cmd_accepts [OF a1])
  let ?s2 = "?s1\<lparr>tick := u, trace := trace ?s1 @ e2\<rparr>"
  have a2: "accepts ?s2" using assms by (simp add: accepts_def)
  obtain w e3 where 3: "run_state (setLEDState 0 128 255) ?s2 = (0, ?s2\<lparr>tick := w, trace := trace ?s2 @ e3\<rparr>)"
    "sent e3 = [139, to_byte 0, 128, 255]"
    unfolding setLEDState_def opcode.simps by (rule locked_cmd_late_accepts [OF a2])
  have "run_state greeting s = ((), s\<lparr>tick := w, trace := trace s @ (e1 @ e2 @ e3)\<rparr>)"
    using 1(1) 2(1) 3(1) by (simp add: greeting_def)
  moreover have "sent (e1 @ e2 @ e3) = [128, 131, 139, 0, 128, 255]"
    using 1(2) 2(2) 3(2) by (simp add: to_byte_def)
  ultimately show thesis by (rule that)
qed

lemma startOI_opened:
  "\<not> n < 0 \<Longrightarrow> oi_fd s = 0 \<Longrightarrow> opn s (tick s) = n \<Longrightarrow>
   run_state (startOI serial) s = (0, exec_of greeting ((advance s)\<lparr>oi_fd := n, trace := trace s @
     [EvMutexInit CreateMutex, EvOpen serial n, EvFcntl n 0, EvFlush n, EvTermios n 57600]\<rparr>))"
  by (simp add: startOI_def greeting_def os_open_def advance_def split: prod.splits)

lemma startOI_again:
  "oi_fd s \<noteq> 0 \<Longrightarrow>
   run_state (startOI serial) s = (0, exec_of greeting (s\<lparr>trace := trace s @ [EvMutexInit CreateMutex]\<rparr>))"
  by (simp add: startOI_def greeting_def split: prod.splits)

text \<open>
  \<open>startOI\<close> on a port that opens and takes its bytes: it returns 0, keeps the descriptor,
  and the robot has received Start, Safe and the LED command, in that order.
\<close>
lemma startOI_greets:
  assumes "oi_fd s = 0" "0 \<le> opn s (tick s)" "accepts s"
  shows "value_of (startOI serial) s = 0
     \<and> oi_fd (exec_of (startOI serial) s) = opn s (tick s)
     \<and> (\<exists>evs. trace (exec_of (startOI serial) s) = trace s @ evs
          \<and> sent evs = [128, 131, 139, 0, 128, 255])"
proof -
  let ?opening = "[EvMutexInit CreateMutex, EvOpen serial (opn s (tick s)), EvFcntl (opn s (tick s)) 0,
     EvFlush (opn s (tick s)), EvTermios (opn s (tick s)) 57600]"
  let ?s = "(advance s)\<lparr>oi_fd := opn s (tick s), trace := trace s @ ?opening\<rparr>"
  have "accepts ?s" using assms(3) by (simp add: accepts_def)
  then obtain t evs where "run_state greeting ?s = ((), ?s\<lparr>tick := t, trace := trace ?s @ evs\<rparr>)"
    "sent evs = [128, 131, 139, 0, 128, 255]" by (rule greeting_accepts)
  with startOI_opened [OF _ assms(1) refl, of serial] assms(2) show ?thesis
    by (simp add: advance_def)
qed

theorem startOI_greets_witness:
  "value_of (startOI ''/dev/ttyUSB0'') ((fresh_process (\<lambda>_. WOk 3) (\<lambda>_. RErr))\<lparr>oi_fd := 0\<rparr>) = 0"
  using startOI_greets [of "(fresh_process (\<lambda>_. WOk 3) (\<lambda>_. RErr))\<lparr>oi_fd := 0\<rparr>" "''/dev/ttyUSB0''"]
  by (simp add: fresh_process_def accepts_def)

text \<open>
  A failed \<open>startOI\<close> is forgotten: it returns -1 but leaves the negative descriptor in
  \<open>fd\<close>, and a second call, which only opens when \<open>fd\<close> is 0, reports success without opening
  anything.
\<close>
theorem startOI_forgets_failure:
  assumes "oi_fd s = 0" "opn s (tick s) < 0"
  shows "value_of (startOI serial) s = -1
     \<and> value_of (startOI serial) (exec_of (startOI serial) s) = 0
     \<and> oi_fd (exec_of (startOI serial) s) < 0"
proof -
  have first: "run_state (startOI serial) s = (-1, (advance s)\<lparr>oi_fd := opn s (tick s), trace := trace s @
      [EvMutexInit CreateMutex, EvOpen serial (opn s (tick s)), EvPerror ''Could not open serial port'']\<rparr>)"
    using assms by (simp add: startOI_def os_open_def advance_def)
  show ?thesis
    unfolding first using assms(2) by (simp add: startOI_again)
qed

theorem startOI_forgets_failure_witness:
  "value_of (startOI ''tty'') (exec_of (startOI ''tty'')
      ((fresh_process (\<lambda>_. WErr) (\<lambda>_. RErr))\<lparr>oi_fd := 0, opn := \<lambda>_. -1\<rparr>)) = 0"
  using startOI_forgets_failure [of "(fresh_process (\<lambda>_. WErr) (\<lambda>_. RErr))\<lparr>oi_fd := 0, opn := \<lambda>_. -1\<rparr>" "''tty''"]
  by (simp add: fresh_process_def)

section \<open>The collision check\<close>

definition dead_port :: "'a create_scheme \<Rightarrow> bool" where
  "dead_port s \<longleftrightarrow> oi_thread_mode s = 0 \<and> (\<forall>t. wr s t = WErr)"

lemma dead_port_update [simp]: "dead_port (s\<lparr>tick := t\<rparr>) = dead_port s" "dead_port (s\<lparr>trace := es\<rparr>) = dead_port s"
  "dead_port (s\<lparr>oi_over := n\<rparr>) = dead_port s"
  by (simp_all add: dead_port_def)

lemma readSensor_fails:
  assumes "\<forall>t. wr s t = WErr"
  obtains t es where "run_state (readSensor p) s = (INT_MIN, s\<lparr>tick := t, trace := trace s @ es\<rparr>)"
proof (cases "sensor_format p")
  case None
  then show thesis by (intro that [where t = "tick s" and es = "[]"]) (simp add: readSensor_def)
next
  case (Some fmt)
  show thesis
  proof (cases "alloc s (tick s)")
    case False
    with Some show thesis
      by (intro that [where t = "Suc (tick s)" and es = "[]"])
        (simp add: readSensor_def os_malloc_def advance_def)
  next
    case True
    with Some assms show thesis
      by (intro that [where t = "Suc (Suc (tick s))" and
            es = "[EvLock CreateMutex, EvPerror ''Could not request sensor'', EvUnlock CreateMutex]"])
        (simp add: readSensor_def readRawSensor_def os_malloc_def advance_def cwrite_def write_loop_fail)
  qed
qed

lemma readSensor_dead:
  assumes "dead_port s"
  obtains t es where "run_state (readSensor p) s = (INT_MIN, s\<lparr>tick := t, trace := trace s @ es\<rparr>)"
proof -
  from assms have "\<forall>t. wr s t = WErr" by (simp add: dead_port_def)
  then show thesis by (rule readSensor_fails) (rule that)
qed

text \<open>
  \<open>stopWait\<close> cannot see a dead port: when every write fails, the two error values
  \<open>INT_MIN\<close> of the bumper and the cliff sensors add up to 0, "keep going".
\<close>
theorem stopWait_dead_port:
  assumes "dead_port s"
  shows "value_of stopWait s = 0"
proof -
  have mode: "oi_thread_mode s = 0" using assms by (simp add: dead_port_def)
  obtain t e where 1: "run_state (readSensor SENSOR_OVERCURRENT) s = (INT_MIN, s\<lparr>tick := t, trace := trace s @ e\<rparr>)"
    using assms by (rule readSensor_dead)
  let ?s1 = "s\<lparr>oi_over := 0\<rparr>"
  have commute: "s\<lparr>tick := t, trace := trace s @ e, oi_over := 0\<rparr> = ?s1\<lparr>tick := t, trace := trace s @ e\<rparr>"
    by (cases s) simp
  have dead: "dead_port (?s1\<lparr>tick := t, trace := es\<rparr>)" for t es using assms by simp
  have step: "\<exists>u fs. run_state (readSensor p) (?s1\<lparr>tick := t, trace := es\<rparr>)
      = (INT_MIN, ?s1\<lparr>tick := u, trace := fs\<rparr>)" for p t es
    by (rule readSensor_dead [OF dead [where t = t and es = es], where p = p]) auto
  obtain t2 e2 where 2: "run_state (readSensor SENSOR_BUMPS_AND_WHEEL_DROPS) (?s1\<lparr>tick := t, trace := trace s @ e\<rparr>) = (INT_MIN, ?s1\<lparr>tick := t2, trace := e2\<rparr>)"
    using step by blast
  obtain t3 e3 where 3: "run_state (readSensor SENSOR_CLIFF_LEFT) (?s1\<lparr>tick := t2, trace := e2\<rparr>) = (INT_MIN, ?s1\<lparr>tick := t3, trace := e3\<rparr>)"
    using step by blast
  obtain t4 e4 where 4: "run_state (readSensor SENSOR_CLIFF_FRONT_LEFT) (?s1\<lparr>tick := t3, trace := e3\<rparr>) = (INT_MIN, ?s1\<lparr>tick := t4, trace := e4\<rparr>)"
    using step by blast
  obtain t5 e5 where 5: "run_state (readSensor SENSOR_CLIFF_FRONT_RIGHT) (?s1\<lparr>tick := t4, trace := e4\<rparr>) = (INT_MIN, ?s1\<lparr>tick := t5, trace := e5\<rparr>)"
    using step by blast
  obtain t6 e6 where 6: "run_state (readSensor SENSOR_CLIFF_RIGHT) (?s1\<lparr>tick := t5, trace := e5\<rparr>) = (INT_MIN, ?s1\<lparr>tick := t6, trace := e6\<rparr>)"
    using step by blast
  have "\<not> 0 < INT_MIN" by (simp add: INT_MIN_def)
  moreover have "wrap32 (INT_MIN + INT_MIN) = 0" by (simp add: INT_MIN_def wrap32_def)
  ultimately show ?thesis
    using 1 2 3 4 5 6 mode by (simp add: stopWait_def getOvercurrent_def getBumpsAndWheelDrops_def getCliffs_def cliffs_value_def wrap32_id commute)
qed

theorem stopWait_dead_port_witness:
  "value_of stopWait (fresh_process (\<lambda>_. WErr) (\<lambda>_. RErr)) = 0"
  using stopWait_dead_port [of "fresh_process (\<lambda>_. WErr) (\<lambda>_. RErr)"] by (simp add: dead_port_def fresh_process_def)

end
