(* ===== verification/Scheduler.thy ===== *)
theory Scheduler
  imports StatusServer CreateLifecycle
begin

text \<open>
  The rate scheduler of main.c: the 100 Hz thread \<open>execute\<close>, the tasks it releases through
  semaphores, and \<open>timespec_add_us\<close> with its 64-bit arithmetic. The flags \<open>execute_sys\<close> and
  \<open>shutdown_sys\<close> are written by another thread, so a loop takes what its \<open>i\<close>-th test finds as
  a function of \<open>i\<close>; it takes fuel, and the value \<open>False\<close> is a run that has not ended yet.
\<close>

section \<open>Time\<close>

record timespec =
  tv_sec :: int
  tv_nsec :: int

definition NSEC_PER_SEC :: "64 word" where
  "NSEC_PER_SEC = 1000000000"

function carry_seconds :: "64 word \<Rightarrow> int \<Rightarrow> 64 word \<times> int" where
  "carry_seconds d sec = (if NSEC_PER_SEC \<le> d then carry_seconds (d - NSEC_PER_SEC) (sec + 1) else (d, sec))"
  by pat_completeness auto
termination
proof (relation "measure (\<lambda>(d, sec). unat d)")
  fix d :: "64 word" and sec :: int
  assume le: "NSEC_PER_SEC \<le> d"
  then have "unat (d - NSEC_PER_SEC) = unat d - unat NSEC_PER_SEC" by (rule unat_sub)
  moreover have "0 < unat NSEC_PER_SEC" by (simp add: NSEC_PER_SEC_def)
  moreover have "unat NSEC_PER_SEC \<le> unat d" using le by (simp add: word_le_nat_alt)
  ultimately show "((d - NSEC_PER_SEC, sec + 1), d, sec) \<in> measure (\<lambda>(d, sec). unat d)" by simp
qed simp

declare carry_seconds.simps [simp del]

definition timespec_add_us :: "timespec \<Rightarrow> 64 word \<Rightarrow> timespec" where
  "timespec_add_us t d =
     (let d = d * 1000;
          d = d + word_of_int (tv_nsec t)
      in case carry_seconds d (tv_sec t) of
           (d, sec) \<Rightarrow> t\<lparr>tv_sec := sec, tv_nsec := uint d\<rparr>)"

section \<open>The 100 Hz thread\<close>

text \<open>One turn; the result is the counter afterwards, which is never negative.\<close>

definition execute_turn :: "int \<Rightarrow> ('a os_scheme, int) state" where
  "execute_turn cnt = do {
     let us = 10000;
     let hz_50 = 20000 div us;
     let hz_2 = 500000 div us;
     now \<leftarrow> os_time;
     let next = timespec_add_us \<lparr>tv_sec = fst now, tv_nsec = snd now\<rparr> (word_of_int us);
     (if cnt mod hz_50 = 0 then emit (EvSemPost ''sem_50Hz'') else ret ());
     (if cnt mod hz_2 = 0 then emit (EvSemPost ''sem_2Hz'') else ret ());
     let cnt = cnt + 1;
     let cnt = (if cnt = 1000 then 0 else cnt);
     emit (EvSleepUntil (tv_sec next) (tv_nsec next));
     ret cnt
   }"

fun execute_loop :: "(nat \<Rightarrow> int) \<Rightarrow> nat \<Rightarrow> nat \<Rightarrow> int \<Rightarrow> ('a os_scheme, bool) state" where
  "execute_loop execute_sys 0 i cnt = ret False"
| "execute_loop execute_sys (Suc fuel) i cnt =
     (if execute_sys i \<noteq> 0 then do {
        cnt \<leftarrow> execute_turn cnt;
        execute_loop execute_sys fuel (i + 1) cnt
      } else do {
        emit (EvPrintf ''execute return'' []);
        ret True
      })"

definition execute :: "(nat \<Rightarrow> int) \<Rightarrow> nat \<Rightarrow> ('a os_scheme, bool) state" where
  "execute execute_sys fuel = execute_loop execute_sys fuel 0 0"

section \<open>The released tasks\<close>

text \<open>\<open>main\<close> adds its own globals to the state of the libraries.\<close>

record autopilot = server +
  ap_client_status :: create_status

text \<open>\<open>sendStatus\<close> gives \<open>None\<close> for an overrun and \<open>Some False\<close> when it ends the process.\<close>

definition broadcastStatus :: "('a autopilot_scheme, bool option) state" where
  "broadcastStatus = do {
     st \<leftarrow> gets ap_client_status;
     sendStatus st
   }"

fun func_2Hz :: "(nat \<Rightarrow> int) \<Rightarrow> nat \<Rightarrow> nat \<Rightarrow> ('a autopilot_scheme, bool) state" where
  "func_2Hz shutdown_sys 0 i = ret False"
| "func_2Hz shutdown_sys (Suc fuel) i =
     (if shutdown_sys i = 0 then do {
        emit (EvSemWait ''sem_2Hz'');
        r \<leftarrow> broadcastStatus;
        (if r = Some True then func_2Hz shutdown_sys fuel (i + 1) else ret True)
      } else ret True)"

fun rate_50Hz_loop :: "(nat \<Rightarrow> int) \<Rightarrow> nat \<Rightarrow> nat \<Rightarrow> ('a os_scheme, bool) state" where
  "rate_50Hz_loop shutdown_sys 0 i = ret False"
| "rate_50Hz_loop shutdown_sys (Suc fuel) i =
     (if shutdown_sys i = 0 then do {
        emit (EvSemWait ''sem_50Hz'');
        emit (EvSemPost ''sem_create_m'');
        emit (EvSemPost ''sem_imu_m'');
        rate_50Hz_loop shutdown_sys fuel (i + 1)
      } else ret True)"

definition func_50Hz :: "(nat \<Rightarrow> int) \<Rightarrow> nat \<Rightarrow> ('a imu_scheme, bool) state" where
  "func_50Hz shutdown_sys fuel = do {
     ended \<leftarrow> rate_50Hz_loop shutdown_sys fuel 0;
     if ended then do {
       stopOI_MT;
       stopIMU_MT;
       ret True
     } else ret False
   }"

end
