(* ===== verification/SchedulerContracts.thy ===== *)
theory SchedulerContracts
  imports Scheduler
begin

text \<open>
  What the scheduler promises: exact time arithmetic, the rates at which it releases the two
  tasks, and what a run of the 50 Hz task leaves on its semaphores.
\<close>

section \<open>Time arithmetic\<close>

definition total_nsec :: "timespec \<Rightarrow> int" where
  "total_nsec t = tv_sec t * 1000000000 + tv_nsec t"

lemma uint_NSEC [simp]: "uint NSEC_PER_SEC = 1000000000"
  by (simp add: NSEC_PER_SEC_def)

lemma carry_seconds_total:
  "carry_seconds d sec = (d', sec') \<Longrightarrow> uint d' < 1000000000 \<and> sec' * 1000000000 + uint d' = sec * 1000000000 + uint d"
proof (induction d sec arbitrary: d' sec' rule: carry_seconds.induct)
  case (1 d sec)
  show ?case
  proof (cases "NSEC_PER_SEC \<le> d")
    case True
    then have "carry_seconds (d - NSEC_PER_SEC) (sec + 1) = (d', sec')"
      using "1.prems" by (subst (asm) carry_seconds.simps) simp
    from "1.IH" [OF True this] have "uint d' < 1000000000"
      "sec' * 1000000000 + uint d' = (sec + 1) * 1000000000 + uint (d - NSEC_PER_SEC)" by simp_all
    moreover have "uint (d - NSEC_PER_SEC) = uint d - 1000000000" using True by (simp add: uint_minus_simple_alt)
    ultimately show ?thesis by (simp add: algebra_simps)
  next
    case False
    then have "d' = d \<and> sec' = sec" using "1.prems" by (subst (asm) carry_seconds.simps) simp
    with False show ?thesis by (simp add: word_le_def)
  qed
qed

text \<open>
  \<open>timespec_add_us\<close> adds exactly \<open>d\<close> microseconds to a normalised time and leaves it
  normalised, as long as the 64-bit product and sum do not wrap (584 years).
\<close>
lemma timespec_add_us_exact:
  assumes "0 \<le> tv_nsec t" "tv_nsec t < 1000000000" "uint d * 1000 + 1000000000 \<le> 18446744073709551616"
  shows "total_nsec (timespec_add_us t d) = total_nsec t + 1000 * uint d
    \<and> 0 \<le> tv_nsec (timespec_add_us t d) \<and> tv_nsec (timespec_add_us t d) < 1000000000"
proof -
  let ?d = "d * 1000 + word_of_int (tv_nsec t)"
  have "uint (d * 1000) = uint d * 1000"
    using assms(3) by (simp add: uint_word_ariths mod_pos_pos_trivial)
  moreover have "uint (word_of_int (tv_nsec t) :: 64 word) = tv_nsec t"
    using assms by (simp add: uint_word_of_int mod_pos_pos_trivial)
  ultimately have d: "uint ?d = uint d * 1000 + tv_nsec t"
    using assms by (simp add: uint_word_ariths mod_pos_pos_trivial)
  obtain d' sec' where run: "carry_seconds ?d (tv_sec t) = (d', sec')" by (cases "carry_seconds ?d (tv_sec t)")
  from carry_seconds_total [OF run] d show ?thesis
    by (simp add: timespec_add_us_def run total_nsec_def)
qed

lemma timespec_add_us_exact_witness:
  "total_nsec (timespec_add_us \<lparr>tv_sec = 7, tv_nsec = 995000000\<rparr> 10000) = 8005000000"
  using timespec_add_us_exact [of "\<lparr>tv_sec = 7, tv_nsec = 995000000\<rparr>" 10000]
  by (simp add: total_nsec_def)

section \<open>Rates\<close>

abbreviation posts :: "string \<Rightarrow> event list \<Rightarrow> nat" where
  "posts sem evs \<equiv> count_list evs (EvSemPost sem)"

abbreviation sleeps :: "event list \<Rightarrow> nat" where
  "sleeps evs \<equiv> length (filter (\<lambda>e. \<exists>s n. e = EvSleepUntil s n) evs)"

text \<open>How many of the turns from \<open>i\<close> on, before \<open>n\<close>, are multiples of \<open>k\<close>.\<close>

definition due :: "nat \<Rightarrow> nat \<Rightarrow> nat \<Rightarrow> nat" where
  "due k i n = length (filter (\<lambda>j. j mod k = 0) [i..<n])"

lemma due_self [simp]: "due k n n = 0"
  by (simp add: due_def)

lemma due_step: "i < n \<Longrightarrow> due k i n = (if i mod k = 0 then 1 else 0) + due k (Suc i) n"
  by (simp add: due_def upt_conv_Cons)

lemma due_from_0: "0 < k \<Longrightarrow> due k 0 n = (n + k - 1) div k"
proof (induction n)
  case 0
  then show ?case by simp
next
  case (Suc n)
  have step: "due k 0 (Suc n) = due k 0 n + (if n mod k = 0 then 1 else 0)" by (simp add: due_def)
  have "(Suc n + k - 1) div k = (n + k - 1) div k + (if n mod k = 0 then 1 else 0)"
  proof -
    have "Suc (n + k - 1) = n + k" using Suc.prems by simp
    moreover have "Suc (n + k - 1) div k = (if Suc (n + k - 1) mod k = 0 then Suc ((n + k - 1) div k) else (n + k - 1) div k)"
      by (rule div_Suc)
    ultimately show ?thesis using Suc.prems by simp
  qed
  with Suc step show ?case by simp
qed

lemma mod_1000: "i mod 1000 mod 2 = i mod 2" "i mod 1000 mod 50 = i mod (50 :: nat)"
  by (simp_all add: mod_mod_cancel)

lemma cnt_next: "(if int (i mod 1000) + 1 = 1000 then 0 else int (i mod 1000) + 1) = int (Suc i mod 1000)"
  by (simp add: mod_Suc)

definition turn_events :: "int \<Rightarrow> int \<times> int \<Rightarrow> event list" where
  "turn_events cnt now =
     (let next = timespec_add_us \<lparr>tv_sec = fst now, tv_nsec = snd now\<rparr> 10000
      in (if cnt mod 2 = 0 then [EvSemPost ''sem_50Hz''] else [])
         @ (if cnt mod 50 = 0 then [EvSemPost ''sem_2Hz''] else [])
         @ [EvSleepUntil (tv_sec next) (tv_nsec next)])"

lemma execute_turn_events:
  "run_state (execute_turn cnt) s =
     (if cnt + 1 = 1000 then 0 else cnt + 1,
      s\<lparr>tick := Suc (tick s), trace := trace s @ turn_events cnt (clock s (tick s))\<rparr>)"
  by (simp add: execute_turn_def turn_events_def Let_def os_time_def advance_def)

lemma execute_turn_run:
  "\<exists>t evs. run_state (execute_turn (int (i mod 1000))) s
      = (int (Suc i mod 1000), s\<lparr>tick := t, trace := trace s @ evs\<rparr>)
    \<and> posts ''sem_50Hz'' evs = (if i mod 2 = 0 then 1 else 0)
    \<and> posts ''sem_2Hz'' evs = (if i mod 50 = 0 then 1 else 0) \<and> sleeps evs = 1"
proof -
  have m: "int (i mod 1000) mod 2 = 0 \<longleftrightarrow> i mod 2 = 0" "int (i mod 1000) mod 50 = 0 \<longleftrightarrow> i mod 50 = 0"
    using mod_1000 [of i] zmod_int [of "i mod 1000" 2, symmetric] zmod_int [of "i mod 1000" 50, symmetric]
    by simp_all
  show ?thesis
    unfolding execute_turn_events cnt_next
    by (intro exI conjI, rule refl) (simp_all add: turn_events_def Let_def m del: of_nat_mod)
qed

lemma execute_loop_run:
  "i \<le> n \<Longrightarrow> \<forall>j \<in> {i..<n}. execute_sys j \<noteq> 0 \<Longrightarrow> execute_sys n = 0 \<Longrightarrow> n - i < fuel \<Longrightarrow>
   \<exists>t evs. run_state (execute_loop execute_sys fuel i (int (i mod 1000))) s
      = (True, s\<lparr>tick := t, trace := trace s @ evs\<rparr>)
    \<and> posts ''sem_50Hz'' evs = due 2 i n \<and> posts ''sem_2Hz'' evs = due 50 i n \<and> sleeps evs = n - i"
proof (induction fuel arbitrary: i s)
  case 0
  then show ?case by simp
next
  case (Suc fuel)
  show ?case
  proof (cases "i = n")
    case True
    with Suc.prems show ?thesis
      by (intro exI [where x = "tick s"] exI [where x = "[EvPrintf ''execute return'' []]"]) simp
  next
    case False
    with Suc.prems(1,2) have on: "i < n" "execute_sys i \<noteq> 0" by auto
    from execute_turn_run [of i s] obtain t evs where turn:
      "run_state (execute_turn (int (i mod 1000))) s = (int (Suc i mod 1000), s\<lparr>tick := t, trace := trace s @ evs\<rparr>)"
      "posts ''sem_50Hz'' evs = (if i mod 2 = 0 then 1 else 0)"
      "posts ''sem_2Hz'' evs = (if i mod 50 = 0 then 1 else 0)" "sleeps evs = 1" by blast
    have "Suc i \<le> n" "\<forall>j \<in> {Suc i..<n}. execute_sys j \<noteq> 0" "n - Suc i < fuel"
      using on Suc.prems by auto
    from Suc.IH [OF this(1,2) Suc.prems(3) this(3), of "s\<lparr>tick := t, trace := trace s @ evs\<rparr>"]
    obtain t' evs' where rest:
      "run_state (execute_loop execute_sys fuel (Suc i) (int (Suc i mod 1000))) (s\<lparr>tick := t, trace := trace s @ evs\<rparr>)
        = (True, s\<lparr>tick := t', trace := trace s @ evs @ evs'\<rparr>)"
      "posts ''sem_50Hz'' evs' = due 2 (Suc i) n" "posts ''sem_2Hz'' evs' = due 50 (Suc i) n"
      "sleeps evs' = n - Suc i" by auto
    show ?thesis
      using on turn rest due_step [OF on(1), of 2] due_step [OF on(1), of 50]
      by (intro exI [where x = t'] exI [where x = "evs @ evs'"]) (simp del: of_nat_mod)
  qed
qed

text \<open>
  C16. The scheduler: when the flag stops it after \<open>n\<close> turns, it has released the 50 Hz task
  \<open>n / 2\<close> and the 2 Hz task \<open>n / 50\<close> times, rounded up, and slept \<open>n\<close> times; the counter's
  restart at 1000 disturbs neither rate.
\<close>
theorem execute_rates:
  assumes "\<forall>j \<in> {0..<n}. execute_sys j \<noteq> 0" "execute_sys n = 0" "n < fuel"
  shows "\<exists>t evs. run_state (execute execute_sys fuel) s = (True, s\<lparr>tick := t, trace := trace s @ evs\<rparr>)
    \<and> posts ''sem_50Hz'' evs = (n + 1) div 2 \<and> posts ''sem_2Hz'' evs = (n + 49) div 50 \<and> sleeps evs = n"
  using execute_loop_run [of 0 n execute_sys fuel s] assms
  by (simp add: execute_def due_from_0 add.commute)

lemma execute_rates_witness:
  "\<exists>t evs. run_state (execute (\<lambda>j. if j < 1234 then 1 else 0) 2000) mt_port
     = (True, mt_port\<lparr>tick := t, trace := trace mt_port @ evs\<rparr>)
    \<and> posts ''sem_50Hz'' evs = 617 \<and> posts ''sem_2Hz'' evs = 25 \<and> sleeps evs = 1234"
  using execute_rates [of 1234 "\<lambda>j. if j < 1234 then 1 else 0" 2000 mt_port] by simp

end
