(* ===== verification/RateThreads.thy ===== *)
theory RateThreads
  imports SchedulerContracts
begin

text \<open>
  The threads of the autopilot as they interleave: the scheduler releases the 50 Hz task, which
  releases the two sensor threads (of libcreateoi and of libIMU) through their semaphores, until
  \<open>main\<close> sets \<open>shutdown_sys\<close>; then the task stops both libraries, each stop setting the flag of
  a sensor thread and joining it. A step is what one thread does between two points at which
  another can be seen; what the threads read and compute is the subject of the other theories.
\<close>

section \<open>A sensor thread\<close>

datatype poller_pc = PWait | PRead | PPublish | PExited

record poller =
  pl_sem :: nat
  pl_pc :: poller_pc
  pl_shut_down :: bool
  pl_posts :: nat
  pl_polls :: nat

text \<open>\<open>sem_wait\<close>, the reading, and the critical section that stores it and tests the flag.\<close>

inductive poller_step :: "poller \<Rightarrow> poller \<Rightarrow> bool" where
  wake: "pl_pc p = PWait \<Longrightarrow> 0 < pl_sem p \<Longrightarrow>
    poller_step p (p\<lparr>pl_sem := pl_sem p - 1, pl_pc := PRead\<rparr>)"
| read: "pl_pc p = PRead \<Longrightarrow> poller_step p (p\<lparr>pl_pc := PPublish\<rparr>)"
| store: "pl_pc p = PPublish \<Longrightarrow>
    poller_step p (p\<lparr>pl_pc := (if pl_shut_down p then PExited else PWait), pl_polls := pl_polls p + 1\<rparr>)"

inductive_cases poller_stepE: "poller_step p p'"

definition post :: "poller \<Rightarrow> poller" where
  "post p = p\<lparr>pl_sem := pl_sem p + 1, pl_posts := pl_posts p + 1\<rparr>"

definition new_poller :: poller where
  "new_poller = \<lparr>pl_sem = 0, pl_pc = PWait, pl_shut_down = False, pl_posts = 0, pl_polls = 0\<rparr>"

section \<open>The system\<close>

datatype rate_pc = RTest | RWait | RPostCreate | RPostImu | RStopCreate | RJoinCreate | RStopImu | RJoinImu | RDone

record rates =
  rt_execute_sys :: bool
  rt_shutdown_sys :: bool
  rt_sem_50Hz :: nat
  rt_releases :: nat
  rt_pc :: rate_pc
  rt_create :: poller
  rt_imu :: poller

inductive rates_step :: "rates \<Rightarrow> rates \<Rightarrow> bool" where
  release: "rt_execute_sys r \<Longrightarrow>
    rates_step r (r\<lparr>rt_sem_50Hz := rt_sem_50Hz r + 1, rt_releases := rt_releases r + 1\<rparr>)"
| test: "rt_pc r = RTest \<Longrightarrow>
    rates_step r (r\<lparr>rt_pc := (if rt_shutdown_sys r then RStopCreate else RWait)\<rparr>)"
| wait_50Hz: "rt_pc r = RWait \<Longrightarrow> 0 < rt_sem_50Hz r \<Longrightarrow>
    rates_step r (r\<lparr>rt_sem_50Hz := rt_sem_50Hz r - 1, rt_pc := RPostCreate\<rparr>)"
| post_create: "rt_pc r = RPostCreate \<Longrightarrow>
    rates_step r (r\<lparr>rt_create := post (rt_create r), rt_pc := RPostImu\<rparr>)"
| post_imu: "rt_pc r = RPostImu \<Longrightarrow>
    rates_step r (r\<lparr>rt_imu := post (rt_imu r), rt_pc := RTest\<rparr>)"
| stop_create: "rt_pc r = RStopCreate \<Longrightarrow>
    rates_step r (r\<lparr>rt_create := (rt_create r)\<lparr>pl_shut_down := True\<rparr>, rt_pc := RJoinCreate\<rparr>)"
| join_create: "rt_pc r = RJoinCreate \<Longrightarrow> pl_pc (rt_create r) = PExited \<Longrightarrow>
    rates_step r (r\<lparr>rt_pc := RStopImu\<rparr>)"
| stop_imu: "rt_pc r = RStopImu \<Longrightarrow>
    rates_step r (r\<lparr>rt_imu := (rt_imu r)\<lparr>pl_shut_down := True\<rparr>, rt_pc := RJoinImu\<rparr>)"
| join_imu: "rt_pc r = RJoinImu \<Longrightarrow> pl_pc (rt_imu r) = PExited \<Longrightarrow>
    rates_step r (r\<lparr>rt_pc := RDone\<rparr>)"
| create_thread: "poller_step (rt_create r) p \<Longrightarrow> rates_step r (r\<lparr>rt_create := p\<rparr>)"
| imu_thread: "poller_step (rt_imu r) p \<Longrightarrow> rates_step r (r\<lparr>rt_imu := p\<rparr>)"
| main_quits: "rates_step r (r\<lparr>rt_shutdown_sys := True\<rparr>)"
| main_joins: "rt_shutdown_sys r \<Longrightarrow> rt_pc r = RDone \<Longrightarrow> rates_step r (r\<lparr>rt_execute_sys := False\<rparr>)"

inductive_cases rates_stepE: "rates_step r r'"

text \<open>\<open>main\<close> has created the threads; nothing has run yet.\<close>

definition rates_start :: rates where
  "rates_start = \<lparr>rt_execute_sys = True, rt_shutdown_sys = False, rt_sem_50Hz = 0, rt_releases = 0,
     rt_pc = RTest, rt_create = new_poller, rt_imu = new_poller\<rparr>"

section \<open>Nothing released is lost\<close>

definition poller_ok :: "poller \<Rightarrow> bool" where
  "poller_ok p \<longleftrightarrow>
     pl_posts p = pl_polls p + pl_sem p + (if pl_pc p = PRead \<or> pl_pc p = PPublish then 1 else 0)"

lemma poller_ok_step: "poller_step p p' \<Longrightarrow> poller_ok p \<Longrightarrow> poller_ok p' \<and> pl_posts p' = pl_posts p"
  by (erule poller_stepE) (auto simp: poller_ok_def)

lemma poller_ok_post [simp]: "poller_ok (post p) = poller_ok p" "pl_posts (post p) = pl_posts p + 1"
  by (simp_all add: poller_ok_def post_def)

lemma poller_ok_flag [simp]: "poller_ok (p\<lparr>pl_shut_down := b\<rparr>) = poller_ok p"
  by (simp add: poller_ok_def)

definition rates_ok :: "rates \<Rightarrow> bool" where
  "rates_ok r \<longleftrightarrow> poller_ok (rt_create r) \<and> poller_ok (rt_imu r)
     \<and> rt_releases r = rt_sem_50Hz r + pl_posts (rt_create r) + (if rt_pc r = RPostCreate then 1 else 0)
     \<and> pl_posts (rt_create r) = pl_posts (rt_imu r) + (if rt_pc r = RPostImu then 1 else 0)"

lemma rates_ok_step: "rates_step r r' \<Longrightarrow> rates_ok r \<Longrightarrow> rates_ok r'"
  by (erule rates_stepE) (auto simp: rates_ok_def dest: poller_ok_step)

lemma rates_ok_reachable: "rates_step\<^sup>*\<^sup>* rates_start r \<Longrightarrow> rates_ok r"
  by (induction rule: rtranclp_induct)
    (simp add: rates_ok_def rates_start_def poller_ok_def new_poller_def, rule rates_ok_step)

text \<open>
  C5. In every interleaving, every release of the 50 Hz task is still on its semaphore, being
  handled, or has asked both sensor threads for one reading, and every request is still on the
  thread's semaphore, in progress, or one reading published: none is lost and none made up.
\<close>
theorem rates_conserved:
  assumes "rates_step\<^sup>*\<^sup>* rates_start r"
  shows "rt_releases r = rt_sem_50Hz r + pl_posts (rt_create r) + (if rt_pc r = RPostCreate then 1 else 0)
    \<and> pl_posts (rt_create r) = pl_posts (rt_imu r) + (if rt_pc r = RPostImu then 1 else 0)
    \<and> pl_posts (rt_create r) = pl_polls (rt_create r) + pl_sem (rt_create r)
        + (if pl_pc (rt_create r) = PRead \<or> pl_pc (rt_create r) = PPublish then 1 else 0)
    \<and> pl_posts (rt_imu r) = pl_polls (rt_imu r) + pl_sem (rt_imu r)
        + (if pl_pc (rt_imu r) = PRead \<or> pl_pc (rt_imu r) = PPublish then 1 else 0)"
  using rates_ok_reachable [OF assms] by (simp add: rates_ok_def poller_ok_def)

section \<open>Shutting down\<close>

text \<open>One round of the 50 Hz task with the create thread's reading done before the flag is tested.\<close>

lemmas rates_steps = converse_rtranclp_into_rtranclp [of rates_step]

definition busy_round :: rates where
  "busy_round = rates_start\<lparr>rt_releases := 1,
     rt_create := new_poller\<lparr>pl_posts := 1, pl_polls := 1\<rparr>, rt_imu := post new_poller\<rparr>"

lemma reach_busy_round: "rates_step\<^sup>*\<^sup>* rates_start busy_round"
proof -
  let ?r1 = "rates_start\<lparr>rt_sem_50Hz := 1, rt_releases := 1\<rparr>"
  let ?r2 = "?r1\<lparr>rt_sem_50Hz := 0, rt_pc := RPostCreate\<rparr>"
  let ?p = "post new_poller"
  let ?r3 = "?r2\<lparr>rt_create := ?p, rt_pc := RPostImu\<rparr>"
  let ?p1 = "?p\<lparr>pl_sem := 0, pl_pc := PRead\<rparr>" and ?p2 = "?p\<lparr>pl_sem := 0, pl_pc := PPublish\<rparr>"
  let ?p3 = "?p\<lparr>pl_sem := 0, pl_pc := PWait, pl_polls := 1\<rparr>"
  have polls: "poller_step ?p ?p1" "poller_step ?p1 ?p2" "poller_step ?p2 ?p3"
    using wake [of ?p] read [of ?p1] store [of ?p2] by (simp_all add: post_def new_poller_def)
  have s1: "rates_step rates_start ?r1"
    using release [of rates_start] by (simp add: rates_start_def)
  have s2: "rates_step ?r1 (?r1\<lparr>rt_pc := RWait\<rparr>)"
    using test [of ?r1] by (simp add: rates_start_def)
  have s3: "rates_step (?r1\<lparr>rt_pc := RWait\<rparr>) ?r2"
    using wait_50Hz [of "?r1\<lparr>rt_pc := RWait\<rparr>"] by simp
  have s4: "rates_step ?r2 ?r3"
    using post_create [of ?r2] by (simp add: rates_start_def)
  have s5: "rates_step ?r3 (?r3\<lparr>rt_create := ?p1\<rparr>)"
    using create_thread [of ?r3 ?p1] polls(1) by simp
  have s6: "rates_step (?r3\<lparr>rt_create := ?p1\<rparr>) (?r3\<lparr>rt_create := ?p2\<rparr>)"
    using create_thread [of "?r3\<lparr>rt_create := ?p1\<rparr>" ?p2] polls(2) by simp
  have s7: "rates_step (?r3\<lparr>rt_create := ?p2\<rparr>) (?r3\<lparr>rt_create := ?p3\<rparr>)"
    using create_thread [of "?r3\<lparr>rt_create := ?p2\<rparr>" ?p3] polls(3) by simp
  have s8: "rates_step (?r3\<lparr>rt_create := ?p3\<rparr>) busy_round"
    using post_imu [of "?r3\<lparr>rt_create := ?p3\<rparr>"]
    by (simp add: rates_start_def busy_round_def post_def new_poller_def)
  show ?thesis
    by (rule rates_steps [OF s1 rates_steps [OF s2 rates_steps [OF s3 rates_steps [OF s4
          rates_steps [OF s5 rates_steps [OF s6 rates_steps [OF s7 r_into_rtranclp [of rates_step, OF s8]]]]]]]])
qed

definition hung :: "rates \<Rightarrow> bool" where
  "hung r \<longleftrightarrow> rt_pc r = RJoinCreate \<and> pl_pc (rt_create r) = PWait \<and> pl_sem (rt_create r) = 0"

lemma hung_step: "rates_step r r' \<Longrightarrow> hung r \<Longrightarrow> hung r'"
  by (erule rates_stepE) (auto simp: hung_def elim: poller_stepE)

lemma hung_forever: "rates_step\<^sup>*\<^sup>* r r' \<Longrightarrow> hung r \<Longrightarrow> hung r'"
  by (induction rule: rtranclp_induct) (auto dest: hung_step)

lemma reach_hung: "\<exists>r. rates_step\<^sup>*\<^sup>* busy_round r \<and> hung r"
proof -
  let ?q = "busy_round\<lparr>rt_shutdown_sys := True\<rparr>"
  let ?s = "?q\<lparr>rt_pc := RStopCreate\<rparr>"
  let ?h = "?s\<lparr>rt_create := (rt_create ?s)\<lparr>pl_shut_down := True\<rparr>, rt_pc := RJoinCreate\<rparr>"
  have s1: "rates_step busy_round ?q" by (rule main_quits)
  have s2: "rates_step ?q ?s"
    using test [of ?q] by (simp add: busy_round_def rates_start_def)
  have s3: "rates_step ?s ?h"
    using stop_create [of ?s] by simp
  have "rates_step\<^sup>*\<^sup>* busy_round ?h"
    by (rule rates_steps [OF s1 rates_steps [OF s2 r_into_rtranclp [of rates_step, OF s3]]])
  moreover have "hung ?h" by (simp add: hung_def busy_round_def new_poller_def)
  ultimately show ?thesis by blast
qed

text \<open>
  C6. Shutting down can hang: when the create thread has published its last reading before the
  50 Hz task tests \<open>shutdown_sys\<close>, the task sets the thread's flag and joins it while it waits on
  a semaphore nobody posts any more; from there no step of any thread ever leads out, and the
  program does not end.
\<close>
theorem shutdown_can_hang:
  "\<exists>r. rates_step\<^sup>*\<^sup>* rates_start r \<and> {r'. rates_step\<^sup>*\<^sup>* r r'} \<subseteq> {r'. hung r'}"
proof -
  from reach_hung obtain r where "rates_step\<^sup>*\<^sup>* busy_round r" "hung r" by blast
  with reach_busy_round show ?thesis
    by (intro exI [where x = r]) (auto dest: hung_forever rtranclp_trans)
qed

lemma rates_conserved_witness:
  "rates_step\<^sup>*\<^sup>* rates_start busy_round \<and> rt_releases busy_round = 1 \<and> pl_polls (rt_create busy_round) = 1"
  using rates_conserved [OF reach_busy_round] reach_busy_round
  by (simp add: busy_round_def rates_start_def new_poller_def post_def)

end
