(* ===== verification/Ini.thy ===== *)
theory Ini
  imports Prelude
begin

text \<open>
  The INI parser (inih/ini.c) with the options of ini.h: multi-line values, byte order mark,
  parsing on after an error, lines of at most 199 characters. A file is its list of
  characters; the handler is a parameter that updates the user's data and says whether it
  accepted the pair. The functions that return a pointer into a string are modelled by the
  part before and the part after that pointer.
\<close>

section \<open>Characters and strings\<close>

definition isspace :: "char \<Rightarrow> bool" where
  "isspace c \<longleftrightarrow> of_char c \<in> {9, 10, 11, 12, 13, 32 :: nat}"

definition newline :: char where
  "newline = CHR 0x0A"

definition nul :: char where
  "nul = CHR 0x00"

definition rstrip :: "string \<Rightarrow> string" where
  "rstrip s = rev (dropWhile isspace (rev s))"

definition lskip :: "string \<Rightarrow> string" where
  "lskip s = dropWhile isspace s"

text \<open>The string up to the character \<open>c\<close> or a comment, and the rest from there.\<close>

fun find_from :: "bool \<Rightarrow> string \<Rightarrow> char \<Rightarrow> string \<times> string" where
  "find_from was_whitespace [] c = ([], [])"
| "find_from was_whitespace (x # xs) c =
     (if x = c \<or> (was_whitespace \<and> x = CHR '';'') then ([], x # xs)
      else (case find_from (isspace x) xs c of (pre, rest) \<Rightarrow> (x # pre, rest)))"

definition find_char_or_comment :: "string \<Rightarrow> char \<Rightarrow> string \<times> string" where
  "find_char_or_comment s c = find_from False s c"

text \<open>The string \<open>strncpy0\<close> leaves in a buffer of \<open>n\<close> bytes.\<close>

definition strncpy0 :: "string \<Rightarrow> nat \<Rightarrow> string" where
  "strncpy0 src n = take (n - 1) src"

definition INI_MAX_LINE :: nat where
  "INI_MAX_LINE = 200"

definition MAX_SECTION :: nat where
  "MAX_SECTION = 50"

definition MAX_NAME :: nat where
  "MAX_NAME = 50"

text \<open>\<open>fgets\<close>: at most \<open>n\<close> characters, up to and including a newline, and what is left.\<close>

fun fgets :: "nat \<Rightarrow> string \<Rightarrow> string \<times> string" where
  "fgets 0 xs = ([], xs)"
| "fgets (Suc n) [] = ([], [])"
| "fgets (Suc n) (x # xs) =
     (if x = newline then ([x], xs)
      else (case fgets n xs of (line, rest) \<Rightarrow> (x # line, rest)))"

section \<open>One line\<close>

record 'u ini =
  ini_section :: string
  ini_prev_name :: string
  ini_lineno :: nat
  ini_error :: nat
  ini_user :: 'u

type_synonym 'u ini_handler = "'u \<Rightarrow> string \<Rightarrow> string \<Rightarrow> string \<Rightarrow> bool \<times> 'u"

definition note_error :: "('u, 'e) ini_scheme \<Rightarrow> ('u, 'e) ini_scheme" where
  "note_error st = (if ini_error st = 0 then st\<lparr>ini_error := ini_lineno st\<rparr> else st)"

definition call_handler ::
  "'u ini_handler \<Rightarrow> string \<Rightarrow> string \<Rightarrow> ('u, 'e) ini_scheme \<Rightarrow> ('u, 'e) ini_scheme" where
  "call_handler handler name v st =
     (case handler (ini_user st) (ini_section st) name v of
        (ok, u) \<Rightarrow> (if ok then st\<lparr>ini_user := u\<rparr> else note_error (st\<lparr>ini_user := u\<rparr>)))"

definition skip_bom :: "nat \<Rightarrow> string \<Rightarrow> string" where
  "skip_bom lineno line =
     (if lineno = 1 \<and> take 3 line = [CHR 0xEF, CHR 0xBB, CHR 0xBF] then drop 3 line else line)"

definition ini_line :: "'u ini_handler \<Rightarrow> string \<Rightarrow> ('u, 'e) ini_scheme \<Rightarrow> ('u, 'e) ini_scheme" where
  "ini_line handler raw st0 =
     (let line = takeWhile (\<lambda>c. c \<noteq> nul) raw;
          st = st0\<lparr>ini_lineno := ini_lineno st0 + 1\<rparr>;
          stripped = rstrip (skip_bom (ini_lineno st) line);
          start = lskip stripped;
          moved = (start \<noteq> stripped \<or> skip_bom (ini_lineno st) line \<noteq> line)
      in if start \<noteq> [] \<and> (hd start = CHR '';'' \<or> hd start = CHR ''#'') then st
         else if ini_prev_name st \<noteq> [] \<and> start \<noteq> [] \<and> moved then
           call_handler handler (ini_prev_name st) start st
         else if start \<noteq> [] \<and> hd start = CHR ''['' then
           (case find_char_or_comment (tl start) CHR '']'' of (pre, rest) \<Rightarrow>
              if rest \<noteq> [] \<and> hd rest = CHR '']''
              then st\<lparr>ini_section := strncpy0 pre MAX_SECTION, ini_prev_name := []\<rparr>
              else note_error st)
         else if start \<noteq> [] then
           (case (let eq = find_char_or_comment start CHR ''=''
                  in if snd eq \<noteq> [] \<and> hd (snd eq) = CHR ''='' then eq
                     else find_char_or_comment start CHR '':'') of
              (pre, rest) \<Rightarrow>
                if rest \<noteq> [] \<and> (hd rest = CHR ''='' \<or> hd rest = CHR '':'') then
                  (let name = rstrip pre;
                       v = rstrip (fst (find_char_or_comment (lskip (tl rest)) nul))
                   in call_handler handler name v (st\<lparr>ini_prev_name := strncpy0 name MAX_NAME\<rparr>))
                else note_error st)
         else st)"

section \<open>The file\<close>

lemma fgets_shrinks: "fgets (Suc n) (x # xs) = (line, rest) \<Longrightarrow> length rest < Suc (length xs)"
proof (induction n arbitrary: x xs line rest)
  case 0
  then show ?case by (auto split: if_splits)
next
  case (Suc n)
  then show ?case by (cases xs) (force split: if_splits prod.splits)+
qed

lemma fgets_less: "xs \<noteq> [] \<Longrightarrow> (line, rest) = fgets (INI_MAX_LINE - 1) xs \<Longrightarrow> length rest < length xs"
proof (cases xs)
  case (Cons x ys)
  assume line: "(line, rest) = fgets (INI_MAX_LINE - 1) xs"
  have size: "INI_MAX_LINE - 1 = Suc 198" by (simp add: INI_MAX_LINE_def)
  from line have "fgets (Suc 198) (x # ys) = (line, rest)"
    unfolding Cons size by (rule sym)
  from fgets_shrinks [OF this] show "length rest < length xs" by (simp add: Cons)
qed simp

function ini_loop :: "'u ini_handler \<Rightarrow> string \<Rightarrow> ('u, 'e) ini_scheme \<Rightarrow> ('u, 'e) ini_scheme" where
  "ini_loop handler input st =
     (if input = [] then st
      else (case fgets (INI_MAX_LINE - 1) input of
              (line, rest) \<Rightarrow> ini_loop handler rest (ini_line handler line st)))"
  by pat_completeness auto
termination
  by (relation "measure (\<lambda>(h, input, st). length input)") (simp, simp add: fgets_less)

declare ini_loop.simps [simp del]

definition ini_parse_file :: "string \<Rightarrow> 'u ini_handler \<Rightarrow> 'u \<Rightarrow> int \<times> 'u" where
  "ini_parse_file input handler user =
     (let st = ini_loop handler input \<lparr>ini_section = [], ini_prev_name = [], ini_lineno = 0,
                 ini_error = 0, ini_user = user\<rparr>
      in (int (ini_error st), ini_user st))"

text \<open>\<open>None\<close> is a file \<open>fopen\<close> cannot open.\<close>

definition ini_parse :: "string option \<Rightarrow> 'u ini_handler \<Rightarrow> 'u \<Rightarrow> int \<times> 'u" where
  "ini_parse input handler user =
     (case input of
        None \<Rightarrow> (-1, user)
      | Some contents \<Rightarrow> ini_parse_file contents handler user)"

section \<open>What the parser promises\<close>

text \<open>
  Files the writer below produces: sections of \<open>name=value\<close> lines. The conditions keep the
  separators of the format out of the names, and each line within the buffer.
\<close>

definition inner_char :: "char \<Rightarrow> bool" where
  "inner_char c \<longleftrightarrow> c \<noteq> newline \<and> c \<noteq> nul \<and> c \<noteq> CHR '';''"

definition trimmed :: "string \<Rightarrow> bool" where
  "trimmed s \<longleftrightarrow> s \<noteq> [] \<and> \<not> isspace (hd s) \<and> \<not> isspace (last s) \<and> list_all inner_char s"

definition section_ok :: "string \<Rightarrow> bool" where
  "section_ok s \<longleftrightarrow> list_all inner_char s \<and> CHR '']'' \<notin> set s \<and> length s \<le> 49"

definition name_ok :: "string \<Rightarrow> bool" where
  "name_ok s \<longleftrightarrow> trimmed s \<and> CHR ''='' \<notin> set s \<and> hd s \<noteq> CHR ''['' \<and> hd s \<noteq> CHR ''#''
     \<and> hd s \<noteq> CHR 0xEF \<and> length s \<le> 49"

definition value_ok :: "string \<Rightarrow> bool" where
  "value_ok s \<longleftrightarrow> trimmed s \<and> length s \<le> 140"

type_synonym ini_data = "(string \<times> (string \<times> string) list) list"

definition ini_ok :: "ini_data \<Rightarrow> bool" where
  "ini_ok d \<longleftrightarrow> list_all (\<lambda>(sec, ps). section_ok sec \<and> list_all (\<lambda>(n, v). name_ok n \<and> value_ok v) ps) d"

definition print_pair :: "string \<times> string \<Rightarrow> string" where
  "print_pair p = fst p @ CHR ''='' # snd p @ [newline]"

definition print_section :: "string \<times> (string \<times> string) list \<Rightarrow> string" where
  "print_section s = CHR ''['' # fst s @ CHR '']'' # newline # concat (map print_pair (snd s))"

definition print_ini :: "ini_data \<Rightarrow> string" where
  "print_ini d = concat (map print_section d)"

definition ini_pairs :: "ini_data \<Rightarrow> (string \<times> string \<times> string) list" where
  "ini_pairs d = concat (map (\<lambda>(sec, ps). map (\<lambda>(n, v). (sec, n, v)) ps) d)"

lemma fgets_line:
  "newline \<notin> set xs \<Longrightarrow> length xs < n \<Longrightarrow> fgets n (xs @ newline # ys) = (xs @ [newline], ys)"
proof (induction xs arbitrary: n)
  case Nil
  then show ?case by (cases n) simp_all
next
  case (Cons x xs)
  then show ?case by (cases n) auto
qed

lemma isspace_newline [simp]: "isspace newline"
  by code_simp

lemma rstrip_newline [simp]: "rstrip (xs @ [newline]) = rstrip xs"
  by (simp add: rstrip_def)

lemma rstrip_id: "xs \<noteq> [] \<Longrightarrow> \<not> isspace (last xs) \<Longrightarrow> rstrip xs = xs"
  by (cases xs rule: rev_cases) (simp_all add: rstrip_def)

lemma lskip_id: "xs \<noteq> [] \<Longrightarrow> \<not> isspace (hd xs) \<Longrightarrow> lskip xs = xs"
  by (cases xs) (simp_all add: lskip_def)

lemma find_from_hit:
  "c \<notin> set xs \<Longrightarrow> CHR '';'' \<notin> set xs \<Longrightarrow> find_from b (xs @ c # ys) c = (xs, c # ys)"
  by (induction xs arbitrary: b) auto

lemma find_from_miss: "c \<notin> set xs \<Longrightarrow> CHR '';'' \<notin> set xs \<Longrightarrow> find_from b xs c = (xs, [])"
  by (induction xs arbitrary: b) auto

lemma inner_set: "list_all inner_char s \<Longrightarrow> newline \<notin> set s \<and> nul \<notin> set s \<and> CHR '';'' \<notin> set s"
  by (auto simp: list_all_iff inner_char_def)

lemma takeWhile_all: "nul \<notin> set xs \<Longrightarrow> takeWhile (\<lambda>c. c \<noteq> nul) xs = xs"
  by (auto simp: takeWhile_eq_all_conv)

lemma special_chars: "nul \<noteq> newline" "newline \<noteq> nul" "nul \<noteq> CHR ''[''" "nul \<noteq> CHR '']''" "nul \<noteq> CHR ''=''"
  "\<not> isspace CHR ''[''" "\<not> isspace CHR '']''" "\<not> isspace CHR '';''" "\<not> isspace CHR ''=''" "newline \<noteq> CHR ''[''"
  "newline \<noteq> CHR '']''" "newline \<noteq> CHR ''=''"
  by code_simp+

lemma ini_line_section:
  assumes "section_ok sec"
  shows "ini_line h (CHR ''['' # sec @ [CHR '']'', newline]) st =
    st\<lparr>ini_lineno := ini_lineno st + 1, ini_section := sec, ini_prev_name := []\<rparr>"
proof -
  have sec: "newline \<notin> set sec" "nul \<notin> set sec" "CHR '';'' \<notin> set sec" "CHR '']'' \<notin> set sec" "length sec \<le> 49"
    using assms inner_set [of sec] by (auto simp: section_ok_def)
  let ?l = "CHR ''['' # sec @ [CHR '']'']"
  have raw: "takeWhile (\<lambda>c. c \<noteq> nul) (CHR ''['' # sec @ [CHR '']'', newline]) = ?l @ [newline]"
    using sec by (intro takeWhile_all [THEN trans]) (auto simp: special_chars)
  have bom: "skip_bom n (?l @ [newline]) = ?l @ [newline]" for n by (simp add: skip_bom_def)
  have strip: "rstrip (?l @ [newline]) = ?l" "lskip ?l = ?l"
    by (simp_all only: rstrip_newline) (simp_all add: rstrip_id lskip_id special_chars)
  have find: "find_char_or_comment (sec @ [CHR '']'']) CHR '']'' = (sec, [CHR '']''])"
    using find_from_hit [of "CHR '']''" sec False "[]"] sec by (simp add: find_char_or_comment_def)
  have name: "strncpy0 sec MAX_SECTION = sec" using sec by (simp add: strncpy0_def MAX_SECTION_def)
  show ?thesis
    unfolding ini_line_def Let_def raw bom strip by (simp add: find name)
qed

lemma ini_line_pair:
  assumes "name_ok n" "value_ok v"
  shows "ini_line h (n @ CHR ''='' # v @ [newline]) st =
    call_handler h n v (st\<lparr>ini_lineno := ini_lineno st + 1, ini_prev_name := n\<rparr>)"
proof -
  have n: "newline \<notin> set n" "nul \<notin> set n" "CHR '';'' \<notin> set n" "CHR ''='' \<notin> set n" "n \<noteq> []"
    "\<not> isspace (hd n)" "\<not> isspace (last n)" "hd n \<noteq> CHR ''[''" "hd n \<noteq> CHR ''#''" "hd n \<noteq> CHR 0xEF" "length n \<le> 49"
    "hd n \<noteq> CHR '';''"
    using assms(1) inner_set [of n] by (auto simp: name_ok_def trimmed_def dest: hd_in_set)
  have v: "newline \<notin> set v" "nul \<notin> set v" "CHR '';'' \<notin> set v" "v \<noteq> []" "\<not> isspace (hd v)" "\<not> isspace (last v)"
    using assms(2) inner_set [of v] by (auto simp: value_ok_def trimmed_def)
  let ?l = "n @ CHR ''='' # v"
  have raw: "takeWhile (\<lambda>c. c \<noteq> nul) (n @ CHR ''='' # v @ [newline]) = ?l @ [newline]"
    using n v by (intro takeWhile_all [THEN trans]) (auto simp: special_chars)
  have bom: "skip_bom k (?l @ [newline]) = ?l @ [newline]" for k
    using n by (cases n) (simp_all add: skip_bom_def)
  have strip: "rstrip (?l @ [newline]) = ?l" "lskip ?l = ?l"
    using n v by (simp_all only: rstrip_newline) (simp_all add: rstrip_id lskip_id)
  have find: "find_char_or_comment ?l CHR ''='' = (n, CHR ''='' # v)"
    using find_from_hit [of "CHR ''=''" n False v] n by (simp add: find_char_or_comment_def)
  have vfind: "find_char_or_comment v nul = (v, [])"
    using find_from_miss [of nul v False] v by (simp add: find_char_or_comment_def)
  have name: "strncpy0 n MAX_NAME = n" using n by (simp add: strncpy0_def MAX_NAME_def)
  show ?thesis
    unfolding ini_line_def Let_def raw bom strip
    using n v by (simp add: find vfind name rstrip_id lskip_id)
qed


lemma ini_loop_line:
  assumes "newline \<notin> set xs" "length xs < 199"
  shows "ini_loop h (xs @ newline # ys) st = ini_loop h ys (ini_line h (xs @ [newline]) st)"
proof -
  have "fgets (INI_MAX_LINE - 1) (xs @ newline # ys) = (xs @ [newline], ys)"
    using assms by (intro fgets_line) (simp_all add: INI_MAX_LINE_def)
  then show ?thesis by (subst ini_loop.simps) simp
qed

text \<open>A handler that records what it is told, and accepts everything.\<close>

definition recorder :: "(string \<times> string \<times> string) list ini_handler" where
  "recorder u sec n v = (True, u @ [(sec, n, v)])"

lemma ini_loop_pairs:
  assumes "list_all (\<lambda>(n, v). name_ok n \<and> value_ok v) ps"
  shows "\<exists>prev. ini_loop recorder (concat (map print_pair ps) @ rest) st =
    ini_loop recorder rest (st\<lparr>ini_lineno := ini_lineno st + length ps, ini_prev_name := prev,
      ini_user := ini_user st @ map (\<lambda>(n, v). (ini_section st, n, v)) ps\<rparr>)"
  using assms
proof (induction ps arbitrary: st)
  case Nil
  then show ?case by (intro exI [where x = "ini_prev_name st"]) simp
next
  case (Cons p ps)
  obtain n v where p: "p = (n, v)" by (cases p)
  have nv: "name_ok n" "value_ok v" and rest: "list_all (\<lambda>(n, v). name_ok n \<and> value_ok v) ps"
    using Cons.prems by (auto simp: p)
  have "newline \<notin> set (n @ CHR ''='' # v)" "length (n @ CHR ''='' # v) < 199"
    using nv inner_set [of n] inner_set [of v]
    by (auto simp: name_ok_def value_ok_def trimmed_def special_chars)
  note line = ini_loop_line [OF this, of recorder "concat (map print_pair ps) @ rest" st]
  let ?st = "st\<lparr>ini_lineno := ini_lineno st + 1, ini_prev_name := n, ini_user := ini_user st @ [(ini_section st, n, v)]\<rparr>"
  have "ini_line recorder ((n @ CHR ''='' # v) @ [newline]) st = ?st"
    using ini_line_pair [OF nv, of recorder st] by (simp add: call_handler_def recorder_def)
  with line have "ini_loop recorder (concat (map print_pair (p # ps)) @ rest) st
      = ini_loop recorder (concat (map print_pair ps) @ rest) ?st"
    by (simp add: p print_pair_def)
  moreover from Cons.IH [OF rest, of ?st] obtain prev where
    "ini_loop recorder (concat (map print_pair ps) @ rest) ?st =
      ini_loop recorder rest (?st\<lparr>ini_lineno := ini_lineno ?st + length ps, ini_prev_name := prev,
        ini_user := ini_user ?st @ map (\<lambda>(n, v). (ini_section ?st, n, v)) ps\<rparr>)" by blast
  ultimately show ?case
    by (intro exI [where x = prev]) (simp add: p)
qed

definition line_count :: "ini_data \<Rightarrow> nat" where
  "line_count d = sum_list (map (\<lambda>(sec, ps). Suc (length ps)) d)"

lemma ini_loop_sections:
  assumes "ini_ok d"
  shows "\<exists>prev sec. ini_loop recorder (print_ini d @ rest) st =
    ini_loop recorder rest (st\<lparr>ini_lineno := ini_lineno st + line_count d, ini_prev_name := prev,
      ini_section := sec, ini_user := ini_user st @ ini_pairs d\<rparr>)"
  using assms
proof (induction d arbitrary: st)
  case Nil
  then show ?case
    by (intro exI [where x = "ini_prev_name st"] exI [where x = "ini_section st"])
      (simp add: print_ini_def ini_pairs_def line_count_def)
next
  case (Cons s d)
  obtain sec ps where s: "s = (sec, ps)" by (cases s)
  have ok: "section_ok sec" "list_all (\<lambda>(n, v). name_ok n \<and> value_ok v) ps" "ini_ok d"
    using Cons.prems by (auto simp: s ini_ok_def)
  have "newline \<notin> set (CHR ''['' # sec @ [CHR '']''])" "length (CHR ''['' # sec @ [CHR '']'']) < 199"
    using ok(1) inner_set [of sec] by (auto simp: section_ok_def special_chars)
  note line = ini_loop_line [OF this, of recorder "concat (map print_pair ps) @ print_ini d @ rest" st]
  let ?st = "st\<lparr>ini_lineno := ini_lineno st + 1, ini_section := sec, ini_prev_name := []\<rparr>"
  have "ini_line recorder ((CHR ''['' # sec @ [CHR '']'']) @ [newline]) st = ?st"
    using ini_line_section [OF ok(1), of recorder st] by simp
  with line have "ini_loop recorder (print_ini (s # d) @ rest) st
      = ini_loop recorder (concat (map print_pair ps) @ print_ini d @ rest) ?st"
    by (simp add: s print_ini_def print_section_def)
  moreover from ini_loop_pairs [OF ok(2), of "print_ini d @ rest" ?st] obtain prev where
    "ini_loop recorder (concat (map print_pair ps) @ print_ini d @ rest) ?st =
      ini_loop recorder (print_ini d @ rest) (?st\<lparr>ini_lineno := ini_lineno ?st + length ps, ini_prev_name := prev,
        ini_user := ini_user ?st @ map (\<lambda>(n, v). (ini_section ?st, n, v)) ps\<rparr>)" by blast
  moreover from Cons.IH [OF ok(3), of "?st\<lparr>ini_lineno := ini_lineno ?st + length ps, ini_prev_name := prev,
        ini_user := ini_user ?st @ map (\<lambda>(n, v). (ini_section ?st, n, v)) ps\<rparr>"]
  obtain prev' sec' where "ini_loop recorder (print_ini d @ rest) (?st\<lparr>ini_lineno := ini_lineno ?st + length ps,
        ini_prev_name := prev, ini_user := ini_user ?st @ map (\<lambda>(n, v). (ini_section ?st, n, v)) ps\<rparr>) =
      ini_loop recorder rest (st\<lparr>ini_lineno := ini_lineno st + 1 + length ps + line_count d, ini_prev_name := prev',
        ini_section := sec', ini_user := ini_user st @ map (\<lambda>(n, v). (sec, n, v)) ps @ ini_pairs d\<rparr>)" by auto
  ultimately show ?case
    by (intro exI [where x = prev'] exI [where x = sec']) (simp add: s ini_pairs_def line_count_def add_ac)
qed

text \<open>
  C12. Parsing what was printed: for a file of sections and \<open>name=value\<close> lines whose names and
  values keep the separators of the format out, \<open>ini_parse_file\<close> reports no error and calls
  the handler exactly once for each pair, in order, with its section, name and value.
\<close>
theorem ini_round_trip:
  assumes "ini_ok d"
  shows "ini_parse_file (print_ini d) recorder [] = (0, ini_pairs d)"
  using ini_loop_sections [OF assms, of "[]" "\<lparr>ini_section = [], ini_prev_name = [], ini_lineno = 0,
      ini_error = 0, ini_user = []\<rparr>"]
  by (auto simp: ini_parse_file_def ini_loop.simps)

theorem ini_round_trip_witness:
  "ini_parse_file (print_ini [(''Initial Pos'', [(''pos_x'', ''2000''), (''uid'', ''HammerBot'')])]) recorder []
   = (0, [(''Initial Pos'', ''pos_x'', ''2000''), (''Initial Pos'', ''uid'', ''HammerBot'')])"
proof -
  have "ini_ok [(''Initial Pos'', [(''pos_x'', ''2000''), (''uid'', ''HammerBot'')])]" by code_simp
  from ini_round_trip [OF this] show ?thesis by (simp add: ini_pairs_def)
qed

text \<open>The error of a run is the first error: it is never replaced.\<close>

lemma note_error_simps [simp]:
  "ini_lineno (note_error st) = ini_lineno st"
  "ini_error st \<noteq> 0 \<Longrightarrow> ini_error (note_error st) = ini_error st"
  by (simp_all add: note_error_def)

lemma call_handler_simps [simp]:
  "ini_lineno (call_handler h n v st) = ini_lineno st"
  "ini_error st \<noteq> 0 \<Longrightarrow> ini_error (call_handler h n v st) = ini_error st"
  by (simp_all add: call_handler_def split: prod.split)

lemma ini_line_error: "ini_error st \<noteq> 0 \<Longrightarrow> ini_error (ini_line h line st) = ini_error st"
  by (simp add: ini_line_def Let_def case_prod_unfold if_distrib [of ini_error] split del: if_split cong: if_cong)

lemma ini_line_number: "ini_lineno (ini_line h line st) = Suc (ini_lineno st)"
  by (simp add: ini_line_def Let_def case_prod_unfold if_distrib [of ini_lineno] split del: if_split cong: if_cong)

lemma ini_loop_error: "ini_error st \<noteq> 0 \<Longrightarrow> ini_error (ini_loop h input st) = ini_error st"
proof (induction h input st rule: ini_loop.induct)
  case (1 h input st)
  show ?case
  proof (cases "input = []")
    case True
    then show ?thesis by (simp add: ini_loop.simps)
  next
    case False
    obtain line rest where "fgets (INI_MAX_LINE - 1) input = (line, rest)" by fastforce
    with False 1 show ?thesis by (subst ini_loop.simps) (simp add: ini_line_error)
  qed
qed


text \<open>A line that is neither a section, a pair, a comment nor blank.\<close>

definition stray_line :: "string \<Rightarrow> bool" where
  "stray_line x \<longleftrightarrow> trimmed x \<and> CHR ''='' \<notin> set x \<and> CHR '':'' \<notin> set x \<and> hd x \<noteq> CHR ''[''
     \<and> hd x \<noteq> CHR ''#'' \<and> hd x \<noteq> CHR 0xEF \<and> length x < 199"

lemma ini_line_stray:
  assumes "stray_line x"
  shows "ini_line h (x @ [newline]) st = note_error (st\<lparr>ini_lineno := ini_lineno st + 1\<rparr>)"
proof -
  have x: "newline \<notin> set x" "nul \<notin> set x" "CHR '';'' \<notin> set x" "CHR ''='' \<notin> set x" "CHR '':'' \<notin> set x" "x \<noteq> []"
    "\<not> isspace (hd x)" "\<not> isspace (last x)" "hd x \<noteq> CHR ''[''" "hd x \<noteq> CHR ''#''" "hd x \<noteq> CHR 0xEF" "hd x \<noteq> CHR '';''"
    using assms inner_set [of x] by (auto simp: stray_line_def trimmed_def dest: hd_in_set)
  have raw: "takeWhile (\<lambda>c. c \<noteq> nul) (x @ [newline]) = x @ [newline]"
    using x by (intro takeWhile_all) (auto simp: special_chars)
  have bom: "skip_bom k (x @ [newline]) = x @ [newline]" for k
    using x by (cases x) (simp_all add: skip_bom_def)
  have strip: "rstrip (x @ [newline]) = x" "lskip x = x"
    using x by (simp_all only: rstrip_newline) (simp_all add: rstrip_id lskip_id)
  have find: "find_char_or_comment x CHR ''='' = (x, [])" "find_char_or_comment x CHR '':'' = (x, [])"
    using x by (simp_all add: find_char_or_comment_def find_from_miss)
  show ?thesis
    unfolding ini_line_def Let_def raw bom strip using x by (simp add: find)
qed



end
