(* ===== verification/AutopilotConfig.thy ===== *)
theory AutopilotConfig
  imports StatusMessages Ini
begin

text \<open>
  The start configuration of main.c: the callback \<open>handler\<close> that the INI parser calls for each
  pair of create.ini, and \<open>atoi\<close>. The user data is the status the program broadcasts;
  \<open>None\<close> stands for what C leaves undefined: a number outside \<open>int\<close>, or a name of more than 32
  characters, which \<open>memcpy\<close> writes past the end of \<open>uid\<close>.
\<close>

section \<open>The callback\<close>

definition is_digit :: "char \<Rightarrow> bool" where
  "is_digit c \<longleftrightarrow> 48 \<le> (of_char c :: nat) \<and> (of_char c :: nat) \<le> 57"

fun digits_value :: "int \<Rightarrow> string \<Rightarrow> int" where
  "digits_value acc [] = acc"
| "digits_value acc (c # cs) =
     (if is_digit c then digits_value (10 * acc + (int (of_char c) - 48)) cs else acc)"

definition signed_value :: "string \<Rightarrow> int" where
  "signed_value t =
     (if t \<noteq> [] \<and> hd t = CHR ''-'' then - digits_value 0 (tl t)
      else if t \<noteq> [] \<and> hd t = CHR ''+'' then digits_value 0 (tl t)
      else digits_value 0 t)"

definition atoi :: "string \<Rightarrow> int option" where
  "atoi s =
     (let v = signed_value (dropWhile isspace s)
      in if is_int32 v then Some v else None)"

definition MATCH :: "string \<Rightarrow> string \<Rightarrow> string \<Rightarrow> string \<Rightarrow> bool" where
  "MATCH section_name name s n \<longleftrightarrow> section_name = s \<and> name = n"

definition handler :: "create_status option ini_handler" where
  "handler user section_name name v =
     (case user of
        None \<Rightarrow> (True, None)
      | Some pconfig \<Rightarrow>
          if MATCH section_name name ''Initial Pos'' ''pos_x'' then
            (True, map_option (\<lambda>i. pconfig\<lparr>st_pos_x := i\<rparr>) (atoi v))
          else if MATCH section_name name ''Initial Pos'' ''pos_y'' then
            (True, map_option (\<lambda>i. pconfig\<lparr>st_pos_y := i\<rparr>) (atoi v))
          else if MATCH section_name name ''Initial Pos'' ''category'' then
            (True, map_option (\<lambda>i. pconfig\<lparr>st_category := i\<rparr>) (atoi v))
          else if MATCH section_name name ''Initial Pos'' ''uid'' then
            (True, if 32 < length v then None
                   else Some (pconfig\<lparr>st_uid := overlay 0 (bytes_of v) (replicate 32 0)\<rparr>))
          else (False, Some pconfig))"

section \<open>Numbers\<close>

fun show_nat :: "nat \<Rightarrow> string" where
  "show_nat n = (if n < 10 then [char_of (48 + n)] else show_nat (n div 10) @ [char_of (48 + n mod 10)])"

declare show_nat.simps [simp del]

definition show_int :: "int \<Rightarrow> string" where
  "show_int i = (if i < 0 then CHR ''-'' # show_nat (nat (- i)) else show_nat (nat i))"

lemma of_char_digit [simp]: "n < 10 \<Longrightarrow> of_char (char_of (48 + n) :: char) = (48 + n :: nat)"
  by (simp add: of_char_of)

lemma digit_char [simp]: "n < 10 \<Longrightarrow> is_digit (char_of (48 + n :: nat))"
  by (simp add: is_digit_def)

lemma digits_value_snoc:
  "list_all is_digit xs \<Longrightarrow> is_digit c \<Longrightarrow>
   digits_value a (xs @ [c]) = 10 * digits_value a xs + (int (of_char c) - 48)"
  by (induction xs arbitrary: a) simp_all

lemma show_nat_digits: "list_all is_digit (show_nat n) \<and> show_nat n \<noteq> [] \<and> digits_value 0 (show_nat n) = int n"
proof (induction n rule: show_nat.induct)
  case (1 n)
  show ?case
  proof (cases "n < 10")
    case True
    then show ?thesis by (subst (1 2 3) show_nat.simps) simp
  next
    case False
    have "int n = 10 * int (n div 10) + int (n mod 10)"
      by (metis mult_div_mod_eq of_nat_add of_nat_mult of_nat_numeral)
    with "1.IH" [OF False] False show ?thesis
      by (subst (1 2 3) show_nat.simps) (simp add: digits_value_snoc)
  qed
qed

lemma digit_plain: "is_digit c \<Longrightarrow> \<not> isspace c \<and> inner_char c \<and> c \<noteq> CHR ''-'' \<and> c \<noteq> CHR ''+''"
proof -
  assume "is_digit c"
  then have "of_char c \<in> {48..57 :: nat}" by (simp add: is_digit_def)
  then have "c \<in> char_of ` {48..57 :: nat}" by (metis char_of_char image_eqI)
  moreover have "\<forall>c \<in> char_of ` {48..57 :: nat}. \<not> isspace c \<and> inner_char c \<and> c \<noteq> CHR ''-'' \<and> c \<noteq> CHR ''+''"
    by code_simp
  ultimately show ?thesis by blast
qed

lemma show_int_head: "show_int i \<noteq> [] \<and> \<not> isspace (hd (show_int i))"
  using show_nat_digits [of "nat i"] digit_plain
  by (cases "show_nat (nat i)") (auto simp: show_int_def isspace_def)

lemma atoi_show: "is_int32 i \<Longrightarrow> atoi (show_int i) = Some i"
proof -
  assume i: "is_int32 i"
  have skip: "dropWhile isspace (show_int i) = show_int i"
    using show_int_head [of i] by (cases "show_int i") simp_all
  have "signed_value (show_int i) = i"
  proof (cases "i < 0")
    case True
    then show ?thesis
      using show_nat_digits [of "nat (- i)"] by (simp add: signed_value_def show_int_def)
  next
    case False
    obtain c cs where cs: "show_nat (nat i) = c # cs" "is_digit c"
      using show_nat_digits [of "nat i"] by (cases "show_nat (nat i)") simp_all
    with False show ?thesis
      using show_nat_digits [of "nat i"] digit_plain [of c] by (simp add: signed_value_def show_int_def)
  qed
  with i skip show ?thesis by (simp add: atoi_def)
qed

lemma length_show_nat: "n < 10 ^ k \<Longrightarrow> 0 < k \<Longrightarrow> length (show_nat n) \<le> k"
proof (induction n arbitrary: k rule: show_nat.induct)
  case (1 n)
  show ?case
  proof (cases "n < 10")
    case True
    with "1.prems" show ?thesis by (subst show_nat.simps) simp
  next
    case False
    then obtain j where k: "k = Suc j" "0 < j" using "1.prems" by (cases k; cases "k - 1") auto
    have "n div 10 < 10 ^ j" using "1.prems" k by (simp add: less_mult_imp_div_less mult.commute)
    from "1.IH" [OF False this k(2)] False k show ?thesis by (subst show_nat.simps) simp
  qed
qed

lemma value_ok_show: "is_int32 i \<Longrightarrow> value_ok (show_int i)"
proof -
  assume "is_int32 i"
  then have "nat i < 10 ^ 10" "nat (- i) < 10 ^ 10" by (auto simp: is_int32_def)
  then have len: "length (show_int i) \<le> 11"
    using length_show_nat [of "nat i" 10] length_show_nat [of "nat (- i)" 10] by (auto simp: show_int_def)
  have digits: "list_all (\<lambda>c. \<not> isspace c \<and> inner_char c) (show_nat n) \<and> show_nat n \<noteq> []" for n
    using show_nat_digits [of n] digit_plain by (auto simp: list_all_iff)
  have minus: "inner_char CHR ''-''" "\<not> isspace CHR ''-''" by code_simp+
  have "list_all (\<lambda>c. \<not> isspace c \<and> inner_char c) (show_int i) \<and> show_int i \<noteq> []"
    using digits [of "nat i"] digits [of "nat (- i)"] minus by (simp add: show_int_def)
  with len show ?thesis
    by (auto simp: value_ok_def trimmed_def list_all_iff)
qed

section \<open>Loading a configuration\<close>

definition config_file :: "int \<Rightarrow> int \<Rightarrow> int \<Rightarrow> string \<Rightarrow> string" where
  "config_file x y category name =
     print_ini [(''Initial Pos'', [(''pos_x'', show_int x), (''pos_y'', show_int y),
       (''category'', show_int category), (''uid'', name)])]"

lemma ini_loop_pair:
  assumes "name_ok n" "value_ok v"
  shows "ini_loop h (print_pair (n, v) @ rest) st =
    ini_loop h rest (call_handler h n v (st\<lparr>ini_lineno := ini_lineno st + 1, ini_prev_name := n\<rparr>))"
proof -
  have "newline \<notin> set (n @ CHR ''='' # v)" "length (n @ CHR ''='' # v) < 199"
    using assms inner_set [of n] inner_set [of v]
    by (auto simp: name_ok_def value_ok_def trimmed_def special_chars)
  from ini_loop_line [OF this, of h rest st] ini_line_pair [OF assms, of h st]
  show ?thesis by (simp add: print_pair_def)
qed

lemma ini_loop_section:
  assumes "section_ok sec"
  shows "ini_loop h (print_section (sec, ps) @ rest) st =
    ini_loop h (concat (map print_pair ps) @ rest)
      (st\<lparr>ini_lineno := ini_lineno st + 1, ini_section := sec, ini_prev_name := []\<rparr>)"
proof -
  have "newline \<notin> set (CHR ''['' # sec @ [CHR '']''])" "length (CHR ''['' # sec @ [CHR '']'']) < 199"
    using assms inner_set [of sec] by (auto simp: section_ok_def special_chars)
  from ini_loop_line [OF this, of h "concat (map print_pair ps) @ rest" st] ini_line_section [OF assms, of h st]
  show ?thesis by (simp add: print_section_def)
qed

lemma config_names: "section_ok ''Initial Pos''" "name_ok ''pos_x''" "name_ok ''pos_y''" "name_ok ''category''" "name_ok ''uid''"
  by code_simp+

text \<open>
  C14. Loading a configuration: the parser with the callback of \<open>main\<close> reads back every
  position and category an \<open>int\<close> can hold and every name that fits \<open>uid\<close>, leaves the other
  fields alone, and reports no error.
\<close>
theorem config_round_trip:
  assumes "is_int32 x" "is_int32 y" "is_int32 category" "value_ok name" "length name \<le> 32"
  shows "ini_parse (Some (config_file x y category name)) handler (Some st) =
    (0, Some (st\<lparr>st_pos_x := x, st_pos_y := y, st_category := category,
      st_uid := bytes_of name @ replicate (32 - length name) 0\<rparr>))"
proof -
  have uid: "overlay 0 (bytes_of name) (replicate 32 0) = bytes_of name @ replicate (32 - length name) 0"
    using assms(5) by (simp add: overlay_def bytes_of_def)
  have nums: "value_ok (show_int x)" "value_ok (show_int y)" "value_ok (show_int category)"
    "atoi (show_int x) = Some x" "atoi (show_int y) = Some y" "atoi (show_int category) = Some category"
    using assms by (simp_all add: value_ok_show atoi_show)
  note steps = ini_loop_pair [OF config_names(2) nums(1)] ini_loop_pair [OF config_names(3) nums(2)]
    ini_loop_pair [OF config_names(4) nums(3)] ini_loop_pair [OF config_names(5) assms(4)]
  have contents: "config_file x y category name = print_section (''Initial Pos'', [(''pos_x'', show_int x),
      (''pos_y'', show_int y), (''category'', show_int category), (''uid'', name)]) @ []"
    by (simp add: config_file_def print_ini_def)
  show ?thesis
    using assms(5) unfolding ini_parse_def ini_parse_file_def option.case contents ini_loop_section [OF config_names(1)]
    by (simp add: steps steps [where rest = "[]", simplified] call_handler_def handler_def MATCH_def nums uid ini_loop.simps [of _ "[]"])
qed

lemma config_round_trip_witness:
  "ini_parse (Some (config_file 2000 (-17) 0 ''HammerBot'')) handler
     (Some \<lparr>st_pos_x = 0, st_pos_y = 0, st_heading = 0, st_velocity = 0, st_category = 0, st_uid = replicate 32 0\<rparr>)
   = (0, Some \<lparr>st_pos_x = 2000, st_pos_y = -17, st_heading = 0, st_velocity = 0, st_category = 0,
        st_uid = bytes_of ''HammerBot'' @ replicate 23 0\<rparr>)"
  using config_round_trip [of 2000 "-17" 0 "''HammerBot''"
      "\<lparr>st_pos_x = 0, st_pos_y = 0, st_heading = 0, st_velocity = 0, st_category = 0, st_uid = replicate 32 0\<rparr>"]
  by (simp add: is_int32_def value_ok_def trimmed_def inner_char_def isspace_def newline_def nul_def)

text \<open>The create.ini of the repository, byte by byte: \<open>;\<close> right after a number does not hurt.\<close>

definition create_ini :: string where
  "create_ini = concat (map (\<lambda>l. l @ [newline])
     [''[Initial Pos]'', ''pos_x=2000;'', ''pos_y=0;'', ''category=0;'', ''uid = HammerBot''])"

lemma create_ini_loads:
  "ini_parse (Some create_ini) handler
     (Some \<lparr>st_pos_x = 0, st_pos_y = 0, st_heading = 0, st_velocity = 0, st_category = 0, st_uid = replicate 32 0\<rparr>)
   = (0, Some \<lparr>st_pos_x = 2000, st_pos_y = 0, st_heading = 0, st_velocity = 0, st_category = 0,
        st_uid = bytes_of ''HammerBot'' @ replicate 23 0\<rparr>)"
  by code_simp

end
