(* ===== verification/Control.thy ===== *)
theory Control
  imports Floats
begin

text \<open>
  The inner loop of the autopilot (utils/InnerLoop.c, utils/Utilities.c): yaw, position and
  speed/heading commands, and dead reckoning. Every rounding of the \<open>float\<close> and \<open>double\<close>
  expressions is written out in the order C evaluates them; \<open>None\<close> is a division by zero, which
  gives an infinity that the caller then converts to an integer (undefined behaviour), or a
  conversion out of the range of \<open>int\<close>.
\<close>

section \<open>Constants and conversions\<close>

text \<open>The \<open>double\<close> nearest to a decimal literal, and \<open>M_PI\<close>.\<close>

definition lit :: "fpu \<Rightarrow> real \<Rightarrow> real" where
  "lit m x = db m x"

definition M_PI :: "fpu \<Rightarrow> real" where
  "M_PI m = db m pi"

definition to_int :: "real \<Rightarrow> int option" where
  "to_int x = (if -2147483648 \<le> trunc x \<and> trunc x \<le> 2147483647 then Some (trunc x) else None)"

definition to_short_real :: "real \<Rightarrow> short option" where
  "to_short_real x = (if -32768 \<le> trunc x \<and> trunc x \<le> 32767 then Some (to_short (trunc x)) else None)"

section \<open>State\<close>

text \<open>The globals of InnerLoop.h; the histories are the arrays, index 0 first.\<close>

record control =
  ct_SpeedCmd :: real
  ct_WheelSpeedCmd :: real
  ct_TurnRadiusCmd :: real
  ct_HeadingCmd_deg :: real
  ct_HeadingErr_hist :: "real \<times> real \<times> real"
  ct_WheelSpeedCmd_hist :: "real \<times> real"
  ct_TurnRadiusCmd_hist :: "real \<times> real"
  ct_dist_PnPe :: real

section \<open>Yaw\<close>

text \<open>\<open>abs(yaw_err)\<close> is the integer \<open>abs\<close> of stdlib.h: the error is truncated before the test.\<close>

definition yawCommand :: "fpu \<Rightarrow> real \<Rightarrow> real \<Rightarrow> 'a control_scheme \<Rightarrow> 'a control_scheme option" where
  "yawCommand m yaw yaw_cmd c =
     (let Kp_yaw = 2;
          yaw_err = fl m (yaw_cmd - yaw);
          SpeedTurn = fl m (- Kp_yaw * yaw_err);
          c = c\<lparr>ct_WheelSpeedCmd := SpeedTurn, ct_TurnRadiusCmd := 1\<rparr>;
          c = (if SpeedTurn < 0
               then c\<lparr>ct_WheelSpeedCmd := fl m (- 1 * SpeedTurn), ct_TurnRadiusCmd := - 1\<rparr> else c);
          c = (if ct_WheelSpeedCmd c > 100 then c\<lparr>ct_WheelSpeedCmd := 100\<rparr> else c)
      in case to_int yaw_err of
           None \<Rightarrow> None
         | Some e \<Rightarrow>
             Some (if of_int \<bar>e\<bar> < (1 / 2 :: real)
                   then c\<lparr>ct_WheelSpeedCmd := 0, ct_TurnRadiusCmd := 0\<rparr> else c))"

section \<open>Position\<close>

definition PositionCommand ::
  "fpu \<Rightarrow> real \<Rightarrow> real \<Rightarrow> real \<Rightarrow> real \<Rightarrow> 'a control_scheme \<Rightarrow> 'a control_scheme" where
  "PositionCommand m Pn_cmd Pe_cmd Pn Pe c =
     (let diff_Pn = fl m (Pn_cmd - Pn);
          diff_Pe = fl m (Pe_cmd - Pe);
          dist_PnPe = fl m (m_sqrt m (fl m (fl m (diff_Pn * diff_Pn) + fl m (diff_Pe * diff_Pe))))
      in c\<lparr>ct_dist_PnPe := dist_PnPe,
           ct_SpeedCmd := fl m (db m (lit m (2 / 10) * dist_PnPe)),
           ct_HeadingCmd_deg := fl m (db m (db m (m_atan2 m diff_Pe diff_Pn * 180) / M_PI m))\<rparr>)"

section \<open>Speed and heading\<close>

definition heading_error :: "fpu \<Rightarrow> real \<Rightarrow> real \<Rightarrow> real" where
  "heading_error m HeadingCmd_deg Heading_deg =
     (let a = db m (db m (fl m (HeadingCmd_deg - Heading_deg) * M_PI m) / 180)
      in fl m (db m (db m (m_atan2 m (m_sin m a) (m_cos m a) * 180) / M_PI m)))"

definition wheel_speed_step :: "fpu \<Rightarrow> real \<Rightarrow> real \<Rightarrow> real \<Rightarrow> real" where
  "wheel_speed_step m SpeedCmd Speed prev =
     fl m (db m (db m (lit m (1 / 10) * fl m (SpeedCmd - Speed)) + prev))"

definition turn_radius_step :: "fpu \<Rightarrow> real \<Rightarrow> real \<Rightarrow> real \<times> real \<times> real \<Rightarrow> real" where
  "turn_radius_step m delta_t prev errs =
     (case errs of
        (e0, e1, e2) \<Rightarrow>
          (let k_heading = 10000; Ti_heading = 10000000; Ti_INUSE = 0; Td_heading = fl m (lit m (5 / 100));
               td = fl m (Td_heading / delta_t);
               p0 = fl m (fl m (fl m (1 + fl m (fl m (delta_t / Ti_heading) * Ti_INUSE)) + td) * e0);
               p1 = fl m (fl m (1 + fl m (2 * td)) * e1);
               p2 = fl m (td * e2)
           in fl m (prev + fl m (k_heading * fl m (fl m (p0 - p1) + p2)))))"

definition SpeedHeadingCommand ::
  "fpu \<Rightarrow> real \<Rightarrow> real \<Rightarrow> real \<Rightarrow> real \<Rightarrow> real \<Rightarrow> int \<Rightarrow> 'a control_scheme \<Rightarrow> 'a control_scheme option" where
  "SpeedHeadingCommand m SpeedCmd HeadingCmd_deg Speed Heading_deg delta_t cycle_count c0 =
     (let HeadingErr = heading_error m HeadingCmd_deg Heading_deg;
          ws1 = snd (ct_WheelSpeedCmd_hist c0);
          stepped =
            (if cycle_count \<le> 1 then
               Some (c0\<lparr>ct_HeadingErr_hist := (0, 0, 0), ct_TurnRadiusCmd_hist := (0, 0),
                       ct_WheelSpeedCmd_hist := (wheel_speed_step m SpeedCmd Speed 0, 0)\<rparr>)
             else if cycle_count = 2 then
               (case ct_HeadingErr_hist c0 of
                  (e0, e1, e2) \<Rightarrow>
                    Some (c0\<lparr>ct_HeadingErr_hist := (0, e1, e2), ct_TurnRadiusCmd_hist := (0, 0),
                            ct_WheelSpeedCmd_hist := (wheel_speed_step m SpeedCmd Speed ws1, ws1)\<rparr>))
             else if HeadingErr = 0 \<or> delta_t = 0 then None
             else
               (case ct_HeadingErr_hist c0 of
                  (e0, e1, e2) \<Rightarrow>
                    (let CorrectedErr = fl m (- 1 / HeadingErr); tr1 = snd (ct_TurnRadiusCmd_hist c0)
                     in Some (c0\<lparr>ct_HeadingErr_hist := (CorrectedErr, e1, e2),
                               ct_TurnRadiusCmd_hist := (turn_radius_step m delta_t tr1 (CorrectedErr, e1, e2), tr1),
                               ct_WheelSpeedCmd_hist := (wheel_speed_step m SpeedCmd Speed ws1, ws1)\<rparr>))))
      in case stepped of
           None \<Rightarrow> None
         | Some c \<Rightarrow>
             (case (ct_HeadingErr_hist c, ct_TurnRadiusCmd_hist c, ct_WheelSpeedCmd_hist c) of
                ((e0, e1, e2), (tr0, tr1), (w0, w1)) \<Rightarrow>
                  (let tr = (if tr0 < 1 \<and> tr0 > 0 then 1 else tr0);
                       tr = (if tr > - 1 \<and> tr < 0 then - 1 else tr)
                   in Some (c\<lparr>ct_WheelSpeedCmd := (if w0 < 200 then 200 else w0), ct_TurnRadiusCmd := tr,
                             ct_HeadingErr_hist := (e0, e0, e1),
                             ct_TurnRadiusCmd_hist := (tr, tr), ct_WheelSpeedCmd_hist := (w0, w0)\<rparr>))))"

section \<open>Dead reckoning\<close>

text \<open>The four results are position and velocity, north first.\<close>

definition updatePositionVelCreate ::
  "fpu \<Rightarrow> real \<Rightarrow> real \<Rightarrow> real \<Rightarrow> real \<Rightarrow> real \<Rightarrow> (real \<times> real \<times> real \<times> real) option" where
  "updatePositionVelCreate m xc yc yaw create_distance delta_t =
     (if delta_t = 0 then None
      else
        (let a = db m (db m (yaw * M_PI m) / 180);
             x_vel = db m (fl m (create_distance / delta_t) * m_cos m a);
             y_vel = db m (fl m (create_distance / delta_t) * m_sin m a);
             X_new = db m (xc + db m (create_distance * m_cos m a));
             Y_new = db m (yc + db m (create_distance * m_sin m a))
         in Some (fl m X_new, fl m Y_new, fl m x_vel, fl m y_vel)))"

text \<open>Speed, flight path angle, heading.\<close>

definition Vned2VGammaChi :: "fpu \<Rightarrow> real \<Rightarrow> real \<Rightarrow> real \<Rightarrow> real \<times> real \<times> real" where
  "Vned2VGammaChi m Vn Ve Vd =
     (fl m (m_sqrt m (fl m (fl m (Vn * Vn) + fl m (Ve * Ve)))), 0,
      fl m (db m (db m (m_atan2 m Ve Vn * 180) / M_PI m)))"

section \<open>What the commands guarantee\<close>

lemma half_int: "of_int \<bar>e\<bar> < (1 / 2 :: real) \<longleftrightarrow> e = 0"
proof
  assume "of_int \<bar>e\<bar> < (1 / 2 :: real)"
  then have "of_int \<bar>e\<bar> < (of_int 1 :: real)" by simp
  then show "e = 0" by (simp only: of_int_less_iff)
qed simp

lemma yawCommand_limits:
  assumes "rounding (fl m)" "yawCommand m yaw yaw_cmd c = Some c'"
  shows "0 \<le> ct_WheelSpeedCmd c' \<and> ct_WheelSpeedCmd c' \<le> 100
     \<and> (ct_WheelSpeedCmd c' = 0 \<longleftrightarrow> \<bar>fl m (yaw_cmd - yaw)\<bar> < 1)
     \<and> ct_TurnRadiusCmd c' = (if \<bar>fl m (yaw_cmd - yaw)\<bar> < 1 then 0 else if yaw_cmd > yaw then - 1 else 1)"
proof -
  let ?e = "fl m (yaw_cmd - yaw)" and ?t = "fl m (- 2 * fl m (yaw_cmd - yaw))"
  note sign = rounding.rnd_sign [OF assms(1)]
  have t: "?t < 0 \<longleftrightarrow> 0 < ?e" "0 < ?t \<longleftrightarrow> ?e < 0" "?t = 0 \<longleftrightarrow> ?e = 0"
    by (simp_all add: sign)
  have e: "0 < ?e \<longleftrightarrow> yaw < yaw_cmd" "?e < 0 \<longleftrightarrow> yaw_cmd < yaw" "?e = 0 \<longleftrightarrow> yaw_cmd = yaw"
    by (simp_all add: sign)
  have neg: "0 < fl m (- 1 * ?t) \<longleftrightarrow> ?t < 0"
    by (simp add: sign)
  obtain k where k: "to_int ?e = Some k"
    using assms(2) by (auto simp: yawCommand_def Let_def split: option.splits)
  then have zero: "k = 0 \<longleftrightarrow> \<bar>?e\<bar> < 1"
    using trunc_zero [of ?e] by (auto simp: to_int_def split: if_splits)
  define d where "d = (if ?t < 0 then c\<lparr>ct_WheelSpeedCmd := fl m (- 1 * ?t), ct_TurnRadiusCmd := - 1\<rparr>
                  else c\<lparr>ct_WheelSpeedCmd := ?t, ct_TurnRadiusCmd := 1\<rparr>)"
  have c': "c' = (if k = 0 then (if ct_WheelSpeedCmd d > 100 then d\<lparr>ct_WheelSpeedCmd := 100\<rparr> else d)
        \<lparr>ct_WheelSpeedCmd := 0, ct_TurnRadiusCmd := 0\<rparr>
      else if ct_WheelSpeedCmd d > 100 then d\<lparr>ct_WheelSpeedCmd := 100\<rparr> else d)"
    using assms(2) k unfolding d_def by (auto simp: yawCommand_def Let_def half_int split: if_splits)
  show ?thesis
  proof (cases "k = 0")
    case True
    with zero show ?thesis by (simp add: c')
  next
    case False
    with zero have "\<not> \<bar>?e\<bar> < 1" by simp
    then consider "0 < ?e" | "?e < 0" by linarith
    then show ?thesis
    proof cases
      case 1
      with t neg have "d = c\<lparr>ct_WheelSpeedCmd := fl m (- 1 * ?t), ct_TurnRadiusCmd := - 1\<rparr>" "0 < fl m (- 1 * ?t)"
        by (simp_all add: d_def)
      with False zero 1 e show ?thesis by (simp add: c')
    next
      case 2
      with t have "d = c\<lparr>ct_WheelSpeedCmd := ?t, ct_TurnRadiusCmd := 1\<rparr>" "0 < ?t"
        by (simp_all add: d_def)
      with False zero 2 e show ?thesis by (simp add: c')
    qed
  qed
qed


text \<open>
  \<open>yawCommand\<close>: the wheel speed it commands is between 0 and 100 and the radius is a turn on
  the spot towards the commanded yaw; it commands a stop exactly when the error is below one
  degree, twice what its test of 0.5 says, because \<open>abs\<close> truncates the error first.
\<close>
lemma yawCommand_bounds:
  assumes "rounding (fl m)" "yawCommand m yaw yaw_cmd c = Some c'"
  shows "0 \<le> ct_WheelSpeedCmd c' \<and> ct_WheelSpeedCmd c' \<le> 100
     \<and> (ct_WheelSpeedCmd c' = 0 \<longleftrightarrow> \<bar>fl m (yaw_cmd - yaw)\<bar> < 1)
     \<and> ct_TurnRadiusCmd c' = (if \<bar>fl m (yaw_cmd - yaw)\<bar> < 1 then 0 else if yaw_cmd > yaw then - 1 else 1)"
  using assms by (rule yawCommand_limits)

definition no_commands :: control where
  "no_commands = \<lparr>ct_SpeedCmd = 0, ct_WheelSpeedCmd = 0, ct_TurnRadiusCmd = 0, ct_HeadingCmd_deg = 0,
     ct_HeadingErr_hist = (0, 0, 0), ct_WheelSpeedCmd_hist = (0, 0), ct_TurnRadiusCmd_hist = (0, 0),
     ct_dist_PnPe = 0\<rparr>"

lemma fl_ieee [simp]: "fl ieee = round_bits 24" and db_ieee [simp]: "db ieee = round_bits 53"
  by (simp_all add: ieee_def)

lemma rounding_ieee: "rounding (fl ieee)" "rounding (db ieee)"
  by (simp_all add: single.rounding_axioms double.rounding_axioms)

lemma round_numeral [simp]:
  "(numeral k :: int) < 16777216 \<Longrightarrow> round_bits 24 (numeral k) = numeral k"
  "(numeral k :: int) < 16777216 \<Longrightarrow> round_bits 24 (- numeral k) = - numeral k"
  "round_bits 24 0 = 0" "round_bits 24 1 = 1" "round_bits 24 (- 1) = - 1"
  using single.rnd_int [of "numeral k"] single.rnd_int [of "- numeral k"]
    single.rnd_int [of 0] single.rnd_int [of 1] single.rnd_int [of "- 1"] by simp_all

lemma yawCommand_45: "yawCommand ieee 0 45 no_commands =
  Some (no_commands\<lparr>ct_WheelSpeedCmd := 90, ct_TurnRadiusCmd := - 1\<rparr>)"
  by (simp add: yawCommand_def Let_def no_commands_def to_int_def trunc_def)

lemma yawCommand_bounds_witness:
  "yawCommand ieee 0 45 no_commands = Some (no_commands\<lparr>ct_WheelSpeedCmd := 90, ct_TurnRadiusCmd := - 1\<rparr>)
   \<and> \<not> \<bar>fl ieee (45 - 0)\<bar> < 1"
  using yawCommand_bounds [OF rounding_ieee(1) yawCommand_45] yawCommand_45
  by (simp add: no_commands_def)

lemma SpeedHeadingCommand_limits:
  "case SpeedHeadingCommand m cmd heading_cmd speed heading delta_t cycle c of
     None \<Rightarrow> 2 < cycle \<and> (heading_error m heading_cmd heading = 0 \<or> delta_t = 0)
   | Some c' \<Rightarrow>
       200 \<le> ct_WheelSpeedCmd c'
       \<and> ct_WheelSpeedCmd c' = max 200 (fst (ct_WheelSpeedCmd_hist c'))
       \<and> (ct_TurnRadiusCmd c' = 0 \<or> 1 \<le> \<bar>ct_TurnRadiusCmd c'\<bar>)
       \<and> (2 < cycle \<or> ct_TurnRadiusCmd c' = 0)
       \<and> ct_TurnRadiusCmd_hist c' = (ct_TurnRadiusCmd c', ct_TurnRadiusCmd c')
       \<and> fst (ct_WheelSpeedCmd_hist c') = wheel_speed_step m cmd speed
           (if cycle \<le> 1 then 0 else snd (ct_WheelSpeedCmd_hist c))
       \<and> snd (ct_WheelSpeedCmd_hist c') = fst (ct_WheelSpeedCmd_hist c')"
  by (auto simp: SpeedHeadingCommand_def Let_def max_def split: prod.splits option.splits if_splits)

text \<open>
  \<open>SpeedHeadingCommand\<close> on every branch: the division by a zero heading error or time step
  can happen from the third cycle on only; otherwise the wheel speed it commands is never below
  200, the radius is 0 or at least one millimetre in size, its histories are shifted, the speed
  history without the limit of 200, and in the first two cycles the radius is 0 (straight ahead).
\<close>
theorem SpeedHeadingCommand_bounds:
  "case SpeedHeadingCommand m cmd heading_cmd speed heading delta_t cycle c of
     None \<Rightarrow> 2 < cycle \<and> (heading_error m heading_cmd heading = 0 \<or> delta_t = 0)
   | Some c' \<Rightarrow>
       200 \<le> ct_WheelSpeedCmd c'
       \<and> ct_WheelSpeedCmd c' = max 200 (fst (ct_WheelSpeedCmd_hist c'))
       \<and> (ct_TurnRadiusCmd c' = 0 \<or> 1 \<le> \<bar>ct_TurnRadiusCmd c'\<bar>)
       \<and> (2 < cycle \<or> ct_TurnRadiusCmd c' = 0)
       \<and> ct_TurnRadiusCmd_hist c' = (ct_TurnRadiusCmd c', ct_TurnRadiusCmd c')
       \<and> fst (ct_WheelSpeedCmd_hist c') = wheel_speed_step m cmd speed
           (if cycle \<le> 1 then 0 else snd (ct_WheelSpeedCmd_hist c))
       \<and> snd (ct_WheelSpeedCmd_hist c') = fst (ct_WheelSpeedCmd_hist c')"
  by (rule SpeedHeadingCommand_limits)

end
