(* ===== verification/MainProgram.thy ===== *)
theory MainProgram
  imports RateThreads AutopilotConfig Control
begin

text \<open>
  \<open>main\<close> of the autopilot (iMain/main.c): it starts the libraries, the server, the client and the
  rate threads, loads the configuration, and then runs one control iteration for each key until
  \<open>q\<close>. The state is that of all the libraries in one process with the control variables of
  InnerLoop.h; the local variables of the loop are a record of their own. \<open>None\<close> is an iteration
  that C leaves undefined: a reading through a null pointer, or a conversion out of range.
  Curses and the resolver are outside: the keys and the network's answers are arguments, and a
  line of the window is an event without its numbers.
\<close>

record cockpit = autopilot +
  ck_control :: control

record main_locals =
  lc_not_done :: bool
  lc_speed :: int
  lc_turn :: int
  lc_velocity :: int
  lc_radius :: int
  lc_charge :: int
  lc_Pn_mm :: real
  lc_Pe_mm :: real
  lc_Vn_mmps :: real
  lc_Ve_mmps :: real
  lc_roll :: real
  lc_pitch :: real
  lc_yaw :: real
  lc_Speed :: real
  lc_FlightPath_deg :: real
  lc_Heading_deg :: real
  lc_cycle_count :: int

section \<open>The keyboard\<close>

datatype key = KEY_UP | KEY_DOWN | KEY_LEFT | KEY_RIGHT | KEY_q | KEY_OTHER int

fun keyboard :: "key \<Rightarrow> int \<times> int \<Rightarrow> int \<times> int" where
  "keyboard KEY_UP (speed, turning) = (if speed < 0 then (0, 0) else (wrap32 (speed + 50), turning))"
| "keyboard KEY_DOWN (speed, turning) = (if speed > 0 then (0, 0) else (wrap32 (speed - 50), turning))"
| "keyboard KEY_LEFT (speed, turning) = (speed, C_MAX (wrap32 (turning + 1)) 0)"
| "keyboard KEY_RIGHT (speed, turning) = (speed, C_MIN (wrap32 (turning - 1)) 0)"
| "keyboard KEY_q st = st"
| "keyboard (KEY_OTHER c) st = st"

text \<open>
  The velocity and the radius for \<open>drive\<close>. \<open>pow(2, n)\<close>, the quotient and the product are exact in
  \<open>double\<close>, and when \<open>pow\<close> overflows to infinity the quotient is 0, below 1 as it is here.
\<close>

definition drive_values :: "int \<times> int \<Rightarrow> int \<times> int" where
  "drive_values st =
     (case st of
        (speed, turning) \<Rightarrow>
          if speed \<noteq> 0 then
            (speed,
             if turning \<noteq> 0 then
               trunc (of_int (cdiv \<bar>turning\<bar> turning)
                 * (let q = 1000 / 2 ^ nat \<bar>turning\<bar> :: real in if q > 1 then q else 1))
             else 0)
          else if turning \<noteq> 0 then (wrap32 (\<bar>turning\<bar> * 50), if turning > 0 then 1 else -1)
          else (0, 0))"

section \<open>One iteration\<close>

text \<open>\<open>delta_t\<close> is \<open>0.1\<close> as a \<open>float\<close>.\<close>

definition delta_t :: "fpu \<Rightarrow> real" where
  "delta_t m = fl m (lit m (1 / 10))"

definition main_sense :: "fpu \<Rightarrow> main_locals \<Rightarrow> ('a cockpit_scheme, main_locals option) state" where
  "main_sense m l = do {
     charge \<leftarrow> getCharge;
     roll \<leftarrow> getRoll;
     pitch \<leftarrow> getPitch;
     yaw \<leftarrow> getYaw;
     (case (roll, pitch, yaw) of
        (Ptr roll, Ptr pitch, Ptr yaw) \<Rightarrow> do {
          d \<leftarrow> readSensor SENSOR_DISTANCE;
          let create_distance = fl m (of_int d);
          (case updatePositionVelCreate m (lc_Pn_mm l) (lc_Pe_mm l) yaw create_distance (delta_t m) of
             None \<Rightarrow> ret None
           | Some (Pn, Pe, Vn, Ve) \<Rightarrow>
               (case Vned2VGammaChi m Vn Ve 0 of
                  (Speed, FlightPath, Heading) \<Rightarrow>
                    ret (Some (l\<lparr>lc_charge := charge, lc_roll := roll, lc_pitch := pitch, lc_yaw := yaw,
                      lc_Pn_mm := Pn, lc_Pe_mm := Pe, lc_Vn_mmps := Vn, lc_Ve_mmps := Ve,
                      lc_Speed := Speed, lc_FlightPath_deg := FlightPath, lc_Heading_deg := Heading\<rparr>))))
        }
      | _ \<Rightarrow> do { emit EvAbort; ret None })
   }"

definition show_window :: "main_locals \<Rightarrow> ('a os_scheme, unit) state" where
  "show_window l = do {
     emit (EvPrintf ''%s Execution'' []);
     emit (EvPrintf ''q to quit.'' []);
     emit (EvPrintf ''Battery Charge: %d%%'' [lc_charge l]);
     emit (EvPrintf ''Euler: Roll %.2f, Pitch %.2f, Yaw %.2f'' []);
     emit (EvPrintf ''Create Position: Pn %.2f, Pe %.2f'' []);
     emit (EvPrintf ''Create Velocity: Vn %.2f, Ve %.2f'' []);
     emit (EvPrintf ''Speed      : Cmd %.2f, Actual %.2f'' []);
     emit (EvPrintf ''Heading    : Cmd 0, Actual %.2f'' []);
     emit (EvPrintf ''Flight Path: Cmd 0, Actual %.2f'' []);
     emit (EvPrintf ''Yaw: Cmd %.2f, Actual %.2f'' []);
     emit (EvPrintf ''Drive Cmds: WheelSpeedCmd %.2f, TurnRadiusCmd %.2f'' [])
   }"

text \<open>The target is 2 m north and 2 m west, the commanded yaw 45 degrees.\<close>

definition inner_loop :: "fpu \<Rightarrow> main_locals \<Rightarrow> 'a control_scheme \<Rightarrow> 'a control_scheme option" where
  "inner_loop m l c =
     (let c = PositionCommand m 2000 (-2000) (lc_Pn_mm l) (lc_Pe_mm l) c;
          c = (if ct_dist_PnPe c < 250 then c\<lparr>ct_SpeedCmd := 0, ct_TurnRadiusCmd := 0\<rparr> else c)
      in if ct_SpeedCmd c = 0 then yawCommand m (lc_yaw l) 45 c
         else SpeedHeadingCommand m (ct_SpeedCmd c) (ct_HeadingCmd_deg c) (lc_Speed l) (lc_Heading_deg l)
                (delta_t m) (lc_cycle_count l) c)"

text \<open>The arguments the prototype of \<open>drive\<close> converts to \<open>short\<close>.\<close>

definition drive_float :: "real \<Rightarrow> real \<Rightarrow> ('a create_scheme, int option) state" where
  "drive_float v r =
     (case (to_short_real v, to_short_real r) of
        (Some v, Some r) \<Rightarrow> do { x \<leftarrow> drive v r; ret (Some x) }
      | _ \<Rightarrow> ret None)"

definition main_act :: "fpu \<Rightarrow> key \<Rightarrow> main_locals \<Rightarrow> ('a cockpit_scheme, main_locals option) state" where
  "main_act m k l = do {
     let st = keyboard k (lc_speed l, lc_turn l);
     let values = drive_values st;
     drive (to_short (fst values)) (to_short (snd values));
     c \<leftarrow> gets ck_control;
     (case inner_loop m l c of
        None \<Rightarrow> ret None
      | Some c \<Rightarrow> do {
          modify (\<lambda>s. s\<lparr>ck_control := c\<rparr>);
          r \<leftarrow> drive_float (ct_WheelSpeedCmd c) (ct_TurnRadiusCmd c);
          (case r of
             None \<Rightarrow> ret None
           | Some _ \<Rightarrow>
               ret (Some (l\<lparr>lc_speed := fst st, lc_turn := snd st, lc_velocity := fst values,
                 lc_radius := snd values, lc_not_done := (k \<noteq> KEY_q),
                 lc_cycle_count := (if lc_cycle_count l + 1 > 3 then 3 else lc_cycle_count l + 1)\<rparr>)))
        })
   }"

definition main_iteration :: "fpu \<Rightarrow> key \<Rightarrow> main_locals \<Rightarrow> ('a cockpit_scheme, main_locals option) state" where
  "main_iteration m k l = do {
     sensed \<leftarrow> main_sense m l;
     (case sensed of
        None \<Rightarrow> ret None
      | Some l \<Rightarrow> do {
          show_window l;
          main_act m k l
        })
   }"

text \<open>The loop runs on the keys as \<open>wgetch\<close> delivers them; a list that ends before \<open>q\<close> is a prefix.\<close>

fun main_loop :: "fpu \<Rightarrow> key list \<Rightarrow> main_locals \<Rightarrow> ('a cockpit_scheme, main_locals option) state" where
  "main_loop m [] l = ret (Some l)"
| "main_loop m (k # ks) l =
     (if lc_not_done l then do {
        r \<leftarrow> main_iteration m k l;
        (case r of None \<Rightarrow> ret None | Some l \<Rightarrow> main_loop m ks l)
      } else ret (Some l))"

section \<open>Starting and ending\<close>

text \<open>The libraries in the order of \<open>main\<close>; \<open>False\<close> is a process that has ended.\<close>

definition main_libraries :: "network \<Rightarrow> network \<Rightarrow> ('a cockpit_scheme, bool) state" where
  "main_libraries server_net client_net = do {
     emit (EvPrintf ''Initializing Create IO...'' []);
     oi \<leftarrow> startOI_MTS ''/dev/ttyO0'';
     (case oi of
        Crashed \<Rightarrow> ret False
      | _ \<Rightarrow> do {
          emit (EvPrintf ''Initializing IMU...'' []);
          imu \<leftarrow> startIMU_MTS ''/dev/ttyUSB0'';
          (case imu of
             StartExit n \<Rightarrow> ret False
           | StartCrashed \<Rightarrow> ret False
           | _ \<Rightarrow> do {
               emit (EvPrintf ''Starting server...'' []);
               server_up \<leftarrow> startServer server_net;
               if \<not> server_up then ret False
               else do {
                 emit (EvUsleep 5000000);
                 emit (EvPrintf ''Starting client...'' []);
                 client_up \<leftarrow> startClient client_net;
                 if \<not> client_up then ret False
                 else do { emit (EvUsleep 5000000); ret True }
               }
             })
        })
   }"

text \<open>
  The rate threads. \<open>rets\<close> is what the pthread calls return, in order; a failure is only
  printed, and the thread is then missing although \<open>main\<close> joins it in the end.
\<close>

definition pthread_report :: "int \<Rightarrow> string \<Rightarrow> ('a os_scheme, unit) state" where
  "pthread_report retval msg = (if retval \<noteq> 0 then emit (EvPrintf msg [retval]) else ret ())"

definition pthread_start :: "int \<Rightarrow> string \<Rightarrow> string \<Rightarrow> ('a os_scheme, unit) state" where
  "pthread_start retval thread msg = do {
     (if retval = 0 then emit (EvThreadCreate thread) else ret ());
     pthread_report retval msg
   }"

definition main_threads :: "(nat \<Rightarrow> int) \<Rightarrow> ('a os_scheme, unit) state" where
  "main_threads rets = do {
     pthread_report (rets 0) ''error with pthread_attr_setinheritsched : %d'';
     pthread_report (rets 1) ''error with pthread_attr_setschedparam param_2hz : %d'';
     pthread_start (rets 2) ''func_2Hz'' ''error with pthread_create rate_2hz : %d'';
     pthread_report (rets 3) ''error with pthread_attr_setschedparam param_50hz : %d'';
     pthread_start (rets 4) ''func_50Hz'' ''error with pthread_create rate_50hz : %d'';
     pthread_report (rets 5) ''error with pthread_attr_setschedparam param_scheduler : %d'';
     pthread_start (rets 6) ''execute'' ''error with pthread_create execute : %d''
   }"

text \<open>The configuration: \<open>Some False\<close> is \<open>return 1\<close>, \<open>None\<close> what \<open>handler\<close> leaves undefined.\<close>

definition main_config :: "string option \<Rightarrow> ('a cockpit_scheme, bool option) state" where
  "main_config contents = do {
     emit (EvPrintf ''Initializing location...'' []);
     st \<leftarrow> gets ap_client_status;
     (case ini_parse contents handler (Some st) of
        (_, None) \<Rightarrow> ret None
      | (n, Some st) \<Rightarrow> do {
          modify (\<lambda>s. s\<lparr>ap_client_status := st\<rparr>);
          if n < 0 then do {
            emit (EvPrintf ''Cannot load create.ini'' []);
            ret (Some False)
          } else do {
            emit (EvPrintf ''%s starting at POS[%d,%d]'' [st_pos_x st, st_pos_y st]);
            ret (Some True)
          }
        })
   }"

text \<open>The characters \<open>getchar\<close> delivers, up to the first \<open>s\<close>; without one the loop never ends.\<close>

fun await_s :: "char list \<Rightarrow> char list option" where
  "await_s [] = None"
| "await_s (c # cs) = (if c = CHR ''s'' then Some cs else await_s cs)"

definition start_locals :: main_locals where
  "start_locals = \<lparr>lc_not_done = True, lc_speed = 0, lc_turn = 0, lc_velocity = 0, lc_radius = 0, lc_charge = 0,
     lc_Pn_mm = 0, lc_Pe_mm = 0, lc_Vn_mmps = 0, lc_Ve_mmps = 0, lc_roll = 0, lc_pitch = 0, lc_yaw = 0,
     lc_Speed = 0, lc_FlightPath_deg = 0, lc_Heading_deg = 0, lc_cycle_count = 1\<rparr>"

definition start_control :: "'a control_scheme \<Rightarrow> 'a control_scheme" where
  "start_control c = c\<lparr>ct_SpeedCmd := 300, ct_HeadingCmd_deg := -45, ct_WheelSpeedCmd := 0,
     ct_TurnRadiusCmd := 0, ct_dist_PnPe := 0\<rparr>"

definition main_stop :: "('a cockpit_scheme, unit) state" where
  "main_stop = do {
     emit (EvPrintf ''Closing Client'' []);
     closeClient;
     emit (EvPrintf ''Closing Server'' []);
     closeServer;
     emit (EvThreadJoin ''func_50Hz'');
     emit (EvThreadJoin ''func_2Hz'');
     emit (EvThreadJoin ''execute'');
     emit (EvPrintf ''Shutting down'' [])
   }"

text \<open>
  All of \<open>main\<close> on the main thread: the result is \<open>Some 1\<close> for the missing configuration,
  \<open>Some 0\<close> for the end of the program, \<open>None\<close> for every way it ends or goes on otherwise.
\<close>

definition main_program ::
  "fpu \<Rightarrow> network \<Rightarrow> network \<Rightarrow> (nat \<Rightarrow> int) \<Rightarrow> string option \<Rightarrow> char list \<Rightarrow> key list
   \<Rightarrow> ('a cockpit_scheme, int option) state" where
  "main_program m server_net client_net rets contents typed keys = do {
     up \<leftarrow> main_libraries server_net client_net;
     if \<not> up then ret None
     else do {
       main_threads rets;
       loaded \<leftarrow> main_config contents;
       (case loaded of
          None \<Rightarrow> ret None
        | Some ok \<Rightarrow>
            if \<not> ok then ret (Some 1)
            else do {
              emit (EvPrintf ''Hit s to begin...'' []);
              (case await_s typed of
                 None \<Rightarrow> ret None
               | Some _ \<Rightarrow> do {
                   modify (\<lambda>s. s\<lparr>ck_control := start_control (ck_control s)\<rparr>);
                   r \<leftarrow> main_loop m keys start_locals;
                   (case r of
                      None \<Rightarrow> ret None
                    | Some l \<Rightarrow>
                        if lc_not_done l then ret None
                        else do { main_stop; ret (Some 0) })
                 })
            })
     }
   }"

section \<open>What the keyboard can command\<close>

definition keys_ok :: "nat \<Rightarrow> int \<times> int \<Rightarrow> bool" where
  "keys_ok n st \<longleftrightarrow> \<bar>fst st\<bar> \<le> 50 * int n \<and> \<bar>snd st\<bar> \<le> int n"

lemma keys_ok_step:
  assumes "keys_ok n st" "n < 40000000"
  shows "keys_ok (Suc n) (keyboard k st)"
proof -
  obtain s t where st: "st = (s, t)" by (cases st)
  have b: "\<bar>s\<bar> \<le> 50 * int n" "\<bar>t\<bar> \<le> int n" "int n < 40000000" using assms by (simp_all add: keys_ok_def st)
  then have "wrap32 (s + 50) = s + 50" "wrap32 (s - 50) = s - 50" "wrap32 (t + 1) = t + 1" "wrap32 (t - 1) = t - 1"
    by (intro wrap32_id; simp add: abs_le_iff)+
  with b show ?thesis by (cases k) (auto simp: st keys_ok_def C_MAX_def C_MIN_def)
qed

lemma keys_ok_fold:
  "keys_ok n st \<Longrightarrow> n + length ks < 40000000 \<Longrightarrow> keys_ok (n + length ks) (fold keyboard ks st)"
proof (induction ks arbitrary: n st)
  case Nil
  then show ?case by simp
next
  case (Cons k ks)
  then have "keys_ok (Suc n) (keyboard k st)" by (intro keys_ok_step) simp_all
  with Cons.IH [OF this] Cons.prems(2) show ?case by simp
qed

lemma trunc_unit:
  assumes "1 \<le> q" "q \<le> 500"
  shows "1 \<le> trunc q \<and> trunc q \<le> 500 \<and> trunc (- q) = - trunc q"
  using assms by (auto simp: trunc_def le_floor_iff floor_le_iff)

lemma cdiv_abs: "t \<noteq> 0 \<Longrightarrow> cdiv \<bar>t\<bar> t = sgn t"
  by (simp add: cdiv_def sgn_if)

lemma drive_values_bounds:
  assumes "drive_values (speed, turning) = (v, r)" "\<bar>turning\<bar> \<le> 40000000"
  shows "(r = 0 \<or> sgn r = sgn turning \<and> \<bar>r\<bar> \<le> 500) \<and> (r = 0 \<longleftrightarrow> turning = 0)
    \<and> (if speed = 0 then v = \<bar>turning\<bar> * 50 else v = speed)"
proof (cases "speed = 0 \<or> turning = 0")
  case True
  have "wrap32 (\<bar>turning\<bar> * 50) = \<bar>turning\<bar> * 50" using assms(2) by (intro wrap32_id) simp_all
  with True assms(1) show ?thesis by (auto simp: drive_values_def sgn_if split: if_splits)
next
  case False
  define q where "q = (let q = 1000 / 2 ^ nat \<bar>turning\<bar> :: real in if q > 1 then q else 1)"
  have "(2 :: real) ^ 1 \<le> 2 ^ nat \<bar>turning\<bar>" using False by (intro power_increasing) auto
  then have "1000 / 2 ^ nat \<bar>turning\<bar> \<le> (500 :: real)" by (simp add: divide_le_eq)
  then have q: "1 \<le> q" "q \<le> 500" by (auto simp: q_def Let_def)
  have "v = speed" "r = trunc (of_int (sgn turning) * q)"
    using False assms(1) by (auto simp: drive_values_def q_def cdiv_abs)
  with False trunc_unit [OF q] show ?thesis by (auto simp: sgn_if)
qed

text \<open>
  The keyboard: within the first 655 keys the velocity is exact as a \<open>short\<close>, the radius is
  0 (straight ahead) exactly when no turn is asked for, and else points the way of the turn with
  at most 500 mm; a standing robot turns on the spot with 50 mm/s per key.
\<close>
theorem keyboard_drive:
  assumes "length ks \<le> 655" "fold keyboard ks (0, 0) = (speed, turning)" "drive_values (speed, turning) = (v, r)"
  shows "sint (to_short v) = v \<and> sint (to_short r) = r \<and> (r = 0 \<longleftrightarrow> turning = 0)
    \<and> (r = 0 \<or> sgn r = sgn turning \<and> \<bar>r\<bar> \<le> 500)
    \<and> (if speed = 0 then v = \<bar>turning\<bar> * 50 else v = speed)"
proof -
  have "keys_ok (0 + length ks) (fold keyboard ks (0, 0))"
    using assms(1) by (intro keys_ok_fold) (simp_all add: keys_ok_def)
  then have k: "\<bar>speed\<bar> \<le> 32750" "\<bar>turning\<bar> \<le> 655" using assms(1,2) by (auto simp: keys_ok_def)
  then have "\<bar>turning\<bar> \<le> 40000000" by simp
  note b = drive_values_bounds [OF assms(3) this]
  then have "\<bar>v\<bar> \<le> 32750" "\<bar>r\<bar> \<le> 500" using k by (auto split: if_splits)
  then have "sint (to_short v) = v" "sint (to_short r) = r" by (intro sint_to_short; simp add: abs_le_iff)+
  with b show ?thesis by auto
qed

lemma keyboard_drive_witness:
  "fold keyboard [KEY_UP, KEY_UP, KEY_RIGHT, KEY_RIGHT] (0, 0) = (100, -2)
   \<and> drive_values (100, -2) = (100, -250) \<and> sint (to_short (-250)) = -250"
proof -
  have f: "fold keyboard [KEY_UP, KEY_UP, KEY_RIGHT, KEY_RIGHT] (0, 0) = (100, -2)" by code_simp
  have d: "drive_values (100, -2) = (100, -250)"
    by (simp add: drive_values_def cdiv_def trunc_def)
  from keyboard_drive [OF _ f d] f d show ?thesis by simp
qed

text \<open>One key more and the velocity wraps: full speed ahead becomes full speed back.\<close>

lemma speed_wraps:
  "let st = fold keyboard (replicate 656 KEY_UP) (0, 0) in
   fst (drive_values st) = 32800 \<and> drive_cmd (to_short (fst (drive_values st))) 0 = drive_cmd (-500) 0"
proof -
  have "fold keyboard (replicate n KEY_UP) (50 * int k, 0) = (50 * (int k + int n), 0)" if "k + n < 1000" for n k
    using that
  proof (induction n arbitrary: k)
    case (Suc n)
    have "wrap32 (50 * int k + 50) = 50 * int (Suc k)" using Suc.prems by (subst wrap32_id) simp_all
    with Suc.IH [of "Suc k"] Suc.prems show ?case by (simp add: algebra_simps)
  qed simp
  from this [of 0 656] have st: "fold keyboard (replicate 656 KEY_UP) (0, 0) = (32800, 0)" by simp
  have "drive_cmd (to_short 32800) 0 = drive_cmd (-500) 0" by code_simp
  then show ?thesis unfolding st by (simp add: drive_values_def)
qed

section \<open>What an iteration commands\<close>

lemma yawCommand_keeps_dist: "yawCommand m yaw yaw_cmd c = Some c' \<Longrightarrow> ct_dist_PnPe c' = ct_dist_PnPe c"
  by (auto simp: yawCommand_def Let_def split: option.splits if_splits)

lemma SpeedHeadingCommand_keeps_dist:
  "SpeedHeadingCommand m sc hc sp h0 dt cyc c = Some c' \<Longrightarrow> ct_dist_PnPe c' = ct_dist_PnPe c"
  by (auto simp: SpeedHeadingCommand_def Let_def split: option.splits if_splits prod.splits)

lemma inner_loop_limits:
  assumes "rounding (fl m)" "rounding (db m)" "inner_loop m l c = Some c'"
  shows "(if ct_dist_PnPe c' < 250
    then 0 \<le> ct_WheelSpeedCmd c' \<and> ct_WheelSpeedCmd c' \<le> 100 \<and> ct_TurnRadiusCmd c' \<in> {- 1, 0, 1}
    else 200 \<le> ct_WheelSpeedCmd c' \<and> (ct_TurnRadiusCmd c' = 0 \<or> 1 \<le> \<bar>ct_TurnRadiusCmd c'\<bar>))"
proof -
  define p where "p = PositionCommand m 2000 (-2000) (lc_Pn_mm l) (lc_Pe_mm l) c"
  have speed: "ct_SpeedCmd p = fl m (db m (lit m (2 / 10) * ct_dist_PnPe p))"
    by (simp add: p_def PositionCommand_def Let_def)
  show ?thesis
  proof (cases "ct_dist_PnPe p < 250")
    case True
    with assms(3) have y: "yawCommand m (lc_yaw l) 45 (p\<lparr>ct_SpeedCmd := 0, ct_TurnRadiusCmd := 0\<rparr>) = Some c'"
      by (simp add: inner_loop_def Let_def p_def)
    from yawCommand_limits [OF assms(1) y] yawCommand_keeps_dist [OF y] True show ?thesis by auto
  next
    case False
    then have "0 < ct_SpeedCmd p"
      by (simp add: speed lit_def rounding.rnd_sign [OF assms(1)] rounding.rnd_sign [OF assms(2)])
    with False assms(3) have h: "SpeedHeadingCommand m (ct_SpeedCmd p) (ct_HeadingCmd_deg p) (lc_Speed l)
        (lc_Heading_deg l) (delta_t m) (lc_cycle_count l) p = Some c'"
      by (simp add: inner_loop_def Let_def p_def split: if_splits)
    from SpeedHeadingCommand_limits [where m = m and c = p and cmd = "ct_SpeedCmd p" and heading_cmd = "ct_HeadingCmd_deg p"
        and speed = "lc_Speed l" and heading = "lc_Heading_deg l" and delta_t = "delta_t m" and cycle = "lc_cycle_count l"] h SpeedHeadingCommand_keeps_dist [OF h] False
    show ?thesis by auto
  qed
qed

lemma to_short_real_value: "to_short_real x = Some w \<Longrightarrow> sint w = trunc x"
  by (auto simp: to_short_real_def sint_to_short split: if_splits)

lemma drive_accepts:
  assumes "accepts s"
  obtains t evs where "run_state (drive v r) s = (0, s\<lparr>tick := t, trace := trace s @ evs\<rparr>)" "sent evs = drive_cmd v r"
  using assms unfolding drive_def by (rule locked_cmd_accepts)

text \<open>
  C4. Whatever key is pressed, one iteration sends the keyboard's Drive command and at once the
  autopilot's over it; and the autopilot's is, within 250 mm of the target, a turn on the spot or
  a stop at 0 to 100 mm/s, and elsewhere at least 200 mm/s forward.
\<close>
theorem autopilot_has_last_word:
  assumes "accepts s" "rounding (fl m)" "rounding (db m)" "run_state (main_act m k l) s = (Some l', s')"
  shows "\<exists>evs v r. trace s' = trace s @ evs
    \<and> sent evs = drive_cmd (to_short (lc_velocity l')) (to_short (lc_radius l')) @ drive_cmd v r
    \<and> (if ct_dist_PnPe (ck_control s') < 250 then 0 \<le> sint v \<and> sint v \<le> 100 \<and> sint r \<in> {-1, 0, 1}
       else 200 \<le> sint v)"
proof -
  define vals where "vals = drive_values (keyboard k (lc_speed l, lc_turn l))"
  obtain t evs where kb: "run_state (drive (to_short (fst vals)) (to_short (snd vals))) s
      = (0, s\<lparr>tick := t, trace := trace s @ evs\<rparr>)" "sent evs = drive_cmd (to_short (fst vals)) (to_short (snd vals))"
    using assms(1) by (rule drive_accepts)
  obtain c where c: "inner_loop m l (ck_control s) = Some c"
    using assms(4) by (auto simp: main_act_def Let_def kb(1) vals_def [symmetric] split: option.splits)
  obtain v r where vr: "to_short_real (ct_WheelSpeedCmd c) = Some v" "to_short_real (ct_TurnRadiusCmd c) = Some r"
    using assms(4) by (auto simp: main_act_def Let_def kb(1) vals_def [symmetric] c drive_float_def split: option.splits)
  let ?s = "s\<lparr>tick := t, trace := trace s @ evs, ck_control := c\<rparr>"
  have "accepts ?s" using assms(1) by (simp add: accepts_def)
  then obtain t' evs' where ap: "run_state (drive v r) ?s = (0, ?s\<lparr>tick := t', trace := trace ?s @ evs'\<rparr>)"
    "sent evs' = drive_cmd v r" by (rule drive_accepts)
  have run: "s' = ?s\<lparr>tick := t', trace := trace ?s @ evs'\<rparr>" "lc_velocity l' = fst vals" "lc_radius l' = snd vals"
    using assms(4) ap(1) by (auto simp: main_act_def Let_def kb(1) vals_def [symmetric] c vr drive_float_def)
  have "sint v = trunc (ct_WheelSpeedCmd c)" "sint r = trunc (ct_TurnRadiusCmd c)"
    using vr by (simp_all add: to_short_real_value)
  moreover have "trunc (- 1) = - 1" "trunc 0 = 0" "trunc 1 = 1"
    using trunc_of_int [of "-1"] trunc_of_int [of 0] trunc_of_int [of 1] by simp_all
  ultimately have "if ct_dist_PnPe c < 250 then 0 \<le> sint v \<and> sint v \<le> 100 \<and> sint r \<in> {-1, 0, 1} else 200 \<le> sint v"
    using inner_loop_limits [OF assms(2,3) c] trunc_at_least [of 0 "ct_WheelSpeedCmd c"]
      trunc_at_most [of "ct_WheelSpeedCmd c" 100] trunc_at_least [of 200 "ct_WheelSpeedCmd c"]
    by (auto split: if_splits)
  with run kb(2) ap(2) show ?thesis
    by (intro exI [where x = "evs @ evs'"] exI [where x = v] exI [where x = r]) simp
qed

text \<open>The program in one process before anything is opened, on a port that takes what it is given.\<close>

definition idle_cockpit :: cockpit where
  "idle_cockpit = \<lparr>wr = \<lambda>_. WOk 5, rd = \<lambda>_. RErr, opn = \<lambda>_. 3, alloc = \<lambda>_. True, clock = \<lambda>_. (0, 0),
     char_signed = True, tick = 0, trace = [], oi_fd = 3, oi_debug = 0, oi_thread_mode = 0, oi_cache = None,
     oi_over = 0, junk_cache = blank_cache, junk_byte = 7, im_fd = 4, im_out = None, im_thread_mode = 0,
     im_cache = None,
     junk_imu = \<lparr>ic_gyroX = 0, ic_gyroY = 0, ic_gyroZ = 0, ic_accelX = 0, ic_accelY = 0, ic_accelZ = 0, ic_rll = 0,
       ic_pch = 0, ic_yaw = 0, ic_time_stamp = 0, ic_shut_down = 0\<rparr>,
     cl_sd = 0, cl_rc = 0, sv_sock = 0, sv_rc = 0, sv_not_done = 0, sv_no_data = 0, sv_thread_mode = 0,
     sv_buff = [],
     sv_status = \<lparr>st_pos_x = 0, st_pos_y = 0, st_heading = 0, st_velocity = 0, st_category = 0, st_uid = []\<rparr>,
     sv_terminated = [], sv_detected = [], sv_map = [],
     ap_client_status = \<lparr>st_pos_x = 0, st_pos_y = 0, st_heading = 0, st_velocity = 0, st_category = 0, st_uid = []\<rparr>,
     ck_control = no_commands\<rparr>"

definition at_target :: main_locals where
  "at_target = start_locals\<lparr>lc_Pn_mm := 2000, lc_Pe_mm := -2000\<rparr>"

lemma inner_loop_at_target:
  "\<exists>c. inner_loop ieee at_target no_commands = Some c \<and> ct_WheelSpeedCmd c = 90 \<and> ct_TurnRadiusCmd c = -1"
proof -
  have zero: "round_bits 53 0 = 0" by (simp add: round_bits_def)
  have "ct_dist_PnPe (PositionCommand ieee 2000 (-2000) 2000 (-2000) no_commands) = 0"
    by (simp add: PositionCommand_def Let_def ieee_def zero)
  then show ?thesis
    by (simp add: inner_loop_def at_target_def start_locals_def Let_def yawCommand_def to_int_def trunc_def)
qed

lemma autopilot_has_last_word_witness:
  "\<exists>l' s' evs v r. run_state (main_act ieee KEY_UP at_target) idle_cockpit = (Some l', s')
    \<and> trace s' = evs \<and> sent evs = drive_cmd 50 0 @ drive_cmd v r"
proof -
  obtain c where c: "inner_loop ieee at_target no_commands = Some c" "ct_WheelSpeedCmd c = 90" "ct_TurnRadiusCmd c = -1"
    using inner_loop_at_target by blast
  have acc: "accepts (idle_cockpit\<lparr>tick := t, trace := es, ck_control := d\<rparr>)" "accepts idle_cockpit" for t es d
    by (simp_all add: accepts_def idle_cockpit_def)
  have ctl: "ck_control idle_cockpit = no_commands" "trace idle_cockpit = []" by (simp_all add: idle_cockpit_def)
  have keys: "lc_speed at_target = 0" "lc_turn at_target = 0" "wrap32 50 = 50" "drive_values (50, 0) = (50, 0)"
    by (simp_all add: at_target_def start_locals_def drive_values_def wrap32_id)
  have shorts: "to_short_real 90 = Some (to_short 90)" "to_short_real (- 1) = Some (to_short (- 1))"
    by (simp_all add: to_short_real_def trunc_def)
  obtain t evs where kb: "run_state (drive (to_short 50) (to_short 0)) idle_cockpit
      = (0, idle_cockpit\<lparr>tick := t, trace := trace idle_cockpit @ evs\<rparr>)" using acc(2) by (rule drive_accepts)
  let ?s = "idle_cockpit\<lparr>tick := t, trace := evs, ck_control := c\<rparr>"
  obtain t' evs' where ap: "run_state (drive (to_short 90) (to_short (- 1))) ?s = (0, ?s\<lparr>tick := t', trace := trace ?s @ evs'\<rparr>)"
    using acc(1) by (rule drive_accepts)
  obtain l' s' where run: "run_state (main_act ieee KEY_UP at_target) idle_cockpit = (Some l', s')"
    and l': "lc_velocity l' = 50" "lc_radius l' = 0"
    using ap by (auto simp: main_act_def Let_def keys kb ctl c drive_float_def shorts)
  from autopilot_has_last_word [OF acc(2) rounding_ieee run] run l' ctl show ?thesis
    by (auto simp: to_short_def)
qed

end
