(* ===== verification/SampleDrives.thy ===== *)
theory SampleDrives
  imports MainProgram
begin

text \<open>
  The small sample programs (Samples/square.c, rectangle.c, BumpCheck.c, Home.c, Heading.c and
  drive.c). Loops take fuel, as the waits they call do: \<open>None\<close> is a program that is still
  running. The programs start the library with \<open>startOI_MT\<close> and do not look at its result; only
  the crash of a failed allocation ends them there (\<open>Some False\<close>).
\<close>

section \<open>Squares\<close>

definition after_start :: "string \<Rightarrow> ('a create_scheme, bool option) state \<Rightarrow> ('a create_scheme, bool option) state" where
  "after_start serial body = do {
     r \<leftarrow> startOI_MT serial;
     (case r of Crashed \<Rightarrow> ret (Some False) | _ \<Rightarrow> body)
   }"

text \<open>One side and one corner; \<open>True\<close> when both have ended.\<close>

definition leg :: "nat \<Rightarrow> int \<Rightarrow> int \<Rightarrow> ('a create_scheme, bool) state" where
  "leg fuel distance angle = do {
     d \<leftarrow> driveDistance fuel 300 0 distance 1;
     (case d of
        None \<Rightarrow> ret False
      | Some _ \<Rightarrow> do {
          t \<leftarrow> turn fuel 100 1 angle 1;
          ret (t \<noteq> None)
        })
   }"

fun square_loop :: "nat \<Rightarrow> nat \<Rightarrow> ('a create_scheme, bool option) state" where
  "square_loop wait_fuel 0 = ret None"
| "square_loop wait_fuel (Suc fuel) = do {
     ok \<leftarrow> leg wait_fuel 400 90;
     if ok then square_loop wait_fuel fuel else ret None
   }"

definition square_main :: "nat \<Rightarrow> nat \<Rightarrow> ('a create_scheme, bool option) state" where
  "square_main wait_fuel fuel = after_start ''/dev/ttyO0'' (square_loop wait_fuel fuel)"

fun rectangle_loop :: "nat \<Rightarrow> nat \<Rightarrow> ('a create_scheme, bool option) state" where
  "rectangle_loop wait_fuel 0 = ret None"
| "rectangle_loop wait_fuel (Suc fuel) = do {
     ok \<leftarrow> leg wait_fuel 1000 87;
     if \<not> ok then ret None
     else do {
       ok \<leftarrow> leg wait_fuel 2000 87;
       if ok then rectangle_loop wait_fuel fuel else ret None
     }
   }"

definition rectangle_main :: "nat \<Rightarrow> nat \<Rightarrow> ('a create_scheme, bool option) state" where
  "rectangle_main wait_fuel fuel = after_start ''/dev/ttyO0'' (do {
     ok \<leftarrow> leg wait_fuel 800 87;
     if ok then rectangle_loop wait_fuel fuel else ret None
   })"

section \<open>Bumpers\<close>

text \<open>\<open>drand48\<close> gives numbers from 0 up to but not including 1, one per call.\<close>

definition horn_song :: "(nat \<Rightarrow> real) \<Rightarrow> byte list" where
  "horn_song drand48 =
     concat (map (\<lambda>i. [to_byte (31 + \<lfloor>drand48 (2 * i) * (127 - 31)\<rfloor>), to_byte (8 + \<lfloor>drand48 (2 * i + 1) * 10\<rfloor>)]) [0..<8])"

definition horn :: "(nat \<Rightarrow> real) \<Rightarrow> ('a create_scheme, unit) state" where
  "horn drand48 = do {
     writeSong 0 8 (horn_song drand48);
     playSong 0;
     ret ()
   }"

text \<open>What BumpCheck does about a bumper reading; \<open>False\<close> while a wait has not ended.\<close>

definition bump_reaction :: "(nat \<Rightarrow> real) \<Rightarrow> nat \<Rightarrow> int \<Rightarrow> ('a create_scheme, bool) state" where
  "bump_reaction drand48 fuel bumper =
     (if bumper = 0 then ret True
      else do {
        emit (EvPrintf ''Bumper Reading %d'' [bumper]);
        if bumper = 1 then do {
          emit (EvPrintf ''Backing up at 120'' []);
          horn drand48;
          drive (-100) (-40);
          w \<leftarrow> waitAngle fuel 180 0;
          ret (w \<noteq> None)
        } else if bumper = 2 then do {
          emit (EvPrintf ''Backing up at 120-2'' []);
          d \<leftarrow> driveDistance fuel (-120) 0 (-300) 0;
          (case d of
             None \<Rightarrow> ret False
           | Some _ \<Rightarrow> do {
               emit (EvPrintf ''Turning...'' []);
               t \<leftarrow> turn fuel 100 (-1) (-45) 1;
               ret (t \<noteq> None)
             })
        } else if bumper = 3 then do {
          emit (EvPrintf ''Backing up at 250'' []);
          d \<leftarrow> driveDistance fuel (-250) 0 (-400) 0;
          (case d of
             None \<Rightarrow> ret False
           | Some _ \<Rightarrow> do {
               emit (EvPrintf ''Turning...'' []);
               t \<leftarrow> turn fuel 100 1 90 0;
               ret (t \<noteq> None)
             })
        } else if bumper = 4 then do {
          horn drand48;
          d \<leftarrow> driveDistance fuel (-100) (-40) (-180) 1;
          ret (d \<noteq> None)
        } else ret True
      })"

fun bump_loop :: "(nat \<Rightarrow> real) \<Rightarrow> nat \<Rightarrow> nat \<Rightarrow> ('a create_scheme, bool option) state" where
  "bump_loop drand48 wait_fuel 0 = ret None"
| "bump_loop drand48 wait_fuel (Suc fuel) = do {
     emit (EvPrintf ''Driving forward...'' []);
     d \<leftarrow> driveDistance wait_fuel 300 0 500 1;
     (case d of
        None \<Rightarrow> ret None
      | Some _ \<Rightarrow> do {
          bumper \<leftarrow> getBumpsAndWheelDrops;
          ok \<leftarrow> bump_reaction drand48 wait_fuel bumper;
          if ok then bump_loop drand48 wait_fuel fuel else ret None
        })
   }"

text \<open>\<open>args\<close> is the command line without the program's name.\<close>

definition bump_main :: "(nat \<Rightarrow> real) \<Rightarrow> string list \<Rightarrow> nat \<Rightarrow> nat \<Rightarrow> ('a create_scheme, bool option) state" where
  "bump_main drand48 args wait_fuel fuel =
     (case args of
        [] \<Rightarrow> do { emit (EvPrintf ''Usage: drive DEVICE'' []); emit (EvExit 1); ret (Some False) }
      | device # _ \<Rightarrow> after_start device (bump_loop drand48 wait_fuel fuel))"

section \<open>Going home\<close>

text \<open>Turn on the spot until the infrared reading is that of the dock.\<close>

fun home_seek :: "nat \<Rightarrow> nat \<Rightarrow> int \<Rightarrow> ('a create_scheme, bool) state" where
  "home_seek wait_fuel 0 ir_reading = ret False"
| "home_seek wait_fuel (Suc fuel) ir_reading =
     (if ir_reading \<noteq> 254 then do {
        t \<leftarrow> turn wait_fuel 100 1 4 1;
        (case t of
           None \<Rightarrow> ret False
         | Some _ \<Rightarrow> do {
             ir_reading \<leftarrow> readSensor SENSOR_INFRARED;
             emit (EvPrintf ''IR reading %d'' [ir_reading]);
             emit (EvUsleep 20000);
             home_seek wait_fuel fuel ir_reading
           })
      } else ret True)"

text \<open>Drive until something is noticed; the value is the last charging reading.\<close>

fun home_approach :: "nat \<Rightarrow> int \<times> int \<times> int \<times> int \<Rightarrow> ('a create_scheme, int option) state" where
  "home_approach 0 st = ret None"
| "home_approach (Suc fuel) (charging, bumper, cliff_FL, cliff_FR) =
     (if charging = 0 \<and> bumper = 0 \<and> cliff_FL = 0 \<and> cliff_FR = 0 then do {
        charging \<leftarrow> readSensor SENSOR_CHARGING_SOURCES_AVAILABLE;
        bumper \<leftarrow> getBumpsAndWheelDrops;
        cliff_FL \<leftarrow> readSensor SENSOR_CLIFF_FRONT_LEFT;
        cliff_FR \<leftarrow> readSensor SENSOR_CLIFF_FRONT_RIGHT;
        emit (EvPrintf ''Charging %d bumped %d %d %d'' [charging, bumper, cliff_FL, cliff_FR]);
        emit (EvUsleep 10000);
        home_approach fuel (charging, bumper, cliff_FL, cliff_FR)
      } else ret (Some charging))"

fun home_retry :: "nat \<Rightarrow> int \<Rightarrow> ('a create_scheme, int option) state" where
  "home_retry 0 charging = ret None"
| "home_retry (Suc fuel) charging =
     (if charging = 0 then do {
        drive (-50) 0;
        emit (EvUsleep 20000);
        drive 0 0;
        emit (EvUsleep 10000);
        charging \<leftarrow> readSensor SENSOR_CHARGING_SOURCES_AVAILABLE;
        home_retry fuel charging
      } else ret (Some charging))"

definition home_dock :: "nat \<Rightarrow> ('a create_scheme, int option) state" where
  "home_dock fuel = do {
     drive 250 0;
     c \<leftarrow> home_approach fuel (0, 0, 0, 0);
     (case c of
        None \<Rightarrow> ret None
      | Some charging \<Rightarrow> do {
          drive 0 0;
          charging \<leftarrow> (if charging = 0 then do {
              emit (EvUsleep 20000);
              readSensor SENSOR_CHARGING_SOURCES_AVAILABLE
            } else ret charging);
          c \<leftarrow> home_retry fuel charging;
          (case c of
             None \<Rightarrow> ret None
           | Some charging \<Rightarrow> do { drive 0 0; ret (Some charging) })
        })
   }"

definition home_main :: "string list \<Rightarrow> nat \<Rightarrow> nat \<Rightarrow> ('a create_scheme, bool option) state" where
  "home_main args wait_fuel fuel =
     (case args of
        [] \<Rightarrow> do { emit (EvPrintf ''Usage: drive DEVICE'' []); emit (EvExit 1); ret (Some False) }
      | device # _ \<Rightarrow> after_start device (do {
          ir_reading \<leftarrow> readSensor SENSOR_INFRARED;
          found \<leftarrow> home_seek wait_fuel fuel ir_reading;
          if \<not> found then ret None
          else do {
            docked \<leftarrow> home_dock fuel;
            (case docked of
               None \<Rightarrow> ret None
             | Some _ \<Rightarrow> do { stopOI_MT; ret (Some True) })
          }
        }))"

section \<open>Holding a heading\<close>

text \<open>The body of the loop of Heading.c: speed and radius for \<open>drive\<close>.\<close>

definition heading_step :: "fpu \<Rightarrow> real \<Rightarrow> real \<Rightarrow> (real \<times> real) option" where
  "heading_step m heading_cmd yaw =
     (let Kp_yaw = 2;
          yaw_err = fl m (heading_cmd - yaw);
          speed_cmd = fl m (- Kp_yaw * yaw_err);
          st = (speed_cmd, 1);
          st = (if speed_cmd < 0 then (fl m (- 1 * speed_cmd), - 1) else st);
          st = (if fst st > 100 then (100, snd st) else st)
      in case to_int yaw_err of
           None \<Rightarrow> None
         | Some e \<Rightarrow> Some (if of_int \<bar>e\<bar> < (1 / 2 :: real) then (0, 0) else st))"

text \<open>Waiting for the attitude unit: until a yaw other than 0 arrives; \<open>NULL\<close> crashes.\<close>

fun heading_wait :: "nat \<Rightarrow> ('a imu_scheme, bool) state" where
  "heading_wait 0 = ret False"
| "heading_wait (Suc fuel) = do {
     yaw \<leftarrow> getYaw;
     (case yaw of
        Ptr y \<Rightarrow> if y = 0 then do { emit (EvUsleep 1000); heading_wait fuel } else ret True
      | _ \<Rightarrow> do { emit EvAbort; ret False })
   }"

fun heading_loop :: "fpu \<Rightarrow> real \<Rightarrow> nat \<Rightarrow> ('a imu_scheme, unit) state" where
  "heading_loop m heading_cmd 0 = ret ()"
| "heading_loop m heading_cmd (Suc fuel) = do {
     yaw \<leftarrow> getYaw;
     (case yaw of
        Ptr y \<Rightarrow> do {
          emit (EvPrintf ''Yaw      : %.2f'' []);
          emit (EvPrintf ''Yaw Error: %.2f'' []);
          (case heading_step m heading_cmd y of
             None \<Rightarrow> ret ()
           | Some (v, r) \<Rightarrow> do {
               drive_float v r;
               emit (EvUsleep 250);
               heading_loop m heading_cmd fuel
             })
        }
      | _ \<Rightarrow> emit EvAbort)
   }"

definition heading_main :: "fpu \<Rightarrow> string list \<Rightarrow> nat \<Rightarrow> ('a imu_scheme, unit) state" where
  "heading_main m args fuel =
     (case args of
        device # imu # heading # _ \<Rightarrow>
          (case atoi heading of
             None \<Rightarrow> ret ()
           | Some h \<Rightarrow> do {
               r \<leftarrow> startOI_MT device;
               (case r of
                  Crashed \<Rightarrow> ret ()
                | _ \<Rightarrow> do {
                    i \<leftarrow> startIMU_MT imu;
                    (case i of
                       StartExit n \<Rightarrow> ret ()
                     | StartCrashed \<Rightarrow> ret ()
                     | _ \<Rightarrow> do {
                         ready \<leftarrow> heading_wait fuel;
                         if ready then heading_loop m (fl m (of_int h)) fuel else ret ()
                       })
                  })
             })
      | _ \<Rightarrow> do { emit (EvPrintf ''Usage: drive /dev/ttyO0 /dev/ttyUSB0 heading'' []); emit (EvExit 1) })"

section \<open>Driving by keyboard\<close>

text \<open>
  drive.c has the keyboard of \<open>main\<close> and a horn on \<open>h\<close> (key code 104); of its window only the
  line with the charge is kept.
\<close>

definition drive_turn :: "(nat \<Rightarrow> real) \<Rightarrow> key \<Rightarrow> int \<times> int \<Rightarrow> ('a create_scheme, (int \<times> int) \<times> bool) state" where
  "drive_turn drand48 k st = do {
     charge \<leftarrow> getCharge;
     emit (EvPrintf ''Battery Charge: %d%%'' [charge]);
     (if k = KEY_OTHER 104 then horn drand48 else ret ());
     let st = keyboard k st;
     let values = drive_values st;
     drive (to_short (fst values)) (to_short (snd values));
     ret (st, k \<noteq> KEY_q)
   }"

fun drive_loop :: "(nat \<Rightarrow> real) \<Rightarrow> key list \<Rightarrow> int \<times> int \<Rightarrow> ('a create_scheme, bool option) state" where
  "drive_loop drand48 [] st = ret None"
| "drive_loop drand48 (k # ks) st = do {
     r \<leftarrow> drive_turn drand48 k st;
     if snd r then drive_loop drand48 ks (fst r)
     else do { stopOI_MT; ret (Some True) }
   }"

definition drive_main :: "(nat \<Rightarrow> real) \<Rightarrow> string list \<Rightarrow> key list \<Rightarrow> ('a create_scheme, bool option) state" where
  "drive_main drand48 args keys =
     (case args of
        [] \<Rightarrow> do { emit (EvPrintf ''Usage: drive DEVICE'' []); emit (EvExit 1); ret (Some False) }
      | device # _ \<Rightarrow> after_start device (drive_loop drand48 keys (0, 0)))"

section \<open>What the samples do\<close>

text \<open>
  Heading.c repeats the yaw control of the autopilot: the speed and the radius it drives with
  are exactly those \<open>yawCommand\<close> commands for the same heading, including the dead band.
\<close>
theorem heading_step_is_yawCommand:
  "heading_step m heading_cmd yaw
   = map_option (\<lambda>c'. (ct_WheelSpeedCmd c', ct_TurnRadiusCmd c')) (yawCommand m yaw heading_cmd c)"
  by (simp add: heading_step_def yawCommand_def Let_def split: option.split)

lemma home_retry_charging: "run_state (home_retry fuel charging) s = (Some c, s') \<Longrightarrow> c \<noteq> 0"
proof (induction fuel arbitrary: charging s)
  case 0
  then show ?case by simp
next
  case (Suc fuel)
  then show ?case
    by (cases "charging = 0") (auto split: prod.splits)
qed

lemma home_dock_ends:
  assumes "run_state (home_dock fuel) s = (Some c, s')"
  shows "c \<noteq> 0 \<and> (\<exists>s1 v. run_state (drive 0 0) s1 = (v, s'))"
  using assms by (auto simp: home_dock_def split: prod.splits option.splits dest: home_retry_charging)

lemma drive_fails:
  assumes "\<forall>t. wr s t = WErr"
  obtains t es where "run_state (drive v r) s = (-1, s\<lparr>tick := t, trace := trace s @ es\<rparr>)"
  by (rule that [where t = "Suc (tick s)" and es = "[EvLock CreateMutex, EvPerror ''Could not start drive'', EvUnlock CreateMutex]"])
    (use assms in \<open>simp add: drive_def locked_cmd_def cwrite_def write_loop_fail drive_cmd_def Let_def\<close>)

lemma bumps_on_dead_port:
  assumes "\<forall>t. wr s t = WErr"
  obtains v t es where "run_state getBumpsAndWheelDrops s = (v, s\<lparr>tick := t, trace := trace s @ es\<rparr>)"
proof (cases "oi_thread_mode s = 0")
  case True
  obtain t es where "run_state (readSensor SENSOR_BUMPS_AND_WHEEL_DROPS) s = (INT_MIN, s\<lparr>tick := t, trace := trace s @ es\<rparr>)"
    using assms by (rule readSensor_fails)
  with True show thesis by (intro that) (simp add: getBumpsAndWheelDrops_def)
next
  case False
  then show thesis
    by (intro that [where t = "tick s" and es = "[EvLock SensorCacheMutex, EvUnlock SensorCacheMutex]"])
      (simp add: getBumpsAndWheelDrops_def cached_def)
qed

lemma approach_dead_port:
  assumes "\<forall>t. wr s t = WErr"
  obtains t es where "run_state (home_approach (Suc (Suc fuel)) (0, 0, 0, 0)) s = (Some INT_MIN, s\<lparr>tick := t, trace := es\<rparr>)"
proof -
  have dead: "\<forall>t. wr (s\<lparr>tick := u, trace := es\<rparr>) t = WErr" for u es using assms by simp
  obtain t1 e1 where 1: "run_state (readSensor SENSOR_CHARGING_SOURCES_AVAILABLE) s = (INT_MIN, s\<lparr>tick := t1, trace := e1\<rparr>)"
    using assms by (rule readSensor_fails)
  obtain b t2 e2 where 2: "run_state getBumpsAndWheelDrops (s\<lparr>tick := t1, trace := e1\<rparr>) = (b, s\<lparr>tick := t2, trace := e2\<rparr>)"
    by (rule bumps_on_dead_port [OF dead [where u = t1 and es = e1]]) simp
  obtain t3 e3 where 3: "run_state (readSensor SENSOR_CLIFF_FRONT_LEFT) (s\<lparr>tick := t2, trace := e2\<rparr>) = (INT_MIN, s\<lparr>tick := t3, trace := e3\<rparr>)"
    by (rule readSensor_fails [OF dead [where u = t2 and es = e2]]) simp
  obtain t4 e4 where 4: "run_state (readSensor SENSOR_CLIFF_FRONT_RIGHT) (s\<lparr>tick := t3, trace := e3\<rparr>) = (INT_MIN, s\<lparr>tick := t4, trace := e4\<rparr>)"
    by (rule readSensor_fails [OF dead [where u = t3 and es = e3]]) simp
  have ne: "INT_MIN \<noteq> 0" by (simp add: INT_MIN_def)
  show thesis
    by (rule that [where t = t4 and es = "e4 @ [EvPrintf ''Charging %d bumped %d %d %d'' [INT_MIN, b, INT_MIN, INT_MIN], EvUsleep 10000]"])
      (simp add: 1 2 3 4 ne)
qed

lemma home_on_dead_port:
  assumes "\<forall>t. wr s t = WErr"
  shows "value_of (home_dock (Suc (Suc fuel))) s = Some INT_MIN"
proof -
  have dead: "\<forall>t. wr (s\<lparr>tick := u, trace := es\<rparr>) t = WErr" for u es using assms by simp
  obtain t1 e1 where 1: "run_state (drive 250 0) s = (-1, s\<lparr>tick := t1, trace := e1\<rparr>)"
    using assms by (rule drive_fails)
  obtain t2 e2 where 2: "run_state (home_approach (Suc (Suc fuel)) (0, 0, 0, 0)) (s\<lparr>tick := t1, trace := e1\<rparr>)
      = (Some INT_MIN, s\<lparr>tick := t2, trace := e2\<rparr>)"
    by (rule approach_dead_port [OF dead [where u = t1 and es = e1]]) simp
  obtain t3 e3 where 3: "run_state (drive 0 0) (s\<lparr>tick := t2, trace := e2\<rparr>) = (-1, s\<lparr>tick := t3, trace := e3\<rparr>)"
    by (rule drive_fails [OF dead [where u = t2 and es = e2]]) simp
  obtain t4 e4 where 4: "run_state (drive 0 0) (s\<lparr>tick := t3, trace := e3\<rparr>) = (-1, s\<lparr>tick := t4, trace := e4\<rparr>)"
    by (rule drive_fails [OF dead [where u = t3 and es = e3]]) simp
  have ne: "INT_MIN \<noteq> 0" by (simp add: INT_MIN_def)
  show ?thesis
    by (simp add: home_dock_def 1 2 3 4 ne del: home_approach.simps)
qed

text \<open>
  Home.c: when docking ends, the charging reading is not 0 and the last thing done is the stop
  command; and on a port where every write fails it ends at once, the error value of the sensor
  being taken for a charger.
\<close>
lemma home_docking:
  assumes "run_state (home_dock fuel) s = (Some charging, s')" "\<forall>t. wr dead t = WErr"
  shows "charging \<noteq> 0 \<and> (\<exists>s1 v. run_state (drive 0 0) s1 = (v, s'))
    \<and> value_of (home_dock 2) dead = Some INT_MIN"
  using home_dock_ends [OF assms(1)] home_on_dead_port [OF assms(2), of 0] by (simp add: numeral_2_eq_2)

lemma home_docking_witness:
  "\<exists>s1 v. run_state (drive 0 0) s1 = (v, exec_of (home_dock 2) (fresh_process (\<lambda>_. WErr) (\<lambda>_. RErr)))"
proof -
  let ?s = "fresh_process (\<lambda>_. WErr) (\<lambda>_. RErr)"
  have dead: "\<forall>t. wr ?s t = WErr" by (simp add: fresh_process_def)
  have "run_state (home_dock 2) ?s = (Some INT_MIN, exec_of (home_dock 2) ?s)"
    using home_on_dead_port [OF dead, of 0] by (simp add: prod_eq_iff numeral_2_eq_2)
  from home_docking [OF this dead] show ?thesis by blast
qed

end
