(* ===== verification/WaypointMachine.thy ===== *)
theory WaypointMachine
  imports SampleDrives
begin

text \<open>
  The waypoint machine that Samples/driveInnerLoop.c and Samples/driveIMU.c both contain, with
  different waypoints, laps and control laws: fly to the four waypoints in turn for a number of
  laps, then home, turn north and stop. The control law and the bookkeeping at an arrival are
  parameters (\<open>fly\<close>, \<open>arrive\<close>); the locale \<open>waypoint_program\<close> says what they leave alone, and
  counts the arrivals of a run. \<open>None\<close> is a division by zero or a conversion out of range.
\<close>

section \<open>State\<close>

text \<open>The globals of the programs; a waypoint is its speed and its position, north first.\<close>

type_synonym waypoint = "real \<times> real \<times> real"

record pilot = control +
  wp_cycle_count :: int
  wp_count :: int
  wp_lap_count :: int
  wp_go_home :: bool
  wp_final_yaw :: bool
  wp_cur :: waypoint

record course =
  cs_max_laps :: int
  cs_points :: "waypoint list"

text \<open>Where the robot is, from the dead reckoning and the attitude unit.\<close>

record situation =
  at_Pn :: real
  at_Pe :: real
  at_Speed :: real
  at_Heading :: real
  at_yaw :: real

section \<open>One call\<close>

definition next_cycle :: "'a pilot_scheme \<Rightarrow> 'a pilot_scheme" where
  "next_cycle c =
     (let n = wp_cycle_count c + 1 in c\<lparr>wp_cycle_count := (if n \<ge> 3 then 3 else n)\<rparr>)"

definition wp_init :: "course \<Rightarrow> 'a pilot_scheme \<Rightarrow> 'a pilot_scheme" where
  "wp_init cs c =
     (if wp_count c = 0 \<and> \<not> wp_go_home c then c\<lparr>wp_count := wp_count c + 1, wp_cur := cs_points cs ! 0\<rparr> else c)"

definition wp_arrival :: "'a pilot_scheme \<Rightarrow> 'a pilot_scheme" where
  "wp_arrival c =
     (if ct_dist_PnPe c < 250
      then c\<lparr>wp_count := wp_count c + 1, ct_HeadingErr_hist := (0, 0, 0), ct_TurnRadiusCmd_hist := (0, 0)\<rparr>
      else c)"

text \<open>The last leg: to the start, then turn north. The flag says to go on.\<close>

definition wp_home :: "fpu \<Rightarrow> real \<Rightarrow> 'a pilot_scheme \<Rightarrow> ('a pilot_scheme \<times> bool) option" where
  "wp_home m yaw c =
     (let c = c\<lparr>wp_go_home := True, wp_lap_count := 0, wp_count := 0, wp_cur := (ct_SpeedCmd c, 0, 0)\<rparr>
      in if ct_dist_PnPe c < 20 \<or> wp_final_yaw c then
           (let c = c\<lparr>wp_final_yaw := True, ct_SpeedCmd := fl m (- 2 * fl m (0 - yaw))\<rparr>
            in case (heading_step m 0 yaw, to_int (fl m (0 - yaw))) of
                 (Some (v, r), Some e) \<Rightarrow>
                   Some (if of_int \<bar>e\<bar> < (1 / 2 :: real)
                         then (c\<lparr>ct_WheelSpeedCmd := 0, ct_TurnRadiusCmd := 0, ct_SpeedCmd := 0,
                                 wp_go_home := False, wp_lap_count := 0, wp_count := 0, wp_final_yaw := False\<rparr>, False)
                         else (c\<lparr>ct_WheelSpeedCmd := v, ct_TurnRadiusCmd := r\<rparr>, True))
               | _ \<Rightarrow> None)
         else Some (c, True))"

definition wp_select :: "course \<Rightarrow> 'a pilot_scheme \<Rightarrow> 'a pilot_scheme" where
  "wp_select cs c =
     (if wp_count c = 1 then c\<lparr>wp_cur := cs_points cs ! 0\<rparr>
      else if wp_count c = 2 then c\<lparr>wp_cur := cs_points cs ! 1\<rparr>
      else if wp_count c = 3 then c\<lparr>wp_cur := cs_points cs ! 2\<rparr>
      else if wp_count c = 4 then c\<lparr>wp_cur := cs_points cs ! 3\<rparr>
      else if wp_lap_count c < cs_max_laps cs
           then c\<lparr>wp_lap_count := wp_lap_count c + 1, wp_count := 1, wp_cur := cs_points cs ! 0\<rparr>
           else c\<lparr>wp_go_home := True, wp_lap_count := 0, wp_count := 0, wp_cur := (0, 0, 0)\<rparr>)"

text \<open>One call of \<open>waypointControlMode\<close> up to its \<open>drive\<close>.\<close>

definition waypoint_call ::
  "course \<Rightarrow> (situation \<Rightarrow> 'a pilot_scheme \<Rightarrow> 'a pilot_scheme option) \<Rightarrow> ('a pilot_scheme \<Rightarrow> 'a pilot_scheme) \<Rightarrow>
   (situation \<Rightarrow> 'a pilot_scheme \<Rightarrow> ('a pilot_scheme \<times> bool) option) \<Rightarrow>
   situation \<Rightarrow> 'a pilot_scheme \<Rightarrow> ('a pilot_scheme \<times> bool) option" where
  "waypoint_call cs fly arrive home a c =
     (case fly a (next_cycle (wp_init cs c)) of
        None \<Rightarrow> None
      | Some c \<Rightarrow>
          (let c = arrive c
           in if wp_go_home c then home a c else Some (wp_select cs c, True)))"

text \<open>A whole run: the situations of the successive calls; the number is that of the arrivals.\<close>

fun wp_run ::
  "(situation \<Rightarrow> 'a pilot_scheme \<Rightarrow> ('a pilot_scheme \<times> bool) option) \<Rightarrow> situation list \<Rightarrow> 'a pilot_scheme \<Rightarrow>
   ('a pilot_scheme \<times> int) option" where
  "wp_run call [] c = Some (c, 0)"
| "wp_run call (a # as) c =
     (case call a c of
        None \<Rightarrow> None
      | Some (c', _) \<Rightarrow>
          (case wp_run call as c' of
             None \<Rightarrow> None
           | Some (c'', n) \<Rightarrow> Some (c'', n + (if ct_dist_PnPe c' < 250 then 1 else 0))))"

section \<open>Counting arrivals\<close>

text \<open>
  How many arrivals are left before the machine goes home: the rest of this lap and four for each
  lap after it.
\<close>

definition wp_remaining :: "course \<Rightarrow> 'a pilot_scheme \<Rightarrow> int" where
  "wp_remaining cs c =
     (if wp_go_home c then 0
      else 4 * (cs_max_laps cs - wp_lap_count c) + (5 - (if wp_count c = 0 then 1 else wp_count c)))"

definition wp_ok :: "course \<Rightarrow> 'a pilot_scheme \<Rightarrow> bool" where
  "wp_ok cs c \<longleftrightarrow> 0 \<le> wp_count c \<and> wp_count c \<le> 4 \<and> wp_lap_count c \<le> cs_max_laps cs \<and> \<not> wp_go_home c"

definition wp_at :: "course \<Rightarrow> 'a pilot_scheme \<Rightarrow> bool" where
  "wp_at cs c \<longleftrightarrow> 1 \<le> wp_count c \<and> wp_cur c = cs_points cs ! nat (wp_count c - 1)"

text \<open>What flying and arriving leave alone.\<close>

definition same_leg :: "'a pilot_scheme \<Rightarrow> 'a pilot_scheme \<Rightarrow> bool" where
  "same_leg c c' \<longleftrightarrow> wp_count c' = wp_count c \<and> wp_lap_count c' = wp_lap_count c \<and> wp_go_home c' = wp_go_home c
    \<and> wp_cur c' = wp_cur c"

definition arrived :: "'a pilot_scheme \<Rightarrow> int" where
  "arrived c = (if ct_dist_PnPe c < 250 then 1 else 0)"

lemma wp_ok_remaining: "wp_ok cs c \<Longrightarrow> 0 < wp_remaining cs c"
  by (auto simp: wp_ok_def wp_remaining_def)

lemma wp_select_step:
  assumes "0 \<le> wp_count c" "wp_count c \<le> 5" "wp_lap_count c \<le> cs_max_laps cs" "\<not> wp_go_home c" "1 \<le> wp_count c"
  shows "wp_remaining cs (wp_select cs c) = wp_remaining cs c \<and> (wp_go_home (wp_select cs c) \<longleftrightarrow> wp_remaining cs (wp_select cs c) = 0)
    \<and> (wp_go_home (wp_select cs c) \<or> wp_ok cs (wp_select cs c) \<and> wp_at cs (wp_select cs c))"
proof -
  have "wp_count c \<in> {1, 2, 3, 4, 5}" using assms(2,5) by auto
  with assms(3,4) show ?thesis
    by (auto simp: wp_select_def wp_remaining_def wp_ok_def wp_at_def)
qed

locale waypoint_program =
  fixes cs :: course
    and fly :: "situation \<Rightarrow> 'a pilot_scheme \<Rightarrow> 'a pilot_scheme option"
    and arrive :: "'a pilot_scheme \<Rightarrow> 'a pilot_scheme"
    and home :: "situation \<Rightarrow> 'a pilot_scheme \<Rightarrow> ('a pilot_scheme \<times> bool) option"
  assumes fly_keeps: "fly a c = Some c' \<Longrightarrow> same_leg c c'"
    and arrive_keeps: "same_leg c ((arrive c)\<lparr>wp_count := wp_count c\<rparr>)"
    and arrive_counts: "wp_count (arrive c) = wp_count c + arrived c"
    and arrive_there: "ct_dist_PnPe (arrive c) = ct_dist_PnPe c"
begin

lemma call_counts:
  assumes "wp_ok cs c" "waypoint_call cs fly arrive home a c = Some (c', on)"
  shows "wp_remaining cs c' = wp_remaining cs c - arrived c'
    \<and> (wp_go_home c' \<longleftrightarrow> wp_remaining cs c' = 0) \<and> (wp_go_home c' \<or> wp_ok cs c' \<and> wp_at cs c')"
proof -
  let ?c1 = "next_cycle (wp_init cs c)"
  have init: "wp_ok cs ?c1" "1 \<le> wp_count ?c1" "wp_remaining cs ?c1 = wp_remaining cs c"
    using assms(1) by (auto simp: wp_init_def next_cycle_def wp_ok_def wp_remaining_def Let_def)
  obtain c2 where c2: "fly a ?c1 = Some c2"
    using assms(2) by (auto simp: waypoint_call_def split: option.splits)
  have keep: "wp_count c2 = wp_count ?c1" "wp_lap_count c2 = wp_lap_count ?c1" "\<not> wp_go_home c2"
    using fly_keeps [OF c2] init(1) by (simp_all add: same_leg_def wp_ok_def)
  have keep3: "wp_lap_count (arrive c2) = wp_lap_count c2" "wp_go_home (arrive c2) = wp_go_home c2"
    using arrive_keeps [of c2] by (simp_all add: same_leg_def)
  have c': "c' = wp_select cs (arrive c2)"
    using assms(2) c2 keep(3) keep3(2) by (simp add: waypoint_call_def Let_def)
  have arr: "arrived c' = arrived c2" by (simp add: c' wp_select_def arrived_def arrive_there)
  have bounds: "0 \<le> arrived c2" "arrived c2 \<le> 1" by (simp_all add: arrived_def)
  have rem: "wp_remaining cs (arrive c2) = wp_remaining cs c - arrived c2"
    unfolding init(3) [symmetric] using init keep keep3 arrive_counts [of c2] bounds
    by (simp add: wp_remaining_def wp_ok_def)
  have "wp_remaining cs c' = wp_remaining cs (arrive c2) \<and> (wp_go_home c' \<longleftrightarrow> wp_remaining cs c' = 0)
    \<and> (wp_go_home c' \<or> wp_ok cs c' \<and> wp_at cs c')"
    unfolding c' using init keep keep3 arrive_counts [of c2] bounds
    by (intro wp_select_step) (simp_all add: wp_ok_def)
  then show ?thesis unfolding rem arr by blast
qed

lemma run_counts:
  "wp_ok cs c \<Longrightarrow> 0 < wp_remaining cs c \<Longrightarrow> wp_run (waypoint_call cs fly arrive home) as c = Some (c', n) \<Longrightarrow>
   \<forall>k < length as. \<forall>d i. wp_run (waypoint_call cs fly arrive home) (take k as) c = Some (d, i) \<longrightarrow> \<not> wp_go_home d \<Longrightarrow>
   wp_remaining cs c' = wp_remaining cs c - n \<and> (wp_go_home c' \<longleftrightarrow> wp_remaining cs c' = 0)
   \<and> (as \<noteq> [] \<and> \<not> wp_go_home c' \<longrightarrow> wp_ok cs c' \<and> wp_at cs c')"
proof (induction as arbitrary: c n)
  case Nil
  then show ?case by (auto simp: wp_ok_def)
next
  case (Cons a as)
  from Cons.prems(3) obtain c1 on n1 where call: "waypoint_call cs fly arrive home a c = Some (c1, on)"
    and rest: "wp_run (waypoint_call cs fly arrive home) as c1 = Some (c', n1)" and n: "n = n1 + arrived c1"
    by (auto simp: arrived_def split: option.splits prod.splits)
  note step = call_counts [OF Cons.prems(1) call]
  show ?case
  proof (cases as)
    case Nil
    with rest n step show ?thesis by auto
  next
    case (Cons b bs)
    have later: "\<not> wp_go_home d" if "k < length as" "wp_run (waypoint_call cs fly arrive home) (take k as) c1 = Some (d, i)" for k d i
      using Cons.prems(4) that call by (auto dest!: spec [where x = "Suc k"])
    have "\<not> wp_go_home c1" using later [of 0] Cons by simp
    with step have ok: "wp_ok cs c1" by blast
    from Cons.IH [OF ok wp_ok_remaining [OF ok] rest] later step n Cons show ?thesis by auto
  qed
qed

lemma laps:
  assumes "wp_count c = 0" "\<not> wp_go_home c" "wp_lap_count c \<le> cs_max_laps cs"
    and "wp_run (waypoint_call cs fly arrive home) as c = Some (c', n)"
    and "\<forall>k < length as. \<forall>d i. wp_run (waypoint_call cs fly arrive home) (take k as) c = Some (d, i) \<longrightarrow> \<not> wp_go_home d"
  shows "(wp_go_home c' \<longleftrightarrow> n = 4 * (cs_max_laps cs + 1 - wp_lap_count c))
    \<and> (as \<noteq> [] \<and> \<not> wp_go_home c' \<longrightarrow> wp_cur c' = cs_points cs ! nat (n mod 4))"
proof -
  have ok: "wp_ok cs c" and all: "wp_remaining cs c = 4 * (cs_max_laps cs + 1 - wp_lap_count c)"
    using assms(1-3) by (auto simp: wp_ok_def wp_remaining_def)
  note run = run_counts [OF ok wp_ok_remaining [OF ok] assms(4,5)]
  have "wp_cur c' = cs_points cs ! nat (n mod 4)" if "as \<noteq> []" "\<not> wp_go_home c'"
  proof -
    have at: "wp_ok cs c'" "wp_at cs c'" using run that by auto
    have "n = 4 * (wp_lap_count c' - wp_lap_count c) + (wp_count c' - 1)"
      using run all at that by (auto simp: wp_remaining_def wp_at_def)
    moreover have "0 \<le> wp_count c' - 1" "wp_count c' - 1 < 4" using at by (auto simp: wp_ok_def wp_at_def)
    ultimately have "n mod 4 = wp_count c' - 1" by presburger
    with at(2) show ?thesis by (simp add: wp_at_def)
  qed
  then show ?thesis using run all by auto
qed

end

lemma wp_home_resets:
  "wp_home m yaw c = Some (c', False) \<Longrightarrow>
   wp_count c' = 0 \<and> wp_lap_count c' = 0 \<and> \<not> wp_go_home c' \<and> \<not> wp_final_yaw c'
   \<and> ct_WheelSpeedCmd c' = 0 \<and> ct_TurnRadiusCmd c' = 0"
  by (auto simp: wp_home_def Let_def split: option.splits if_splits prod.splits)

end
