(* ===== verification/Waypoints.thy ===== *)
theory Waypoints
  imports WaypointMachine
begin

text \<open>
  Samples/driveInnerLoop.c: the waypoint autopilot. Its control laws are those of utils/ except
  that the limit of the wheel speed is overwritten at once; the waypoint machine is that of theory
  WaypointMachine on a course of five laps. \<open>None\<close> is a division by zero or a conversion out of
  range, as in theory Control.
\<close>

section \<open>The course\<close>

definition WP_max_laps :: int where
  "WP_max_laps = 5"

definition WP1_V_Pn_Pe :: waypoint where "WP1_V_Pn_Pe = (450, -2000, -2000)"
definition WP2_V_Pn_Pe :: waypoint where "WP2_V_Pn_Pe = (450, 2000, -2000)"
definition WP3_V_Pn_Pe :: waypoint where "WP3_V_Pn_Pe = (450, 2000, 2000)"
definition WP4_V_Pn_Pe :: waypoint where "WP4_V_Pn_Pe = (450, -2000, 2000)"

definition inner_course :: course where
  "inner_course = \<lparr>cs_max_laps = WP_max_laps, cs_points = [WP1_V_Pn_Pe, WP2_V_Pn_Pe, WP3_V_Pn_Pe, WP4_V_Pn_Pe]\<rparr>"

section \<open>Control laws\<close>

text \<open>\<open>yawCommand\<close> of this program also sets \<open>SpeedCmd\<close> and returns -1 when the yaw is reached.\<close>

definition pilot_yawCommand :: "fpu \<Rightarrow> real \<Rightarrow> int \<Rightarrow> 'a control_scheme \<Rightarrow> ('a control_scheme \<times> int) option" where
  "pilot_yawCommand m yaw yaw_cmd c =
     (let yaw_err = fl m (fl m (of_int yaw_cmd) - yaw);
          c = c\<lparr>ct_SpeedCmd := fl m (- 2 * yaw_err)\<rparr>
      in case (heading_step m (fl m (of_int yaw_cmd)) yaw, to_int yaw_err) of
           (Some (v, r), Some e) \<Rightarrow>
             Some (c\<lparr>ct_WheelSpeedCmd := v, ct_TurnRadiusCmd := r\<rparr>,
                   if of_int \<bar>e\<bar> < (1 / 2 :: real) then -1 else yaw_cmd)
         | _ \<Rightarrow> None)"

text \<open>The limit of 200 is assigned before, not after, the value it should limit.\<close>

definition pilot_SpeedHeadingCommand ::
  "fpu \<Rightarrow> real \<Rightarrow> real \<Rightarrow> real \<Rightarrow> real \<Rightarrow> real \<Rightarrow> int \<Rightarrow> 'a control_scheme \<Rightarrow> 'a control_scheme option" where
  "pilot_SpeedHeadingCommand m SpeedCmd HeadingCmd_deg Speed Heading_deg dt cycle c =
     map_option (\<lambda>c'. c'\<lparr>ct_WheelSpeedCmd := fst (ct_WheelSpeedCmd_hist c')\<rparr>)
       (SpeedHeadingCommand m SpeedCmd HeadingCmd_deg Speed Heading_deg dt cycle c)"

text \<open>One call of \<open>positionControlMode\<close> up to its \<open>drive\<close>; the flag says to go on.\<close>

definition positionControlMode ::
  "fpu \<Rightarrow> real \<Rightarrow> real \<Rightarrow> real \<Rightarrow> real \<Rightarrow> real \<Rightarrow> real \<Rightarrow> 'a pilot_scheme \<Rightarrow> ('a pilot_scheme \<times> bool) option" where
  "positionControlMode m Pn_cmd Pe_cmd Pn Pe Speed Heading_deg c =
     (let c = PositionCommand m Pn_cmd Pe_cmd Pn Pe (next_cycle c)
      in case pilot_SpeedHeadingCommand m (ct_SpeedCmd c) (ct_HeadingCmd_deg c) Speed Heading_deg (delta_t m)
                (wp_cycle_count c) c of
           None \<Rightarrow> None
         | Some c \<Rightarrow>
             Some (if ct_dist_PnPe c < 250 then (c\<lparr>ct_SpeedCmd := 0, ct_TurnRadiusCmd := 0\<rparr>, False) else (c, True)))"

text \<open>The part of \<open>waypointControlMode\<close> that flies: position, speed and heading commands.\<close>

definition inner_fly :: "fpu \<Rightarrow> situation \<Rightarrow> 'a pilot_scheme \<Rightarrow> 'a pilot_scheme option" where
  "inner_fly m a c =
     (let c = PositionCommand m (fst (snd (wp_cur c))) (snd (snd (wp_cur c))) (at_Pn a) (at_Pe a) c;
          c = (if \<not> wp_go_home c then c\<lparr>ct_SpeedCmd := fst (wp_cur c)\<rparr> else c)
      in pilot_SpeedHeadingCommand m (ct_SpeedCmd c) (ct_HeadingCmd_deg c) (at_Speed a) (at_Heading a)
           (delta_t m) (wp_cycle_count c) c)"

definition waypointControlMode :: "fpu \<Rightarrow> situation \<Rightarrow> 'a pilot_scheme \<Rightarrow> ('a pilot_scheme \<times> bool) option" where
  "waypointControlMode m = waypoint_call inner_course (inner_fly m) wp_arrival (\<lambda>a. wp_home m (at_yaw a))"

section \<open>The program\<close>

record pilot_state = imu +
  ps_pilot :: pilot
  ps_file_open :: bool

record pilot_locals =
  pl_not_done :: bool
  pl_speed :: int
  pl_turn :: int
  pl_yaw_cmd :: int
  pl_posCmd_start :: bool
  pl_waypointCmd_start :: bool
  pl_Pn_cmd :: real
  pl_Pe_cmd :: real

text \<open>The letters of the keyboard are the character codes of \<open>h\<close>, \<open>n\<close>, \<open>p\<close> and \<open>w\<close>.\<close>

definition pilot_key :: "key \<Rightarrow> pilot_locals \<Rightarrow> pilot \<Rightarrow> pilot_locals \<times> pilot" where
  "pilot_key k l c =
     (let st = keyboard k (pl_speed l, pl_turn l);
          l = l\<lparr>pl_speed := fst st, pl_turn := snd st\<rparr>
      in if k = KEY_OTHER 110 then (l\<lparr>pl_yaw_cmd := 90\<rparr>, c)
         else if k = KEY_OTHER 112 then
           (l\<lparr>pl_posCmd_start := True, pl_Pn_cmd := -2000, pl_Pe_cmd := 0\<rparr>, c\<lparr>wp_cycle_count := 0\<rparr>)
         else if k = KEY_OTHER 119 then (l\<lparr>pl_waypointCmd_start := True\<rparr>, c\<lparr>wp_cycle_count := 0\<rparr>)
         else if k = KEY_q then (l\<lparr>pl_not_done := False\<rparr>, c)
         else (l, c))"

text \<open>The values of \<open>drive_values\<close>, kept as \<open>float\<close>: the radius is not truncated before \<open>drive\<close>.\<close>

definition pilot_keyboard :: "fpu \<Rightarrow> int \<times> int \<Rightarrow> real \<times> real" where
  "pilot_keyboard m st =
     (case st of
        (speed, turning) \<Rightarrow>
          if speed \<noteq> 0 then
            (fl m (of_int speed),
             if turning \<noteq> 0 then
               fl m (of_int (cdiv \<bar>turning\<bar> turning)
                 * (let q = 1000 / 2 ^ nat \<bar>turning\<bar> :: real in if q > 1 then q else 1))
             else 0)
          else if turning \<noteq> 0 then (fl m (of_int (wrap32 (\<bar>turning\<bar> * 50))), if turning > 0 then 1 else - 1)
          else (0, 0))"

text \<open>Which mode commands, in the order of the code: yaw, position, waypoints, keyboard.\<close>

definition pilot_mode :: "fpu \<Rightarrow> situation \<Rightarrow> pilot_locals \<Rightarrow> pilot \<Rightarrow> (pilot_locals \<times> pilot) option" where
  "pilot_mode m a l c =
     (if pl_yaw_cmd l \<noteq> -1 then
        map_option (\<lambda>(c, y). (l\<lparr>pl_yaw_cmd := y\<rparr>, c)) (pilot_yawCommand m (at_yaw a) (pl_yaw_cmd l) c)
      else if pl_posCmd_start l then
        map_option (\<lambda>(c, go_on). (l\<lparr>pl_posCmd_start := go_on\<rparr>, c))
          (positionControlMode m (pl_Pn_cmd l) (pl_Pe_cmd l) (at_Pn a) (at_Pe a) (at_Speed a) (at_Heading a) c)
      else if pl_waypointCmd_start l then
        map_option (\<lambda>(c, go_on). (l\<lparr>pl_waypointCmd_start := go_on\<rparr>, c)) (waypointControlMode m a c)
      else
        (case pilot_keyboard m (pl_speed l, pl_turn l) of
           (v, r) \<Rightarrow> Some (l, c\<lparr>ct_WheelSpeedCmd := v, ct_TurnRadiusCmd := r\<rparr>)))"

text \<open>
  The readings at the start of a turn: the dead reckoning needs the distance and the yaw, the
  other readings go to the window and the file. All getters of libIMU follow the same pointer.
\<close>

definition pilot_sense :: "fpu \<Rightarrow> real \<times> real \<Rightarrow> ('a pilot_state_scheme, situation option) state" where
  "pilot_sense m position = do {
     charge \<leftarrow> getCharge;
     create_velocity \<leftarrow> readSensor SENSOR_REQUESTED_VELOCITY;
     d \<leftarrow> readSensor SENSOR_DISTANCE;
     create_angle \<leftarrow> readSensor SENSOR_ANGLE;
     yaw \<leftarrow> getYaw;
     (case yaw of
        Ptr yaw \<Rightarrow> do {
          emit (EvPrintf ''Battery Charge: %d%%'' [charge]);
          (case updatePositionVelCreate m (fst position) (snd position) yaw (fl m (of_int d)) (delta_t m) of
             None \<Rightarrow> ret None
           | Some (Pn, Pe, Vn, Ve) \<Rightarrow>
               (case Vned2VGammaChi m Vn Ve 0 of
                  (Speed, FlightPath, Heading) \<Rightarrow>
                    ret (Some \<lparr>at_Pn = Pn, at_Pe = Pe, at_Speed = Speed, at_Heading = Heading, at_yaw = yaw\<rparr>)))
        }
      | _ \<Rightarrow> do { emit EvAbort; ret None })
   }"

text \<open>One turn of the main loop after the sensors have been read into \<open>a\<close>.\<close>

definition pilot_turn ::
  "fpu \<Rightarrow> (nat \<Rightarrow> real) \<Rightarrow> situation \<Rightarrow> key \<Rightarrow> pilot_locals \<Rightarrow> ('a pilot_state_scheme, pilot_locals option) state" where
  "pilot_turn m drand48 a k l = do {
     (if k = KEY_OTHER 104 then horn drand48 else ret ());
     c \<leftarrow> gets ps_pilot;
     let keyed = pilot_key k l c;
     (if k = KEY_q then do {
        emit (EvFclose ''MainOut_.txt'');
        modify (\<lambda>s. s\<lparr>ps_file_open := False\<rparr>)
      } else ret ());
     (case pilot_mode m a (fst keyed) (snd keyed) of
        None \<Rightarrow> ret None
      | Some (l, c) \<Rightarrow> do {
          modify (\<lambda>s. s\<lparr>ps_pilot := c\<rparr>);
          r \<leftarrow> drive_float (ct_WheelSpeedCmd c) (ct_TurnRadiusCmd c);
          (case r of
             None \<Rightarrow> ret None
           | Some _ \<Rightarrow> do {
               (if pl_not_done l then emit (EvPrintf ''%.4f,...,%d,...'' [wp_count c]) else ret ());
               ret (Some l)
             })
        })
   }"

text \<open>The loop, one key a turn; it ends when the keys do or after \<open>q\<close>.\<close>

fun pilot_loop ::
  "fpu \<Rightarrow> (nat \<Rightarrow> real) \<Rightarrow> key list \<Rightarrow> real \<times> real \<Rightarrow> pilot_locals \<Rightarrow> ('a pilot_state_scheme, pilot_locals option) state" where
  "pilot_loop m drand48 [] position l = ret (Some l)"
| "pilot_loop m drand48 (k # ks) position l =
     (if \<not> pl_not_done l then ret (Some l)
      else do {
        sensed \<leftarrow> pilot_sense m position;
        (case sensed of
           None \<Rightarrow> ret None
         | Some a \<Rightarrow> do {
             turned \<leftarrow> pilot_turn m drand48 a k l;
             (case turned of
                None \<Rightarrow> ret None
              | Some l \<Rightarrow> pilot_loop m drand48 ks (at_Pn a, at_Pe a) l)
           })
      })"

definition start_pilot_locals :: pilot_locals where
  "start_pilot_locals = \<lparr>pl_not_done = True, pl_speed = 0, pl_turn = 0, pl_yaw_cmd = -1, pl_posCmd_start = False,
     pl_waypointCmd_start = False, pl_Pn_cmd = 0, pl_Pe_cmd = 0\<rparr>"

text \<open>
  The whole program for a full command line; the code tests for two arguments only and then
  opens a \<open>NULL\<close> file name, the \<open>EvAbort\<close> here. The output file is taken to open.
\<close>

definition pilot_main ::
  "fpu \<Rightarrow> (nat \<Rightarrow> real) \<Rightarrow> string list \<Rightarrow> key list \<Rightarrow> ('a pilot_state_scheme, unit) state" where
  "pilot_main m drand48 args ks =
     (case args of
        device # imu # name # _ \<Rightarrow> do {
          r \<leftarrow> startOI_MT device;
          (case r of
             Crashed \<Rightarrow> ret ()
           | _ \<Rightarrow> do {
               i \<leftarrow> startIMU_File imu name;
               (case i of
                  StartExit n \<Rightarrow> ret ()
                | StartCrashed \<Rightarrow> ret ()
                | _ \<Rightarrow> do {
                    modify (\<lambda>s. s\<lparr>ps_file_open := True\<rparr>);
                    l \<leftarrow> pilot_loop m drand48 ks (0, 0) start_pilot_locals;
                    (case l of
                       None \<Rightarrow> ret ()
                     | Some _ \<Rightarrow> do { stopOI_MT; stopIMU_MT; ret () })
                  })
             })
        }
      | [device, imu] \<Rightarrow> emit EvAbort
      | _ \<Rightarrow> do { emit (EvPrintf ''Usage: drive DEVICE'' []); emit (EvExit 1) })"

section \<open>Laps\<close>

lemma SpeedHeadingCommand_same_leg:
  "pilot_SpeedHeadingCommand m v h sp hd0 dt cyc c = Some c' \<Longrightarrow> same_leg c c'" for c :: "'a pilot_scheme"
  by (auto simp: same_leg_def pilot_SpeedHeadingCommand_def SpeedHeadingCommand_def Let_def
      split: option.splits if_splits prod.splits)

lemma PositionCommand_same_leg: "same_leg c (PositionCommand m a b p e c)" for c :: "'a pilot_scheme"
  by (simp add: same_leg_def PositionCommand_def Let_def)

lemma inner_fly_same_leg:
  assumes "inner_fly m a c = Some c'"
  shows "same_leg c c'"
proof -
  let ?p = "PositionCommand m (fst (snd (wp_cur c))) (snd (snd (wp_cur c))) (at_Pn a) (at_Pe a) c"
  let ?q = "if \<not> wp_go_home ?p then ?p\<lparr>ct_SpeedCmd := fst (wp_cur ?p)\<rparr> else ?p"
  have "same_leg ?q c'"
    using assms by (intro SpeedHeadingCommand_same_leg) (simp add: inner_fly_def Let_def)
  moreover have "same_leg c ?q" using PositionCommand_same_leg [of c m] by (simp add: same_leg_def)
  ultimately show ?thesis by (simp add: same_leg_def)
qed

lemma wp_arrival_laws:
  "same_leg c ((wp_arrival c)\<lparr>wp_count := wp_count c\<rparr>)" "wp_count (wp_arrival c) = wp_count c + arrived c"
  "ct_dist_PnPe (wp_arrival c) = ct_dist_PnPe c"
  by (simp_all add: wp_arrival_def same_leg_def arrived_def)

interpretation inner: waypoint_program inner_course "inner_fly m" wp_arrival "\<lambda>a. wp_home m (at_yaw a)" for m
  by unfold_locales (simp_all add: inner_fly_same_leg wp_arrival_laws)

section \<open>The property\<close>

text \<open>
  C24. Flying the waypoints. A run that starts as the program does flies to the waypoints in their
  order and goes home exactly with the 20th arrival, whatever the sensors and the arithmetic
  say; a run that starts where an earlier one ended, at home, goes home with the 24th, because the
  end of the run sets \<open>WP_lap_count\<close> to 0 and the program starts with 1: one lap more.
\<close>

theorem waypoint_laps:
  assumes "wp_count c = 0 \<and> wp_lap_count c = 1 \<and> \<not> wp_go_home c \<or> wp_home m' yaw before = Some (c, False)"
    and "wp_run (waypointControlMode m) as c = Some (c', n)"
    and "\<forall>k < length as. \<forall>d i. wp_run (waypointControlMode m) (take k as) c = Some (d, i) \<longrightarrow> \<not> wp_go_home d"
  shows "(wp_go_home c' \<longleftrightarrow> n = (if wp_lap_count c = 1 then 20 else 24))
    \<and> (as \<noteq> [] \<and> \<not> wp_go_home c' \<longrightarrow>
        wp_cur c' = [WP1_V_Pn_Pe, WP2_V_Pn_Pe, WP3_V_Pn_Pe, WP4_V_Pn_Pe] ! nat (n mod 4))"
proof -
  have c: "wp_count c = 0" "\<not> wp_go_home c" "wp_lap_count c = 1 \<or> wp_lap_count c = 0"
    using assms(1) by (auto dest: wp_home_resets)
  then have "wp_lap_count c \<le> cs_max_laps inner_course" by (auto simp: inner_course_def WP_max_laps_def)
  from inner.laps [OF c(1,2) this assms(2,3) [unfolded waypointControlMode_def]] c(3) show ?thesis
    by (auto simp: inner_course_def WP_max_laps_def)
qed

text \<open>A machine that has not been used yet, and the first waypoint as a position.\<close>

definition new_pilot :: pilot where
  "new_pilot = \<lparr>ct_SpeedCmd = 0, ct_WheelSpeedCmd = 0, ct_TurnRadiusCmd = 0, ct_HeadingCmd_deg = 0,
     ct_HeadingErr_hist = (0, 0, 0), ct_WheelSpeedCmd_hist = (0, 0), ct_TurnRadiusCmd_hist = (0, 0),
     ct_dist_PnPe = 0, wp_cycle_count = 0, wp_count = 0, wp_lap_count = 1,
     wp_go_home = False, wp_final_yaw = False, wp_cur = (0, 0, 0)\<rparr>"

definition at_WP1 :: situation where
  "at_WP1 = \<lparr>at_Pn = -2000, at_Pe = -2000, at_Speed = 0, at_Heading = 0, at_yaw = 0\<rparr>"

lemma arrive_WP1: "\<exists>c'. wp_run (waypointControlMode ieee) [at_WP1] new_pilot = Some (c', 1)"
  using single.rnd_int [of 0] double.rnd_int [of 0]
  by (simp add: ieee_def waypointControlMode_def waypoint_call_def inner_course_def inner_fly_def new_pilot_def at_WP1_def wp_init_def next_cycle_def PositionCommand_def
      pilot_SpeedHeadingCommand_def SpeedHeadingCommand_def wp_arrival_def wp_select_def Let_def WP1_V_Pn_Pe_def)

lemma waypoint_laps_witness:
  "\<exists>c'. wp_run (waypointControlMode ieee) [at_WP1] new_pilot = Some (c', 1) \<and> \<not> wp_go_home c' \<and> wp_cur c' = WP2_V_Pn_Pe"
proof -
  obtain c' where run: "wp_run (waypointControlMode ieee) [at_WP1] new_pilot = Some (c', 1)" using arrive_WP1 by blast
  have "\<forall>k < length [at_WP1]. \<forall>d i. wp_run (waypointControlMode ieee) (take k [at_WP1]) new_pilot = Some (d, i) \<longrightarrow> \<not> wp_go_home d"
    by (simp add: new_pilot_def)
  from waypoint_laps [OF _ run this] have "\<not> wp_go_home c' \<and> wp_cur c' = WP2_V_Pn_Pe"
    by (simp add: new_pilot_def)
  with run show ?thesis by blast
qed

end
