(* ===== verification/DriveIMU.thy ===== *)
theory DriveIMU
  imports Waypoints
begin

text \<open>
  Samples/driveIMU.c: the earlier version of the waypoint autopilot, with its own control laws
  (the wheel speed is the commanded one, between 150 and 300), a course of three laps, a second
  position estimate from the accelerometers, and a keyboard mode in whole numbers. Globals that
  are only displayed (\<open>yaw_err\<close>, \<open>speed_cmd\<close>, \<open>posX_new\<close>, \<open>posY_new\<close>, \<open>sample_rate\<close>, which is set
  to 0.1 before every use) are left out.
\<close>

section \<open>State\<close>

text \<open>\<open>ct_TurnRadiusCmd\<close> and \<open>ct_HeadingCmd_deg\<close> stand for the variables of \<open>main\<close> the modes write through.\<close>

record imu_pilot = pilot +
  dv_HeadingCmd_hist :: "real \<times> real \<times> real \<times> real"
  dv_time_stamp_hist :: "real \<times> real"
  dv_vel :: "real \<times> real"
  dv_speed_mag :: real
  dv_turn_radius :: real

definition imu_course :: course where
  "imu_course = \<lparr>cs_max_laps = 3,
     cs_points = [(300, -2000, -2000), (300, 2000, -2000), (300, 2000, 2000), (300, -2000, 2000)]\<rparr>"

section \<open>Control laws\<close>

text \<open>The three assignments that shift the history all copy the newest heading.\<close>

definition imu_PositionCommand ::
  "fpu \<Rightarrow> real \<Rightarrow> real \<Rightarrow> real \<Rightarrow> real \<Rightarrow> 'a imu_pilot_scheme \<Rightarrow> 'a imu_pilot_scheme" where
  "imu_PositionCommand m Pn_cmd Pe_cmd Pn Pe c =
     (let c = PositionCommand m Pn_cmd Pe_cmd Pn Pe c; h = ct_HeadingCmd_deg c
      in c\<lparr>dv_HeadingCmd_hist := (h, h, h, h)\<rparr>)"

definition imu_SpeedHeadingCommand ::
  "fpu \<Rightarrow> real \<Rightarrow> real \<Rightarrow> real \<Rightarrow> real \<Rightarrow> int \<Rightarrow> 'a control_scheme \<Rightarrow> 'a control_scheme option" where
  "imu_SpeedHeadingCommand m SpeedCmd HeadingCmd_deg Heading_deg sample_rate cycle_count c0 =
     (let HeadingErr = heading_error m HeadingCmd_deg Heading_deg;
          stepped =
            (case ct_HeadingErr_hist c0 of
               (e0, e1, e2) \<Rightarrow>
                 if cycle_count \<le> 1 then Some (c0\<lparr>ct_HeadingErr_hist := (0, 0, 0), ct_TurnRadiusCmd_hist := (0, 0)\<rparr>)
                 else if cycle_count = 2 then
                   Some (c0\<lparr>ct_HeadingErr_hist := (0, e1, e2), ct_TurnRadiusCmd_hist := (0, 0)\<rparr>)
                 else if HeadingErr = 0 \<or> sample_rate = 0 then None
                 else
                   (let CorrectedErr = fl m (- 1 / HeadingErr); tr1 = snd (ct_TurnRadiusCmd_hist c0)
                    in Some (c0\<lparr>ct_HeadingErr_hist := (CorrectedErr, e1, e2),
                         ct_TurnRadiusCmd_hist := (turn_radius_step m sample_rate tr1 (CorrectedErr, e1, e2), tr1)\<rparr>)))
      in case stepped of
           None \<Rightarrow> None
         | Some c \<Rightarrow>
             (case (ct_HeadingErr_hist c, ct_TurnRadiusCmd_hist c) of
                ((e0, e1, e2), (tr0, tr1)) \<Rightarrow>
                  (let tr = (if tr0 < 1 \<and> tr0 > 0 then 1 else tr0);
                       tr = (if tr > - 1 \<and> tr < 0 then - 1 else tr);
                       v = (if SpeedCmd > 300 then 300 else if SpeedCmd < 150 then 150 else SpeedCmd)
                   in Some (c\<lparr>ct_WheelSpeedCmd := v, ct_TurnRadiusCmd := tr,
                        ct_HeadingErr_hist := (e0, e0, e1), ct_TurnRadiusCmd_hist := (tr, tr)\<rparr>))))"

text \<open>Only this mode drives with its own two variables.\<close>

definition headingControl :: "fpu \<Rightarrow> real \<Rightarrow> int \<Rightarrow> 'a imu_pilot_scheme \<Rightarrow> ('a imu_pilot_scheme \<times> int) option" where
  "headingControl m yaw heading c =
     (case (heading_step m (fl m (of_int heading)) yaw, to_int (fl m (fl m (of_int heading) - yaw))) of
        (Some (v, r), Some e) \<Rightarrow>
          Some (c\<lparr>dv_speed_mag := v, dv_turn_radius := r\<rparr>, if of_int \<bar>e\<bar> < (1 / 2 :: real) then -1 else heading)
      | _ \<Rightarrow> None)"

text \<open>The position command is computed, then speed and heading are replaced by 500 and 0.\<close>

definition imu_positionControlMode ::
  "fpu \<Rightarrow> real \<Rightarrow> real \<Rightarrow> situation \<Rightarrow> 'a imu_pilot_scheme \<Rightarrow> ('a imu_pilot_scheme \<times> bool) option" where
  "imu_positionControlMode m Pn_cmd Pe_cmd a c =
     (let c = imu_PositionCommand m Pn_cmd Pe_cmd (at_Pn a) (at_Pe a) (next_cycle c);
          c = c\<lparr>ct_SpeedCmd := 500, ct_HeadingCmd_deg := 0\<rparr>
      in case imu_SpeedHeadingCommand m (ct_SpeedCmd c) (ct_HeadingCmd_deg c) (at_Heading a) (delta_t m) (wp_cycle_count c) c of
           None \<Rightarrow> None
         | Some c \<Rightarrow>
             Some (if ct_dist_PnPe c < 250 then (c\<lparr>ct_SpeedCmd := 0, ct_TurnRadiusCmd := 0\<rparr>, False) else (c, True)))"

definition imu_fly :: "fpu \<Rightarrow> situation \<Rightarrow> 'a imu_pilot_scheme \<Rightarrow> 'a imu_pilot_scheme option" where
  "imu_fly m a c =
     (let c = imu_PositionCommand m (fst (snd (wp_cur c))) (snd (snd (wp_cur c))) (at_Pn a) (at_Pe a) c;
          c = (if \<not> wp_go_home c then c\<lparr>ct_SpeedCmd := fst (wp_cur c)\<rparr> else c)
      in imu_SpeedHeadingCommand m (ct_SpeedCmd c) (ct_HeadingCmd_deg c) (at_Heading a) (delta_t m) (wp_cycle_count c) c)"

definition imu_arrival :: "'a imu_pilot_scheme \<Rightarrow> 'a imu_pilot_scheme" where
  "imu_arrival c =
     (if ct_dist_PnPe c < 250
      then (case dv_HeadingCmd_hist c of
              (h, _) \<Rightarrow> c\<lparr>wp_count := wp_count c + 1, dv_HeadingCmd_hist := (h, h, h, h),
                       ct_HeadingErr_hist := (0, 0, 0), ct_TurnRadiusCmd_hist := (0, 0)\<rparr>)
      else c)"

definition imu_waypointControlMode ::
  "fpu \<Rightarrow> situation \<Rightarrow> 'a imu_pilot_scheme \<Rightarrow> ('a imu_pilot_scheme \<times> bool) option" where
  "imu_waypointControlMode m = waypoint_call imu_course (imu_fly m) imu_arrival (\<lambda>a. wp_home m (at_yaw a))"

section \<open>The program\<close>

record imu_drive_state = imu +
  ds_pilot :: imu_pilot
  ds_file_open :: bool

text \<open>One axis of the integration of the accelerometers: velocity and position.\<close>

definition update_axis :: "fpu \<Rightarrow> real \<Rightarrow> real \<times> real \<Rightarrow> real \<times> real" where
  "update_axis m accel st =
     (case st of
        (vel, pos) \<Rightarrow>
          (let vel_new = fl m (db m (vel + db m (db m (accel * lit m (981 / 100)) * delta_t m)))
           in (vel_new, fl m (pos + fl m (vel_new * delta_t m)))))"

definition updatePosition :: "fpu \<Rightarrow> real \<Rightarrow> real \<Rightarrow> real \<times> real \<Rightarrow> 'a imu_pilot_scheme \<Rightarrow> 'a imu_pilot_scheme \<times> (real \<times> real)" where
  "updatePosition m accelX accelY pos c =
     (case (update_axis m accelX (fst (dv_vel c), fst pos), update_axis m accelY (snd (dv_vel c), snd pos)) of
        ((vx, x), (vy, y)) \<Rightarrow> (c\<lparr>dv_vel := (vx, vy)\<rparr>, (x, y)))"

definition imu_key :: "key \<Rightarrow> pilot_locals \<Rightarrow> 'a imu_pilot_scheme \<Rightarrow> pilot_locals \<times> 'a imu_pilot_scheme" where
  "imu_key k l c =
     (let st = keyboard k (pl_speed l, pl_turn l);
          l = l\<lparr>pl_speed := fst st, pl_turn := snd st\<rparr>;
          restarted = c\<lparr>wp_cycle_count := 0, dv_time_stamp_hist := (0, 0)\<rparr>
      in if k = KEY_OTHER 110 then (l\<lparr>pl_yaw_cmd := 90\<rparr>, c)
         else if k = KEY_OTHER 112 then (l\<lparr>pl_posCmd_start := True, pl_Pn_cmd := 2000, pl_Pe_cmd := 0\<rparr>, restarted)
         else if k = KEY_OTHER 119 then
           (l\<lparr>pl_waypointCmd_start := True, pl_Pn_cmd := 2500, pl_Pe_cmd := -1500\<rparr>, restarted)
         else if k = KEY_q then (l\<lparr>pl_not_done := False\<rparr>, c)
         else (l, c))"

text \<open>What a mode hands to \<open>drive\<close>: floats, or the integers of the keyboard mode.\<close>

datatype drive_args = FloatArgs real real | IntArgs int int

definition imu_drive :: "drive_args \<Rightarrow> ('a create_scheme, int option) state" where
  "imu_drive d =
     (case d of
        FloatArgs v r \<Rightarrow> drive_float v r
      | IntArgs v r \<Rightarrow> do { x \<leftarrow> drive (to_short v) (to_short r); ret (Some x) })"

definition imu_mode ::
  "fpu \<Rightarrow> situation \<Rightarrow> pilot_locals \<Rightarrow> 'a imu_pilot_scheme \<Rightarrow> (pilot_locals \<times> 'a imu_pilot_scheme \<times> drive_args) option" where
  "imu_mode m a l c =
     (if pl_yaw_cmd l \<noteq> -1 then
        map_option (\<lambda>(c, y). (l\<lparr>pl_yaw_cmd := y\<rparr>, c, FloatArgs (dv_speed_mag c) (dv_turn_radius c)))
          (headingControl m (at_yaw a) (pl_yaw_cmd l) c)
      else if pl_posCmd_start l then
        map_option (\<lambda>(c, go_on). (l\<lparr>pl_posCmd_start := go_on\<rparr>, c, FloatArgs (ct_WheelSpeedCmd c) (ct_TurnRadiusCmd c)))
          (imu_positionControlMode m (pl_Pn_cmd l) (pl_Pe_cmd l) a c)
      else if pl_waypointCmd_start l then
        map_option (\<lambda>(c, go_on). (l\<lparr>pl_waypointCmd_start := go_on\<rparr>, c, FloatArgs (ct_WheelSpeedCmd c) (ct_TurnRadiusCmd c)))
          (imu_waypointControlMode m a c)
      else
        (case drive_values (pl_speed l, pl_turn l) of (v, r) \<Rightarrow> Some (l, c, IntArgs v r)))"

text \<open>
  The readings at the start of a turn, the integration of the accelerometers (\<open>pos\<close>) and the dead
  reckoning (\<open>created\<close>). \<open>with_imu\<close> is the dereference of a getter's result.
\<close>

definition with_imu :: "('a imu_scheme, real pointer) state \<Rightarrow> (real \<Rightarrow> ('a imu_scheme, 'b option) state) \<Rightarrow> ('a imu_scheme, 'b option) state" where
  "with_imu getter body = do {
     p \<leftarrow> getter;
     (case p of Ptr x \<Rightarrow> body x | _ \<Rightarrow> do { emit EvAbort; ret None })
   }"

definition imu_sense ::
  "fpu \<Rightarrow> real \<times> real \<Rightarrow> real \<times> real \<Rightarrow> ('a imu_drive_state_scheme, ((real \<times> real) \<times> situation) option) state" where
  "imu_sense m pos created = do {
     charge \<leftarrow> getCharge;
     create_velocity \<leftarrow> readSensor SENSOR_REQUESTED_VELOCITY;
     d \<leftarrow> readSensor SENSOR_DISTANCE;
     create_angle \<leftarrow> readSensor SENSOR_ANGLE;
     with_imu getYaw (\<lambda>yaw. with_imu getAccelX (\<lambda>accelX. with_imu getAccelY (\<lambda>accelY. do {
       c \<leftarrow> gets ds_pilot;
       let moved = updatePosition m accelX accelY pos c;
       modify (\<lambda>s. s\<lparr>ds_pilot := fst moved\<rparr>);
       with_imu getTimeStamp (\<lambda>now. with_imu getYaw (\<lambda>psi_new. do {
         modify (\<lambda>s. s\<lparr>ds_pilot := (ds_pilot s)\<lparr>dv_time_stamp_hist := (now, fst (dv_time_stamp_hist (ds_pilot s)))\<rparr>\<rparr>);
         emit (EvPrintf ''Battery Charge: %d%%'' [charge]);
         (case updatePositionVelCreate m (fst created) (snd created) psi_new (fl m (of_int d)) (delta_t m) of
            None \<Rightarrow> ret None
          | Some (Pn, Pe, Vn, Ve) \<Rightarrow>
              (case Vned2VGammaChi m Vn Ve 0 of
                 (Speed, FlightPath, Heading) \<Rightarrow>
                   ret (Some (snd moved,
                     \<lparr>at_Pn = Pn, at_Pe = Pe, at_Speed = Speed, at_Heading = Heading, at_yaw = yaw\<rparr>))))
       }))
     })))
   }"

text \<open>One turn of the main loop after the sensors have been read into \<open>a\<close>.\<close>

definition imu_turn_of_main ::
  "fpu \<Rightarrow> (nat \<Rightarrow> real) \<Rightarrow> situation \<Rightarrow> key \<Rightarrow> pilot_locals \<Rightarrow> ('a imu_drive_state_scheme, pilot_locals option) state" where
  "imu_turn_of_main m drand48 a k l = do {
     (if k = KEY_OTHER 104 then horn drand48 else ret ());
     c \<leftarrow> gets ds_pilot;
     let keyed = imu_key k l c;
     (if k = KEY_q then do {
        emit (EvFclose ''MainOut_.txt'');
        modify (\<lambda>s. s\<lparr>ds_file_open := False\<rparr>)
      } else ret ());
     (if pl_yaw_cmd (fst keyed) \<noteq> -1 then do {
        emit (EvPrintf ''Yaw      : %.2f'' []);
        emit (EvPrintf ''Yaw Error: %.2f'' [])
      } else ret ());
     (case imu_mode m a (fst keyed) (snd keyed) of
        None \<Rightarrow> ret None
      | Some (l, c, d) \<Rightarrow> do {
          modify (\<lambda>s. s\<lparr>ds_pilot := c\<rparr>);
          r \<leftarrow> imu_drive d;
          (case r of
             None \<Rightarrow> ret None
           | Some _ \<Rightarrow> do {
               (if pl_not_done l then emit (EvPrintf ''%.4f,...,%d,...'' [wp_count c]) else ret ());
               ret (Some l)
             })
        })
   }"

text \<open>The loop, one key a turn; it ends when the keys do or after \<open>q\<close>.\<close>

fun imu_drive_loop ::
  "fpu \<Rightarrow> (nat \<Rightarrow> real) \<Rightarrow> key list \<Rightarrow> real \<times> real \<Rightarrow> real \<times> real \<Rightarrow> pilot_locals \<Rightarrow>
   ('a imu_drive_state_scheme, pilot_locals option) state" where
  "imu_drive_loop m drand48 [] pos created l = ret (Some l)"
| "imu_drive_loop m drand48 (k # ks) pos created l =
     (if \<not> pl_not_done l then ret (Some l)
      else do {
        sensed \<leftarrow> imu_sense m pos created;
        (case sensed of
           None \<Rightarrow> ret None
         | Some (pos, a) \<Rightarrow> do {
             turned \<leftarrow> imu_turn_of_main m drand48 a k l;
             (case turned of
                None \<Rightarrow> ret None
              | Some l \<Rightarrow> imu_drive_loop m drand48 ks pos (at_Pn a, at_Pe a) l)
           })
      })"

definition imu_drive_main ::
  "fpu \<Rightarrow> (nat \<Rightarrow> real) \<Rightarrow> string list \<Rightarrow> key list \<Rightarrow> ('a imu_drive_state_scheme, unit) state" where
  "imu_drive_main m drand48 args ks =
     (case args of
        device # imu # name # _ \<Rightarrow> do {
          r \<leftarrow> startOI_MT device;
          (case r of
             Crashed \<Rightarrow> ret ()
           | _ \<Rightarrow> do {
               i \<leftarrow> startIMU_File imu name;
               (case i of
                  StartExit n \<Rightarrow> ret ()
                | StartCrashed \<Rightarrow> ret ()
                | _ \<Rightarrow> do {
                    modify (\<lambda>s. s\<lparr>ds_file_open := True\<rparr>);
                    l \<leftarrow> imu_drive_loop m drand48 ks (0, 0) (0, 0) start_pilot_locals;
                    (case l of
                       None \<Rightarrow> ret ()
                     | Some _ \<Rightarrow> do { stopOI_MT; stopIMU_MT; ret () })
                  })
             })
        }
      | [device, imu] \<Rightarrow> emit EvAbort
      | _ \<Rightarrow> do { emit (EvPrintf ''Usage: drive DEVICE'' []); emit (EvExit 1) })"

section \<open>Laps\<close>

lemma imu_SpeedHeadingCommand_same_leg:
  "imu_SpeedHeadingCommand m v h hd0 dt cyc c = Some c' \<Longrightarrow> same_leg c c'" for c :: "'a pilot_scheme"
  by (auto simp: same_leg_def imu_SpeedHeadingCommand_def Let_def split: option.splits if_splits prod.splits)

lemma imu_fly_same_leg:
  assumes "imu_fly m a c = Some c'"
  shows "same_leg c c'"
proof -
  let ?p = "imu_PositionCommand m (fst (snd (wp_cur c))) (snd (snd (wp_cur c))) (at_Pn a) (at_Pe a) c"
  let ?q = "if \<not> wp_go_home ?p then ?p\<lparr>ct_SpeedCmd := fst (wp_cur ?p)\<rparr> else ?p"
  have "same_leg ?q c'"
    using assms by (intro imu_SpeedHeadingCommand_same_leg) (simp add: imu_fly_def Let_def)
  moreover have "same_leg c ?q"
    using PositionCommand_same_leg [of c m] by (simp add: same_leg_def imu_PositionCommand_def Let_def)
  ultimately show ?thesis by (simp add: same_leg_def)
qed

lemma imu_arrival_laws:
  "same_leg c ((imu_arrival c)\<lparr>wp_count := wp_count c\<rparr>)" "wp_count (imu_arrival c) = wp_count c + arrived c"
  "ct_dist_PnPe (imu_arrival c) = ct_dist_PnPe c"
  by (simp_all add: imu_arrival_def same_leg_def arrived_def split: prod.split)

interpretation three_laps: waypoint_program imu_course "imu_fly m" imu_arrival "\<lambda>a. wp_home m (at_yaw a)" for m
  by unfold_locales (simp_all add: imu_fly_same_leg imu_arrival_laws)

text \<open>The three laps of this program: twelve arrivals, sixteen in a later run.\<close>

lemma imu_waypoint_laps:
  assumes "wp_count c = 0 \<and> wp_lap_count c = 1 \<and> \<not> wp_go_home c \<or> wp_home m' yaw before = Some (c, False)"
    and "wp_run (imu_waypointControlMode m) as c = Some (c', n)"
    and "\<forall>k < length as. \<forall>d i. wp_run (imu_waypointControlMode m) (take k as) c = Some (d, i) \<longrightarrow> \<not> wp_go_home d"
  shows "wp_go_home c' \<longleftrightarrow> n = (if wp_lap_count c = 1 then 12 else 16)"
proof -
  have c: "wp_count c = 0" "\<not> wp_go_home c" "wp_lap_count c = 1 \<or> wp_lap_count c = 0"
    using assms(1) by (auto dest: wp_home_resets)
  then have "wp_lap_count c \<le> cs_max_laps imu_course" by (auto simp: imu_course_def)
  from three_laps.laps [OF c(1,2) this assms(2,3) [unfolded imu_waypointControlMode_def]] c(3) show ?thesis
    by (auto simp: imu_course_def)
qed

section \<open>The position mode\<close>

text \<open>The control law reads the histories only, which the position command leaves alone.\<close>

lemma imu_SpeedHeadingCommand_law:
  assumes "ct_HeadingErr_hist c = ct_HeadingErr_hist d" "ct_TurnRadiusCmd_hist c = ct_TurnRadiusCmd_hist d"
    and "imu_SpeedHeadingCommand m v h hd0 dt cyc c = Some c'"
  shows "\<exists>d'. imu_SpeedHeadingCommand m v h hd0 dt cyc d = Some d' \<and> ct_TurnRadiusCmd d' = ct_TurnRadiusCmd c'
    \<and> ct_WheelSpeedCmd d' = max 150 (min 300 v) \<and> ct_WheelSpeedCmd c' = max 150 (min 300 v)"
  using assms
  by (cases "ct_HeadingErr_hist d")
    (auto simp: imu_SpeedHeadingCommand_def Let_def split: if_splits prod.splits)

lemma imu_position_commands:
  assumes "imu_positionControlMode m Pn_cmd Pe_cmd a c = Some (c', go_on)"
  shows "ct_WheelSpeedCmd c' = 300 \<and> (\<not> go_on \<longrightarrow> ct_TurnRadiusCmd c' = 0)
    \<and> (\<exists>d go_on'. imu_positionControlMode m Pn_cmd' Pe_cmd' a c = Some (d, go_on') \<and> ct_WheelSpeedCmd d = 300
        \<and> (go_on \<and> go_on' \<longrightarrow> ct_TurnRadiusCmd d = ct_TurnRadiusCmd c'))"
proof -
  let ?start = "\<lambda>p e. (imu_PositionCommand m p e (at_Pn a) (at_Pe a) (next_cycle c))\<lparr>ct_SpeedCmd := 500, ct_HeadingCmd_deg := 0\<rparr>"
  let ?law = "\<lambda>p e. imu_SpeedHeadingCommand m 500 0 (at_Heading a) (delta_t m) (wp_cycle_count (next_cycle c)) (?start p e)"
  have run: "imu_positionControlMode m p e a c = (case ?law p e of None \<Rightarrow> None
      | Some c \<Rightarrow> Some (if ct_dist_PnPe c < 250 then (c\<lparr>ct_SpeedCmd := 0, ct_TurnRadiusCmd := 0\<rparr>, False) else (c, True)))" for p e
    by (simp add: imu_positionControlMode_def imu_PositionCommand_def PositionCommand_def Let_def)
  obtain c1 where c1: "?law Pn_cmd Pe_cmd = Some c1"
    using assms by (auto simp: run split: option.splits)
  obtain d1 where d1: "?law Pn_cmd' Pe_cmd' = Some d1" "ct_TurnRadiusCmd d1 = ct_TurnRadiusCmd c1"
    "ct_WheelSpeedCmd d1 = 300" "ct_WheelSpeedCmd c1 = 300"
    using imu_SpeedHeadingCommand_law [OF _ _ c1, of "?start Pn_cmd' Pe_cmd'"]
    by (auto simp: imu_PositionCommand_def PositionCommand_def Let_def)
  show ?thesis using assms unfolding run c1 d1(1) using d1(2-4) by (auto split: if_splits)
qed

text \<open>
  The position mode of driveIMU.c flies due north: whatever target it is given, it commands
  300 mm/s and, until it is within 250 mm of the target, the same turn radius as for any other
  target; the speed command and the heading of the target are overwritten by 500 and 0. At the
  target it still commands 300 mm/s, straight ahead.
\<close>
lemma imu_position_ignores_target:
  assumes "imu_positionControlMode m Pn_cmd Pe_cmd a c = Some (c', go_on)"
  shows "ct_WheelSpeedCmd c' = 300 \<and> (\<not> go_on \<longrightarrow> ct_TurnRadiusCmd c' = 0)
    \<and> (\<exists>d go_on'. imu_positionControlMode m Pn_cmd' Pe_cmd' a c = Some (d, go_on') \<and> ct_WheelSpeedCmd d = 300
        \<and> (go_on \<and> go_on' \<longrightarrow> ct_TurnRadiusCmd d = ct_TurnRadiusCmd c'))"
  using assms by (rule imu_position_commands)

definition new_imu_pilot :: imu_pilot where
  "new_imu_pilot = pilot.extend new_pilot
     \<lparr>dv_HeadingCmd_hist = (0, 0, 0, 0), dv_time_stamp_hist = (0, 0), dv_vel = (0, 0), dv_speed_mag = 0, dv_turn_radius = 1\<rparr>"

lemma imu_position_ignores_target_witness:
  "\<exists>c' go_on. imu_positionControlMode ieee (-2000) (-2000) at_WP1 new_imu_pilot = Some (c', go_on)
    \<and> ct_WheelSpeedCmd c' = 300"
proof -
  have "\<exists>c' go_on. imu_positionControlMode ieee (-2000) (-2000) at_WP1 new_imu_pilot = Some (c', go_on)"
    by (simp add: imu_positionControlMode_def imu_PositionCommand_def PositionCommand_def imu_SpeedHeadingCommand_def
        new_imu_pilot_def new_pilot_def next_cycle_def Let_def pilot.defs split: if_split)
  then show ?thesis using imu_position_ignores_target by blast
qed

end
