(* ===== verification/FastSerial.thy ===== *)
theory FastSerial
  imports Prelude
begin

text \<open>
  The serial port of the sensor board (Software/Arduino/FastSerial.cpp and FastSerial.h): two ring
  buffers whose sizes are powers of two, filled and emptied by interrupt handlers. \<open>int\<close> has 16
  bits on this processor; the indices are 16-bit words. The contents of a ring are the bytes from
  tail to head; \<open>fifo\<close> is the interface of a bounded queue, and the interleavings of the
  program and the handlers are steps of \<open>serial_step\<close>. The handlers run with interrupts blocked;
  the 16-bit indices are taken to be read and written in one piece, which holds for the default
  sizes, where their upper byte is always 0.
\<close>

section \<open>Rings\<close>

record ring =
  rb_head :: "16 word"
  rb_tail :: "16 word"
  rb_mask :: "16 word"
  rb_bytes :: "byte list"

definition rb_next :: "ring \<Rightarrow> 16 word \<Rightarrow> 16 word" where
  "rb_next r x = (x + 1) AND rb_mask r"

text \<open>
  Putting a byte in, as both the receive handler and \<open>write\<close> do: work out where the head will go,
  store, move the head; \<open>None\<close> when the ring is full. The handler then drops the byte.
\<close>

definition rb_put :: "byte \<Rightarrow> ring \<Rightarrow> ring option" where
  "rb_put c r =
     (let i = rb_next r (rb_head r)
      in if i = rb_tail r then None else Some (r\<lparr>rb_bytes := (rb_bytes r)[unat (rb_head r) := c], rb_head := i\<rparr>))"

text \<open>Taking a byte out, as both \<open>read\<close> and the transmit handler do.\<close>

definition rb_take :: "ring \<Rightarrow> byte option \<times> ring" where
  "rb_take r =
     (if rb_head r = rb_tail r then (None, r)
      else (Some (rb_bytes r ! unat (rb_tail r)), r\<lparr>rb_tail := rb_next r (rb_tail r)\<rparr>))"

text \<open>The shift of \<open>_allocBuffer\<close>: requests above 512 bytes are cut to 512.\<close>

function alloc_shift :: "nat \<Rightarrow> nat \<Rightarrow> nat" where
  "alloc_shift size_wanted shift =
     (if 2 ^ shift < min 512 size_wanted then alloc_shift size_wanted (Suc shift) else shift)"
  by auto

termination
proof (relation "measure (\<lambda>(n, shift). min 512 n - shift)")
  fix size_wanted shift :: nat
  assume "2 ^ shift < min 512 size_wanted"
  moreover have "shift < 2 ^ shift" by (rule less_exp)
  ultimately have "shift < min 512 size_wanted" by (rule less_trans [rotated])
  then show "((size_wanted, Suc shift), size_wanted, shift) \<in> measure (\<lambda>(n, shift). min 512 n - shift)"
    by (simp add: diff_less_mono2)
qed simp

declare alloc_shift.simps [simp del]

text \<open>\<open>junk\<close> is what the fresh memory holds; \<open>None\<close> when \<open>malloc\<close> fails. The flag is the result.\<close>

definition allocBuffer :: "(nat \<Rightarrow> byte) option \<Rightarrow> nat \<Rightarrow> ring \<times> bool" where
  "allocBuffer memory size_wanted =
     (let shift = alloc_shift size_wanted 1
      in case memory of
           None \<Rightarrow> (\<lparr>rb_head = 0, rb_tail = 0, rb_mask = push_bit shift 1 - 1, rb_bytes = []\<rparr>, False)
         | Some junk \<Rightarrow>
             (\<lparr>rb_head = 0, rb_tail = 0, rb_mask = push_bit shift 1 - 1, rb_bytes = map junk [0..<2 ^ shift]\<rparr>, True))"

definition freeBuffer :: "ring \<Rightarrow> ring" where
  "freeBuffer r = \<lparr>rb_head = 0, rb_tail = 0, rb_mask = 0, rb_bytes = []\<rparr>"

section \<open>The port\<close>

record fast_serial =
  fs_rx :: ring
  fs_tx :: ring
  fs_open :: bool
  fs_ucsra :: byte
  fs_ucsrb :: byte
  fs_ubrr :: "16 word"

text \<open>The constants of a port: the bit of U2X, the enable bits, the transmit bits.\<close>

record port =
  pt_u2x :: nat
  pt_enable :: byte
  pt_tx :: byte

definition fs_end :: "port \<Rightarrow> fast_serial \<Rightarrow> fast_serial" where
  "fs_end p s = s\<lparr>fs_ucsrb := fs_ucsrb s AND NOT (pt_enable p OR pt_tx p), fs_rx := freeBuffer (fs_rx s),
     fs_tx := freeBuffer (fs_tx s), fs_open := False\<rparr>"

text \<open>
  The divisor for a baud rate and whether the doubled speed is used; \<open>F_CPU\<close> is the clock.
  \<open>None\<close> is a division by zero.
\<close>

definition baud_divisor :: "int \<Rightarrow> int \<Rightarrow> (16 word \<times> bool) option" where
  "baud_divisor F_CPU baud =
     (if baud > cdiv F_CPU 16 then Some (word_of_int (cdiv F_CPU (8 * baud) - 1), True)
      else if baud = 0 then None
      else
        (let ureg = sint (word_of_int (cdiv (cdiv F_CPU 16) baud - 1) :: 16 word);
             u2 = sint (word_of_int (cdiv (cdiv F_CPU 8) baud - 1) :: 16 word)
         in if ureg + 1 = 0 \<or> u2 + 1 = 0 then None
            else
              (let breg = cdiv (cdiv F_CPU 16) (ureg + 1); b2 = cdiv (cdiv F_CPU 8) (u2 + 1);
                   dreg = \<bar>baud - breg\<bar>; d2 = \<bar>baud - b2\<bar>
               in Some (if dreg \<le> d2 then (word_of_int ureg, False) else (word_of_int u2, True)))))"

definition fs_begin ::
  "port \<Rightarrow> int \<Rightarrow> (nat \<Rightarrow> byte) option \<Rightarrow> (nat \<Rightarrow> byte) option \<Rightarrow> int \<Rightarrow> nat \<Rightarrow> nat \<Rightarrow> fast_serial \<Rightarrow> fast_serial option" where
  "fs_begin p F_CPU rx_memory tx_memory baud rxSpace txSpace s0 =
     (let s = (if fs_open s0 then fs_end p s0 else s0);
          (rx, rx_ok) = allocBuffer rx_memory (if rxSpace \<noteq> 0 then rxSpace else 128);
          (tx, tx_ok) = allocBuffer tx_memory (if txSpace \<noteq> 0 then txSpace else 64)
      in if \<not> rx_ok then Some (fs_end p (s\<lparr>fs_rx := rx\<rparr>))
         else if \<not> tx_ok then Some (fs_end p (s\<lparr>fs_rx := rx, fs_tx := tx\<rparr>))
         else (case baud_divisor F_CPU baud of
                 None \<Rightarrow> None
               | Some (ubrr, use_u2x) \<Rightarrow>
                   Some (s\<lparr>fs_rx := rx, fs_tx := tx, fs_open := True,
                     fs_ucsra := (if use_u2x then push_bit (pt_u2x p) 1 else 0),
                     fs_ubrr := ubrr, fs_ucsrb := fs_ucsrb s OR pt_enable p\<rparr>)))"

text \<open>The sizes of an open port are computed and then ignored.\<close>

definition fs_begin_default ::
  "port \<Rightarrow> int \<Rightarrow> (nat \<Rightarrow> byte) option \<Rightarrow> (nat \<Rightarrow> byte) option \<Rightarrow> int \<Rightarrow> fast_serial \<Rightarrow> fast_serial option" where
  "fs_begin_default p F_CPU rx_memory tx_memory baud s = fs_begin p F_CPU rx_memory tx_memory baud 128 64 s"

definition fs_available :: "fast_serial \<Rightarrow> int" where
  "fs_available s =
     (if \<not> fs_open s then -1
      else sint ((rb_head (fs_rx s) - rb_tail (fs_rx s)) AND rb_mask (fs_rx s)))"

definition fs_read :: "fast_serial \<Rightarrow> int \<times> fast_serial" where
  "fs_read s =
     (if \<not> fs_open s then (-1, s)
      else case rb_take (fs_rx s) of
             (None, _) \<Rightarrow> (-1, s)
           | (Some c, r) \<Rightarrow> (uint c, s\<lparr>fs_rx := r\<rparr>))"

definition fs_peek :: "fast_serial \<Rightarrow> int" where
  "fs_peek s =
     (if \<not> fs_open s then -1
      else case fst (rb_take (fs_rx s)) of None \<Rightarrow> -1 | Some c \<Rightarrow> uint c)"

text \<open>The tail of the transmit ring is set to the head of the receive ring.\<close>

definition fs_flush :: "fast_serial \<Rightarrow> fast_serial" where
  "fs_flush s =
     (let rx = (fs_rx s)\<lparr>rb_head := rb_tail (fs_rx s)\<rparr>
      in s\<lparr>fs_rx := rx, fs_tx := (fs_tx s)\<lparr>rb_tail := rb_head rx\<rparr>\<rparr>)"

text \<open>\<open>None\<close> is the wait for room, which only the transmit handler ends.\<close>

definition fs_write :: "port \<Rightarrow> byte \<Rightarrow> fast_serial \<Rightarrow> fast_serial option" where
  "fs_write p c s =
     (if \<not> fs_open s then Some s
      else map_option (\<lambda>r. s\<lparr>fs_tx := r, fs_ucsrb := fs_ucsrb s OR pt_tx p\<rparr>) (rb_put c (fs_tx s)))"

text \<open>The receive handler.\<close>

definition rx_isr :: "byte \<Rightarrow> fast_serial \<Rightarrow> fast_serial" where
  "rx_isr c s = (case rb_put c (fs_rx s) of None \<Rightarrow> s | Some r \<Rightarrow> s\<lparr>fs_rx := r\<rparr>)"

text \<open>The transmit handler; the byte is what goes to the data register.\<close>

definition tx_isr :: "port \<Rightarrow> fast_serial \<Rightarrow> byte option \<times> fast_serial" where
  "tx_isr p s =
     (case rb_take (fs_tx s) of
        (None, _) \<Rightarrow> (None, s\<lparr>fs_ucsrb := fs_ucsrb s AND NOT (pt_tx p)\<rparr>)
      | (Some c, r) \<Rightarrow> (Some c, s\<lparr>fs_tx := r\<rparr>))"

section \<open>The contents of a ring\<close>

definition rb_size :: "ring \<Rightarrow> nat" where
  "rb_size r = length (rb_bytes r)"

definition rb_count :: "ring \<Rightarrow> nat" where
  "rb_count r = (unat (rb_head r) + rb_size r - unat (rb_tail r)) mod rb_size r"

definition rb_contents :: "ring \<Rightarrow> byte list" where
  "rb_contents r = map (\<lambda>k. rb_bytes r ! ((unat (rb_tail r) + k) mod rb_size r)) [0..<rb_count r]"

definition rb_ok :: "ring \<Rightarrow> bool" where
  "rb_ok r \<longleftrightarrow> (\<exists>k \<le> 9. 1 \<le> k \<and> rb_mask r = mask k \<and> rb_size r = 2 ^ k)
     \<and> unat (rb_head r) < rb_size r \<and> unat (rb_tail r) < rb_size r"

lemma next_index:
  assumes "rb_ok r" "unat x < rb_size r"
  shows "unat (rb_next r x) = (unat x + 1) mod rb_size r"
proof -
  obtain k where k: "k \<le> 9" "rb_mask r = mask k" "rb_size r = 2 ^ k" using assms(1) by (auto simp: rb_ok_def)
  have "(2 :: nat) ^ k \<le> 2 ^ 9" using k(1) by (intro power_increasing) simp_all
  then have small: "unat x + 1 < 2 ^ 16" using assms(2) k(3) by simp
  then have "unat (x + 1) = unat x + 1" by (simp add: unat_word_ariths)
  moreover have "unat (rb_next r x) = take_bit k (unat (x + 1))"
    unfolding rb_next_def k(2) by (simp only: take_bit_eq_mask [symmetric] unsigned_take_bit_eq)
  ultimately show ?thesis by (simp add: k(3) take_bit_eq_mod)
qed

lemma rb_size_pos:
  assumes "rb_ok r"
  shows "2 \<le> rb_size r"
proof -
  obtain k where k: "1 \<le> k" "rb_size r = 2 ^ k" using assms by (auto simp: rb_ok_def)
  then show ?thesis using power_increasing [of 1 k "2 :: nat"] by simp
qed

lemma rb_count_less: "rb_ok r \<Longrightarrow> rb_count r < rb_size r"
  using rb_size_pos by (fastforce simp: rb_count_def)

lemma length_contents [simp]: "length (rb_contents r) = rb_count r"
  by (simp add: rb_contents_def)

lemma ring_arith:
  fixes h t n :: nat
  assumes "h < n" "t < n"
  shows "(t + (h + n - t) mod n) mod n = h" "(h + n - t) mod n = (if t \<le> h then h - t else h + n - t)"
    "(Suc h mod n = t) \<longleftrightarrow> (h + n - t) mod n = n - 1"
    "Suc h mod n \<noteq> t \<Longrightarrow> (Suc h mod n + n - t) mod n = Suc ((h + n - t) mod n)"
    "h \<noteq> t \<Longrightarrow> Suc ((h + n - Suc t mod n) mod n) = (h + n - t) mod n"
proof -
  have d: "(h + n - t) mod n = (if t \<le> h then h - t else h + n - t)"
    using assms by (auto simp: mod_if)
  then show "(h + n - t) mod n = (if t \<le> h then h - t else h + n - t)" .
  show "(t + (h + n - t) mod n) mod n = h" unfolding d using assms by (auto simp: mod_if)
  have s: "Suc x mod n = (if x = n - 1 then 0 else Suc x)" if "x < n" for x using that by (auto simp: mod_if)
  show "(Suc h mod n = t) \<longleftrightarrow> (h + n - t) mod n = n - 1" unfolding d s [OF assms(1)] using assms by auto
  show "Suc h mod n \<noteq> t \<Longrightarrow> (Suc h mod n + n - t) mod n = Suc ((h + n - t) mod n)"
    unfolding d s [OF assms(1)] using assms by (auto simp: mod_if)
  show "h \<noteq> t \<Longrightarrow> Suc ((h + n - Suc t mod n) mod n) = (h + n - t) mod n"
    unfolding d s [OF assms(2)] using assms by (auto simp: mod_if)
qed

text \<open>Storing at the head and moving the head appends; the byte under the tail is the first.\<close>

lemma contents_append:
  fixes c :: byte
  assumes "rb_ok r" "rb_next r (rb_head r) \<noteq> rb_tail r"
  defines "r' \<equiv> r\<lparr>rb_bytes := (rb_bytes r)[unat (rb_head r) := c], rb_head := rb_next r (rb_head r)\<rparr>"
  shows "rb_ok r'" "rb_contents r' = rb_contents r @ [c]" "rb_count r < rb_size r - 1"
proof -
  let ?n = "rb_size r" and ?h = "unat (rb_head r)" and ?t = "unat (rb_tail r)"
  have b: "?h < ?n" "?t < ?n" using assms(1) by (simp_all add: rb_ok_def)
  have h': "unat (rb_next r (rb_head r)) = Suc ?h mod ?n" using next_index [OF assms(1) b(1)] by simp
  then have ne: "Suc ?h mod ?n \<noteq> ?t" using assms(2) by (metis unsigned_word_eqI)
  have n: "0 < ?n" using rb_size_pos [OF assms(1)] by simp
  have sz: "rb_size r' = ?n" by (simp add: r'_def rb_size_def)
  show "rb_ok r'" using assms(1) h' n sz unfolding rb_ok_def by (simp add: r'_def rb_size_def)
  have count: "rb_count r' = Suc (rb_count r)"
    unfolding rb_count_def sz using ring_arith(4) [OF b ne] h' by (simp add: r'_def)
  have less: "rb_count r < ?n - 1"
    using ring_arith(3) [OF b] ne rb_count_less [OF assms(1)] by (fastforce simp: rb_count_def)
  then show "rb_count r < rb_size r - 1" .
  have last: "(?t + rb_count r) mod ?n = ?h" unfolding rb_count_def by (rule ring_arith(1) [OF b])
  have other: "(?t + k) mod ?n \<noteq> ?h" if "k < rb_count r" for k
  proof
    assume "(?t + k) mod ?n = ?h"
    then have "(?t + k) mod ?n = (?t + rb_count r) mod ?n" using last by simp
    then show False using that less b by (auto simp: mod_if split: if_splits)
  qed
  have "map (\<lambda>k. rb_bytes r' ! ((?t + k) mod ?n)) [0..<rb_count r] = rb_contents r"
    unfolding rb_contents_def by (intro map_cong refl) (auto simp: r'_def nth_list_update dest!: other)
  moreover have "rb_bytes r' ! ((?t + rb_count r) mod ?n) = c"
    unfolding last using b(1) by (simp add: r'_def rb_size_def)
  ultimately show "rb_contents r' = rb_contents r @ [c]"
    unfolding rb_contents_def [of r'] count sz by (simp add: r'_def)
qed

lemma contents_tail:
  assumes "rb_ok r" "rb_head r \<noteq> rb_tail r"
  defines "r' \<equiv> r\<lparr>rb_tail := rb_next r (rb_tail r)\<rparr>"
  shows "rb_ok r'" "rb_contents r = rb_bytes r ! unat (rb_tail r) # rb_contents r'"
proof -
  let ?n = "rb_size r" and ?h = "unat (rb_head r)" and ?t = "unat (rb_tail r)"
  have b: "?h < ?n" "?t < ?n" using assms(1) by (simp_all add: rb_ok_def)
  have t': "unat (rb_next r (rb_tail r)) = Suc ?t mod ?n" using next_index [OF assms(1) b(2)] by simp
  have ne: "?h \<noteq> ?t" using assms(2) by (metis unsigned_word_eqI)
  have n: "0 < ?n" using rb_size_pos [OF assms(1)] by simp
  have sz: "rb_size r' = ?n" by (simp add: r'_def rb_size_def)
  show "rb_ok r'" using assms(1) t' n sz unfolding rb_ok_def by (simp add: r'_def rb_size_def)
  have count: "rb_count r = Suc (rb_count r')"
    unfolding rb_count_def sz using ring_arith(5) [OF b ne] t' by (simp add: r'_def)
  have "rb_bytes r ! ((?t + Suc k) mod ?n) = rb_bytes r' ! ((unat (rb_tail r') + k) mod ?n)" for k
    using t' by (simp add: r'_def mod_add_left_eq)
  then show "rb_contents r = rb_bytes r ! unat (rb_tail r) # rb_contents r'"
    unfolding rb_contents_def count sz using b(2)
    by (simp add: map_Suc_upt [symmetric] upt_conv_Cons comp_def del: upt_Suc)
qed

lemma contents_empty: "rb_ok r \<Longrightarrow> rb_contents r = [] \<longleftrightarrow> rb_head r = rb_tail r"
  using contents_tail(2) [of r] by (cases "rb_head r = rb_tail r") (auto simp: rb_contents_def rb_count_def)

section \<open>A ring is a bounded queue\<close>

text \<open>The operations of a queue, and a run of them: what was accepted, what came out, the end.\<close>

datatype 'a fifo_op = Put 'a | Take

fun fifo_run :: "('a \<Rightarrow> 's \<Rightarrow> 's option) \<Rightarrow> ('s \<Rightarrow> 'a option \<times> 's) \<Rightarrow> 'a fifo_op list \<Rightarrow> 's \<Rightarrow> 'a list \<times> 'a list \<times> 's" where
  "fifo_run put get [] s = ([], [], s)"
| "fifo_run put get (Put c # ops) s =
     (case put c s of
        None \<Rightarrow> fifo_run put get ops s
      | Some s \<Rightarrow> (case fifo_run put get ops s of (acc, out, s) \<Rightarrow> (c # acc, out, s)))"
| "fifo_run put get (Take # ops) s =
     (case get s of
        (None, s) \<Rightarrow> fifo_run put get ops s
      | (Some c, s) \<Rightarrow> (case fifo_run put get ops s of (acc, out, s) \<Rightarrow> (acc, c # out, s)))"

text \<open>The specification: a list of at most \<open>cap\<close> entries.\<close>

definition queue_put :: "nat \<Rightarrow> 'a \<Rightarrow> 'a list \<Rightarrow> 'a list option" where
  "queue_put cap c q = (if length q < cap then Some (q @ [c]) else None)"

fun queue_get :: "'a list \<Rightarrow> 'a option \<times> 'a list" where
  "queue_get [] = (None, [])"
| "queue_get (c # q) = (Some c, q)"

lemma queue_run_order:
  "fifo_run (queue_put cap) queue_get ops q = (acc, out, q') \<Longrightarrow> q @ acc = out @ q'"
proof (induction ops arbitrary: q acc out)
  case Nil
  then show ?case by simp
next
  case (Cons a ops)
  show ?case
  proof (cases a)
    case (Put c)
    show ?thesis
    proof (cases "length q < cap")
      case True
      then have "queue_put cap c q = Some (q @ [c])" by (simp add: queue_put_def)
      with Cons.prems Put show ?thesis by (auto split: prod.splits dest!: Cons.IH)
    next
      case False
      then have "queue_put cap c q = None" by (simp add: queue_put_def)
      with Cons.prems Put show ?thesis by (auto dest!: Cons.IH)
    qed
  next
    case Take
    with Cons.prems show ?thesis
      by (cases q) (auto split: prod.splits dest!: Cons.IH)
  qed
qed

locale bounded_fifo =
  fixes inv :: "'s \<Rightarrow> bool" and cap :: "'s \<Rightarrow> nat" and contents :: "'s \<Rightarrow> 'a list"
    and put :: "'a \<Rightarrow> 's \<Rightarrow> 's option" and get :: "'s \<Rightarrow> 'a option \<times> 's"
  assumes put_None: "inv s \<Longrightarrow> put c s = None \<Longrightarrow> length (contents s) = cap s"
    and put_Some: "inv s \<Longrightarrow> put c s = Some s' \<Longrightarrow>
      inv s' \<and> cap s' = cap s \<and> contents s' = contents s @ [c] \<and> length (contents s) < cap s"
    and get_None: "inv s \<Longrightarrow> get s = (None, s') \<Longrightarrow> s' = s \<and> contents s = []"
    and get_Some: "inv s \<Longrightarrow> get s = (Some c, s') \<Longrightarrow> inv s' \<and> cap s' = cap s \<and> contents s = c # contents s'"
begin

lemma simulates:
  "inv s \<Longrightarrow> fifo_run put get ops s = (acc, out, s') \<Longrightarrow>
   inv s' \<and> cap s' = cap s \<and> fifo_run (queue_put (cap s)) queue_get ops (contents s) = (acc, out, contents s')"
proof (induction ops arbitrary: s acc out)
  case Nil
  then show ?case by simp
next
  case (Cons a ops)
  show ?case
  proof (cases a)
    case (Put c)
    show ?thesis
    proof (cases "put c s")
      case None
      then have "queue_put (cap s) c (contents s) = None"
        using put_None [OF Cons.prems(1) None] by (simp add: queue_put_def)
      with Cons.IH [OF Cons.prems(1)] Cons.prems(2) Put None show ?thesis by simp
    next
      case (Some t)
      note law = put_Some [OF Cons.prems(1) Some]
      then have q: "queue_put (cap s) c (contents s) = Some (contents t)" by (simp add: queue_put_def)
      obtain acc' where run: "fifo_run put get ops t = (acc', out, s')" and acc: "acc = c # acc'"
        using Cons.prems(2) Put Some by (auto split: prod.splits)
      from Cons.IH [OF conjunct1 [OF law] run] law acc Put q show ?thesis by simp
    qed
  next
    case Take
    obtain v t where get: "get s = (v, t)" by (cases "get s")
    show ?thesis
    proof (cases v)
      case None
      with get_None [OF Cons.prems(1)] get have "t = s" "contents s = []" by auto
      with Cons.IH [OF Cons.prems(1)] Cons.prems(2) Take None get show ?thesis by simp
    next
      case (Some c)
      with get_Some [OF Cons.prems(1)] get have law: "inv t" "cap t = cap s" "contents s = c # contents t" by auto
      obtain out' where run: "fifo_run put get ops t = (acc, out', s')" and out: "out = c # out'"
        using Cons.prems(2) Take Some get by (auto split: prod.splits)
      from Cons.IH [OF law(1) run] law(2,3) out Take show ?thesis by simp
    qed
  qed
qed

end

lemma full_ring: "rb_ok r \<Longrightarrow> rb_next r (rb_head r) = rb_tail r \<longleftrightarrow> rb_count r = rb_size r - 1"
proof -
  assume ok: "rb_ok r"
  then have b: "unat (rb_head r) < rb_size r" "unat (rb_tail r) < rb_size r" by (simp_all add: rb_ok_def)
  have "rb_next r (rb_head r) = rb_tail r \<longleftrightarrow> Suc (unat (rb_head r)) mod rb_size r = unat (rb_tail r)"
    using next_index [OF ok b(1)] by (metis Suc_eq_plus1 unsigned_word_eqI)
  with ring_arith(3) [OF b] show ?thesis by (simp add: rb_count_def)
qed

interpretation ring: bounded_fifo rb_ok "\<lambda>r. rb_size r - 1" rb_contents rb_put rb_take
proof
  fix r r' c
  assume ok: "rb_ok r"
  show "rb_put c r = None \<Longrightarrow> length (rb_contents r) = rb_size r - 1"
    using full_ring [OF ok] by (simp add: rb_put_def Let_def split: if_splits)
  show "rb_put c r = Some r' \<Longrightarrow> rb_ok r' \<and> rb_size r' - 1 = rb_size r - 1 \<and> rb_contents r' = rb_contents r @ [c]
      \<and> length (rb_contents r) < rb_size r - 1"
    using contents_append(1,2) [OF ok, of c] contents_append(3) [OF ok] by (auto simp: rb_put_def Let_def rb_size_def split: if_splits)
  show "rb_take r = (None, r') \<Longrightarrow> r' = r \<and> rb_contents r = []"
    using contents_empty [OF ok] by (simp add: rb_take_def split: if_splits)
  show "rb_take r = (Some c, r') \<Longrightarrow> rb_ok r' \<and> rb_size r' - 1 = rb_size r - 1 \<and> rb_contents r = c # rb_contents r'"
    using contents_tail [OF ok] by (auto simp: rb_take_def rb_size_def split: if_splits)
qed

section \<open>Allocation\<close>

lemma alloc_shift_least:
  "k \<le> 9 \<Longrightarrow> k \<le> alloc_shift n k \<and> alloc_shift n k \<le> 9 \<and> min 512 n \<le> 2 ^ alloc_shift n k
   \<and> (\<forall>j. k \<le> j \<and> j < alloc_shift n k \<longrightarrow> 2 ^ j < min 512 n)"
proof (induction n k rule: alloc_shift.induct)
  case (1 n k)
  show ?case
  proof (cases "2 ^ k < min 512 n")
    case True
    then have "k < 9" using "1.prems" by (cases "k = 9") auto
    with "1.IH" [OF True] have ih: "Suc k \<le> alloc_shift n (Suc k)" "alloc_shift n (Suc k) \<le> 9"
      "min 512 n \<le> 2 ^ alloc_shift n (Suc k)" "\<forall>j. Suc k \<le> j \<and> j < alloc_shift n (Suc k) \<longrightarrow> 2 ^ j < min 512 n"
      by auto
    have step: "alloc_shift n k = alloc_shift n (Suc k)" using True by (subst alloc_shift.simps) simp
    have "2 ^ j < min 512 n" if "k \<le> j" "j < alloc_shift n (Suc k)" for j
      using True ih(4) that by (cases "j = k") auto
    then show ?thesis unfolding step using ih(1-3) by auto
  next
    case False
    then have "alloc_shift n k = k" by (subst alloc_shift.simps) (simp only: if_False)
    then show ?thesis using False "1.prems" by auto
  qed
qed

lemma allocBuffer_ring:
  "rb_ok (fst (allocBuffer (Some junk) n)) \<and> snd (allocBuffer (Some junk) n)
   \<and> rb_contents (fst (allocBuffer (Some junk) n)) = [] \<and> rb_size (fst (allocBuffer (Some junk) n)) = 2 ^ alloc_shift n 1"
proof -
  define k where "k = alloc_shift n 1"
  have k: "1 \<le> k" "k \<le> 9" using alloc_shift_least [of 1 n] by (simp_all add: k_def)
  let ?r = "fst (allocBuffer (Some junk) n)"
  have r: "?r = \<lparr>rb_head = 0, rb_tail = 0, rb_mask = mask k, rb_bytes = map junk [0..<2 ^ k]\<rparr>"
    by (simp add: allocBuffer_def Let_def k_def mask_eq_exp_minus_1)
  then have "rb_ok ?r" unfolding rb_ok_def rb_size_def r using k by auto
  moreover have "rb_contents ?r = []" "rb_size ?r = 2 ^ k" by (simp_all add: r rb_contents_def rb_count_def rb_size_def)
  ultimately show ?thesis by (simp add: allocBuffer_def Let_def k_def)
qed

text \<open>
  C7. The ring buffer implements a bounded queue: whatever its size and state, any sequence of
  bytes put in and taken out behaves as on a list of at most size - 1 bytes (accepting the same
  bytes and returning the same ones) and so the bytes come out in the order in which they were
  accepted, none twice and none lost; the ring \<open>begin\<close> allocates is such a ring, of the least
  power of 2, at least 2, that holds the request cut to 512.
\<close>
theorem ring_refines_queue:
  assumes "rb_ok r" "fifo_run rb_put rb_take ops r = (acc, out, r')"
  shows "fifo_run (queue_put (rb_size r - 1)) queue_get ops (rb_contents r) = (acc, out, rb_contents r')
    \<and> rb_ok r' \<and> rb_contents r @ acc = out @ rb_contents r'
    \<and> rb_ok (fst (allocBuffer (Some junk) n)) \<and> rb_contents (fst (allocBuffer (Some junk) n)) = []
    \<and> min 512 n \<le> rb_size (fst (allocBuffer (Some junk) n))
    \<and> (2 < rb_size (fst (allocBuffer (Some junk) n)) \<longrightarrow> rb_size (fst (allocBuffer (Some junk) n)) < 2 * min 512 n)"
proof -
  have sim: "rb_ok r' \<and> fifo_run (queue_put (rb_size r - 1)) queue_get ops (rb_contents r) = (acc, out, rb_contents r')"
    using ring.simulates [OF assms] by simp
  let ?k = "alloc_shift n 1"
  have k: "1 \<le> ?k" "min 512 n \<le> 2 ^ ?k" "\<forall>j. 1 \<le> j \<and> j < ?k \<longrightarrow> 2 ^ j < min 512 n"
    using alloc_shift_least [of 1 n] by auto
  have "(2 :: nat) ^ ?k < 2 * min 512 n" if "2 < (2 :: nat) ^ ?k"
  proof -
    have "?k \<noteq> 1" using that by auto
    with k(1) obtain j where j: "?k = Suc j" "1 \<le> j" by (cases ?k) auto
    then have "2 ^ j < min 512 n" using k(3) by auto
    then show ?thesis using j by simp
  qed
  with sim queue_run_order [OF conjunct2 [OF sim]] allocBuffer_ring [of junk n] k(2) show ?thesis by auto
qed

text \<open>A ring of four bytes: the third byte put in fills it, the fourth is refused.\<close>

definition ring4 :: ring where
  "ring4 = fst (allocBuffer (Some (\<lambda>_. 0)) 3)"

lemma alloc_shift_3: "alloc_shift 3 1 = 2"
  by (simp add: alloc_shift.simps)

lemma ring4_run: "fst (snd (fifo_run rb_put rb_take [Put 7, Put 8, Put 9, Put 10, Take, Take] ring4)) = [7, 8]"
  unfolding ring4_def allocBuffer_def alloc_shift_3 by code_simp

lemma ring_refines_queue_witness:
  "\<exists>acc r'. fifo_run (queue_put 3) queue_get [Put 7, Put 8, Put 9, Put 10, Take, Take] [] = (acc, [7, 8], rb_contents r')"
proof -
  obtain acc r' where run: "fifo_run rb_put rb_take [Put 7, Put 8, Put 9, Put 10, Take, Take] ring4 = (acc, [7, 8], r')"
    using ring4_run by (cases "fifo_run rb_put rb_take [Put 7, Put 8, Put 9, Put 10, Take, Take] ring4") auto
  have ok: "rb_ok ring4" "rb_contents ring4 = []" "rb_size ring4 = 4"
    using allocBuffer_ring [of "\<lambda>_. 0" 3] by (simp_all add: ring4_def alloc_shift_3 del: One_nat_def)
  from ring_refines_queue [OF ok(1) run] ok(2,3) have
    "fifo_run (queue_put 3) queue_get [Put 7, Put 8, Put 9, Put 10, Take, Take] [] = (acc, [7, 8], rb_contents r')" by simp
  then show ?thesis by blast
qed

section \<open>The program and the handlers\<close>

text \<open>
  The program between the accesses of \<open>read\<close> and \<open>write\<close>: a byte fetched but still in the ring; the
  next head computed; the byte stored; the head moved but the transmit interrupt not yet enabled.
\<close>

datatype write_pc = Idle | Waiting byte "16 word" | Stored byte "16 word" | Linked

record line =
  ln_port :: fast_serial
  ln_fetched :: "byte option"
  ln_pc :: write_pc
  ln_accepted :: "byte list"
  ln_got :: "byte list"
  ln_written :: "byte list"
  ln_sent :: "byte list"

text \<open>The transmit handler runs only while its interrupt is enabled. The lists are ghosts.\<close>

inductive serial_step :: "port \<Rightarrow> line \<Rightarrow> line \<Rightarrow> bool" for p :: port where
  received: "serial_step p l (l\<lparr>ln_port := rx_isr c (ln_port l),
     ln_accepted := ln_accepted l @ (if rb_put c (fs_rx (ln_port l)) = None then [] else [c])\<rparr>)"
| read_fetch: "ln_fetched l = None \<Longrightarrow> rb_take (fs_rx (ln_port l)) = (Some c, r) \<Longrightarrow>
     serial_step p l (l\<lparr>ln_fetched := Some c\<rparr>)"
| read_advance: "ln_fetched l = Some c \<Longrightarrow> rx = fs_rx (ln_port l) \<Longrightarrow>
     serial_step p l (l\<lparr>ln_fetched := None, ln_got := ln_got l @ [c],
       ln_port := (ln_port l)\<lparr>fs_rx := rx\<lparr>rb_tail := rb_next rx (rb_tail rx)\<rparr>\<rparr>\<rparr>)"
| write_start: "ln_pc l = Idle \<Longrightarrow> tx = fs_tx (ln_port l) \<Longrightarrow>
     serial_step p l (l\<lparr>ln_pc := Waiting c (rb_next tx (rb_head tx))\<rparr>)"
| write_store: "ln_pc l = Waiting c i \<Longrightarrow> tx = fs_tx (ln_port l) \<Longrightarrow> i \<noteq> rb_tail tx \<Longrightarrow>
     serial_step p l (l\<lparr>ln_pc := Stored c i,
       ln_port := (ln_port l)\<lparr>fs_tx := tx\<lparr>rb_bytes := (rb_bytes tx)[unat (rb_head tx) := c]\<rparr>\<rparr>\<rparr>)"
| write_link: "ln_pc l = Stored c i \<Longrightarrow> tx = fs_tx (ln_port l) \<Longrightarrow>
     serial_step p l (l\<lparr>ln_pc := Linked, ln_written := ln_written l @ [c],
       ln_port := (ln_port l)\<lparr>fs_tx := tx\<lparr>rb_head := i\<rparr>\<rparr>\<rparr>)"
| write_enable: "ln_pc l = Linked \<Longrightarrow>
     serial_step p l (l\<lparr>ln_pc := Idle, ln_port := (ln_port l)\<lparr>fs_ucsrb := fs_ucsrb (ln_port l) OR pt_tx p\<rparr>\<rparr>)"
| transmit: "fs_ucsrb (ln_port l) AND pt_tx p = pt_tx p \<Longrightarrow> tx_isr p (ln_port l) = (b, s) \<Longrightarrow>
     serial_step p l (l\<lparr>ln_port := s, ln_sent := ln_sent l @ (case b of None \<Rightarrow> [] | Some c \<Rightarrow> [c])\<rparr>)"

inductive_cases serial_stepE: "serial_step p l l'"

text \<open>What a half-done \<open>read\<close> or \<open>write\<close> knows of its ring.\<close>

definition fetch_ok :: "byte option \<Rightarrow> ring \<Rightarrow> bool" where
  "fetch_ok b r \<longleftrightarrow> (\<forall>c. b = Some c \<longrightarrow> rb_contents r \<noteq> [] \<and> hd (rb_contents r) = c)"

definition write_ok :: "write_pc \<Rightarrow> ring \<Rightarrow> bool" where
  "write_ok pc r \<longleftrightarrow>
     (case pc of
        Waiting c i \<Rightarrow> i = rb_next r (rb_head r)
      | Stored c i \<Rightarrow> i = rb_next r (rb_head r) \<and> i \<noteq> rb_tail r \<and> rb_bytes r ! unat (rb_head r) = c
      | _ \<Rightarrow> True)"

definition line_ok :: "port \<Rightarrow> line \<Rightarrow> bool" where
  "line_ok p l \<longleftrightarrow>
     (let rx = fs_rx (ln_port l); tx = fs_tx (ln_port l)
      in rb_ok rx \<and> rb_ok tx \<and> ln_accepted l = ln_got l @ rb_contents rx \<and> ln_written l = ln_sent l @ rb_contents tx
         \<and> fetch_ok (ln_fetched l) rx \<and> write_ok (ln_pc l) tx
         \<and> (rb_contents tx \<noteq> [] \<and> ln_pc l \<noteq> Linked \<longrightarrow> fs_ucsrb (ln_port l) AND pt_tx p = pt_tx p))"

lemma hd_contents: "rb_ok r \<Longrightarrow> rb_head r \<noteq> rb_tail r \<Longrightarrow> hd (rb_contents r) = rb_bytes r ! unat (rb_tail r)"
  by (simp add: contents_tail(2))

lemma take_keeps_room:
  assumes "rb_ok r" "rb_take r = (b, r')"
  shows "rb_ok r' \<and> rb_head r' = rb_head r \<and> rb_bytes r' = rb_bytes r \<and> rb_mask r' = rb_mask r
    \<and> (rb_next r (rb_head r) \<noteq> rb_tail r \<longrightarrow> rb_next r' (rb_head r') \<noteq> rb_tail r')
    \<and> rb_contents r = (case b of None \<Rightarrow> [] | Some c \<Rightarrow> [c]) @ rb_contents r'"
proof (cases b)
  case None
  with ring.get_None [OF assms(1)] assms show ?thesis by simp
next
  case (Some c)
  then have r': "r' = r\<lparr>rb_tail := rb_next r (rb_tail r)\<rparr>" using assms(2) by (auto simp: rb_take_def split: if_splits)
  have law: "rb_ok r'" "rb_contents r = c # rb_contents r'" using ring.get_Some [OF assms(1)] assms(2) Some by auto
  have "rb_count r' \<noteq> rb_size r' - 1"
    using arg_cong [OF law(2), of length] rb_count_less [OF assms(1)] by (simp add: r' rb_size_def)
  then have "rb_next r' (rb_head r') \<noteq> rb_tail r'" using full_ring [OF law(1)] by simp
  with law Some r' show ?thesis by simp
qed

lemma put_keeps_fetch:
  assumes "rb_ok r" "rb_put c r = Some r'" "fetch_ok b r"
  shows "fetch_ok b r'"
  using ring.put_Some [OF assms(1,2)] assms(3) by (auto simp: fetch_ok_def)

lemma store_keeps_contents:
  fixes c :: byte
  assumes "rb_ok r" "rb_next r (rb_head r) \<noteq> rb_tail r"
  defines "r' \<equiv> r\<lparr>rb_bytes := (rb_bytes r)[unat (rb_head r) := c]\<rparr>"
  shows "rb_ok r' \<and> rb_contents r' = rb_contents r \<and> rb_bytes r' ! unat (rb_head r) = c
    \<and> rb_next r' (rb_head r') = rb_next r (rb_head r) \<and> rb_tail r' = rb_tail r"
proof -
  have len: "unat (rb_head r) < length (rb_bytes r)" using assms(1) by (simp add: rb_ok_def rb_size_def)
  have ok: "rb_ok r'" using assms(1) by (simp add: rb_ok_def r'_def rb_size_def)
  have nx: "rb_next r' = rb_next r" by (simp add: r'_def rb_next_def fun_eq_iff)
  have same: "r'\<lparr>rb_bytes := (rb_bytes r')[unat (rb_head r') := c], rb_head := rb_next r' (rb_head r')\<rparr>
      = r\<lparr>rb_bytes := (rb_bytes r)[unat (rb_head r) := c], rb_head := rb_next r (rb_head r)\<rparr>"
    by (simp add: nx) (simp add: r'_def)
  have "rb_contents r' @ [c] = rb_contents r @ [c]"
    using contents_append(2) [OF assms(1,2), of c] contents_append(2) [OF ok, of c] assms(2)
    unfolding same by (simp add: nx) (simp add: r'_def)
  with ok nx len show ?thesis by (simp add: r'_def)
qed

lemma link_appends:
  assumes "rb_ok r" "write_ok (Stored c i) r"
  shows "rb_ok (r\<lparr>rb_head := i\<rparr>) \<and> rb_contents (r\<lparr>rb_head := i\<rparr>) = rb_contents r @ [c]"
proof -
  have w: "rb_next r (rb_head r) \<noteq> rb_tail r" "i = rb_next r (rb_head r)" "rb_bytes r ! unat (rb_head r) = c"
    using assms(2) by (auto simp: write_ok_def)
  then have "(rb_bytes r)[unat (rb_head r) := c] = rb_bytes r" by (metis list_update_id)
  then have "r\<lparr>rb_bytes := (rb_bytes r)[unat (rb_head r) := c], rb_head := rb_next r (rb_head r)\<rparr> = r\<lparr>rb_head := i\<rparr>"
    using w(2) by simp
  with contents_append(1,2) [OF assms(1) w(1), of c] show ?thesis by simp
qed

lemma line_ok_step:
  assumes "serial_step p l l'" "line_ok p l"
  shows "line_ok p l'"
proof -
  have rx: "rb_ok (fs_rx (ln_port l))" and tx: "rb_ok (fs_tx (ln_port l))"
    using assms(2) by (simp_all add: line_ok_def Let_def)
  show ?thesis using assms(1)
  proof cases
    case (received c)
    show ?thesis
    proof (cases "rb_put c (fs_rx (ln_port l))")
      case None
      with received assms(2) show ?thesis by (simp add: rx_isr_def)
    next
      case (Some r)
      with received assms(2) ring.put_Some [OF rx Some] put_keeps_fetch [OF rx Some] show ?thesis
        by (simp add: rx_isr_def line_ok_def Let_def)
    qed
  next
    case (read_fetch c r)
    with assms(2) ring.get_Some [OF rx, of c r] show ?thesis by (simp add: line_ok_def Let_def fetch_ok_def)
  next
    case (read_advance c r)
    have "rb_contents r \<noteq> []" "hd (rb_contents r) = c"
      using assms(2) read_advance by (simp_all add: line_ok_def Let_def fetch_ok_def)
    moreover from this have ne: "rb_head r \<noteq> rb_tail r" using contents_empty [of r] rx read_advance(3) by blast
    ultimately have "rb_contents r = c # rb_contents (r\<lparr>rb_tail := rb_next r (rb_tail r)\<rparr>)"
      using contents_tail(2) [of r] rx read_advance(3) by simp
    with contents_tail(1) [of r, OF _ ne] rx read_advance assms(2) show ?thesis
      by (simp add: line_ok_def Let_def fetch_ok_def)
  next
    case (write_start tx c)
    with assms(2) show ?thesis by (simp add: line_ok_def Let_def write_ok_def)
  next
    case (write_store c i r)
    have i: "i = rb_next r (rb_head r)" using assms(2) write_store by (simp add: line_ok_def Let_def write_ok_def)
    with write_store have "rb_next r (rb_head r) \<noteq> rb_tail r" by simp
    with store_keeps_contents [of r c] tx write_store(3) i write_store assms(2) show ?thesis
      by (simp add: line_ok_def Let_def write_ok_def)
  next
    case (write_link c i r)
    have "write_ok (Stored c i) r" using assms(2) write_link by (simp add: line_ok_def Let_def)
    with link_appends [of r c i] tx write_link assms(2) show ?thesis
      by (simp add: line_ok_def Let_def) (simp add: write_ok_def)
  next
    case write_enable
    have "(x OR t) AND t = t" for x t :: byte by (simp add: bit_eq_iff bit_simps)
    with write_enable assms(2) show ?thesis by (simp add: line_ok_def Let_def write_ok_def)
  next
    case (transmit b s)
    obtain v r where take: "rb_take (fs_tx (ln_port l)) = (v, r)" by (cases "rb_take (fs_tx (ln_port l))")
    note room = take_keeps_room [OF tx take]
    then have "write_ok (ln_pc l) r"
      using assms(2) by (auto simp: line_ok_def Let_def write_ok_def rb_next_def split: write_pc.splits)
    then show ?thesis
      using transmit take room assms(2) ring.get_None [OF tx, of r]
      by (cases v) (auto simp: tx_isr_def line_ok_def Let_def)
  qed
qed

text \<open>The lines reached from an open port with empty rings: what \<open>begin\<close> leaves.\<close>

definition line_start :: "fast_serial \<Rightarrow> line" where
  "line_start s = \<lparr>ln_port = s, ln_fetched = None, ln_pc = Idle, ln_accepted = [], ln_got = [], ln_written = [], ln_sent = []\<rparr>"

inductive serial_reachable :: "port \<Rightarrow> line \<Rightarrow> bool" for p :: port where
  opened: "fs_begin p F_CPU (Some j1) (Some j2) baud rxSpace txSpace s0 = Some s \<Longrightarrow> serial_reachable p (line_start s)"
| stepped: "serial_reachable p l \<Longrightarrow> serial_step p l l' \<Longrightarrow> serial_reachable p l'"

lemma begin_opens:
  assumes "fs_begin p F_CPU (Some j1) (Some j2) baud rxSpace txSpace s0 = Some s"
  shows "fs_open s \<and> rb_ok (fs_rx s) \<and> rb_ok (fs_tx s) \<and> rb_contents (fs_rx s) = [] \<and> rb_contents (fs_tx s) = []"
  using assms allocBuffer_ring
  by (auto simp: fs_begin_def Let_def split_beta split: if_splits option.splits)

lemma line_ok_start:
  assumes "fs_begin p F_CPU (Some j1) (Some j2) baud rxSpace txSpace s0 = Some s"
  shows "line_ok p (line_start s)"
  using begin_opens [OF assms] by (simp add: line_ok_def line_start_def fetch_ok_def write_ok_def Let_def)

lemma line_ok_reachable: "serial_reachable p l \<Longrightarrow> line_ok p l"
  by (induction rule: serial_reachable.induct) (blast intro: line_ok_start line_ok_step)+

text \<open>The transmit handler makes the room a waiting \<open>write\<close> waits for.\<close>

lemma transmit_makes_room:
  assumes "line_ok p l" "ln_pc l = Waiting c i" "i = rb_tail (fs_tx (ln_port l))"
  shows "\<exists>l'. serial_step p l l' \<and> ln_pc l' = Waiting c i \<and> i \<noteq> rb_tail (fs_tx (ln_port l'))"
proof -
  let ?r = "fs_tx (ln_port l)"
  have tx: "rb_ok ?r" and i: "i = rb_next ?r (rb_head ?r)"
    using assms(1,2) by (simp_all add: line_ok_def write_ok_def Let_def)
  have "rb_count ?r = rb_size ?r - 1" using full_ring [OF tx] i assms(3) by simp
  then have "rb_contents ?r \<noteq> []" using rb_size_pos [OF tx] length_contents [of ?r] by fastforce
  then have on: "fs_ucsrb (ln_port l) AND pt_tx p = pt_tx p" and ne: "rb_head ?r \<noteq> rb_tail ?r"
    using assms contents_empty [OF tx] by (auto simp: line_ok_def Let_def)
  obtain b s where t: "tx_isr p (ln_port l) = (b, s)" by (cases "tx_isr p (ln_port l)")
  with ne have "rb_tail (fs_tx s) = rb_next ?r (rb_tail ?r)"
    by (auto simp: tx_isr_def rb_take_def)
  moreover have "rb_next ?r (rb_tail ?r) \<noteq> rb_tail ?r"
  proof
    assume "rb_next ?r (rb_tail ?r) = rb_tail ?r"
    then have "Suc (unat (rb_tail ?r)) mod rb_size ?r = unat (rb_tail ?r)"
      using next_index [OF tx, of "rb_tail ?r"] tx by (simp add: rb_ok_def)
    with rb_size_pos [OF tx] tx show False by (simp add: rb_ok_def mod_if split: if_splits)
  qed
  ultimately show ?thesis using serial_step.transmit [OF on t] assms by fastforce
qed


text \<open>A port opened with the smallest rings, on which one byte has been received and none read.\<close>

definition port0 :: port where
  "port0 = \<lparr>pt_u2x = 1, pt_enable = 0x98, pt_tx = 0x20\<rparr>"

definition small_port :: fast_serial where
  "small_port = the (fs_begin port0 16000000 (Some (\<lambda>_. 0)) (Some (\<lambda>_. 0)) 115200 2 2
     \<lparr>fs_rx = ring4, fs_tx = ring4, fs_open = False, fs_ucsra = 0, fs_ucsrb = 0, fs_ubrr = 0\<rparr>)"

lemma alloc_shift_2: "alloc_shift 2 1 = 1"
  by (simp add: alloc_shift.simps)

lemma baud_115200: "baud_divisor 16000000 115200 = Some (16, True)"
  by (simp add: baud_divisor_def cdiv_def Let_def)

lemma small_port_begin:
  "fs_begin port0 16000000 (Some (\<lambda>_. 0)) (Some (\<lambda>_. 0)) 115200 2 2
     \<lparr>fs_rx = ring4, fs_tx = ring4, fs_open = False, fs_ucsra = 0, fs_ucsrb = 0, fs_ubrr = 0\<rparr> = Some small_port"
  by (simp add: small_port_def fs_begin_def allocBuffer_def baud_115200 Let_def)


section \<open>The rest of the interface\<close>

lemma available_counts:
  assumes "rb_ok (fs_rx s)" "fs_open s"
  shows "fs_available s = int (length (rb_contents (fs_rx s)))"
proof -
  let ?r = "fs_rx s"
  obtain k where k: "k \<le> 9" "rb_mask ?r = mask k" "rb_size ?r = 2 ^ k" using assms(1) by (auto simp: rb_ok_def)
  have b: "unat (rb_head ?r) < 2 ^ k" "unat (rb_tail ?r) < 2 ^ k" using assms(1) k(3) by (auto simp: rb_ok_def)
  let ?x = "(rb_head ?r - rb_tail ?r) AND rb_mask ?r"
  have "uint ?x = (uint (rb_head ?r) - uint (rb_tail ?r)) mod 2 ^ k"
  proof -
    have "uint ?x = take_bit k (uint (rb_head ?r - rb_tail ?r))"
      unfolding k(2) by (simp only: take_bit_eq_mask [symmetric] unsigned_take_bit_eq)
    also have "\<dots> = take_bit k (take_bit 16 (uint (rb_head ?r) - uint (rb_tail ?r)))" by (simp add: uint_word_ariths take_bit_eq_mod)
    also have "\<dots> = take_bit k (uint (rb_head ?r) - uint (rb_tail ?r))" using k(1) by simp
    finally show ?thesis by (simp add: take_bit_eq_mod)
  qed
  also have "\<dots> = int (rb_count ?r)"
  proof -
    have "int (rb_count ?r) = (uint (rb_head ?r) + 2 ^ k - uint (rb_tail ?r)) mod 2 ^ k"
      using b by (simp add: rb_count_def k(3) zmod_int of_nat_diff)
    also have "\<dots> = (uint (rb_head ?r) - uint (rb_tail ?r)) mod 2 ^ k"
      by (metis (no_types, opaque_lifting) add_diff_eq diff_add_eq mod_add_self2)
    finally show ?thesis by simp
  qed
  finally have u: "uint ?x = int (rb_count ?r)" .
  have "(2 :: nat) ^ k \<le> 2 ^ 9" using k(1) by (intro power_increasing) simp_all
  then have "rb_count ?r < 512" using rb_count_less [OF assms(1)] k(3) by simp
  then have "uint ?x < 2 ^ 15" unfolding u by simp
  moreover have "- (2 ^ 15) \<le> uint ?x" by (rule order_trans [of _ 0]) simp_all
  ultimately have "sint ?x = uint ?x" using signed_take_bit_int_eq_self [of 15 "uint ?x"] by (simp add: sint_uint)
  with u assms(2) show ?thesis by (simp add: fs_available_def)
qed

text \<open>
  \<open>flush\<close> empties the receive ring by moving its head back to the tail, as it means to, but sets the
  tail of the transmit ring from the receive ring: an empty transmit ring comes out of it with
  bytes to send.
\<close>

lemma flush_mixes_rings:
  "rb_contents (fs_rx (fs_flush s)) = [] \<or> \<not> rb_ok (fs_rx s)"
  "rb_tail (fs_tx (fs_flush s)) = rb_tail (fs_rx s)"
  "rb_head (fs_tx s) \<noteq> rb_tail (fs_rx s) \<Longrightarrow> rb_head (fs_tx (fs_flush s)) \<noteq> rb_tail (fs_tx (fs_flush s))"
  by (simp_all add: fs_flush_def Let_def rb_contents_def rb_count_def rb_size_def rb_ok_def)

end
