(* ===== verification/UltoaInvert.thy ===== *)
theory UltoaInvert
  imports Prelude
begin

text \<open>
  The routine of the sensor board that turns a number into digits (Software/Arduino/ultoa_invert.S),
  translated from its instructions: the registers of the value are a word of 40 bits.
\<close>

section \<open>Digits\<close>

text \<open>
  The decimal loop divides by 10 with shifts and additions in 40 bits. The test for 0 looks at the
  lower 32 bits.
\<close>

definition div10 :: "40 word \<Rightarrow> 40 word" where
  "div10 v0 =
     (let v = (v0 AND NOT 1) + 2;
          v = v + drop_bit 1 v;
          v = v + drop_bit 4 v;
          v = v + drop_bit 8 v;
          v = v + drop_bit 16 v;
          v = v + drop_bit 32 v
      in drop_bit 4 v)"

definition dec_digit :: "40 word \<Rightarrow> 40 word \<Rightarrow> byte" where
  "dec_digit v q = ucast v - 10 * ucast q + 48"

definition hex_digit :: "bool \<Rightarrow> 40 word \<Rightarrow> byte" where
  "hex_digit upper v =
     (let symb = (ucast v AND 0x0F) + 48
      in if symb < 58 then symb else if upper then symb + 39 - 32 else symb + 39)"

definition oct_digit :: "40 word \<Rightarrow> byte" where
  "oct_digit v = (ucast v AND 7) + 48"

text \<open>Each turn of a loop writes a digit; \<open>fuel\<close> bounds the turns, \<open>None\<close> is a loop still going on.\<close>

fun dec_loop :: "nat \<Rightarrow> 40 word \<Rightarrow> byte list option" where
  "dec_loop 0 v = None"
| "dec_loop (Suc fuel) v =
     (let q = div10 v
      in if (ucast q :: 32 word) = 0 then Some [dec_digit v q]
         else map_option (Cons (dec_digit v q)) (dec_loop fuel q))"

fun shift_loop :: "nat \<Rightarrow> (40 word \<Rightarrow> byte) \<Rightarrow> nat \<Rightarrow> 40 word \<Rightarrow> byte list option" where
  "shift_loop 0 digit n v = None"
| "shift_loop (Suc fuel) digit n v =
     (let q = drop_bit n v
      in if (ucast q :: 32 word) = 0 then Some [digit v]
         else map_option (Cons (digit v)) (shift_loop fuel digit n q))"

text \<open>The base is 8, 16, 16 with the flag \<open>XTOA_UPPER\<close>, or anything else for 10.\<close>

definition XTOA_UPPER :: nat where
  "XTOA_UPPER = 0x200"

definition ultoa_invert :: "32 word \<Rightarrow> nat \<Rightarrow> byte list option" where
  "ultoa_invert val radix =
     (let v = ucast val
      in if radix mod 256 = 8 then shift_loop 11 oct_digit 3 v
         else if radix mod 256 = 16 then shift_loop 8 (hex_digit (bit radix 9)) 4 v
         else dec_loop 10 v)"

lemma div10_arith:
  fixes m :: int
  assumes "1 \<le> m" "m \<le> 2147483648"
  defines "a \<equiv> 3 * m"
  defines "b \<equiv> a + a div 16"
  defines "c \<equiv> b + b div 256"
  defines "d \<equiv> c + c div 65536"
  defines "e \<equiv> d + d div 4294967296"
  shows "e div 16 = (m - 1) div 5" "e < 2 ^ 40" "0 \<le> a" "a \<le> b" "b \<le> c" "c \<le> d" "d \<le> e"
proof -
  define k where "k = (m - 1) div 5"
  have k: "5 * k \<le> m - 1" "m - 1 \<le> 5 * k + 4" by (simp_all add: k_def)
  have b: "16 * b \<le> 17 * a" "17 * a \<le> 16 * b + 15" by (simp_all add: b_def algebra_simps)
  have c: "256 * c \<le> 257 * b" "257 * b \<le> 256 * c + 255" by (simp_all add: c_def algebra_simps)
  have d: "65536 * d \<le> 65537 * c" "65537 * c \<le> 65536 * d + 65535" by (simp_all add: d_def algebra_simps)
  have e: "4294967296 * e \<le> 4294967297 * d" "4294967297 * d \<le> 4294967296 * e + 4294967295"
    by (simp_all add: e_def algebra_simps)
  show "0 \<le> a" "a \<le> b" "b \<le> c" "c \<le> d" "d \<le> e" using assms by simp_all
  have a: "a = 3 * m" by (simp add: a_def)
  have "16 * k \<le> e" using a b c d e k assms(1,2) by linarith
  moreover have "e < 16 * k + 16" using a b c d e k assms(1) by linarith
  ultimately show "e div 16 = (m - 1) div 5" unfolding k_def [symmetric] by simp
  show "e < 2 ^ 40" using \<open>e < 16 * k + 16\<close> k assms(2) by simp
qed

lemma uint_drop_bit_div: "uint (drop_bit n w) = uint (w :: 'a :: len word) div 2 ^ n"
proof -
  have "take_bit LENGTH('a) (uint w) = uint w" by (simp add: take_bit_int_eq_self_iff)
  then show ?thesis by (metis drop_bit_eq_div unsigned_drop_bit_eq)
qed

lemma div10_exact:
  assumes "uint v < 2 ^ 32"
  shows "uint (div10 v) = uint v div 10"
proof -
  define m where "m = uint v div 2 + 1"
  have m: "1 \<le> m" "m \<le> 2147483648" using assms by (simp_all add: m_def)
  note ar = div10_arith [OF m]
  have shift: "uint (w + drop_bit n w) = x + x div 2 ^ n"
    if "uint w = x" "x + x div 2 ^ n < 2 ^ 40" for w :: "40 word" and n x
  proof -
    have "uint (drop_bit n w) = uint w div 2 ^ n" "0 \<le> x" using that(1) by (auto simp: uint_drop_bit_div)
    with that show ?thesis by (simp only: uint_word_ariths uint_word_ariths) (simp add: mod_pos_pos_trivial pos_imp_zdiv_nonneg_iff)
  qed
  let ?v0 = "(v AND NOT 1) + 2"
  have "v AND NOT 1 = 2 * drop_bit 1 v"
    by (rule bit_word_eqI) (auto simp: bit_simps bit_double_iff)
  then have "uint (v AND NOT 1) = 2 * (uint v div 2)" using assms
    by (simp add: uint_word_ariths uint_drop_bit_div)
  then have "uint ?v0 = 2 * m" using assms by (simp add: uint_word_ariths m_def)
  moreover define w where "w = ?v0"
  ultimately have v0: "uint w = 2 * m" by simp
  let ?a = "3 * m" let ?b = "?a + ?a div 16" let ?c = "?b + ?b div 256" let ?d = "?c + ?c div 65536" let ?e = "?d + ?d div 4294967296"
  let ?v1 = "w + drop_bit 1 w" let ?v2 = "?v1 + drop_bit 4 ?v1" let ?v3 = "?v2 + drop_bit 8 ?v2"
  let ?v4 = "?v3 + drop_bit 16 ?v3" let ?v5 = "?v4 + drop_bit 32 ?v4"
  have d: "?d < 2 ^ 40" by (rule le_less_trans [OF ar(7) ar(2)])
  have c: "?c < 2 ^ 40" by (rule le_less_trans [OF ar(6) d])
  have b: "?b < 2 ^ 40" by (rule le_less_trans [OF ar(5) c])
  have a: "?a < 2 ^ 40" by (rule le_less_trans [OF ar(4) b])
  have v1: "uint ?v1 = ?a" using shift [OF v0, of 1] a by simp
  have v2: "uint ?v2 = ?b" using shift [OF v1, of 4] b by simp
  have v3: "uint ?v3 = ?c" using shift [OF v2, of 8] c by simp
  have v4: "uint ?v4 = ?d" using shift [OF v3, of 16] d by simp
  have p: "(2 :: int) ^ 32 = 4294967296" by simp
  have v5: "uint ?v5 = ?e" by (rule shift [OF v4, of 32, unfolded p, OF ar(2)])
  have "uint (div10 v) = ?e div 16" by (simp only: div10_def Let_def uint_drop_bit_div v5 w_def [symmetric]) simp
  also have "\<dots> = (m - 1) div 5" by (rule ar(1))
  also have "\<dots> = uint v div 2 div 5" by (simp add: m_def)
  finally show ?thesis by (simp add: zdiv_zmult2_eq [symmetric])
qed

text \<open>The digits of a number, the lowest first, and the characters for them.\<close>

fun digits_of :: "nat \<Rightarrow> nat \<Rightarrow> nat list" where
  "digits_of radix n = (if radix < 2 \<or> n < radix then [n] else n mod radix # digits_of radix (n div radix))"

declare digits_of.simps [simp del]

definition digit_code :: "bool \<Rightarrow> nat \<Rightarrow> byte" where
  "digit_code upper d = of_nat (if d < 10 then 48 + d else if upper then 55 + d else 87 + d)"

lemma low_zero:
  assumes "unat (q :: 40 word) < 2 ^ 32"
  shows "(ucast q :: 32 word) = 0 \<longleftrightarrow> unat q = 0"
proof -
  have "unat (ucast q :: 32 word) = unat q" using assms by (simp add: unsigned_ucast_eq take_bit_nat_eq_self)
  moreover have "(ucast q :: 32 word) = 0 \<longleftrightarrow> unat (ucast q :: 32 word) = 0" by (simp only: unsigned_eq_0_iff)
  ultimately show ?thesis by simp
qed

lemma unat_div10:
  assumes "unat v < 2 ^ 32"
  shows "unat (div10 v) = unat v div 10"
proof -
  have u: "uint w = int (unat w)" for w :: "40 word" by simp
  have "int (unat v) < int (2 ^ 32)" using assms by (simp only: of_nat_less_iff)
  then have "uint v < 2 ^ 32" unfolding u by simp
  then have "int (unat (div10 v)) = int (unat v) div 10" unfolding u [symmetric] by (rule div10_exact)
  then show ?thesis by (metis nat_int zdiv_int of_nat_numeral)
qed

lemma dec_digit_code:
  assumes "unat v < 2 ^ 32"
  shows "dec_digit v (div10 v) = digit_code False (unat v mod 10)"
proof -
  let ?n = "unat v"
  have q: "unat (div10 v) = ?n div 10" by (rule unat_div10 [OF assms])
  have "(ucast v :: byte) = of_nat ?n" "(ucast (div10 v) :: byte) = of_nat (?n div 10)" by (simp_all add: q [symmetric])
  then have "(ucast v :: byte) = of_nat (10 * (?n div 10) + ?n mod 10)" "ucast (div10 v) = (of_nat (?n div 10) :: byte)"
    by (simp_all only: mult_div_mod_eq)
  then have "dec_digit v (div10 v) = of_nat (48 + ?n mod 10)"
    unfolding dec_digit_def by (simp only: of_nat_add of_nat_mult of_nat_numeral) simp
  then show ?thesis by (simp add: digit_code_def)
qed

lemma dec_loop_digits:
  assumes "unat v < 2 ^ 32" "unat v < 10 ^ fuel" "0 < fuel"
  shows "dec_loop fuel v = Some (map (digit_code False) (digits_of 10 (unat v)))"
  using assms
proof (induction fuel arbitrary: v)
  case (Suc fuel)
  have q: "unat (div10 v) = unat v div 10" by (rule unat_div10 [OF Suc.prems(1)])
  have small: "unat (div10 v) < 2 ^ 32" using Suc.prems(1) q by simp
  have zero: "(ucast (div10 v) :: 32 word) = 0 \<longleftrightarrow> unat v < 10"
    using low_zero [OF small] q by (simp add: div_eq_0_iff)
  show ?case
  proof (cases "unat v < 10")
    case True
    then show ?thesis using zero dec_digit_code [OF Suc.prems(1)] by (simp add: digits_of.simps Let_def)
  next
    case False
    then have "0 < fuel" using Suc.prems(2) by (cases fuel) auto
    moreover have "unat (div10 v) < 10 ^ fuel" using Suc.prems(2) q by (simp add: less_mult_imp_div_less mult.commute)
    ultimately show ?thesis
      using Suc.IH [OF small] zero False dec_digit_code [OF Suc.prems(1)] q
      by (simp add: digits_of.simps [of 10 "unat v"] Let_def)
  qed
qed simp

lemma shift_loop_digits:
  assumes "\<And>w. digit w = digit_code upper (unat w mod 2 ^ n)" "0 < n"
    "unat v < 2 ^ 32" "unat v < (2 ^ n) ^ fuel" "0 < fuel"
  shows "shift_loop fuel digit n v = Some (map (digit_code upper) (digits_of (2 ^ n) (unat v)))"
  using assms(3-)
proof (induction fuel arbitrary: v)
  case (Suc fuel)
  let ?q = "drop_bit n v"
  have "int (unat ?q) = int (unat v div 2 ^ n)" by (simp add: zdiv_int uint_drop_bit_div)
  then have q: "unat ?q = unat v div 2 ^ n" by (simp only: of_nat_eq_iff)
  have small: "unat ?q < 2 ^ 32" using Suc.prems(1) unfolding q by (rule le_less_trans [OF div_le_dividend])
  have zero: "(ucast ?q :: 32 word) = 0 \<longleftrightarrow> unat v < 2 ^ n"
    using low_zero [OF small] q by (simp add: div_eq_0_iff)
  have radix: "\<not> (2 :: nat) ^ n < 2" using assms(2) power_increasing [of 1 n "2 :: nat"] by simp
  show ?case
  proof (cases "unat v < 2 ^ n")
    case True
    then show ?thesis using zero assms(1) by (simp add: digits_of.simps Let_def)
  next
    case False
    then have "0 < fuel" using Suc.prems(2) by (cases fuel) auto
    moreover have "unat ?q < (2 ^ n) ^ fuel" using Suc.prems(2) unfolding q by (simp add: less_mult_imp_div_less mult.commute)
    ultimately show ?thesis
      using Suc.IH [OF small] zero False assms(1) q radix by (simp add: digits_of.simps [of "2 ^ n" "unat v"] Let_def)
  qed
qed simp

lemma low_bits: "(ucast (v :: 40 word) :: byte) AND mask n = of_nat (unat v mod 2 ^ n)" if "n \<le> 8"
proof -
  have "(ucast v :: byte) = of_nat (unat v)" by simp
  then have "(ucast v :: byte) AND mask n = take_bit n (of_nat (unat v))" by (simp only: take_bit_eq_mask)
  also have "\<dots> = of_nat (take_bit n (unat v))" by (simp only: take_bit_of_nat)
  finally show ?thesis by (simp add: take_bit_eq_mod)
qed

lemma oct_digit_code: "oct_digit v = digit_code upper (unat v mod 2 ^ 3)"
proof -
  have "unat v mod 8 < 10" by (rule less_trans [of _ 8]) simp_all
  moreover have "(ucast v :: byte) AND 7 = of_nat (unat v mod 8)" using low_bits [of 3 v] by (simp add: mask_eq_exp_minus_1)
  ultimately show ?thesis by (simp add: oct_digit_def digit_code_def)
qed

lemma hex_digit_code: "hex_digit upper v = digit_code upper (unat v mod 2 ^ 4)"
proof -
  have "(ucast v :: byte) AND 0x0F = of_nat (unat v mod 16)" using low_bits [of 4 v] by (simp add: mask_eq_exp_minus_1)
  then have "hex_digit upper v = (let symb = of_nat (unat v mod 16) + 48
      in if symb < (58 :: byte) then symb else if upper then symb + 39 - 32 else symb + 39)"
    by (simp add: hex_digit_def)
  moreover have "\<forall>d \<in> set [0..<16]. (let symb = of_nat d + 48
      in if symb < (58 :: byte) then symb else if upper then symb + 39 - 32 else symb + 39) = digit_code upper d"
    by (simp add: upt_rec digit_code_def)
  ultimately show ?thesis by simp
qed

lemma ultoa_all:
  "ultoa_invert val 10 = Some (map (digit_code False) (digits_of 10 (unat val)))
   \<and> ultoa_invert val 8 = Some (map (digit_code False) (digits_of 8 (unat val)))
   \<and> ultoa_invert val 16 = Some (map (digit_code False) (digits_of 16 (unat val)))
   \<and> ultoa_invert val (16 + XTOA_UPPER) = Some (map (digit_code True) (digits_of 16 (unat val)))"
proof -
  let ?v = "ucast val :: 40 word"
  have less: "unat val < 2 ^ 32" using unsigned_less [of val] by simp
  then have v: "unat ?v = unat val" by (simp add: unsigned_ucast_eq take_bit_nat_eq_self)
  have small: "unat ?v < 2 ^ 32" unfolding v by (rule less)
  have "bit (16 :: nat) 9 = False" "bit (528 :: nat) 9 = True" by (simp_all add: bit_iff_odd)
  then show ?thesis
    using dec_loop_digits [OF small, of 10] small shift_loop_digits [OF oct_digit_code [of _ False], of ?v 11]
      shift_loop_digits [OF hex_digit_code [of False], of ?v 8] shift_loop_digits [OF hex_digit_code [of True], of ?v 8]
    by (simp add: ultoa_invert_def XTOA_UPPER_def v)
qed

text \<open>
  C36. The assembly routine behind every integer conversion is exact: for each of the \<open>2 ^ 32\<close>
  values and each base it writes the digits of the value, the lowest first, in lower or upper
  case; in particular the division by 10 made of shifts and additions is the division by 10.
\<close>
theorem ultoa_invert_exact:
  "ultoa_invert val 10 = Some (map (digit_code False) (digits_of 10 (unat val)))
   \<and> ultoa_invert val 8 = Some (map (digit_code False) (digits_of 8 (unat val)))
   \<and> ultoa_invert val 16 = Some (map (digit_code False) (digits_of 16 (unat val)))
   \<and> ultoa_invert val (16 + XTOA_UPPER) = Some (map (digit_code True) (digits_of 16 (unat val)))
   \<and> (unat (v :: 40 word) < 2 ^ 32 \<longrightarrow> unat (div10 v) = unat v div 10)"
  using ultoa_all unat_div10 by blast

lemma ultoa_invert_exact_witness: "unat (div10 4294967295) = 429496729"
proof -
  have "unat (4294967295 :: 40 word) < 2 ^ 32" by simp
  with ultoa_invert_exact [of 0 4294967295] show ?thesis by simp
qed

lemma ultoa_dec: "ultoa_invert val 10 = Some (map (digit_code False) (digits_of 10 (unat val)))"
  using ultoa_all by blast

end
