(* ===== verification/Printf.thy ===== *)
theory Printf
  imports UltoaInvert
begin

text \<open>
  The formatted output of the sensor board (Software/Arduino/vprintf.cpp, BetterStream.cpp). What is
  written is a list of bytes; the flags, the width and the precision are bytes, as in the code,
  and wrap around. \<open>int\<close> has 16 bits, \<open>long\<close> has 32. The conversion of floating point to digits,
  \<open>__ftoa_engine\<close>, is an argument.
\<close>

section \<open>The format string\<close>

abbreviation asc :: "char \<Rightarrow> byte" where
  "asc c \<equiv> of_char c"

definition FL_ZFILL :: byte where "FL_ZFILL = 0x01"
definition FL_PLUS :: byte where "FL_PLUS = 0x02"
definition FL_SPACE :: byte where "FL_SPACE = 0x04"
definition FL_LPAD :: byte where "FL_LPAD = 0x08"
definition FL_ALT :: byte where "FL_ALT = 0x10"
definition FL_WIDTH :: byte where "FL_WIDTH = 0x20"
definition FL_PREC :: byte where "FL_PREC = 0x40"
definition FL_LONG :: byte where "FL_LONG = 0x80"

text \<open>Bits used again with another meaning once the format has been read.\<close>

abbreviation FL_NEGATIVE :: byte where "FL_NEGATIVE \<equiv> FL_LONG"
abbreviation FL_ALTUPP :: byte where "FL_ALTUPP \<equiv> FL_PLUS"
abbreviation FL_ALTHEX :: byte where "FL_ALTHEX \<equiv> FL_SPACE"
abbreviation FL_FLTUPP :: byte where "FL_FLTUPP \<equiv> FL_ALT"
abbreviation FL_FLTEXP :: byte where "FL_FLTEXP \<equiv> FL_PREC"
abbreviation FL_FLTFIX :: byte where "FL_FLTFIX \<equiv> FL_LONG"

lemmas fl_defs = FL_ZFILL_def FL_PLUS_def FL_SPACE_def FL_LPAD_def FL_ALT_def FL_WIDTH_def FL_PREC_def FL_LONG_def

abbreviation has_flag :: "byte \<Rightarrow> byte \<Rightarrow> bool" where
  "has_flag flags m \<equiv> flags AND m \<noteq> 0"

text \<open>
  The loop over the characters that are not part of a conversion: what it writes, and the character
  after the \<open>%\<close> with the rest of the format. A format ends with a 0 or with the list.
\<close>

fun fmt_text :: "byte list \<Rightarrow> byte list \<times> (byte \<times> byte list) option" where
  "fmt_text [] = ([], None)"
| "fmt_text (c # s) =
     (if c = 0 then ([], None)
      else if c = asc CHR ''%'' then
        (case s of
           [] \<Rightarrow> ([], Some (0, []))
         | c' # s' \<Rightarrow>
             if c' = asc CHR ''%'' then (let (out, r) = fmt_text s' in (c' # out, r)) else ([], Some (c', s')))
      else (let (out, r) = fmt_text s in ((if c = 10 then [13, c] else [c]) @ out, r)))"

text \<open>One turn of the loop over the flags, the width and the precision.\<close>

datatype fmt_step = More byte byte byte | Leave | Stop

definition fmt_flag :: "byte \<Rightarrow> byte \<Rightarrow> byte option" where
  "fmt_flag flags c =
     (if c = asc CHR ''0'' then Some (flags OR FL_ZFILL)
      else if c = asc CHR ''+'' then Some (flags OR FL_PLUS OR FL_SPACE)
      else if c = asc CHR '' '' then Some (flags OR FL_SPACE)
      else if c = asc CHR ''-'' then Some (flags OR FL_LPAD)
      else if c = asc CHR ''#'' then Some (flags OR FL_ALT)
      else None)"

definition fmt_adjust :: "byte \<Rightarrow> byte \<Rightarrow> byte \<Rightarrow> byte \<Rightarrow> fmt_step" where
  "fmt_adjust flags width prec c =
     (case (if flags < FL_WIDTH then fmt_flag flags c else None) of
        Some f \<Rightarrow> More f width prec
      | None \<Rightarrow>
          if flags < FL_LONG then
            (if asc CHR ''0'' \<le> c \<and> c \<le> asc CHR ''9'' then
               (if has_flag flags FL_PREC then More flags width (10 * prec + (c - asc CHR ''0''))
                else More (flags OR FL_WIDTH) (10 * width + (c - asc CHR ''0'')) prec)
             else if c = asc CHR ''.'' then
               (if has_flag flags FL_PREC then Stop else More (flags OR FL_PREC) width prec)
             else if c = asc CHR ''l'' then More (flags OR FL_LONG) width prec
             else if c = asc CHR ''h'' then More flags width prec
             else Leave)
          else Leave)"

fun fmt_adjusts ::
  "byte \<Rightarrow> byte \<Rightarrow> byte \<Rightarrow> byte \<Rightarrow> byte list \<Rightarrow> (byte \<times> byte \<times> byte \<times> byte \<times> byte list) option" where
  "fmt_adjusts flags width prec c s =
     (case fmt_adjust flags width prec c of
        Stop \<Rightarrow> None
      | Leave \<Rightarrow> Some (flags, width, prec, c, s)
      | More f w p \<Rightarrow>
          (case s of
             [] \<Rightarrow> Some (f, w, p, 0, [])
           | c' # s' \<Rightarrow> if c' = 0 then Some (f, w, p, 0, s') else fmt_adjusts f w p c' s'))"

declare fmt_adjusts.simps [simp del]

section \<open>Integers\<close>

text \<open>
  The arguments after the format; reading one of another type is undefined. Strings are those in
  memory and those in the program memory.
\<close>

datatype 'd va_arg = VInt "16 word" | VLong "32 word" | VDouble 'd | VStr "byte list" | VStrP "byte list"

definition va_signed :: "byte \<Rightarrow> 'd va_arg list \<Rightarrow> (32 word \<times> 'd va_arg list) option" where
  "va_signed flags args =
     (case args of
        VLong x # rest \<Rightarrow> if has_flag flags FL_LONG then Some (x, rest) else None
      | VInt x # rest \<Rightarrow> if has_flag flags FL_LONG then None else Some (scast x, rest)
      | _ \<Rightarrow> None)"

definition va_unsigned :: "byte \<Rightarrow> 'd va_arg list \<Rightarrow> (32 word \<times> 'd va_arg list) option" where
  "va_unsigned flags args =
     (case args of
        VLong x # rest \<Rightarrow> if has_flag flags FL_LONG then Some (x, rest) else None
      | VInt x # rest \<Rightarrow> if has_flag flags FL_LONG then None else Some (ucast x, rest)
      | _ \<Rightarrow> None)"

text \<open>\<open>Undefined\<close> behaviour, an early \<open>Return\<close> from the function, or the flags and the digits.\<close>

datatype 'd conversion = Undefined | Return | Digits byte "byte list" "'d va_arg list"

definition fmt_unsigned :: "byte \<Rightarrow> nat \<Rightarrow> 'd va_arg list \<Rightarrow> 'd conversion" where
  "fmt_unsigned flags radix args =
     (case va_unsigned flags args of
        None \<Rightarrow> Undefined
      | Some (x, rest) \<Rightarrow>
          (case ultoa_invert x radix of
             None \<Rightarrow> Undefined
           | Some buf \<Rightarrow> Digits (flags AND NOT FL_NEGATIVE) buf rest))"

definition fmt_signed :: "byte \<Rightarrow> 'd va_arg list \<Rightarrow> 'd conversion" where
  "fmt_signed flags args =
     (case va_signed flags args of
        None \<Rightarrow> Undefined
      | Some (x, rest) \<Rightarrow>
          (let flags = flags AND NOT (FL_NEGATIVE OR FL_ALT);
               flags' = (if sint x < 0 then flags OR FL_NEGATIVE else flags)
           in case ultoa_invert (if sint x < 0 then - x else x) 10 of
                None \<Rightarrow> Undefined
              | Some buf \<Rightarrow> Digits flags' buf rest))"

definition fmt_digits :: "byte \<Rightarrow> byte \<Rightarrow> 'd va_arg list \<Rightarrow> 'd conversion" where
  "fmt_digits flags c args =
     (if c = asc CHR ''d'' \<or> c = asc CHR ''i'' then fmt_signed flags args
      else if c = asc CHR ''u'' then fmt_unsigned (flags AND NOT FL_ALT) 10 args
      else
        (let flags = flags AND NOT (FL_PLUS OR FL_SPACE)
         in if c = asc CHR ''o'' then fmt_unsigned flags 8 args
            else if c = asc CHR ''p'' \<or> c = asc CHR ''x'' then
              (let flags = (if c = asc CHR ''p'' then flags OR FL_ALT else flags);
                   flags = (if has_flag flags FL_ALT then flags OR FL_ALTHEX else flags)
               in fmt_unsigned flags 16 args)
            else if c = asc CHR ''X'' then
              (let flags = (if has_flag flags FL_ALT then flags OR (FL_ALTHEX OR FL_ALTUPP) else flags)
               in fmt_unsigned flags (16 + XTOA_UPPER) args)
            else Return))"

text \<open>
  The layout of an integer, \<open>c\<close> being the number of its digits. A loop that writes while a
  counter goes up or down to a limit is \<open>replicate\<close>.
\<close>

definition int_precision :: "byte \<Rightarrow> byte \<Rightarrow> byte \<Rightarrow> byte \<times> byte" where
  "int_precision flags prec c =
     (if has_flag flags FL_PREC then
        (let flags = flags AND NOT FL_ZFILL
         in if c < prec then
              (if has_flag flags FL_ALT \<and> \<not> has_flag flags FL_ALTHEX then flags AND NOT FL_ALT else flags, prec)
            else (flags, c))
      else (flags, c))"

definition int_prefix_length :: "byte \<Rightarrow> byte \<Rightarrow> byte \<Rightarrow> byte \<times> byte" where
  "int_prefix_length flags len digit =
     (if has_flag flags FL_ALT then
        (if digit = asc CHR ''0'' then (flags AND NOT (FL_ALT OR FL_ALTHEX OR FL_ALTUPP), len)
         else (flags, if has_flag flags FL_ALTHEX then len + 1 + 1 else len + 1))
      else if has_flag flags (FL_NEGATIVE OR FL_PLUS OR FL_SPACE) then (flags, len + 1)
      else (flags, len))"

definition int_prefix :: "byte \<Rightarrow> byte list" where
  "int_prefix flags =
     (if has_flag flags FL_ALT then
        asc CHR ''0'' # (if has_flag flags FL_ALTHEX then [asc (if has_flag flags FL_ALTUPP then CHR ''X'' else CHR ''x'')] else [])
      else if has_flag flags (FL_NEGATIVE OR FL_PLUS OR FL_SPACE) then
        [asc (if has_flag flags FL_NEGATIVE then CHR ''-'' else if has_flag flags FL_PLUS then CHR ''+'' else CHR '' '')]
      else [])"

definition fmt_integer :: "byte \<Rightarrow> byte \<Rightarrow> byte \<Rightarrow> byte list \<Rightarrow> byte list" where
  "fmt_integer flags0 width prec0 buf =
     (let c = of_nat (length buf);
          (flags1, len1) = int_precision flags0 prec0 c;
          (flags, len2) = int_prefix_length flags1 len1 (buf ! (unat c - 1));
          (prec, len3) =
            (if \<not> has_flag flags FL_LPAD \<and> has_flag flags FL_ZFILL
             then (if len2 < width then (c + (width - len2), width) else (c, len2)) else (prec0, len2));
          spaces = (if has_flag flags FL_LPAD then [] else replicate (unat width - unat len3) (asc CHR '' ''));
          len = (if \<not> has_flag flags FL_LPAD \<and> len3 < width then width else len3);
          tail = (if len < width then width - len else 0)
      in spaces @ int_prefix flags @ replicate (unat prec - unat c) (asc CHR ''0'') @ rev buf
         @ replicate (unat tail) (asc CHR '' ''))"

section \<open>Strings\<close>

text \<open>\<open>strnlen\<close> with the limit of the precision, or of \<open>size_t\<close>; the width left over pads the tail.\<close>

definition fmt_strnlen :: "byte \<Rightarrow> byte \<Rightarrow> byte list \<Rightarrow> nat" where
  "fmt_strnlen flags prec pnt = min (length (takeWhile (\<lambda>b. b \<noteq> 0) pnt)) (if has_flag flags FL_PREC then unat prec else 65535)"

definition fmt_string :: "byte \<Rightarrow> byte \<Rightarrow> nat \<Rightarrow> byte list \<Rightarrow> byte list" where
  "fmt_string flags width len pnt =
     (let spaces = (if has_flag flags FL_LPAD then [] else replicate (unat width - len) (asc CHR '' ''));
          width = (if has_flag flags FL_LPAD then unat width else min (unat width) len)
      in spaces @ take len pnt @ replicate (width - len) (asc CHR '' ''))"

section \<open>Floating point\<close>

definition FTOA_MINUS :: byte where "FTOA_MINUS = 1"
definition FTOA_INF :: byte where "FTOA_INF = 4"
definition FTOA_NAN :: byte where "FTOA_NAN = 8"
definition FTOA_CARRY :: byte where "FTOA_CARRY = 16"

lemmas ftoa_defs = FTOA_MINUS_def FTOA_INF_def FTOA_NAN_def FTOA_CARRY_def

text \<open>
  The engine takes the value, the precision and the most digits, and returns the exponent of the
  first digit with a buffer: flags, then the digits.
\<close>

type_synonym 'd engine = "'d \<Rightarrow> byte \<Rightarrow> byte \<Rightarrow> int \<times> byte list"

definition flt_sign :: "byte \<Rightarrow> byte \<Rightarrow> byte list" where
  "flt_sign flags vtype =
     (if has_flag vtype FTOA_MINUS \<and> \<not> has_flag vtype FTOA_NAN then [asc CHR ''-'']
      else if has_flag flags FL_PLUS then [asc CHR ''+'']
      else if has_flag flags FL_SPACE then [asc CHR '' '']
      else [])"

definition flt_special :: "byte \<Rightarrow> byte \<Rightarrow> byte \<Rightarrow> byte list" where
  "flt_special flags width vtype =
     (let sign = flt_sign flags vtype;
          ndigs = (if sign = [] then 3 else 4);
          width = (if width > ndigs then width - ndigs else 0);
          spaces = (if has_flag flags FL_LPAD then [] else replicate (unat width) (asc CHR '' ''));
          tail = (if has_flag flags FL_LPAD then replicate (unat width) (asc CHR '' '') else []);
          p = (if has_flag vtype FTOA_NAN then map asc ''nan'' else map asc ''inf'')
      in spaces @ sign @ map (\<lambda>d. if has_flag flags FL_FLTUPP then d + asc CHR ''I'' - asc CHR ''i'' else d) p @ tail)"

text \<open>The trailing zeros of the g format.\<close>

fun flt_strip :: "byte list \<Rightarrow> nat \<Rightarrow> nat" where
  "flt_strip buf 0 = 0"
| "flt_strip buf (Suc prec) = (if buf ! (1 + Suc prec) = asc CHR ''0'' then flt_strip buf prec else Suc prec)"

text \<open>The digits of the f format from the position \<open>n\<close> down: what is written, the last digit, its position.\<close>

function flt_fixed :: "int \<Rightarrow> int \<Rightarrow> int \<Rightarrow> int \<Rightarrow> byte list \<Rightarrow> byte list \<times> byte \<times> int" where
  "flt_fixed n exp ndigs prec buf =
     (let dot = (if n = -1 then [asc CHR ''.''] else []);
          digit = (if n \<le> exp \<and> n > exp - ndigs then buf ! nat (exp - n + 1) else asc CHR ''0'')
      in if n - 1 < - prec then (dot, digit, n - 1)
         else (let (out, last_digit, m) = flt_fixed (n - 1) exp ndigs prec buf
               in (dot @ digit # out, last_digit, m)))"
  by auto

termination
  by (relation "measure (\<lambda>(n, exp, ndigs, prec, buf). nat (n + prec + 1))") auto

declare flt_fixed.simps [simp del]

definition flt_f :: "byte \<Rightarrow> byte \<Rightarrow> byte \<Rightarrow> int \<Rightarrow> byte list \<Rightarrow> byte list" where
  "flt_f prec vtype ndigs exp buf =
     (let (out, digit, n) = flt_fixed (if exp > 0 then exp else 0) exp (uint ndigs) (uint prec) buf;
          digit = (if n = exp \<and> (buf ! 1 > asc CHR ''5'' \<or> buf ! 1 = asc CHR ''5'' \<and> \<not> has_flag vtype FTOA_CARRY)
                   then asc CHR ''1'' else digit)
      in out @ [digit])"

definition flt_e :: "byte \<Rightarrow> byte \<Rightarrow> byte \<Rightarrow> int \<Rightarrow> byte list \<Rightarrow> byte list" where
  "flt_e flags prec vtype0 exp0 buf =
     (let vtype = (if buf ! 1 \<noteq> asc CHR ''1'' then vtype0 AND NOT FTOA_CARRY else vtype0);
          mantissa = buf ! 1 # (if prec \<noteq> 0 then asc CHR ''.'' # map (\<lambda>i. buf ! i) [2..<2 + unat prec] else []);
          minus = (exp0 < 0 \<or> exp0 = 0 \<and> has_flag vtype FTOA_CARRY);
          exp = (if minus then - exp0 else exp0)
      in mantissa @ [asc (if has_flag flags FL_FLTUPP then CHR ''E'' else CHR ''e''), asc (if minus then CHR ''-'' else CHR ''+'')]
         @ [asc CHR ''0'' + of_int (if exp \<ge> 10 then exp div 10 else 0), asc CHR ''0'' + of_int (if exp \<ge> 10 then exp mod 10 else exp)])"

text \<open>The output format of a finite number: the flags, the digits in the buffer, the precision.\<close>

definition flt_adjust :: "byte \<Rightarrow> byte \<Rightarrow> byte \<Rightarrow> byte \<Rightarrow> int \<Rightarrow> byte list \<Rightarrow> byte \<times> byte \<times> byte" where
  "flt_adjust flags prec vtype ndigs exp buf =
     (if has_flag flags FL_FLTFIX then
        (let ndigs = ndigs + of_int exp;
             ndigs = (if has_flag vtype FTOA_CARRY \<and> buf ! 1 = asc CHR ''1'' then ndigs - 1 else ndigs)
         in (flags, if sint ndigs < 1 then 1 else if ndigs > 8 then 8 else ndigs, prec))
      else if \<not> has_flag flags FL_FLTEXP then
        (let flags = (if exp \<le> uint prec \<and> exp \<ge> -4 then flags OR FL_FLTFIX else flags);
             prec = of_nat (flt_strip buf (unat prec))
         in if has_flag flags FL_FLTFIX then (flags, prec + 1, if uint prec > exp then of_int (uint prec - exp) else 0)
            else (flags, ndigs, prec))
      else (flags, ndigs, prec))"

definition flt_finite :: "byte \<Rightarrow> byte \<Rightarrow> byte \<Rightarrow> byte \<Rightarrow> byte \<Rightarrow> int \<Rightarrow> byte list \<Rightarrow> byte list" where
  "flt_finite flags0 width0 prec0 vtype ndigs0 exp buf =
     (let (flags, ndigs, prec) = flt_adjust flags0 prec0 vtype ndigs0 exp buf;
          sign = flt_sign flags0 vtype;
          n = (if has_flag flags FL_FLTFIX then (if exp > 0 then exp + 1 else 1) else 5);
          n = (if sign \<noteq> [] then n + 1 else n);
          n = (if prec \<noteq> 0 then n + (uint prec + 1) else n);
          width = (if uint width0 > n then nat (uint width0 - n) else 0);
          spaces = (if has_flag flags (FL_LPAD OR FL_ZFILL) then [] else replicate width (asc CHR '' ''));
          width = (if has_flag flags (FL_LPAD OR FL_ZFILL) then width else 0);
          zeros = (if has_flag flags FL_LPAD then [] else replicate width (asc CHR ''0''));
          tail = (if has_flag flags FL_LPAD then replicate width (asc CHR '' '') else [])
      in spaces @ sign @ zeros @ (if has_flag flags FL_FLTFIX then flt_f prec vtype ndigs exp buf else flt_e flags prec vtype exp buf)
         @ tail)"

definition fmt_float :: "'d engine \<Rightarrow> byte \<Rightarrow> byte \<Rightarrow> byte \<Rightarrow> byte \<Rightarrow> 'd \<Rightarrow> byte list" where
  "fmt_float ftoa_engine flags width prec c x =
     (let prec = (if has_flag flags FL_PREC then prec else 6);
          flags = flags AND NOT (FL_FLTEXP OR FL_FLTFIX);
          flags = (if c = asc CHR ''e'' then flags OR FL_FLTEXP else if c = asc CHR ''f'' then flags OR FL_FLTFIX else flags);
          prec = (if c \<noteq> asc CHR ''e'' \<and> c \<noteq> asc CHR ''f'' \<and> prec > 0 then prec - 1 else prec);
          prec' = (if has_flag flags FL_FLTFIX then prec else if prec > 7 then 7 else prec);
          ndigs = (if has_flag flags FL_FLTFIX then (if prec < 60 then prec + 1 else 60) else 0);
          (exp, buf) = ftoa_engine x (if has_flag flags FL_FLTFIX then 7 else prec') ndigs;
          vtype = buf ! 0
      in if has_flag vtype (FTOA_NAN OR FTOA_INF) then flt_special flags width vtype
         else flt_finite flags width prec' vtype ndigs exp buf)"

section \<open>The conversions and the whole format\<close>

datatype 'd outcome = Bad | Quit | Written "byte list" "'d va_arg list"

definition fmt_convert :: "'d engine \<Rightarrow> byte \<Rightarrow> byte \<Rightarrow> byte \<Rightarrow> byte \<Rightarrow> 'd va_arg list \<Rightarrow> 'd outcome" where
  "fmt_convert ftoa_engine flags width prec c args =
     (if asc CHR ''E'' \<le> c \<and> c \<le> asc CHR ''G'' then
        (case args of
           VDouble x # rest \<Rightarrow>
             Written (fmt_float ftoa_engine (flags OR FL_FLTUPP) width prec (c + (asc CHR ''e'' - asc CHR ''E'')) x) rest
         | _ \<Rightarrow> Bad)
      else if asc CHR ''e'' \<le> c \<and> c \<le> asc CHR ''g'' then
        (case args of
           VDouble x # rest \<Rightarrow> Written (fmt_float ftoa_engine (flags AND NOT FL_FLTUPP) width prec c x) rest
         | _ \<Rightarrow> Bad)
      else if c = asc CHR ''c'' then
        (case args of VInt x # rest \<Rightarrow> Written (fmt_string flags width 1 [ucast x]) rest | _ \<Rightarrow> Bad)
      else if c = asc CHR ''s'' then
        (case args of VStr pnt # rest \<Rightarrow> Written (fmt_string flags width (fmt_strnlen flags prec pnt) pnt) rest | _ \<Rightarrow> Bad)
      else if c = asc CHR ''S'' then
        (case args of VStrP pnt # rest \<Rightarrow> Written (fmt_string flags width (fmt_strnlen flags prec pnt) pnt) rest | _ \<Rightarrow> Bad)
      else
        (case fmt_digits flags c args of
           Undefined \<Rightarrow> Bad
         | Return \<Rightarrow> Quit
         | Digits flags' buf rest \<Rightarrow> Written (fmt_integer flags' width prec buf) rest))"

lemma fmt_text_shrinks: "snd (fmt_text fmt) = Some (c, s) \<Longrightarrow> length s < length fmt"
proof (induction fmt rule: fmt_text.induct)
  case (2 c' s')
  then show ?case
    by (cases s') (auto simp: Let_def split_beta less_Suc_eq split: if_splits dest: less_trans [OF _ lessI])
qed simp

lemma fmt_adjusts_shrinks: "fmt_adjusts f w p c s = Some (f', w', p', c', s') \<Longrightarrow> length s' \<le> length s"
  by (induction f w p c s rule: fmt_adjusts.induct)
     (subst (asm) (2) fmt_adjusts.simps, auto split: fmt_step.splits list.splits if_splits; fastforce)

lemma fmt_shrinks:
  assumes "(out, Some (c, s)) = fmt_text fmt" "fmt_adjusts f w p c s = Some (f', w', p', c', s')"
  shows "length s' < length fmt"
  using le_less_trans [OF fmt_adjusts_shrinks [OF assms(2)] fmt_text_shrinks] assms(1) by (metis snd_conv)

text \<open>\<open>None\<close> is an argument of the wrong type. The format may lie in either memory.\<close>

function vprintf :: "'d engine \<Rightarrow> byte list \<Rightarrow> 'd va_arg list \<Rightarrow> byte list option" where
  "vprintf ftoa_engine fmt args =
     (case fmt_text fmt of
        (out, None) \<Rightarrow> Some out
      | (out, Some (c, s)) \<Rightarrow>
          (case fmt_adjusts 0 0 0 c s of
             None \<Rightarrow> Some out
           | Some (flags, width, prec, c, s') \<Rightarrow>
               (case fmt_convert ftoa_engine flags width prec c args of
                  Bad \<Rightarrow> None
                | Quit \<Rightarrow> Some out
                | Written w rest \<Rightarrow> map_option (\<lambda>t. out @ w @ t) (vprintf ftoa_engine s' rest))))"
  by auto

termination
  by (relation "measure (\<lambda>(ftoa_engine, fmt, args). length fmt)")
     (auto intro: fmt_shrinks)

declare vprintf.simps [simp del]

definition print_P :: "byte list \<Rightarrow> byte list" where
  "print_P s = takeWhile (\<lambda>c. c \<noteq> 0) s"

text \<open>\<open>println\<close> of the Arduino library is an argument: what it writes.\<close>

definition println_P :: "byte list \<Rightarrow> byte list \<Rightarrow> byte list" where
  "println_P println s = print_P s @ println"

definition printf :: "'d engine \<Rightarrow> byte list \<Rightarrow> 'd va_arg list \<Rightarrow> byte list option" where
  "printf ftoa_engine fmt ap = vprintf ftoa_engine fmt ap"

definition printf_P :: "'d engine \<Rightarrow> byte list \<Rightarrow> 'd va_arg list \<Rightarrow> byte list option" where
  "printf_P ftoa_engine fmt ap = vprintf ftoa_engine fmt ap"

end
