(* ===== verification/PrintfContracts.thy ===== *)
theory PrintfContracts
  imports Printf
begin

text \<open>
  What the formatted output writes: every integer conversion against a reference layout in unbounded
  numbers, strings, and whole lines of numbers read back.
\<close>

section \<open>Flags\<close>

named_theorems flag_bits \<comment> \<open>the flag tests of the code as bits\<close>

lemma bit_power: "bit ((2 :: byte) ^ k) n \<longleftrightarrow> n = k \<and> k < 8"
  by (auto simp: bit_exp_iff)

lemma bit_flags [flag_bits]:
  "bit FL_ZFILL n \<longleftrightarrow> n = 0" "bit FL_PLUS n \<longleftrightarrow> n = 1" "bit FL_SPACE n \<longleftrightarrow> n = 2" "bit FL_LPAD n \<longleftrightarrow> n = 3"
  "bit FL_ALT n \<longleftrightarrow> n = 4" "bit FL_WIDTH n \<longleftrightarrow> n = 5" "bit FL_PREC n \<longleftrightarrow> n = 6" "bit FL_LONG n \<longleftrightarrow> n = 7"
  using bit_power [of 0 n] bit_power [of 1 n] bit_power [of 2 n] bit_power [of 3 n] bit_power [of 4 n] bit_power [of 5 n]
    bit_power [of 6 n] bit_power [of 7 n]
  by (simp_all add: fl_defs)

lemma bit_byte: "bit (f :: byte) n \<Longrightarrow> n < 8"
  using bit_imp_le_length [of f n] by simp

lemma has_bits: "has_flag f m \<longleftrightarrow> (\<exists>n. bit f n \<and> bit m n)"
  using bit_byte [of f] by (auto simp: bit_eq_iff [of "f AND m"] bit_and_iff)

lemma has_flag_bits [flag_bits]:
  "has_flag f FL_ZFILL \<longleftrightarrow> bit f 0" "has_flag f FL_PLUS \<longleftrightarrow> bit f 1" "has_flag f FL_SPACE \<longleftrightarrow> bit f 2"
  "has_flag f FL_LPAD \<longleftrightarrow> bit f 3" "has_flag f FL_ALT \<longleftrightarrow> bit f 4" "has_flag f FL_PREC \<longleftrightarrow> bit f 6"
  "has_flag f FL_LONG \<longleftrightarrow> bit f 7" "has_flag f (FL_NEGATIVE OR FL_PLUS OR FL_SPACE) \<longleftrightarrow> bit f 7 \<or> bit f 1 \<or> bit f 2"
  by (auto simp: has_bits bit_or_iff bit_flags)

lemma bit_changes [flag_bits]:
  fixes f m :: byte
  shows "bit (f AND m) n \<longleftrightarrow> bit f n \<and> bit m n" "bit (f OR m) n \<longleftrightarrow> bit f n \<or> bit m n"
    "bit (NOT m) n \<longleftrightarrow> n < 8 \<and> \<not> bit m n"
  by (auto simp: bit_and_iff bit_or_iff bit_not_iff)

section \<open>Integers\<close>

text \<open>A text in a field: padded with blanks on the right or on the left up to the width.\<close>

definition in_field :: "bool \<Rightarrow> nat \<Rightarrow> byte list \<Rightarrow> byte list" where
  "in_field left n text =
     (if left then text @ replicate (n - length text) 32 else replicate (n - length text) 32 @ text)"

text \<open>
  The zeros before the digits: up to the precision when there is one, else up to the width when
  the field is filled with zeros.
\<close>

definition fill_zeros :: "byte \<Rightarrow> nat \<Rightarrow> nat \<Rightarrow> byte list \<Rightarrow> byte list \<Rightarrow> byte list" where
  "fill_zeros flags width prec prefix digits =
     replicate (if bit flags 6 then prec - length digits
                else if bit flags 0 \<and> \<not> bit flags 3 then width - length (prefix @ digits) else 0) 48"

lemma int_precision_effect:
  assumes "int_precision flags prec c = (flags1, len1)"
  shows "unat len1 = (if bit flags 6 then max (unat c) (unat prec) else unat c)
    \<and> (\<forall>n. bit flags1 n \<longleftrightarrow> bit flags n \<and> (bit flags 6 \<longrightarrow> n \<noteq> 0) \<and> \<not> (n = 4 \<and> bit flags 6 \<and> \<not> bit flags 2 \<and> unat c < unat prec))"
  using assms by (auto simp: int_precision_def flag_bits Let_def word_less_nat_alt dest: bit_byte split: if_splits)

lemma int_prefix_effect:
  assumes "int_prefix_length flags1 len1 d = (flags, len2)" "unat len1 \<le> 253" "\<not> (bit flags1 4 \<and> bit flags1 7)"
  shows "unat len2 = unat len1 + length (int_prefix flags)
    \<and> (\<forall>n. bit flags n \<longleftrightarrow> bit flags1 n \<and> \<not> (bit flags1 4 \<and> d = 48 \<and> n \<in> {1, 2, 4}))"
proof -
  have one: "unat (len1 + 1) = unat len1 + 1" "unat (len1 + 1 + 1) = unat len1 + 2"
    using assms(2) by (simp_all add: unat_word_ariths)
  show ?thesis using assms(1,3) one
    by (auto simp: int_prefix_length_def int_prefix_def flag_bits dest: bit_byte split: if_splits)
qed

text \<open>
  The layout of any integer whose digits are at hand: prefix, zeros and digits in a field. The
  flags at the end decide the prefix.
\<close>

lemma fmt_integer_layout:
  assumes "int_precision flags prec (of_nat (length buf)) = (flags1, len1)"
    "int_prefix_length flags1 len1 (buf ! (length buf - 1)) = (flags2, len2)"
    "1 \<le> length buf" "length buf \<le> 11" "unat prec \<le> 253" "\<not> (bit flags 4 \<and> bit flags 7)"
    "\<not> bit flags 6 \<Longrightarrow> prec = 0"
  shows "fmt_integer flags width prec buf =
    in_field (bit flags 3) (unat width)
      (int_prefix flags2 @ fill_zeros flags (unat width) (unat prec) (int_prefix flags2) (rev buf) @ rev buf)"
proof -
  let ?c = "of_nat (length buf) :: byte"
  have c: "unat ?c = length buf" using assms(4) by (simp add: unat_of_nat)
  note len = conjunct1 [OF int_precision_effect [OF assms(1)]] and bits = conjunct2 [OF int_precision_effect [OF assms(1)]]
  have len1: "unat len1 \<le> 253" using len assms(4,5) c by (simp split: if_splits)
  have "\<not> (bit flags1 4 \<and> bit flags1 7)" using bits assms(6) by blast
  note pre = int_prefix_effect [OF assms(2) len1 this]
  have left: "has_flag flags2 FL_LPAD \<longleftrightarrow> bit flags 3" using conjunct2 [OF pre] bits by (auto simp: flag_bits)
  have zero: "has_flag flags2 FL_ZFILL \<longleftrightarrow> bit flags 0 \<and> \<not> bit flags 6" using conjunct2 [OF pre] bits by (auto simp: flag_bits)
  have len2: "unat len2 = unat len1 + length (int_prefix flags2)" using pre by simp
  have sub: "unat (a - b) = unat a - unat b" if "b < a" for a b :: byte
    using that by (simp add: unat_sub less_imp_le)
  have fill: "unat (?c + (width - len2)) = unat ?c + (unat width - unat len2)" if "len2 < width"
  proof -
    have "unat ?c \<le> unat len2" using len len2 by (simp split: if_splits)
    then have "unat ?c + unat (width - len2) < 256"
      using sub [OF that] that unsigned_less [where ?'a = nat, of width] by (simp add: word_less_nat_alt)
    then show ?thesis using sub [OF that] by (simp add: unat_word_ariths)
  qed
  note run = fmt_integer_def Let_def assms(1,2) c prod.case left zero
  consider (left) "bit flags 3" | (filled) "\<not> bit flags 3" "bit flags 0" "\<not> bit flags 6"
    | (plain) "\<not> bit flags 3" "\<not> (bit flags 0 \<and> \<not> bit flags 6)" by blast
  then show ?thesis
  proof cases
    case left
    have tail: "unat (if len2 < width then width - len2 else 0) = unat width - unat len2"
      using sub by (simp add: word_less_nat_alt)
    have zeros: "fill_zeros flags (unat width) (unat prec) (int_prefix flags2) (rev buf) = replicate (unat prec - length buf) 48"
      using left assms(7) by (auto simp: fill_zeros_def)
    have "unat len2 = length (int_prefix flags2) + (unat prec - length buf) + length buf"
      using len len2 c assms(7) by (simp add: max_def split: if_splits)
    then show ?thesis unfolding run using left tail zeros by (simp add: in_field_def add.assoc split: if_splits)
  next
    case filled
    have zeros: "fill_zeros flags (unat width) (unat prec) (int_prefix flags2) (rev buf) = replicate (unat width - unat len2) 48"
      using filled len len2 c by (simp add: fill_zeros_def add.commute)
    have "in_field (bit flags 3) (unat width) (int_prefix flags2 @ replicate (unat width - unat len2) 48 @ rev buf)
      = int_prefix flags2 @ replicate (unat width - unat len2) 48 @ rev buf"
      using filled len len2 c by (simp add: in_field_def)
    then show ?thesis unfolding zeros unfolding run using filled fill c
      by (cases "len2 < width") (simp_all add: word_less_nat_alt)
  next
    case plain
    have zeros: "fill_zeros flags (unat width) (unat prec) (int_prefix flags2) (rev buf) = replicate (unat prec - length buf) 48"
      using plain assms(7) by (auto simp: fill_zeros_def)
    have "unat len2 = length (int_prefix flags2) + (unat prec - length buf) + length buf"
      using len len2 c assms(7) by (simp add: max_def split: if_splits)
    then show ?thesis unfolding run using plain zeros
      by (cases "bit flags 6"; cases "len2 < width") (simp_all add: in_field_def word_less_nat_alt add.assoc)
  qed
qed

text \<open>A number in a base, the highest digit first.\<close>

definition numeral_text :: "bool \<Rightarrow> nat \<Rightarrow> nat \<Rightarrow> byte list" where
  "numeral_text upper radix n = rev (map (digit_code upper) (digits_of radix n))"

lemma length_digits:
  assumes "2 \<le> radix" "n < radix ^ k" "0 < k"
  shows "1 \<le> length (digits_of radix n) \<and> length (digits_of radix n) \<le> k"
  using assms(2-)
proof (induction k arbitrary: n)
  case (Suc k)
  show ?case
  proof (cases "n < radix")
    case False
    then have "0 < k" using Suc.prems by (cases k) auto
    moreover have "n div radix < radix ^ k" using Suc.prems(1) by (simp add: less_mult_imp_div_less mult.commute)
    ultimately show ?thesis using Suc.IH [of "n div radix"] False assms(1) by (simp add: digits_of.simps [of radix n])
  qed (simp add: digits_of.simps [of radix n])
qed simp

lemma digits_nonempty [simp]: "digits_of radix n \<noteq> []"
  by (simp add: digits_of.simps)

lemma last_digit: "2 \<le> radix \<Longrightarrow> last (digits_of radix n) = 0 \<longleftrightarrow> n = 0"
proof (induction radix n rule: digits_of.induct)
  case (1 radix n)
  then show ?case by (cases "n < radix") (simp_all add: digits_of.simps [of radix n] div_eq_0_iff)
qed

text \<open>The sign of a signed conversion.\<close>

definition sign_text :: "byte \<Rightarrow> int \<Rightarrow> byte list" where
  "sign_text flags x =
     (if x < 0 then [asc CHR ''-''] else if bit flags 1 then [asc CHR ''+''] else if bit flags 2 then [asc CHR '' ''] else [])"

definition signed_text :: "byte \<Rightarrow> nat \<Rightarrow> nat \<Rightarrow> int \<Rightarrow> byte list" where
  "signed_text flags width prec x =
     (let digits = numeral_text False 10 (nat \<bar>x\<bar>); sign = sign_text flags x
      in in_field (bit flags 3) width (sign @ fill_zeros flags width prec sign digits @ digits))"

lemma abs_word:
  fixes x :: "32 word"
  shows "unat (if sint x < 0 then - x else x) = nat \<bar>sint x\<bar>"
proof -
  have b: "- (2 ^ 31) \<le> sint x" "sint x < 2 ^ 31" using sint_ge [of x] sint_lt [of x] by simp_all
  have u: "uint x = sint x mod 2 ^ 32" using uint_sint [of x] by (simp add: take_bit_eq_mod)
  have "uint (- x) = - sint x" if "sint x < 0"
  proof -
    have "uint (- x) = (- uint x) mod 2 ^ 32" by (simp add: uint_word_ariths)
    also have "\<dots> = (- sint x) mod 2 ^ 32" unfolding u by (simp add: mod_minus_eq)
    finally show ?thesis using that b by simp
  qed
  moreover have "uint x = sint x" if "0 \<le> sint x"
    using that u b by simp
  ultimately have "int (unat (if sint x < 0 then - x else x)) = int (nat \<bar>sint x\<bar>)" by (cases "sint x < 0") simp_all
  then show ?thesis by (simp only: of_nat_eq_iff)
qed

lemma int_prefix_bits:
  "int_prefix f =
     (if bit f 4 then asc CHR ''0'' # (if bit f 2 then [asc (if bit f 1 then CHR ''X'' else CHR ''x'')] else [])
      else if bit f 7 then [asc CHR ''-''] else if bit f 1 then [asc CHR ''+''] else if bit f 2 then [asc CHR '' ''] else [])"
  by (auto simp: int_prefix_def flag_bits)

definition prefix_text :: "byte \<Rightarrow> nat \<Rightarrow> byte list \<Rightarrow> byte list" where
  "prefix_text f prec digits =
     (if bit f 4 \<and> \<not> (bit f 6 \<and> \<not> bit f 2 \<and> length digits < prec) then
        (if hd digits = asc CHR ''0'' then []
         else asc CHR ''0'' # (if bit f 2 then [asc (if bit f 1 then CHR ''X'' else CHR ''x'')] else []))
      else if bit f 7 then [asc CHR ''-''] else if bit f 1 then [asc CHR ''+''] else if bit f 2 then [asc CHR '' ''] else [])"

lemma fmt_integer_text:
  assumes "1 \<le> length digits" "length digits \<le> 11" "unat prec \<le> 253" "\<not> (bit f 4 \<and> bit f 7)" "\<not> bit f 6 \<Longrightarrow> prec = 0"
  defines "pre \<equiv> prefix_text f (unat prec) digits"
  shows "fmt_integer f width prec (rev digits) =
    in_field (bit f 3) (unat width) (pre @ fill_zeros f (unat width) (unat prec) pre digits @ digits)"
proof -
  let ?buf = "rev digits" let ?c = "of_nat (length ?buf) :: byte"
  have top: "?buf ! (length ?buf - 1) = hd digits" using assms(1) by (cases digits) (simp_all add: nth_append)
  have c: "unat ?c = length digits" using assms(2) by (simp add: unat_of_nat)
  obtain f1 l1 where p1: "int_precision f prec ?c = (f1, l1)" by (cases "int_precision f prec ?c")
  obtain f2 l2 where p2: "int_prefix_length f1 l1 (?buf ! (length ?buf - 1)) = (f2, l2)"
    by (cases "int_prefix_length f1 l1 (?buf ! (length ?buf - 1))")
  note len = conjunct1 [OF int_precision_effect [OF p1]] and b1 = conjunct2 [OF int_precision_effect [OF p1]]
  have l1: "unat l1 \<le> 253" using len assms(2,3) c by (simp split: if_splits)
  have "\<not> (bit f1 4 \<and> bit f1 7)" using b1 assms(4) by blast
  note b2 = conjunct2 [OF int_prefix_effect [OF p2 l1 this]]
  have "int_prefix f2 = pre"
    unfolding pre_def prefix_text_def int_prefix_bits b2 [THEN spec] b1 [THEN spec] c top
    using assms(4) by (cases "bit f 4"; cases "bit f 6"; cases "bit f 2"; simp)
  with fmt_integer_layout [OF p1 p2 _ _ assms(3,4,5)] assms(1,2) show ?thesis by simp
qed

text \<open>Without \<open>FL_PREC\<close> the precision is still 0 when the format has been read.\<close>

lemma fmt_adjust_prec: "fmt_adjust f w p c = More f' w' p' \<Longrightarrow> (\<not> bit f 6 \<longrightarrow> p = 0) \<Longrightarrow> \<not> bit f' 6 \<longrightarrow> p' = 0"
  by (auto simp: fmt_adjust_def fmt_flag_def flag_bits split: if_splits option.splits)

lemma fmt_adjusts_prec:
  "fmt_adjusts f w p c s = Some (f', w', p', c', s') \<Longrightarrow> (\<not> bit f 6 \<longrightarrow> p = 0) \<Longrightarrow> \<not> bit f' 6 \<longrightarrow> p' = 0"
proof (induction f w p c s rule: fmt_adjusts.induct)
  case (1 f w p c s)
  show ?case
  proof (cases "fmt_adjust f w p c")
    case (More fa wa pa)
    note fmt_adjust_prec [OF More 1(3)]
    then show ?thesis using 1(1) [OF More] 1(2) More
      by (subst (asm) (2) fmt_adjusts.simps) (auto split: list.splits if_splits)
  qed (use 1(2,3) in \<open>simp_all add: fmt_adjusts.simps [of f w p c s]\<close>)
qed

lemma convert_integer:
  assumes "fmt_digits flags c args = Digits flags' buf rest" "c \<in> asc ` set ''diuopxX''"
  shows "fmt_convert ftoa_engine flags width prec c args = Written (fmt_integer flags' width prec buf) rest"
  using assms by (auto simp: fmt_convert_def)

lemma numeral_buf:
  fixes upper :: bool
  assumes "2 \<le> radix" "n < radix ^ k" "0 < k" "k \<le> 11"
  defines "buf \<equiv> map (digit_code upper) (digits_of radix n)"
  shows "1 \<le> length buf" "length buf \<le> 11" "rev buf = numeral_text upper radix n" "buf ! (length buf - 1) = digit_code upper (last (digits_of radix n))"
  using length_digits [OF assms(1-3)] assms(4) by (auto simp: buf_def numeral_text_def last_conv_nth)

lemma signed_layout:
  assumes "va_signed flags args = Some (x, rest)" "unat prec \<le> 253" "c \<in> asc ` set ''di''" "\<not> bit flags 6 \<Longrightarrow> prec = 0"
  shows "fmt_convert ftoa_engine flags width prec c args = Written (signed_text flags (unat width) (unat prec) (sint x)) rest"
proof -
  let ?n = "nat \<bar>sint x\<bar>"
  let ?buf = "map (digit_code False) (digits_of 10 ?n)"
  define f where "f = (if sint x < 0 then flags AND NOT (FL_NEGATIVE OR FL_ALT) OR FL_NEGATIVE else flags AND NOT (FL_NEGATIVE OR FL_ALT))"
  have bits: "bit f n \<longleftrightarrow> n \<noteq> 4 \<and> (if n = 7 then sint x < 0 else bit flags n)" for n
    by (auto simp: f_def flag_bits dest: bit_byte)
  have digits: "fmt_digits flags c args = Digits f ?buf rest"
    using assms(1,3) ultoa_dec [of "if sint x < 0 then - x else x"]
    by (auto simp: fmt_digits_def fmt_signed_def f_def Let_def abs_word)
  have "?n < 10 ^ 10" using sint_ge [of x] sint_lt [of x] by simp
  note buf = numeral_buf [OF _ this, of False, simplified]
  have "prefix_text f (unat prec) (numeral_text False 10 ?n) = sign_text flags (sint x)"
    by (auto simp: prefix_text_def sign_text_def bits)
  moreover have "fill_zeros f = fill_zeros flags" by (intro ext) (simp add: fill_zeros_def bits)
  moreover have "bit f 3 = bit flags 3" "\<not> (bit f 4 \<and> bit f 7)" "\<not> bit f 6 \<Longrightarrow> prec = 0" using assms(4) by (simp_all add: bits)
  moreover have "1 \<le> length (numeral_text False 10 ?n)" "length (numeral_text False 10 ?n) \<le> 11" using buf(1,2) by (simp_all add: numeral_text_def)
  ultimately have "fmt_integer f width prec (rev (numeral_text False 10 ?n)) = signed_text flags (unat width) (unat prec) (sint x)"
    using fmt_integer_text [OF _ _ assms(2), of "numeral_text False 10 ?n" f width] unfolding signed_text_def Let_def by presburger
  moreover have "rev (numeral_text False 10 ?n) = ?buf" by (simp add: numeral_text_def)
  ultimately show ?thesis using convert_integer [OF digits] assms(3) by auto
qed

text \<open>
  The prefix and the digits of an unsigned conversion. The flags \<open>+\<close> and blank act on \<open>u\<close> alone.
\<close>

definition unsigned_prefix :: "byte \<Rightarrow> byte \<Rightarrow> nat \<Rightarrow> nat \<Rightarrow> byte list \<Rightarrow> byte list" where
  "unsigned_prefix c flags prec x digits =
     (if c = asc CHR ''u'' then (if bit flags 1 then [asc CHR ''+''] else if bit flags 2 then [asc CHR '' ''] else [])
      else if x = 0 then []
      else if c = asc CHR ''o'' then (if bit flags 4 \<and> \<not> (bit flags 6 \<and> length digits < prec) then [asc CHR ''0''] else [])
      else if c = asc CHR ''p'' \<or> bit flags 4 then map asc [CHR ''0'', if c = asc CHR ''X'' then CHR ''X'' else CHR ''x'']
      else [])"

definition unsigned_radix :: "byte \<Rightarrow> nat" where
  "unsigned_radix c = (if c = asc CHR ''u'' then 10 else if c = asc CHR ''o'' then 8 else 16)"

definition unsigned_text :: "byte \<Rightarrow> byte \<Rightarrow> nat \<Rightarrow> nat \<Rightarrow> nat \<Rightarrow> byte list" where
  "unsigned_text c flags width prec x =
     (let digits = numeral_text (c = asc CHR ''X'') (unsigned_radix c) x; pre = unsigned_prefix c flags prec x digits
      in in_field (bit flags 3) width (pre @ fill_zeros flags width prec pre digits @ digits))"

lemma hd_numeral: "2 \<le> radix \<Longrightarrow> radix \<le> 16 \<Longrightarrow> hd (numeral_text upper radix x) = 48 \<longleftrightarrow> x = 0"
proof -
  assume r: "2 \<le> radix" "radix \<le> 16"
  have "last (digits_of radix x) < radix" for x
    using r(1) by (induction radix x rule: digits_of.induct) (subst digits_of.simps, auto)
  then have small: "last (digits_of radix x) < 16" using r(2) by (meson less_le_trans)
  have "\<forall>d \<in> set [0..<16]. digit_code upper d = 48 \<longleftrightarrow> d = 0" by (simp add: upt_rec digit_code_def)
  with small have "digit_code upper (last (digits_of radix x)) = 48 \<longleftrightarrow> last (digits_of radix x) = 0" by simp
  then show ?thesis using last_digit [OF r(1)] by (simp add: numeral_text_def hd_rev last_map)
qed

lemma fmt_unsigned_text:
  assumes "va_unsigned flags args = Some (x, rest)"
    "ultoa_invert x radix' = Some (map (digit_code upper) (digits_of radix (unat x)))" "radix \<in> {8, 10, 16}"
  shows "fmt_unsigned flags radix' args = Digits (flags AND NOT FL_NEGATIVE) (rev (numeral_text upper radix (unat x))) rest"
    "1 \<le> length (numeral_text upper radix (unat x))" "length (numeral_text upper radix (unat x)) \<le> 11"
proof -
  show "fmt_unsigned flags radix' args = Digits (flags AND NOT FL_NEGATIVE) (rev (numeral_text upper radix (unat x))) rest"
    using assms by (simp add: fmt_unsigned_def numeral_text_def)
  have "unat x < 2 ^ 32" using unsigned_less [where ?'a = nat, of x] by simp
  then have "unat x < radix ^ 11" using assms(3) by auto
  then have "1 \<le> length (digits_of radix (unat x)) \<and> length (digits_of radix (unat x)) \<le> 11"
    using assms(3) by (intro length_digits) auto
  then show "1 \<le> length (numeral_text upper radix (unat x))" "length (numeral_text upper radix (unat x)) \<le> 11"
    by (simp_all add: numeral_text_def)
qed

lemma va_unsigned_flags: "bit f 7 = bit g 7 \<Longrightarrow> va_unsigned f args = va_unsigned g args"
  by (auto simp: va_unsigned_def flag_bits split: list.splits va_arg.splits)

lemma unsigned_finish:
  assumes "fmt_digits flags c args = Digits f (rev digits) rest" "c \<in> asc ` set ''uopxX''" "unat prec \<le> 253"
    "\<not> bit flags 6 \<Longrightarrow> prec = 0" "1 \<le> length digits" "length digits \<le> 11" "\<not> bit f 7"
    "\<And>n. n \<in> {0, 3, 6} \<Longrightarrow> bit f n = bit flags n"
    "prefix_text f (unat prec) digits = unsigned_prefix c flags (unat prec) x digits"
    "digits = numeral_text (c = asc CHR ''X'') (unsigned_radix c) x"
  shows "fmt_convert ftoa_engine flags width prec c args = Written (unsigned_text c flags (unat width) (unat prec) x) rest"
proof -
  have "fill_zeros f = fill_zeros flags" by (intro ext) (simp add: fill_zeros_def assms(8))
  moreover have "bit f 3 = bit flags 3" "\<not> bit f 6 \<Longrightarrow> prec = 0" using assms(4,8) by simp_all
  ultimately have "fmt_integer f width prec (rev digits) = unsigned_text c flags (unat width) (unat prec) x"
    using fmt_integer_text [OF assms(5,6,3), of f width] assms(7) unfolding unsigned_text_def Let_def assms(9) assms(10) [symmetric] by simp
  moreover have "c \<in> asc ` set ''diuopxX''" using assms(2) by auto
  ultimately show ?thesis using convert_integer [OF assms(1)] by simp
qed

lemma unsigned_layout:
  assumes "va_unsigned flags args = Some (x, rest)" "unat prec \<le> 253" "c \<in> asc ` set ''uopxX''" "\<not> bit flags 6 \<Longrightarrow> prec = 0"
  shows "fmt_convert ftoa_engine flags width prec c args = Written (unsigned_text c flags (unat width) (unat prec) (unat x)) rest"
proof -
  define base where "base = flags AND NOT (FL_PLUS OR FL_SPACE)"
  have base: "bit base n \<longleftrightarrow> bit flags n \<and> n \<noteq> 1 \<and> n \<noteq> 2" for n by (auto simp: base_def flag_bits dest: bit_byte)
  have zero: "hd (numeral_text upper 8 n) = 48 \<longleftrightarrow> n = 0" "hd (numeral_text upper 16 n) = 48 \<longleftrightarrow> n = 0" for upper n
    by (simp_all add: hd_numeral)
  have va: "va_unsigned f args = Some (x, rest)" if "bit f 7 = bit flags 7" for f
    using va_unsigned_flags [OF that, of args] assms(1) by simp
  consider (u) "c = asc CHR ''u''" | (o) "c = asc CHR ''o''" | (p) "c = asc CHR ''p''" | (x) "c = asc CHR ''x''" | (X) "c = asc CHR ''X''"
    using assms(3) by auto
  then show ?thesis
  proof cases
    case u
    define f where "f = flags AND NOT FL_ALT"
    have bits: "bit f n \<longleftrightarrow> bit flags n \<and> n \<noteq> 4" for n by (auto simp: f_def flag_bits dest: bit_byte)
    have "va_unsigned f args = Some (x, rest)" by (rule va) (simp add: bits)
    note ft = fmt_unsigned_text [OF this ultoa_dec]
    have run: "fmt_digits flags c args = fmt_unsigned f 10 args" by (simp add: fmt_digits_def Let_def u f_def)
    show ?thesis
      by (rule unsigned_finish [where f = "f AND NOT FL_NEGATIVE", OF _ assms(3,2) _ ft(2,3)])
        (use u run ft(1) zero assms(4) in \<open>auto simp: prefix_text_def unsigned_prefix_def unsigned_radix_def bits flag_bits\<close>)
  next
    case o
    have "va_unsigned base args = Some (x, rest)" by (rule va) (simp add: base)
    note ft = fmt_unsigned_text [OF this conjunct1 [OF conjunct2 [OF ultoa_all]]]
    have run: "fmt_digits flags c args = fmt_unsigned base 8 args" by (simp add: fmt_digits_def Let_def o base_def)
    show ?thesis
      by (rule unsigned_finish [where f = "base AND NOT FL_NEGATIVE", OF _ assms(3,2) _ ft(2,3)])
        (use o run ft(1) zero assms(4) in \<open>auto simp: prefix_text_def unsigned_prefix_def unsigned_radix_def base flag_bits\<close>)
  next
    case p
    define f where "f = (base OR FL_ALT) OR FL_ALTHEX"
    have bits: "bit f n \<longleftrightarrow> bit flags n \<and> n \<noteq> 1 \<or> n = 4 \<or> n = 2" for n by (auto simp: f_def flag_bits base)
    have "va_unsigned f args = Some (x, rest)" by (rule va) (simp add: bits)
    note ft = fmt_unsigned_text [OF this conjunct1 [OF conjunct2 [OF conjunct2 [OF ultoa_all]]]]
    have run: "fmt_digits flags c args = fmt_unsigned f 16 args" by (simp add: fmt_digits_def Let_def p f_def base_def FL_ALT_def)
    show ?thesis
      by (rule unsigned_finish [where f = "f AND NOT FL_NEGATIVE", OF _ assms(3,2) _ ft(2,3)])
        (use p run ft(1) zero assms(4) in \<open>auto simp: prefix_text_def unsigned_prefix_def unsigned_radix_def bits flag_bits\<close>)
  next
    case x
    define f where "f = (if has_flag base FL_ALT then base OR FL_ALTHEX else base)"
    have bits: "bit f n \<longleftrightarrow> bit flags n \<and> n \<noteq> 1 \<and> n \<noteq> 2 \<or> n = 2 \<and> bit flags 4" for n by (auto simp: f_def flag_bits base)
    have "va_unsigned f args = Some (x, rest)" by (rule va) (simp add: bits)
    note ft = fmt_unsigned_text [OF this conjunct1 [OF conjunct2 [OF conjunct2 [OF ultoa_all]]]]
    have run: "fmt_digits flags c args = fmt_unsigned f 16 args" by (simp add: fmt_digits_def Let_def x f_def base_def)
    show ?thesis
      by (rule unsigned_finish [where f = "f AND NOT FL_NEGATIVE", OF _ assms(3,2) _ ft(2,3)])
        (use x run ft(1) zero assms(4) in \<open>auto simp: prefix_text_def unsigned_prefix_def unsigned_radix_def bits flag_bits\<close>)
  next
    case X
    define f where "f = (if has_flag base FL_ALT then base OR (FL_ALTHEX OR FL_ALTUPP) else base)"
    have bits: "bit f n \<longleftrightarrow> bit flags n \<and> n \<noteq> 1 \<and> n \<noteq> 2 \<or> (n = 2 \<or> n = 1) \<and> bit flags 4" for n by (auto simp: f_def flag_bits base)
    have "va_unsigned f args = Some (x, rest)" by (rule va) (simp add: bits)
    note ft = fmt_unsigned_text [OF this conjunct2 [OF conjunct2 [OF conjunct2 [OF ultoa_all]]]]
    have run: "fmt_digits flags c args = fmt_unsigned f (16 + XTOA_UPPER) args" by (simp add: fmt_digits_def Let_def X f_def base_def)
    show ?thesis
      by (rule unsigned_finish [where f = "f AND NOT FL_NEGATIVE", OF _ assms(3,2) _ ft(2,3)])
        (use X run ft(1) zero assms(4) in \<open>auto simp: prefix_text_def unsigned_prefix_def unsigned_radix_def bits flag_bits\<close>)
  qed
qed

text \<open>
  C35. Every integer conversion writes what the reference layout says, whatever the flags, the
  width, the precision up to 253 and the value: the format is read up to the conversion character
  \<open>c\<close>, the argument is an \<open>int\<close> or a \<open>long\<close> as the format says, and the text is the sign or the
  prefix, the zeros of the precision or of the field, and the digits of the value, in a field of
  the width. The value may be the least one, whose negation is not a \<open>long\<close>.
\<close>
theorem integer_conversions:
  assumes "fmt_adjusts 0 0 0 c0 s = Some (flags, width, prec, c, s')" "unat prec \<le> 253"
  shows "(c \<in> asc ` set ''di'' \<longrightarrow> va_signed flags args = Some (x, rest) \<longrightarrow>
      fmt_convert ftoa_engine flags width prec c args = Written (signed_text flags (unat width) (unat prec) (sint x)) rest)
    \<and> (c \<in> asc ` set ''uopxX'' \<longrightarrow> va_unsigned flags args = Some (x, rest) \<longrightarrow>
      fmt_convert ftoa_engine flags width prec c args = Written (unsigned_text c flags (unat width) (unat prec) (unat x)) rest)"
proof -
  have "\<not> bit flags 6 \<longrightarrow> prec = 0" by (rule fmt_adjusts_prec [OF assms(1)]) simp
  then show ?thesis by (intro conjI impI) (erule signed_layout [OF _ assms(2)] unsigned_layout [OF _ assms(2)]; simp)+
qed

text \<open>The conversions \<open>%+6.3d\<close> of -42 and \<open>%#010lx\<close> of \<open>0xBE\<close>.\<close>

lemma integer_conversions_witness:
  "fmt_convert (\<lambda>x p n. (0, [])) 0x66 6 3 (asc CHR ''d'') [VInt (-42)] = Written (map asc ''  -042'') ([] :: unit va_arg list)
   \<and> fmt_convert (\<lambda>x p n. (0, [])) 0xB1 10 0 (asc CHR ''x'') [VLong 0xBE] = Written (map asc ''0x000000be'') ([] :: unit va_arg list)"
proof -
  have d: "fmt_adjusts 0 0 0 (asc CHR ''+'') (map asc ''6.3d'') = Some (0x66, 6, 3, asc CHR ''d'', [])" by code_simp
  have x: "fmt_adjusts 0 0 0 (asc CHR ''#'') (map asc ''010lx'') = Some (0xB1, 10, 0, asc CHR ''x'', [])" by code_simp
  have small: "unat (3 :: byte) \<le> 253" "unat (0 :: byte) \<le> 253" by simp_all
  have va: "va_signed 0x66 [VInt (-42)] = Some (-42, [] :: unit va_arg list)" "va_unsigned 0xB1 [VLong 0xBE] = Some (0xBE, [] :: unit va_arg list)"
    by (simp_all add: va_signed_def va_unsigned_def FL_LONG_def)
  have c: "asc CHR ''d'' \<in> asc ` set ''di''" "asc CHR ''x'' \<in> asc ` set ''uopxX''" by simp_all
  have n: "unat (6 :: byte) = 6" "unat (3 :: byte) = 3" "unat (10 :: byte) = 10" "unat (0 :: byte) = 0" "sint (-42 :: 32 word) = -42"
    "unat (0xBE :: 32 word) = 0xBE" by simp_all
  have "signed_text 0x66 6 3 (-42) = map asc ''  -042''" by code_simp
  note i = mp [OF mp [OF conjunct1 [OF integer_conversions [where ftoa_engine = "\<lambda>x p n. (0, [])", OF d small(1)]] c(1)] va(1), unfolded n this]
  have "unsigned_text (asc CHR ''x'') 0xB1 10 0 0xBE = map asc ''0x000000be''" by code_simp
  note u = mp [OF mp [OF conjunct2 [OF integer_conversions [where ftoa_engine = "\<lambda>x p n. (0, [])", OF x small(2)]] c(2)] va(2), unfolded n this]
  show ?thesis by (rule conjI [OF i u])
qed

section \<open>Strings and floating point\<close>

lemma string_layout:
  "fmt_string flags width (fmt_strnlen flags prec pnt) pnt
   = in_field (bit flags 3) (unat width) (take (fmt_strnlen flags prec pnt) pnt)"
proof -
  have "fmt_strnlen flags prec pnt \<le> length pnt"
    using length_takeWhile_le [of "\<lambda>b. b \<noteq> 0" pnt] by (simp add: fmt_strnlen_def)
  then show ?thesis by (simp add: fmt_string_def in_field_def flag_bits min_def)
qed

text \<open>
  The shape of what the fixed-point loop writes, whatever the last digit: digits, then a point and
  as many digits as the precision.
\<close>

definition fixed_shape :: "int \<Rightarrow> int \<Rightarrow> byte list \<Rightarrow> bool" where
  "fixed_shape n prec out \<longleftrightarrow>
     (\<forall>d. if n < -1 then length out = nat (n + prec)
          else if n = -1 then (\<exists>frac. out @ [d] = asc CHR ''.'' # frac \<and> length frac = nat prec)
          else (\<exists>whole frac. out @ [d] = whole @ (if prec = 0 then [] else asc CHR ''.'' # frac)
                 \<and> length whole = nat (n + 1) \<and> length frac = nat prec))"

lemma flt_fixed_shape:
  "flt_fixed n exp ndigs prec buf = (out, d, m) \<Longrightarrow> - prec \<le> n \<Longrightarrow> 0 \<le> prec \<Longrightarrow> fixed_shape n prec out"
proof (induction n exp ndigs prec buf arbitrary: out d m rule: flt_fixed.induct)
  case (1 n exp ndigs prec buf)
  let ?dot = "if n = -1 then [asc CHR ''.''] else []"
  let ?digit = "if n \<le> exp \<and> n > exp - ndigs then buf ! nat (exp - n + 1) else asc CHR ''0''"
  show ?case
  proof (cases "n - 1 < - prec")
    case True
    then have "out = ?dot" "prec = - n" using 1(2-) by (simp_all add: flt_fixed.simps [of n] Let_def)
    then show ?thesis using 1(4) by (auto simp: fixed_shape_def)
  next
    case False
    obtain o' d' m' where r: "flt_fixed (n - 1) exp ndigs prec buf = (o', d', m')" by (cases "flt_fixed (n - 1) exp ndigs prec buf")
    have out: "out = ?dot @ ?digit # o'" using 1(2) False r by (simp add: flt_fixed.simps [of n] Let_def)
    have ih: "fixed_shape (n - 1) prec o'" using 1(1) [OF refl refl False r] False 1(4) by simp
    consider (low) "n < -1" | (point) "n = -1" | (unit) "n = 0" | (high) "0 < n" by linarith
    then show ?thesis
    proof cases
      case low
      then show ?thesis using ih out False by (auto simp: fixed_shape_def nat_eq_iff)
    next
      case point
      then show ?thesis using ih out False by (auto simp: fixed_shape_def)
    next
      case unit
      have "\<exists>whole frac. out @ [e] = whole @ (if prec = 0 then [] else asc CHR ''.'' # frac)
          \<and> length whole = nat (n + 1) \<and> length frac = nat prec" for e
      proof -
        obtain frac where f: "o' @ [e] = asc CHR ''.'' # frac" "length frac = nat prec" using ih unit by (auto simp: fixed_shape_def)
        then show ?thesis using out unit False by (intro exI [of _ "[?digit]"] exI [of _ frac]) auto
      qed
      then show ?thesis using unit by (simp add: fixed_shape_def)
    next
      case high
      have "\<exists>whole frac. out @ [e] = whole @ (if prec = 0 then [] else asc CHR ''.'' # frac)
          \<and> length whole = nat (n + 1) \<and> length frac = nat prec" for e
      proof -
        have "\<exists>whole frac. o' @ [e] = whole @ (if prec = 0 then [] else asc CHR ''.'' # frac)
          \<and> length whole = nat n \<and> length frac = nat prec" using ih high by (simp add: fixed_shape_def)
        then obtain whole frac where w: "o' @ [e] = whole @ (if prec = 0 then [] else asc CHR ''.'' # frac)"
          "length whole = nat n" "length frac = nat prec" by blast
        then show ?thesis using out high by (intro exI [of _ "?digit # whole"] exI [of _ frac]) auto
      qed
      then show ?thesis using high by (simp add: fixed_shape_def)
    qed
  qed
qed

lemma flt_f_shape:
  "\<exists>whole frac. flt_f prec vtype ndigs exp buf = whole @ (if prec = 0 then [] else asc CHR ''.'' # frac)
     \<and> length whole = nat (max exp 0 + 1) \<and> length frac = unat prec"
proof -
  let ?n = "if exp > 0 then exp else 0"
  obtain out d m where r: "flt_fixed ?n exp (uint ndigs) (uint prec) buf = (out, d, m)"
    by (cases "flt_fixed ?n exp (uint ndigs) (uint prec) buf")
  have shp: "fixed_shape ?n (uint prec) out" by (rule flt_fixed_shape [OF r]) (simp_all add: order_trans [of _ 0])
  have zero: "uint prec = 0 \<longleftrightarrow> prec = 0" by (rule uint_0_iff)
  have "\<exists>whole frac. out @ [e] = whole @ (if prec = 0 then [] else asc CHR ''.'' # frac)
     \<and> length whole = nat (max exp 0 + 1) \<and> length frac = unat prec" for e
    using spec [OF shp [unfolded fixed_shape_def], of e] unfolding zero by (cases "exp > 0") (simp_all add: max_def)
  then show ?thesis by (simp add: flt_f_def r Let_def)
qed

text \<open>
  The f conversion of a finite number writes exactly as many digits after the point as the
  precision says (six without one), and no point for a precision of 0, whatever digits the engine
  delivers; before the point stand the digits down to the units, at least one; and the text fills
  the field and is no longer than the width or the number asks for.
\<close>
lemma fixed_point_layout:
  assumes "ftoa_engine x 7 (if p < 60 then p + 1 else 60) = (exp, buf)" "\<not> has_flag (buf ! 0) (FTOA_NAN OR FTOA_INF)"
    "p = (if bit flags 6 then prec else 6)"
  shows "\<exists>lead whole frac tail.
    fmt_float ftoa_engine flags width prec (asc CHR ''f'') x = lead @ whole @ (if p = 0 then [] else asc CHR ''.'' # frac) @ tail
    \<and> length whole = nat (max exp 0 + 1) \<and> length frac = unat p \<and> set tail \<subseteq> {asc CHR '' ''}
    \<and> length (fmt_float ftoa_engine flags width prec (asc CHR ''f'') x)
      = max (unat width) (length (flt_sign flags (buf ! 0)) + length whole + (if p = 0 then 0 else 1 + unat p))"
proof -
  define f where "f = flags AND NOT FL_FLTEXP AND NOT FL_FLTFIX OR FL_FLTFIX"
  have bits: "bit f n \<longleftrightarrow> n = 7 \<or> bit flags n \<and> n \<noteq> 6" for n by (auto simp: f_def flag_bits dest: bit_byte)
  have sign: "flt_sign f v = flt_sign flags v" for v by (simp add: flt_sign_def flag_bits bits)
  have fill: "has_flag f (FL_LPAD OR FL_ZFILL) \<longleftrightarrow> bit flags 3 \<or> bit flags 0" by (auto simp: has_bits flag_bits bits)
  have run: "fmt_float ftoa_engine flags width prec (asc CHR ''f'') x
      = flt_finite f width p (buf ! 0) (if p < 60 then p + 1 else 60) exp buf"
    using assms(1,2) by (simp add: fmt_float_def Let_def f_def flag_bits assms(3) [symmetric])
  obtain nd where adj: "flt_adjust f p (buf ! 0) (if p < 60 then p + 1 else 60) exp buf = (f, nd, p)"
    by (simp add: flt_adjust_def flag_bits bits Let_def)
  obtain whole frac where shape: "flt_f p (buf ! 0) nd exp buf = whole @ (if p = 0 then [] else asc CHR ''.'' # frac)"
    "length whole = nat (max exp 0 + 1)" "length frac = unat p" using flt_f_shape by blast
  let ?sign = "flt_sign flags (buf ! 0)"
  define n where "n = length ?sign + length whole + (if p = 0 then 0 else 1 + unat p)"
  define space where "space = unat width - n"
  have one: "length ?sign = (if ?sign \<noteq> [] then 1 else 0)" by (simp add: flt_sign_def)
  have whole_int: "int (length whole) = (if exp > 0 then exp + 1 else 1)" unfolding shape(2) by simp
  define N where "N = (if p \<noteq> 0 then (if ?sign \<noteq> [] then (if exp > 0 then exp + 1 else 1) + 1 else (if exp > 0 then exp + 1 else 1)) + (uint p + 1)
    else (if ?sign \<noteq> [] then (if exp > 0 then exp + 1 else 1) + 1 else (if exp > 0 then exp + 1 else 1)))"
  have "N = int n" unfolding N_def n_def using one whole_int by auto
  moreover obtain W where W: "unat width = W" "uint width = int W" by simp
  ultimately have room: "(N < uint width \<longrightarrow> nat (uint width - N) = space) \<and> (\<not> N < uint width \<longrightarrow> space = 0)" unfolding space_def W by (simp add: nat_diff_distrib)
  have res: "flt_finite f width p (buf ! 0) (if p < 60 then p + 1 else 60) exp buf =
    (if bit flags 3 then ?sign @ flt_f p (buf ! 0) nd exp buf @ replicate space (asc CHR '' '')
     else if bit flags 0 then ?sign @ replicate space (asc CHR ''0'') @ flt_f p (buf ! 0) nd exp buf
     else replicate space (asc CHR '' '') @ ?sign @ flt_f p (buf ! 0) nd exp buf)"
    unfolding flt_finite_def Let_def adj prod.case sign fill using room
    by (cases "p = 0"; cases "?sign = []"; cases "exp > 0") (simp_all add: flag_bits bits N_def algebra_simps)
  have len: "length (flt_f p (buf ! 0) nd exp buf) + length ?sign = n" unfolding shape(1) n_def using shape(3) by simp
  have total: "length (fmt_float ftoa_engine flags width prec (asc CHR ''f'') x) = max (unat width) n"
    unfolding run res using len by (auto simp: space_def)
  have "\<exists>lead tail. fmt_float ftoa_engine flags width prec (asc CHR ''f'') x = lead @ flt_f p (buf ! 0) nd exp buf @ tail \<and> set tail \<subseteq> {asc CHR '' ''}"
    unfolding run res by (metis append.assoc append_Nil2 empty_set empty_subsetI set_replicate_conv_if subset_refl append_Nil)
  then show ?thesis using shape total unfolding n_def by (metis append.assoc)
qed

text \<open>\<open>%8.2f\<close> with an engine that delivers the digits of 1.23.\<close>

definition one_engine :: "unit engine" where
  "one_engine x prec ndigs = (0, [0, 49, 50, 51])"

lemma fixed_point_layout_witness:
  "\<exists>lead whole frac tail. fmt_float one_engine 0x60 8 2 (asc CHR ''f'') ()
     = lead @ whole @ asc CHR ''.'' # frac @ tail \<and> length whole = 1 \<and> length frac = 2"
proof -
  have e: "one_engine () 7 (if 2 < (60 :: byte) then 2 + 1 else 60) = (0, [0, 49, 50, 51])" by (simp add: one_engine_def)
  have v: "\<not> has_flag ([0, 49, 50, 51] ! 0) (FTOA_NAN OR FTOA_INF)" by simp
  have p: "2 = (if bit (0x60 :: byte) 6 then 2 else (6 :: byte))" by simp
  from fixed_point_layout [where ftoa_engine = one_engine, OF e v p, of 8] obtain lead whole frac tail where
    "fmt_float one_engine 0x60 8 2 (asc CHR ''f'') () = lead @ whole @ (if 2 = (0 :: byte) then [] else asc CHR ''.'' # frac) @ tail"
    "length whole = nat (max 0 0 + 1)" "length frac = unat (2 :: byte)" by (elim exE conjE)
  then show ?thesis by (intro exI [of _ lead] exI [of _ whole] exI [of _ frac] exI [of _ tail]) simp
qed

section \<open>Lines of numbers\<close>

text \<open>Reading numbers that end with commas: a sign, then digits.\<close>

fun read_numbers :: "bool \<Rightarrow> int \<Rightarrow> byte list \<Rightarrow> int list" where
  "read_numbers neg acc [] = []"
| "read_numbers neg acc (b # s) =
     (if b = asc CHR '','' then (if neg then - acc else acc) # read_numbers False 0 s
      else if b = asc CHR ''-'' then read_numbers True acc s
      else read_numbers neg (10 * acc + (uint b - 48)) s)"

lemma digit_byte: "d < 10 \<Longrightarrow> uint (digit_code upper d) = 48 + int d"
proof -
  assume "d < 10"
  then have "d \<in> set [0..<10]" by simp
  moreover have "\<forall>d \<in> set [0..<10]. uint (digit_code upper d) = 48 + int d" by (simp add: upt_rec digit_code_def)
  ultimately show ?thesis by blast
qed

lemma digits_less: "2 \<le> radix \<Longrightarrow> d \<in> set (digits_of radix n) \<Longrightarrow> d < radix"
  by (induction radix n rule: digits_of.induct) (subst (asm) (2) digits_of.simps, auto split: if_splits)

lemma numeral_step:
  assumes "10 \<le> n"
  shows "numeral_text False 10 n = numeral_text False 10 (n div 10) @ [digit_code False (n mod 10)]"
  using assms by (simp add: numeral_text_def digits_of.simps [of 10 n])

lemma read_digit:
  assumes "d < 10"
  shows "read_numbers neg acc (digit_code False d # s) = read_numbers neg (10 * acc + int d) s"
proof -
  have "uint (digit_code False d) = 48 + int d" by (rule digit_byte [OF assms])
  then have "digit_code False d \<noteq> asc CHR '',''" "digit_code False d \<noteq> asc CHR ''-''" by auto
  with \<open>uint (digit_code False d) = 48 + int d\<close> show ?thesis by simp
qed

lemma read_numeral: "read_numbers neg 0 (numeral_text False 10 n @ s) = read_numbers neg (int n) s"
proof (induction n arbitrary: s rule: less_induct)
  case (less n)
  show ?case
  proof (cases "n < 10")
    case True
    then show ?thesis using read_digit [OF True, of neg 0 s] by (simp add: numeral_text_def digits_of.simps [of 10 n])
  next
    case False
    then have "read_numbers neg 0 (numeral_text False 10 n @ s)
      = read_numbers neg (int (n div 10)) (digit_code False (n mod 10) # s)"
      using less [of "n div 10"] by (simp add: numeral_step)
    also have "\<dots> = read_numbers neg (10 * int (n div 10) + int (n mod 10)) s" by (rule read_digit) simp
    also have "10 * int (n div 10) + int (n mod 10) = int n" by (simp add: zdiv_int zmod_int)
    finally show ?thesis .
  qed
qed

definition number_text :: "int \<Rightarrow> byte list" where
  "number_text x = (if x < 0 then [asc CHR ''-''] else []) @ numeral_text False 10 (nat \<bar>x\<bar>)"

lemma read_number: "read_numbers False 0 (number_text x @ asc CHR '','' # s) = x # read_numbers False 0 s"
  by (simp add: number_text_def read_numeral)

lemma signed_plain: "signed_text 0 0 0 x = number_text x"
  by (simp add: signed_text_def sign_text_def number_text_def in_field_def fill_zeros_def Let_def)

lemma vprintf_plain:
  assumes "c \<noteq> 0" "c \<noteq> asc CHR ''%''" "c \<noteq> 10"
  shows "vprintf ftoa_engine (c # fmt) args = map_option (Cons c) (vprintf ftoa_engine fmt args)"
  using assms
  by (simp add: vprintf.simps [of ftoa_engine "c # fmt"] vprintf.simps [of ftoa_engine fmt] Let_def option.map_comp comp_def
      split: prod.splits option.splits outcome.splits)

lemma vprintf_number:
  "vprintf ftoa_engine (map asc ''%d,'' @ fmt) (VInt x # args)
     = map_option (\<lambda>t. number_text (sint x) @ asc CHR '','' # t) (vprintf ftoa_engine fmt args)"
proof -
  have "sint (scast x :: 32 word) = sint x" by (rule sint_up_scast) (simp add: is_up)
  moreover have "va_signed 0 (VInt x # args) = Some (scast x, args)" by (simp add: va_signed_def)
  ultimately have "fmt_convert ftoa_engine 0 0 0 (asc CHR ''d'') (VInt x # args) = Written (number_text (sint x)) args"
    using signed_layout [of 0 "VInt x # args" "scast x" args 0 "asc CHR ''d''" ftoa_engine 0] by (simp add: signed_plain)
  moreover have "fmt_adjusts 0 0 0 (asc CHR ''d'') (asc CHR '','' # fmt) = Some (0, 0, 0, asc CHR ''d'', asc CHR '','' # fmt)"
    by (simp add: fmt_adjusts.simps fmt_adjust_def fmt_flag_def fl_defs)
  ultimately have "vprintf ftoa_engine (map asc ''%d,'' @ fmt) (VInt x # args)
      = map_option (\<lambda>t. number_text (sint x) @ t) (vprintf ftoa_engine (asc CHR '','' # fmt) args)"
    by (simp add: vprintf.simps [of ftoa_engine "_ # _ # _"])
  then show ?thesis by (simp add: vprintf_plain option.map_comp comp_def)
qed

text \<open>
  Numbers survive the formatted output: a line of \<open>int\<close>s, each printed with \<open>%d\<close> and a comma, is
  printed without an error, is the decimal texts of the values in order, and reads back as the
  same values, for every value of the 16 bits and every number of them; and what is printed does
  not depend on the floating-point engine.
\<close>
lemma numbers_round_trip:
  "\<exists>line. printf ftoa_engine (concat (replicate (length xs) (map asc ''%d,''))) (map VInt xs) = Some line
     \<and> line = concat (map (\<lambda>x. number_text (sint x) @ [asc CHR '','']) xs)
     \<and> read_numbers False 0 line = map sint xs"
proof (induction xs)
  case Nil
  then show ?case by (simp add: printf_def vprintf.simps)
next
  case (Cons x xs)
  then show ?case by (auto simp: printf_def vprintf_number [simplified] read_number [simplified])
qed

end
