(* ===== verification/ApMath.thy ===== *)
theory ApMath
  imports CsaContracts
begin

text \<open>
  The vectors and matrices of the sensor board (Software/Arduino/vector2.h, vector3.h, matrix3.h),
  the float instances of the templates. On this processor a \<open>double\<close> is a \<open>float\<close>: every operation
  is rounded by \<open>fl m\<close>. Members that change their object return the new one; a division by zero, and
  an arc cosine outside its domain, are \<open>None\<close>. The lemmas are the identities the headers
  state, in exact arithmetic.
\<close>

section \<open>Arithmetic\<close>

definition fadd :: "'a cmath_scheme \<Rightarrow> real \<Rightarrow> real \<Rightarrow> real" where "fadd m a b = fl m (a + b)"
definition fsub :: "'a cmath_scheme \<Rightarrow> real \<Rightarrow> real \<Rightarrow> real" where "fsub m a b = fl m (a - b)"
definition fmul :: "'a cmath_scheme \<Rightarrow> real \<Rightarrow> real \<Rightarrow> real" where "fmul m a b = fl m (a * b)"

definition fdiv :: "'a cmath_scheme \<Rightarrow> real \<Rightarrow> real \<Rightarrow> real option" where
  "fdiv m a b = (if b = 0 then None else Some (fl m (a / b)))"

definition facos :: "'a cmath_scheme \<Rightarrow> real \<Rightarrow> real option" where
  "facos m a = (if \<bar>a\<bar> > 1 then None else Some (fl m (m_acos m a)))"

definition fsqrt :: "'a cmath_scheme \<Rightarrow> real \<Rightarrow> real" where
  "fsqrt m a = fl m (m_sqrt m a)"

lemmas float_ops = fadd_def fsub_def fmul_def fdiv_def facos_def fsqrt_def

section \<open>Vectors of three\<close>

record vector3 =
  x3 :: real
  y3 :: real
  z3 :: real

definition Vector3 :: "real \<Rightarrow> real \<Rightarrow> real \<Rightarrow> vector3" where
  "Vector3 x0 y0 z0 = \<lparr>x3 = x0, y3 = y0, z3 = z0\<rparr>"

definition v3_eq :: "vector3 \<Rightarrow> vector3 \<Rightarrow> bool" where
  "v3_eq u v \<longleftrightarrow> x3 u = x3 v \<and> y3 u = y3 v \<and> z3 u = z3 v"

definition v3_ne :: "vector3 \<Rightarrow> vector3 \<Rightarrow> bool" where
  "v3_ne u v \<longleftrightarrow> x3 u \<noteq> x3 v \<or> y3 u \<noteq> y3 v \<or> z3 u \<noteq> z3 v"

definition v3_neg :: "vector3 \<Rightarrow> vector3" where
  "v3_neg u = Vector3 (- x3 u) (- y3 u) (- z3 u)"

definition v3_add :: "'a cmath_scheme \<Rightarrow> vector3 \<Rightarrow> vector3 \<Rightarrow> vector3" where
  "v3_add m u v = Vector3 (fadd m (x3 u) (x3 v)) (fadd m (y3 u) (y3 v)) (fadd m (z3 u) (z3 v))"

definition v3_sub :: "'a cmath_scheme \<Rightarrow> vector3 \<Rightarrow> vector3 \<Rightarrow> vector3" where
  "v3_sub m u v = Vector3 (fsub m (x3 u) (x3 v)) (fsub m (y3 u) (y3 v)) (fsub m (z3 u) (z3 v))"

text \<open>\<open>*\<close> and \<open>/\<close> copy the vector and apply \<open>*=\<close> and \<open>/=\<close>.\<close>

definition v3_scale :: "'a cmath_scheme \<Rightarrow> vector3 \<Rightarrow> real \<Rightarrow> vector3" where
  "v3_scale m u num = Vector3 (fmul m (x3 u) num) (fmul m (y3 u) num) (fmul m (z3 u) num)"

definition v3_over :: "'a cmath_scheme \<Rightarrow> vector3 \<Rightarrow> real \<Rightarrow> vector3 option" where
  "v3_over m u num =
     (case (fdiv m (x3 u) num, fdiv m (y3 u) num, fdiv m (z3 u) num) of
        (Some a, Some b, Some c) \<Rightarrow> Some (Vector3 a b c)
      | _ \<Rightarrow> None)"

definition v3_dot :: "'a cmath_scheme \<Rightarrow> vector3 \<Rightarrow> vector3 \<Rightarrow> real" where
  "v3_dot m u v = fadd m (fadd m (fmul m (x3 u) (x3 v)) (fmul m (y3 u) (y3 v))) (fmul m (z3 u) (z3 v))"

definition v3_cross :: "'a cmath_scheme \<Rightarrow> vector3 \<Rightarrow> vector3 \<Rightarrow> vector3" where
  "v3_cross m u v =
     Vector3 (fsub m (fmul m (y3 u) (z3 v)) (fmul m (z3 u) (y3 v)))
       (fsub m (fmul m (z3 u) (x3 v)) (fmul m (x3 u) (z3 v)))
       (fsub m (fmul m (x3 u) (y3 v)) (fmul m (y3 u) (x3 v)))"

definition v3_length_squared :: "'a cmath_scheme \<Rightarrow> vector3 \<Rightarrow> real" where
  "v3_length_squared m u = v3_dot m u u"

definition v3_length :: "'a cmath_scheme \<Rightarrow> vector3 \<Rightarrow> real" where
  "v3_length m u = fsqrt m (v3_dot m u u)"

definition v3_normalize :: "'a cmath_scheme \<Rightarrow> vector3 \<Rightarrow> vector3 option" where
  "v3_normalize m u = v3_over m u (v3_length m u)"

definition v3_normalized :: "'a cmath_scheme \<Rightarrow> vector3 \<Rightarrow> vector3 option" where
  "v3_normalized m u = v3_over m u (v3_length m u)"

definition v3_projected :: "'a cmath_scheme \<Rightarrow> vector3 \<Rightarrow> vector3 \<Rightarrow> vector3 option" where
  "v3_projected m u v = v3_over m (v3_scale m v (v3_dot m u v)) (v3_dot m v v)"

definition v3_project :: "'a cmath_scheme \<Rightarrow> vector3 \<Rightarrow> vector3 \<Rightarrow> vector3 option" where
  "v3_project m u v = v3_over m (v3_scale m v (v3_dot m u v)) (v3_dot m v v)"

definition v3_reflect :: "'a cmath_scheme \<Rightarrow> vector3 \<Rightarrow> vector3 \<Rightarrow> vector3 option" where
  "v3_reflect m u n = map_option (\<lambda>p. v3_sub m (v3_scale m p 2) u) (v3_project m u n)"

definition v3_angle :: "'a cmath_scheme \<Rightarrow> vector3 \<Rightarrow> vector3 \<Rightarrow> real option" where
  "v3_angle m v1 v2 = Option.bind (fdiv m (v3_dot m v1 v2) (fmul m (v3_length m v1) (v3_length m v2))) (facos m)"

definition v3_angle_normalized :: "'a cmath_scheme \<Rightarrow> vector3 \<Rightarrow> vector3 \<Rightarrow> real option" where
  "v3_angle_normalized m v1 v2 = facos m (v3_dot m v1 v2)"

section \<open>Vectors of two\<close>

record vector2 =
  x2 :: real
  y2 :: real

definition Vector2 :: "real \<Rightarrow> real \<Rightarrow> vector2" where
  "Vector2 x0 y0 = \<lparr>x2 = x0, y2 = y0\<rparr>"

definition v2_eq :: "vector2 \<Rightarrow> vector2 \<Rightarrow> bool" where
  "v2_eq u v \<longleftrightarrow> x2 u = x2 v \<and> y2 u = y2 v"

definition v2_ne :: "vector2 \<Rightarrow> vector2 \<Rightarrow> bool" where
  "v2_ne u v \<longleftrightarrow> x2 u \<noteq> x2 v \<or> y2 u \<noteq> y2 v"

definition v2_neg :: "vector2 \<Rightarrow> vector2" where
  "v2_neg u = Vector2 (- x2 u) (- y2 u)"

definition v2_add :: "'a cmath_scheme \<Rightarrow> vector2 \<Rightarrow> vector2 \<Rightarrow> vector2" where
  "v2_add m u v = Vector2 (fadd m (x2 u) (x2 v)) (fadd m (y2 u) (y2 v))"

definition v2_sub :: "'a cmath_scheme \<Rightarrow> vector2 \<Rightarrow> vector2 \<Rightarrow> vector2" where
  "v2_sub m u v = Vector2 (fsub m (x2 u) (x2 v)) (fsub m (y2 u) (y2 v))"

definition v2_scale :: "'a cmath_scheme \<Rightarrow> vector2 \<Rightarrow> real \<Rightarrow> vector2" where
  "v2_scale m u num = Vector2 (fmul m (x2 u) num) (fmul m (y2 u) num)"

definition v2_over :: "'a cmath_scheme \<Rightarrow> vector2 \<Rightarrow> real \<Rightarrow> vector2 option" where
  "v2_over m u num =
     (case (fdiv m (x2 u) num, fdiv m (y2 u) num) of (Some a, Some b) \<Rightarrow> Some (Vector2 a b) | _ \<Rightarrow> None)"

definition v2_dot :: "'a cmath_scheme \<Rightarrow> vector2 \<Rightarrow> vector2 \<Rightarrow> real" where
  "v2_dot m u v = fadd m (fmul m (x2 u) (x2 v)) (fmul m (y2 u) (y2 v))"

definition v2_length_squared :: "'a cmath_scheme \<Rightarrow> vector2 \<Rightarrow> real" where
  "v2_length_squared m u = v2_dot m u u"

definition v2_length :: "'a cmath_scheme \<Rightarrow> vector2 \<Rightarrow> real" where
  "v2_length m u = fsqrt m (v2_dot m u u)"

definition v2_normalize :: "'a cmath_scheme \<Rightarrow> vector2 \<Rightarrow> vector2 option" where
  "v2_normalize m u = v2_over m u (v2_length m u)"

definition v2_normalized :: "'a cmath_scheme \<Rightarrow> vector2 \<Rightarrow> vector2 option" where
  "v2_normalized m u = v2_over m u (v2_length m u)"

definition v2_projected :: "'a cmath_scheme \<Rightarrow> vector2 \<Rightarrow> vector2 \<Rightarrow> vector2 option" where
  "v2_projected m u v = v2_over m (v2_scale m v (v2_dot m u v)) (v2_dot m v v)"

definition v2_project :: "'a cmath_scheme \<Rightarrow> vector2 \<Rightarrow> vector2 \<Rightarrow> vector2 option" where
  "v2_project m u v = v2_over m (v2_scale m v (v2_dot m u v)) (v2_dot m v v)"

definition v2_reflect :: "'a cmath_scheme \<Rightarrow> vector2 \<Rightarrow> vector2 \<Rightarrow> vector2 option" where
  "v2_reflect m u n = map_option (\<lambda>p. v2_sub m (v2_scale m p 2) u) (v2_project m u n)"

definition v2_angle :: "'a cmath_scheme \<Rightarrow> vector2 \<Rightarrow> vector2 \<Rightarrow> real option" where
  "v2_angle m v1 v2 = Option.bind (fdiv m (v2_dot m v1 v2) (fmul m (v2_length m v1) (v2_length m v2))) (facos m)"

definition v2_angle_normalized :: "'a cmath_scheme \<Rightarrow> vector2 \<Rightarrow> vector2 \<Rightarrow> real option" where
  "v2_angle_normalized m v1 v2 = facos m (v2_dot m v1 v2)"

section \<open>Matrices\<close>

text \<open>The rows of a matrix.\<close>

record matrix3 =
  row_a :: vector3
  row_b :: vector3
  row_c :: vector3

definition Matrix3 :: "vector3 \<Rightarrow> vector3 \<Rightarrow> vector3 \<Rightarrow> matrix3" where
  "Matrix3 a0 b0 c0 = \<lparr>row_a = a0, row_b = b0, row_c = c0\<rparr>"

definition Matrix3f :: "real \<Rightarrow> real \<Rightarrow> real \<Rightarrow> real \<Rightarrow> real \<Rightarrow> real \<Rightarrow> real \<Rightarrow> real \<Rightarrow> real \<Rightarrow> matrix3" where
  "Matrix3f ax ay az bx b_y bz cx cy cz = Matrix3 (Vector3 ax ay az) (Vector3 bx b_y bz) (Vector3 cx cy cz)"

definition m3_eq :: "matrix3 \<Rightarrow> matrix3 \<Rightarrow> bool" where
  "m3_eq A B \<longleftrightarrow> v3_eq (row_a A) (row_a B) \<and> v3_eq (row_b A) (row_b B) \<and> v3_eq (row_c A) (row_c B)"

definition m3_ne :: "matrix3 \<Rightarrow> matrix3 \<Rightarrow> bool" where
  "m3_ne A B \<longleftrightarrow> v3_ne (row_a A) (row_a B) \<or> v3_ne (row_b A) (row_b B) \<or> v3_ne (row_c A) (row_c B)"

definition m3_neg :: "matrix3 \<Rightarrow> matrix3" where
  "m3_neg A = Matrix3 (v3_neg (row_a A)) (v3_neg (row_b A)) (v3_neg (row_c A))"

definition m3_add :: "'a cmath_scheme \<Rightarrow> matrix3 \<Rightarrow> matrix3 \<Rightarrow> matrix3" where
  "m3_add m A B = Matrix3 (v3_add m (row_a A) (row_a B)) (v3_add m (row_b A) (row_b B)) (v3_add m (row_c A) (row_c B))"

definition m3_sub :: "'a cmath_scheme \<Rightarrow> matrix3 \<Rightarrow> matrix3 \<Rightarrow> matrix3" where
  "m3_sub m A B = Matrix3 (v3_sub m (row_a A) (row_a B)) (v3_sub m (row_b A) (row_b B)) (v3_sub m (row_c A) (row_c B))"

definition m3_scale :: "'a cmath_scheme \<Rightarrow> matrix3 \<Rightarrow> real \<Rightarrow> matrix3" where
  "m3_scale m A num = Matrix3 (v3_scale m (row_a A) num) (v3_scale m (row_b A) num) (v3_scale m (row_c A) num)"

definition m3_over :: "'a cmath_scheme \<Rightarrow> matrix3 \<Rightarrow> real \<Rightarrow> matrix3 option" where
  "m3_over m A num =
     (case (v3_over m (row_a A) num, v3_over m (row_b A) num, v3_over m (row_c A) num) of
        (Some a, Some b, Some c) \<Rightarrow> Some (Matrix3 a b c)
      | _ \<Rightarrow> None)"

definition m3_vec :: "'a cmath_scheme \<Rightarrow> matrix3 \<Rightarrow> vector3 \<Rightarrow> vector3" where
  "m3_vec m A v = Vector3 (v3_dot m (row_a A) v) (v3_dot m (row_b A) v) (v3_dot m (row_c A) v)"

definition m3_mul :: "'a cmath_scheme \<Rightarrow> matrix3 \<Rightarrow> matrix3 \<Rightarrow> matrix3" where
  "m3_mul m A B =
     (let dot = (\<lambda>r p q s. fadd m (fadd m (fmul m (x3 r) p) (fmul m (y3 r) q)) (fmul m (z3 r) s));
          row = (\<lambda>r. Vector3 (dot r (x3 (row_a B)) (x3 (row_b B)) (x3 (row_c B)))
            (dot r (y3 (row_a B)) (y3 (row_b B)) (y3 (row_c B))) (dot r (z3 (row_a B)) (z3 (row_b B)) (z3 (row_c B))))
      in Matrix3 (row (row_a A)) (row (row_b A)) (row (row_c A)))"

definition m3_transposed :: "matrix3 \<Rightarrow> matrix3" where
  "m3_transposed A =
     Matrix3 (Vector3 (x3 (row_a A)) (x3 (row_b A)) (x3 (row_c A))) (Vector3 (y3 (row_a A)) (y3 (row_b A)) (y3 (row_c A)))
       (Vector3 (z3 (row_a A)) (z3 (row_b A)) (z3 (row_c A)))"

lemmas v3_defs = Vector3_def v3_eq_def v3_ne_def v3_neg_def v3_add_def v3_sub_def v3_scale_def v3_over_def v3_dot_def v3_cross_def
lemmas m3_defs = Matrix3_def Matrix3f_def m3_eq_def m3_ne_def m3_neg_def m3_add_def m3_sub_def m3_scale_def m3_over_def
  m3_vec_def m3_mul_def m3_transposed_def

section \<open>The identities of the headers\<close>

lemma exact_float [simp]: "fl exact x = x"
  by (simp add: exact_def)

lemma m3_eq_iff: "m3_eq A B \<longleftrightarrow> A = B"
  by (cases A; cases B) (auto simp: m3_eq_def v3_eq_def intro: vector3.equality)

text \<open>
  The identities in the comments of \<open>vector3.h\<close> hold of its operators in exact arithmetic:
  the cross product changes its sign with the order and is orthogonal to both factors, the scalar
  triple product is cyclic, and the vector triple product and the quadruple product are the ones
  given; and a matrix product applied to a vector is the one matrix after the other.
\<close>
theorem vector_identities:
  "v3_cross exact a b = v3_neg (v3_cross exact b a)
   \<and> v3_dot exact a (v3_cross exact a b) = 0 \<and> v3_dot exact b (v3_cross exact a b) = 0
   \<and> v3_dot exact a (v3_cross exact b c) = v3_dot exact (v3_cross exact a b) c
   \<and> v3_dot exact a (v3_cross exact b c) = v3_dot exact c (v3_cross exact a b)
   \<and> v3_dot exact a (v3_cross exact b c) = v3_dot exact b (v3_cross exact c a)
   \<and> v3_cross exact a (v3_cross exact b c)
     = v3_sub exact (v3_scale exact b (v3_dot exact a c)) (v3_scale exact c (v3_dot exact a b))
   \<and> v3_dot exact (v3_cross exact a b) (v3_cross exact c d)
     = v3_dot exact a c * v3_dot exact b d - v3_dot exact a d * v3_dot exact b c
   \<and> m3_vec exact (m3_mul exact A B) a = m3_vec exact A (m3_vec exact B a)
   \<and> m3_transposed (m3_mul exact A B) = m3_mul exact (m3_transposed B) (m3_transposed A)"
  by (simp add: v3_defs m3_defs float_ops algebra_simps)

text \<open>\<open>reflect\<close> is a reflection: it keeps the length, and twice gives the vector back.\<close>

lemma reflect_reflection:
  assumes "v3_dot exact n n \<noteq> 0"
  shows "\<exists>u'. v3_reflect exact u n = Some u' \<and> v3_reflect exact u' n = Some u \<and> v3_dot exact u' u' = v3_dot exact u u"
proof -
  define N where "N = v3_dot exact n n"
  define k where "k = v3_dot exact u n / N"
  have N: "N \<noteq> 0" using assms by (simp add: N_def)
  have run: "v3_reflect exact w n = Some (Vector3 (2 * (v3_dot exact w n / N) * x3 n - x3 w)
      (2 * (v3_dot exact w n / N) * y3 n - y3 w) (2 * (v3_dot exact w n / N) * z3 n - z3 w))" for w
    using N by (simp add: v3_reflect_def v3_project_def v3_over_def v3_scale_def v3_sub_def float_ops Vector3_def N_def [symmetric])
  let ?u = "Vector3 (2 * k * x3 n - x3 u) (2 * k * y3 n - y3 u) (2 * k * z3 n - z3 u)"
  have un: "v3_dot exact u n = k * N" using N by (simp add: k_def)
  have "v3_dot exact ?u n = 2 * k * N - v3_dot exact u n"
    by (simp add: N_def v3_dot_def float_ops Vector3_def algebra_simps)
  then have n': "v3_dot exact ?u n / N = k" using un N by simp
  have "v3_dot exact ?u ?u = 4 * k * (k * N - v3_dot exact u n) + v3_dot exact u u"
    by (simp add: N_def v3_dot_def float_ops Vector3_def algebra_simps power2_eq_square)
  then have "v3_dot exact ?u ?u = v3_dot exact u u" using un by simp
  moreover have "v3_reflect exact u n = Some ?u" using run [of u] by (simp add: k_def)
  moreover have "v3_reflect exact ?u n = Some u" using run [of ?u] unfolding n' by (simp add: Vector3_def)
  ultimately show ?thesis by blast
qed

end
