(* ===== verification/Compass.thy ===== *)
theory Compass
  imports ApMath
begin

text \<open>
  The magnetometer driver of the sensor board (Software/Arduino/APM_Compass.cpp and APM_Compass.h): the
  calibration, the reading over the two-wire bus and the tilt-compensated heading, for the chip and
  for the simulated one (HIL). What the bus answers (the status of a transmission, the bytes of a
  request) and \<open>millis\<close> are oracles in the state, by the number of uses so far; the transmissions
  are logged. \<open>int\<close> has 16 bits.
\<close>

section \<open>State\<close>

record compass =
  cp_orientation :: int
  orientationMatrix :: matrix3
  cp_calibration :: vector3
  cp_offset :: "int \<times> int \<times> int"
  cp_declination :: real
  Mag_X :: int
  Mag_Y :: int
  Mag_Z :: int
  Heading :: real
  Heading_X :: real
  Heading_Y :: real
  lastUpdate :: "32 word"
  wire_status :: "nat \<Rightarrow> byte"
  wire_bytes :: "nat \<Rightarrow> byte list"
  millis :: "nat \<Rightarrow> 32 word"
  wire_ticks :: nat
  wire_log :: "byte list list"

definition ROTATION_NONE :: matrix3 where
  "ROTATION_NONE = Matrix3f 1 0 0 0 1 0 0 0 1"

text \<open>The rotations by multiples of 45 degrees, upright and upside down; \<open>s\<close> is the literal 0.70710678.\<close>

datatype heading8 = Yaw_0 | Yaw_45 | Yaw_90 | Yaw_135 | Yaw_180 | Yaw_225 | Yaw_270 | Yaw_315

definition SQRT_HALF :: "'a cmath_scheme \<Rightarrow> real" where
  "SQRT_HALF m = fl m 0.70710678"

fun ROTATION_YAW :: "real \<Rightarrow> heading8 \<Rightarrow> matrix3" where
  "ROTATION_YAW s Yaw_0 = Matrix3f 1 0 0 0 1 0 0 0 1"
| "ROTATION_YAW s Yaw_45 = Matrix3f s (- s) 0 s s 0 0 0 1"
| "ROTATION_YAW s Yaw_90 = Matrix3f 0 (- 1) 0 1 0 0 0 0 1"
| "ROTATION_YAW s Yaw_135 = Matrix3f (- s) (- s) 0 s (- s) 0 0 0 1"
| "ROTATION_YAW s Yaw_180 = Matrix3f (- 1) 0 0 0 (- 1) 0 0 0 1"
| "ROTATION_YAW s Yaw_225 = Matrix3f (- s) s 0 (- s) (- s) 0 0 0 1"
| "ROTATION_YAW s Yaw_270 = Matrix3f 0 1 0 (- 1) 0 0 0 0 1"
| "ROTATION_YAW s Yaw_315 = Matrix3f s s 0 (- s) s 0 0 0 1"

fun ROTATION_ROLL_180 :: "real \<Rightarrow> heading8 \<Rightarrow> matrix3" where
  "ROTATION_ROLL_180 s Yaw_0 = Matrix3f 1 0 0 0 (- 1) 0 0 0 (- 1)"
| "ROTATION_ROLL_180 s Yaw_45 = Matrix3f s s 0 s (- s) 0 0 0 (- 1)"
| "ROTATION_ROLL_180 s Yaw_90 = Matrix3f 0 1 0 1 0 0 0 0 (- 1)"
| "ROTATION_ROLL_180 s Yaw_135 = Matrix3f (- s) s 0 s s 0 0 0 (- 1)"
| "ROTATION_ROLL_180 s Yaw_180 = Matrix3f (- 1) 0 0 0 1 0 0 0 (- 1)"
| "ROTATION_ROLL_180 s Yaw_225 = Matrix3f (- s) (- s) 0 (- s) s 0 0 0 (- 1)"
| "ROTATION_ROLL_180 s Yaw_270 = Matrix3f 0 (- 1) 0 (- 1) 0 0 0 0 (- 1)"
| "ROTATION_ROLL_180 s Yaw_315 = Matrix3f s (- s) 0 (- s) (- s) 0 0 0 (- 1)"

text \<open>What the constructor does not set is what the memory held.\<close>

definition APM_Compass :: "compass \<Rightarrow> compass" where
  "APM_Compass c = c\<lparr>cp_orientation := 0, cp_declination := 0, cp_offset := (0, 0, 0), orientationMatrix := ROTATION_NONE\<rparr>"

definition SetOrientation :: "matrix3 \<Rightarrow> compass \<Rightarrow> compass" where
  "SetOrientation rotationMatrix c =
     c\<lparr>orientationMatrix := rotationMatrix, cp_orientation := (if m3_eq rotationMatrix ROTATION_NONE then 0 else 1)\<rparr>"

definition SetOffsets :: "int \<Rightarrow> int \<Rightarrow> int \<Rightarrow> compass \<Rightarrow> compass" where
  "SetOffsets x y z c = c\<lparr>cp_offset := (x, y, z)\<rparr>"

definition SetDeclination :: "real \<Rightarrow> compass \<Rightarrow> compass" where
  "SetDeclination radians c = c\<lparr>cp_declination := radians\<rparr>"

section \<open>Reading\<close>

definition wrap16 :: "int \<Rightarrow> int" where
  "wrap16 x = signed_take_bit 15 x"

text \<open>The conversion of a \<open>float\<close> to \<open>int\<close>: \<open>None\<close> out of range.\<close>

definition to_int16 :: "real \<Rightarrow> int option" where
  "to_int16 x = (if -32768 \<le> trunc x \<and> trunc x \<le> 32767 then Some (trunc x) else None)"

text \<open>A transmission: its bytes go to the log, the status is the bus's.\<close>

definition wire_send :: "byte list \<Rightarrow> compass \<Rightarrow> byte \<times> compass" where
  "wire_send bs c = (wire_status c (wire_ticks c), c\<lparr>wire_ticks := Suc (wire_ticks c), wire_log := wire_log c @ [bs]\<rparr>)"

text \<open>Two bytes, the high one first, as an \<open>int\<close>; the sign of an axis is applied to the \<open>int\<close>.\<close>

definition axis :: "'a cmath_scheme \<Rightarrow> bool \<Rightarrow> byte \<Rightarrow> byte \<Rightarrow> real \<Rightarrow> int option" where
  "axis m negated hi lo cal =
     (let raw = wrap16 (or_shift8 hi lo)
      in to_int16 (fmul m (of_int (if negated then wrap16 (- raw) else raw)) cal))"

text \<open>\<open>None\<close>: more bytes than the buffer holds, or a conversion out of range.\<close>

definition Read :: "'a cmath_scheme \<Rightarrow> compass \<Rightarrow> compass option" where
  "Read m c0 =
     (let c = snd (wire_send [0x03] c0);
          buff = wire_bytes c (wire_ticks c);
          c = snd (wire_send [] c)
      in if length buff > 6 then None
         else if length buff = 6 then
           (case (axis m True (buff ! 0) (buff ! 1) (x3 (cp_calibration c)),
                  axis m False (buff ! 2) (buff ! 3) (y3 (cp_calibration c)),
                  axis m True (buff ! 4) (buff ! 5) (z3 (cp_calibration c))) of
              (Some x, Some y, Some z) \<Rightarrow>
                Some (c\<lparr>Mag_X := x, Mag_Y := y, Mag_Z := z, lastUpdate := millis c (wire_ticks c)\<rparr>)
            | _ \<Rightarrow> None)
         else Some c)"

definition plausible :: "int \<Rightarrow> bool" where
  "plausible x \<longleftrightarrow> \<bar>x\<bar> > 500 \<and> \<bar>x\<bar> < 1000"

definition calibrated :: "compass \<Rightarrow> bool" where
  "calibrated c \<longleftrightarrow> plausible (Mag_X c) \<and> plausible (Mag_Y c) \<and> plausible (Mag_Z c)"

definition calibrate :: "'a cmath_scheme \<Rightarrow> compass \<Rightarrow> compass" where
  "calibrate m c = c\<lparr>cp_calibration :=
     Vector3 \<bar>fl m (715 / of_int (Mag_X c))\<bar> \<bar>fl m (715 / of_int (Mag_Y c))\<bar> \<bar>fl m (715 / of_int (Mag_Z c))\<bar>\<rparr>"

text \<open>The attempts of \<open>Init\<close>, of which \<open>left\<close> are left.\<close>

fun Init_loop :: "'a cmath_scheme \<Rightarrow> nat \<Rightarrow> compass \<Rightarrow> (bool \<times> compass) option" where
  "Init_loop m 0 c = Some (False, c)"
| "Init_loop m (Suc left) c =
     (let (status, c) = wire_send [0x00, 0x11] c
      in if status \<noteq> 0 then Init_loop m left c
         else
           (let c = snd (wire_send [0x01, 0x20] c);
                c = snd (wire_send [0x02, 0x01] c)
            in case Read m c of
                 None \<Rightarrow> None
               | Some c \<Rightarrow>
                   (let success = calibrated c;
                        c = (if success then calibrate m c else c);
                        c = snd (wire_send [0x00, 0x10] c);
                        c = snd (wire_send [0x02, 0x00] c)
                    in if success then Some (True, c) else Init_loop m left c)))"

definition Init :: "'a cmath_scheme \<Rightarrow> compass \<Rightarrow> (bool \<times> compass) option" where
  "Init m c = Init_loop m 5 (c\<lparr>cp_calibration := Vector3 1 1 1\<rparr>)"

section \<open>The heading\<close>

definition rotMagVec :: "'a cmath_scheme \<Rightarrow> compass \<Rightarrow> vector3" where
  "rotMagVec m c =
     (let (ox, oy, oz) = cp_offset c;
          v = Vector3 (of_int (wrap16 (Mag_X c + ox))) (of_int (wrap16 (Mag_Y c + oy))) (of_int (wrap16 (Mag_Z c + oz)))
      in if cp_orientation c = 0 then v else m3_vec m (orientationMatrix c) v)"

definition tilt_heading :: "'a cmath_scheme \<Rightarrow> real \<Rightarrow> real \<Rightarrow> vector3 \<Rightarrow> real" where
  "tilt_heading m roll pitch v =
     (let cos_roll = fl m (m_cos m roll); sin_roll = fl m (m_sin m roll);
          cos_pitch = fl m (m_cos m pitch); sin_pitch = fl m (m_sin m pitch);
          Head_X = fadd m (fadd m (fmul m (x3 v) cos_pitch) (fmul m (fmul m (y3 v) sin_roll) sin_pitch))
            (fmul m (fmul m (z3 v) cos_roll) sin_pitch);
          Head_Y = fsub m (fmul m (y3 v) cos_roll) (fmul m (z3 v) sin_roll)
      in fl m (m_atan2 m (- Head_Y) Head_X))"

definition declined :: "'a cmath_scheme \<Rightarrow> real \<Rightarrow> real \<Rightarrow> real" where
  "declined m declination h0 =
     (if declination \<noteq> 0 then
        (let h = fadd m h0 declination
         in if h > fl m pi then fsub m h (fmul m 2 (fl m pi))
            else if h < - fl m pi then fadd m h (fmul m 2 (fl m pi))
            else h)
      else h0)"

definition Calculate :: "'a cmath_scheme \<Rightarrow> real \<Rightarrow> real \<Rightarrow> compass \<Rightarrow> compass" where
  "Calculate m roll pitch c =
     (let h = declined m (cp_declination c) (tilt_heading m roll pitch (rotMagVec m c))
      in c\<lparr>Heading := h, Heading_X := fl m (m_cos m h), Heading_Y := fl m (m_sin m h)\<rparr>)"

section \<open>The simulated compass\<close>

definition APM_Compass_HIL :: "compass \<Rightarrow> compass" where
  "APM_Compass_HIL c = c\<lparr>cp_orientation := 0, cp_declination := 0, cp_offset := (0, 0, 0), orientationMatrix := ROTATION_NONE\<rparr>"

text \<open>\<open>Read\<close> does nothing, so an attempt that fails is repeated in vain.\<close>

fun HIL_Init_loop :: "'a cmath_scheme \<Rightarrow> nat \<Rightarrow> compass \<Rightarrow> bool \<times> compass" where
  "HIL_Init_loop m 0 c = (False, c)"
| "HIL_Init_loop m (Suc left) c = (if calibrated c then (True, calibrate m c) else HIL_Init_loop m left c)"

definition HIL_Init :: "'a cmath_scheme \<Rightarrow> compass \<Rightarrow> bool \<times> compass" where
  "HIL_Init m c = HIL_Init_loop m 5 (c\<lparr>cp_calibration := Vector3 1 1 1\<rparr>)"

definition HIL_Calculate :: "'a cmath_scheme \<Rightarrow> real \<Rightarrow> real \<Rightarrow> compass \<Rightarrow> compass" where
  "HIL_Calculate m roll pitch c =
     (let h = declined m (cp_declination c) (tilt_heading m roll pitch (rotMagVec m c))
      in c\<lparr>Heading := h, Heading_X := fl m (m_cos m h), Heading_Y := fl m (m_sin m h)\<rparr>)"

definition HIL_SetOrientation :: "matrix3 \<Rightarrow> compass \<Rightarrow> compass" where
  "HIL_SetOrientation rotationMatrix c =
     c\<lparr>orientationMatrix := rotationMatrix, cp_orientation := (if m3_eq rotationMatrix ROTATION_NONE then 0 else 1)\<rparr>"

definition HIL_SetOffsets :: "int \<Rightarrow> int \<Rightarrow> int \<Rightarrow> compass \<Rightarrow> compass" where
  "HIL_SetOffsets x y z c = c\<lparr>cp_offset := (x, y, z)\<rparr>"

definition HIL_SetDeclination :: "real \<Rightarrow> compass \<Rightarrow> compass" where
  "HIL_SetDeclination radians c = c\<lparr>cp_declination := radians\<rparr>"

definition setHIL :: "real \<Rightarrow> real \<Rightarrow> real \<Rightarrow> compass \<Rightarrow> compass option" where
  "setHIL x y z c =
     (case (to_int16 x, to_int16 y, to_int16 z) of
        (Some a, Some b, Some d) \<Rightarrow> Some (c\<lparr>Mag_X := a, Mag_Y := b, Mag_Z := d\<rparr>)
      | _ \<Rightarrow> None)"

section \<open>The orientations\<close>

lemma roll_after_yaw: "m3_mul exact (ROTATION_YAW s h) (ROTATION_ROLL_180 s Yaw_0) = ROTATION_ROLL_180 s h"
  by (cases h) (simp_all add: m3_defs v3_defs float_ops)

lemma rotated_length:
  fixes v :: vector3
  assumes "2 * s\<^sup>2 = 1 + e" "\<bar>e\<bar> \<le> 1 / 10 ^ 8"
  defines "len \<equiv> v3_dot exact v v"
  shows "\<bar>v3_dot exact (m3_vec exact (ROTATION_YAW s h) v) (m3_vec exact (ROTATION_YAW s h) v) - len\<bar> \<le> len / 10 ^ 8"
proof -
  let ?w = "m3_vec exact (ROTATION_YAW s h) v"
  let ?xy = "(x3 v)\<^sup>2 + (y3 v)\<^sup>2"
  have len: "len = ?xy + (z3 v)\<^sup>2" by (simp add: len_def v3_dot_def float_ops power2_eq_square)
  have "v3_dot exact ?w ?w - len = 0 \<or> v3_dot exact ?w ?w - len = e * ?xy"
  proof -
    have "v3_dot exact ?w ?w = len \<or> v3_dot exact ?w ?w = 2 * s\<^sup>2 * ?xy + (z3 v)\<^sup>2"
      by (cases h) (simp_all add: len m3_defs v3_defs float_ops power2_eq_square algebra_simps)
    then show ?thesis unfolding assms(1) len by (auto simp: algebra_simps)
  qed
  moreover have "\<bar>e * ?xy\<bar> \<le> 1 / 10 ^ 8 * len"
    unfolding abs_mult using assms(2) by (intro mult_mono) (simp_all add: len)
  moreover have "0 \<le> len" by (simp add: len)
  ultimately show ?thesis by auto
qed

section \<open>The heading is the heading\<close>

text \<open>The field of strength \<open>h\<close> to the north and \<open>d\<close> down, seen from a body at yaw, pitch and roll.\<close>

definition body_field :: "real \<Rightarrow> real \<Rightarrow> real \<Rightarrow> real \<Rightarrow> real \<Rightarrow> vector3" where
  "body_field h d roll pitch yaw =
     Vector3 (h * cos yaw * cos pitch - d * sin pitch)
       (h * (sin roll * sin pitch * cos yaw - cos roll * sin yaw) + d * sin roll * cos pitch)
       (h * (cos roll * sin pitch * cos yaw + sin roll * sin yaw) + d * cos roll * cos pitch)"

lemma exact_trig [simp]: "m_sin exact = sin" "m_cos exact = cos" "m_atan2 exact = arctan2"
  by (simp_all add: exact_def)

lemma tilt_algebra:
  fixes cp sp cr sr cy sy h d :: real
  assumes "cp * cp + sp * sp = 1" "cr * cr + sr * sr = 1"
  shows "(h * cy * cp - d * sp) * cp + (h * (sr * sp * cy - cr * sy) + d * sr * cp) * sr * sp
      + (h * (cr * sp * cy + sr * sy) + d * cr * cp) * cr * sp = h * cy"
    "(h * (sr * sp * cy - cr * sy) + d * sr * cp) * cr - (h * (cr * sp * cy + sr * sy) + d * cr * cp) * sr = - (h * sy)"
  using assms by algebra+

lemma tilt_heading_yaw:
  assumes "0 < h" "- pi < yaw" "yaw \<le> pi"
  shows "tilt_heading exact roll pitch (body_field h d roll pitch yaw) = yaw"
proof -
  let ?v = "body_field h d roll pitch yaw"
  have "cos t * cos t + sin t * sin t = 1" for t :: real using sin_cos_squared_add [of t] by (simp add: power2_eq_square)
  note alg = tilt_algebra [OF this [of pitch] this [of roll], where h = h and d = d and cy = "cos yaw" and sy = "sin yaw"]
  have X: "x3 ?v * cos pitch + y3 ?v * sin roll * sin pitch + z3 ?v * cos roll * sin pitch = h * cos yaw"
    using alg(1) by (simp only: body_field_def Vector3_def vector3.simps)
  have Y: "y3 ?v * cos roll - z3 ?v * sin roll = - (h * sin yaw)"
    using alg(2) by (simp only: body_field_def Vector3_def vector3.simps)
  from Y have Y': "z3 ?v * sin roll - y3 ?v * cos roll = h * sin yaw" by simp
  show ?thesis using X Y' arctan2_polar [of h yaw] assms by (simp add: tilt_heading_def float_ops Let_def)
qed

lemma declined_heading:
  assumes "- pi < yaw" "yaw \<le> pi" "\<bar>delta\<bar> \<le> pi"
  shows "\<bar>declined exact delta yaw\<bar> \<le> pi \<and> cos (declined exact delta yaw) = cos (yaw + delta)
    \<and> sin (declined exact delta yaw) = sin (yaw + delta)"
proof -
  have c: "cos (yaw + delta - 2 * pi) = cos (yaw + delta)" "sin (yaw + delta - 2 * pi) = sin (yaw + delta)"
    "cos (2 * pi + (yaw + delta)) = cos (yaw + delta)" "sin (2 * pi + (yaw + delta)) = sin (yaw + delta)"
    by (simp_all add: cos_diff sin_diff cos_add [of "2 * pi"] sin_add [of "2 * pi"])
  show ?thesis using assms c by (auto simp: declined_def float_ops Let_def abs_if add.commute [of _ "2 * pi"])
qed

text \<open>
  C34. The compass gives the heading of the board whatever its tilt: when the calibrated readings,
  turned by the orientation of the chip, are the components of a magnetic field with a part to the
  north, seen from a body at the roll and pitch handed to \<open>Calculate\<close>, then in exact arithmetic the
  result is the yaw plus the declination, brought back to half a turn either way, the components
  are its cosine and sine, and without a declination it is the yaw itself; the simulated compass
  computes the same.
\<close>
theorem compass_heading:
  assumes "rotMagVec exact c = body_field h d roll pitch yaw" "0 < h" "- pi < yaw" "yaw \<le> pi" "\<bar>cp_declination c\<bar> \<le> pi"
  shows "\<bar>Heading (Calculate exact roll pitch c)\<bar> \<le> pi
    \<and> Heading_X (Calculate exact roll pitch c) = cos (yaw + cp_declination c)
    \<and> Heading_Y (Calculate exact roll pitch c) = sin (yaw + cp_declination c)
    \<and> cos (Heading (Calculate exact roll pitch c)) = cos (yaw + cp_declination c)
    \<and> sin (Heading (Calculate exact roll pitch c)) = sin (yaw + cp_declination c)
    \<and> (cp_declination c = 0 \<longrightarrow> Heading (Calculate exact roll pitch c) = yaw)
    \<and> HIL_Calculate exact roll pitch c = Calculate exact roll pitch c"
  using tilt_heading_yaw [OF assms(2-4)] declined_heading [OF assms(3-5)]
  by (simp add: Calculate_def HIL_Calculate_def assms(1) Let_def) (simp add: declined_def)

text \<open>A level board with its nose to the east: the field points to its left.\<close>

definition east_compass :: compass where
  "east_compass = \<lparr>cp_orientation = 0, orientationMatrix = ROTATION_NONE, cp_calibration = Vector3 1 1 1, cp_offset = (0, 20, 0),
     cp_declination = 0, Mag_X = 0, Mag_Y = -120, Mag_Z = 40, Heading = 0, Heading_X = 0, Heading_Y = 0, lastUpdate = 0,
     wire_status = (\<lambda>_. 0), wire_bytes = (\<lambda>_. []), millis = (\<lambda>_. 0), wire_ticks = 0, wire_log = []\<rparr>"

lemma compass_heading_witness: "Heading (Calculate exact 0 0 east_compass) = pi / 2"
proof -
  have "wrap16 0 = 0" "wrap16 (-100) = -100" "wrap16 40 = 40" by (simp_all add: wrap16_def signed_take_bit_int_eq_self)
  then have "rotMagVec exact east_compass = body_field 100 40 0 0 (pi / 2)"
    by (simp add: rotMagVec_def east_compass_def body_field_def)
  from compass_heading [OF this] show ?thesis by (simp add: east_compass_def)
qed

section \<open>The calibration\<close>

definition log_ends :: "byte list list \<Rightarrow> compass \<Rightarrow> bool" where
  "log_ends bs c \<longleftrightarrow> (\<exists>front. wire_log c = front @ bs)"

lemma Init_loop_success:
  "Init_loop m n c = Some (True, c') \<Longrightarrow>
     calibrated c' \<and> cp_calibration c' = cp_calibration (calibrate m c') \<and> log_ends [[0x00, 0x10], [0x02, 0x00]] c'"
proof (induction n arbitrary: c)
  case (Suc n)
  then show ?case
    by (auto simp: Let_def wire_send_def calibrate_def calibrated_def log_ends_def split: if_splits option.splits)
qed simp

lemma Read_log: "Read m c = Some c' \<Longrightarrow> wire_log c' = wire_log c @ [[0x03], []] \<and> cp_calibration c' = cp_calibration c"
  by (auto simp: Read_def Let_def wire_send_def split: if_splits option.splits)

lemma Init_loop_failure:
  "Init_loop m n c = Some (ok, c') \<Longrightarrow> length (wire_log c') \<le> length (wire_log c) + 7 * n \<and> (\<not> ok \<longrightarrow> cp_calibration c' = cp_calibration c)"
proof (induction n arbitrary: c)
  case (Suc n)
  then show ?case
    by (auto simp: Let_def wire_send_def calibrate_def dest!: Read_log split: if_splits option.splits) fastforce+
qed simp

text \<open>
  \<open>Init\<close> ends after at most five attempts of seven transmissions; when it succeeds, the readings in
  test mode were plausible, each factor brings the reading of its axis to the 715 of the self-test,
  and the chip was sent back to normal, continuous operation last; when it fails the factors are 1.
\<close>

lemma compass_init:
  assumes "Init m c = Some (ok, c')"
  shows "length (wire_log c') \<le> length (wire_log c) + 35
    \<and> (ok \<longrightarrow> calibrated c' \<and> cp_calibration c' = cp_calibration (calibrate m c') \<and> log_ends [[0x00, 0x10], [0x02, 0x00]] c')
    \<and> (\<not> ok \<longrightarrow> cp_calibration c' = Vector3 1 1 1)"
  using Init_loop_failure [OF assms [unfolded Init_def]] Init_loop_success [of m 5 "c\<lparr>cp_calibration := Vector3 1 1 1\<rparr>" c'] assms
  by (auto simp: Init_def)

lemma calibration_factor:
  assumes "plausible x"
  shows "\<bar>715 / real_of_int x\<bar> * \<bar>real_of_int x\<bar> = 715 \<and> 715 / 999 \<le> \<bar>715 / real_of_int x\<bar> \<and> \<bar>715 / real_of_int x\<bar> \<le> 715 / 501"
proof -
  have "501 \<le> \<bar>x\<bar>" "\<bar>x\<bar> \<le> 999" using assms by (simp_all add: plausible_def)
  then have "(501 :: real) \<le> of_int \<bar>x\<bar>" "of_int \<bar>x\<bar> \<le> (999 :: real)" by linarith+
  then show ?thesis by (simp add: abs_divide frac_le pos_divide_le_eq pos_le_divide_eq)
qed

end
