(* ===== verification/SimStruct.thy ===== *)
theory SimStruct
  imports AutopilotConfig Floats "HOL-Library.Monad_Syntax"
begin

text \<open>
  The host of the S-functions (Tools/Library/CSA/SFunctions), as far as they use it: the work
  vectors of a block, its sizes, and the files and the console of the C library. An access beyond
  a work vector, a write to a stream that is not open, and a text longer than its buffer are
  \<open>None\<close>, and so is everything after them. Whether a file can be opened is an oracle by the number of
  attempts. A file is a list of items, the characters of its text and the values \<open>fwrite\<close> put into it.
\<close>

section \<open>Formatted text\<close>

datatype arg = AD real | AI int | AS string

definition conversion :: "char \<Rightarrow> bool" where
  "conversion c \<longleftrightarrow> c \<in> set ''%disfe''"

text \<open>One conversion; \<open>fr\<close> makes the text of a real number for the flags, width, precision and letter given.\<close>

definition c_conv :: "(string \<Rightarrow> real \<Rightarrow> string) \<Rightarrow> string \<Rightarrow> char \<Rightarrow> arg list \<Rightarrow> (string \<times> arg list) option" where
  "c_conv fr spec c as =
     (if c = CHR ''%'' then Some (''%'', as)
      else case as of
        [] \<Rightarrow> None
      | AI i # as' \<Rightarrow> if c \<in> set ''di'' \<and> spec = [] then Some (show_int i, as') else None
      | AS t # as' \<Rightarrow> if c = CHR ''s'' \<and> spec = [] then Some (t, as') else None
      | AD x # as' \<Rightarrow> if c \<in> set ''fe'' then Some (fr (spec @ [c]) x, as') else None)"

function c_format :: "(string \<Rightarrow> real \<Rightarrow> string) \<Rightarrow> string \<Rightarrow> arg list \<Rightarrow> string option" where
  "c_format fr [] as = Some []"
| "c_format fr (c # cs) as =
     (if c \<noteq> CHR ''%'' then map_option ((#) c) (c_format fr cs as)
      else case dropWhile (\<lambda>k. \<not> conversion k) cs of
        [] \<Rightarrow> None
      | k # rest \<Rightarrow>
          (case c_conv fr (takeWhile (\<lambda>k. \<not> conversion k) cs) k as of
             None \<Rightarrow> None
           | Some (t, as') \<Rightarrow> map_option ((@) t) (c_format fr rest as')))"
  by pat_completeness auto
termination
proof (relation "measure (\<lambda>(fr, s, as). length s)", goal_cases)
  case (3 fr c cs as k rest x a b)
  then have "length (k # rest) \<le> length cs" by (metis length_dropWhile_le)
  then show ?case by simp
qed simp_all

text \<open>A line ends with a newline.\<close>

definition endl :: "string \<Rightarrow> string" where
  "endl s = s @ [newline]"

definition mxGetString :: "string \<Rightarrow> nat \<Rightarrow> string" where
  "mxGetString s n = take (n - 1) s"

text \<open>The conversion of a \<open>double\<close> to \<open>int\<close>.\<close>

definition int_cast :: "real \<Rightarrow> int option" where
  "int_cast x = (if -2147483648 \<le> trunc x \<and> trunc x \<le> 2147483647 then Some (trunc x) else None)"

section \<open>The block\<close>

datatype width = Dynamic | Width int

record sizes =
  num_params :: nat
  in_widths :: "width list"
  feedthrough :: "bool list"
  out_widths :: "width list"
  sample_times :: nat
  num_rwork :: nat
  num_iwork :: nat
  num_pwork :: nat

definition no_sizes :: sizes where
  "no_sizes = \<lparr>num_params = 0, in_widths = [], feedthrough = [], out_widths = [], sample_times = 0,
     num_rwork = 0, num_iwork = 0, num_pwork = 0\<rparr>"

datatype item = Ch char | Val nat real

record udp_client =
  ip_address :: string
  port :: string
  sockfd :: int
  active :: int

text \<open>What a pointer of a work vector points to; \<open>Undef\<close> is an uninitialised pointer.\<close>

datatype pval = Null | Undef | Str string | Stream string | Pos nat | Floats "real list" | Clients "udp_client list"
  | Articulations "(string \<times> string) list"

record sim =
  sampleTime :: real
  in_width :: nat
  iwork :: "int list"
  rwork :: "real list"
  pwork :: "pval list"
  outs :: "real list"
  errorStatus :: "string option"
  files :: "string \<Rightarrow> item list option"
  streams :: "string \<Rightarrow> nat option"
  fs_ok :: "nat \<Rightarrow> bool"
  fs_tick :: nat
  host_files :: "string \<Rightarrow> string option"
  console :: string
  fmt_real :: "string \<Rightarrow> real \<Rightarrow> string"
  dbl :: "real \<Rightarrow> real"

definition work_vectors :: "sizes \<Rightarrow> ('a sim_scheme) \<Rightarrow> 'a sim_scheme" where
  "work_vectors z S =
     S\<lparr>iwork := replicate (num_iwork z) 0, rwork := replicate (num_rwork z) 0, pwork := replicate (num_pwork z) Null\<rparr>"

definition nth_opt :: "nat \<Rightarrow> 'a list \<Rightarrow> 'a option" where
  "nth_opt k xs = (if k < length xs then Some (xs ! k) else None)"

definition ssGetIWorkValue :: "nat \<Rightarrow> 'a sim_scheme \<Rightarrow> int option" where
  "ssGetIWorkValue k S = nth_opt k (iwork S)"

definition ssGetRWorkValue :: "nat \<Rightarrow> 'a sim_scheme \<Rightarrow> real option" where
  "ssGetRWorkValue k S = nth_opt k (rwork S)"

definition ssGetPWorkValue :: "nat \<Rightarrow> 'a sim_scheme \<Rightarrow> pval option" where
  "ssGetPWorkValue k S = nth_opt k (pwork S)"

definition ssSetIWorkValue :: "nat \<Rightarrow> int \<Rightarrow> 'a sim_scheme \<Rightarrow> 'a sim_scheme option" where
  "ssSetIWorkValue k v S = (if k < length (iwork S) then Some (S\<lparr>iwork := (iwork S)[k := v]\<rparr>) else None)"

definition ssSetRWorkValue :: "nat \<Rightarrow> real \<Rightarrow> 'a sim_scheme \<Rightarrow> 'a sim_scheme option" where
  "ssSetRWorkValue k v S = (if k < length (rwork S) then Some (S\<lparr>rwork := (rwork S)[k := v]\<rparr>) else None)"

definition ssSetPWorkValue :: "nat \<Rightarrow> pval \<Rightarrow> 'a sim_scheme \<Rightarrow> 'a sim_scheme option" where
  "ssSetPWorkValue k v S = (if k < length (pwork S) then Some (S\<lparr>pwork := (pwork S)[k := v]\<rparr>) else None)"

definition pw_string :: "nat \<Rightarrow> 'a sim_scheme \<Rightarrow> string option" where
  "pw_string k S = (case ssGetPWorkValue k S of Some (Str t) \<Rightarrow> Some t | _ \<Rightarrow> None)"

lemmas work_defs = ssGetIWorkValue_def ssGetRWorkValue_def ssGetPWorkValue_def nth_opt_def
  ssSetIWorkValue_def ssSetRWorkValue_def ssSetPWorkValue_def pw_string_def

section \<open>Files\<close>

definition bytes :: "item list \<Rightarrow> nat" where
  "bytes its = (\<Sum>i\<leftarrow>its. case i of Ch _ \<Rightarrow> 1 | Val n _ \<Rightarrow> n)"

datatype fmode = ModeW | ModeA

text \<open>Two streams on one file are outside the model.\<close>

definition fopen :: "string \<Rightarrow> fmode \<Rightarrow> 'a sim_scheme \<Rightarrow> (pval \<times> 'a sim_scheme) option" where
  "fopen name mode S0 =
     (let S = S0\<lparr>fs_tick := Suc (fs_tick S0)\<rparr>;
          old = (case mode of ModeW \<Rightarrow> [] | ModeA \<Rightarrow> (case files S name of None \<Rightarrow> [] | Some c \<Rightarrow> c))
      in if \<not> fs_ok S (fs_tick S0) then Some (Null, S)
         else if streams S name \<noteq> None then None
         else Some (Stream name, S\<lparr>files := (files S)(name \<mapsto> old), streams := (streams S)(name \<mapsto> length old)\<rparr>))"

definition fput :: "item list \<Rightarrow> pval \<Rightarrow> 'a sim_scheme \<Rightarrow> 'a sim_scheme option" where
  "fput its p S =
     (case p of
        Stream name \<Rightarrow>
          (case (streams S name, files S name) of
             (Some pos, Some c) \<Rightarrow>
               Some (S\<lparr>files := (files S)(name \<mapsto> overlay pos its c), streams := (streams S)(name \<mapsto> pos + length its)\<rparr>)
           | _ \<Rightarrow> None)
      | _ \<Rightarrow> None)"

definition fwrite :: "real \<Rightarrow> nat \<Rightarrow> pval \<Rightarrow> 'a sim_scheme \<Rightarrow> 'a sim_scheme option" where
  "fwrite v n p S = fput [Val n v] p S"

definition fprintf :: "pval \<Rightarrow> string \<Rightarrow> arg list \<Rightarrow> 'a sim_scheme \<Rightarrow> 'a sim_scheme option" where
  "fprintf p fmt as S = Option.bind (c_format (fmt_real S) fmt as) (\<lambda>t. fput (map Ch t) p S)"

definition c_printf :: "string \<Rightarrow> arg list \<Rightarrow> 'a sim_scheme \<Rightarrow> 'a sim_scheme option" where
  "c_printf fmt as S = map_option (\<lambda>t. S\<lparr>console := console S @ t\<rparr>) (c_format (fmt_real S) fmt as)"

definition sprintf :: "nat \<Rightarrow> string \<Rightarrow> arg list \<Rightarrow> 'a sim_scheme \<Rightarrow> string option" where
  "sprintf n fmt as S =
     Option.bind (c_format (fmt_real S) fmt as) (\<lambda>t. if length t < n then Some t else None)"

definition fclose :: "pval \<Rightarrow> 'a sim_scheme \<Rightarrow> 'a sim_scheme option" where
  "fclose p S =
     (case p of
        Stream name \<Rightarrow> if streams S name = None then None else Some (S\<lparr>streams := (streams S)(name := None)\<rparr>)
      | _ \<Rightarrow> None)"

definition fgetpos :: "pval \<Rightarrow> 'a sim_scheme \<Rightarrow> nat option" where
  "fgetpos p S = (case p of Stream name \<Rightarrow> streams S name | _ \<Rightarrow> None)"

definition fsetpos :: "pval \<Rightarrow> nat \<Rightarrow> 'a sim_scheme \<Rightarrow> 'a sim_scheme option" where
  "fsetpos p pos S =
     (case p of
        Stream name \<Rightarrow> if streams S name = None then None else Some (S\<lparr>streams := (streams S)(name \<mapsto> pos)\<rparr>)
      | _ \<Rightarrow> None)"

definition remove_file :: "string \<Rightarrow> 'a sim_scheme \<Rightarrow> 'a sim_scheme" where
  "remove_file name S = S\<lparr>files := (files S)(name := None)\<rparr>"

text \<open>The lines of a text, each ended, written one after the other.\<close>

fun fprintf_lines :: "pval \<Rightarrow> (string \<times> arg list) list \<Rightarrow> 'a sim_scheme \<Rightarrow> 'a sim_scheme option" where
  "fprintf_lines p [] S = Some S"
| "fprintf_lines p ((fmt, as) # ls) S = Option.bind (fprintf p (endl fmt) as S) (fprintf_lines p ls)"

fun fwrite_values :: "nat \<Rightarrow> real list \<Rightarrow> int \<Rightarrow> pval \<Rightarrow> 'a sim_scheme \<Rightarrow> (int \<times> 'a sim_scheme) option" where
  "fwrite_values n [] saved p S = Some (saved, S)"
| "fwrite_values n (x # xs) saved p S =
     Option.bind (fwrite x n p S) (fwrite_values n xs (wrap32 (saved + int n)) p)"

text \<open>Some numbers, one call of \<open>fprintf\<close> for each.\<close>

fun fprintf_each :: "string \<Rightarrow> pval \<Rightarrow> real list \<Rightarrow> 'a sim_scheme \<Rightarrow> 'a sim_scheme option" where
  "fprintf_each fmt p [] S = Some S"
| "fprintf_each fmt p (x # xs) S = Option.bind (fprintf p fmt [AD x] S) (fprintf_each fmt p xs)"

definition tab :: char where
  "tab = CHR 0x09"

section \<open>Lemmas\<close>

lemma length_show_int: "0 \<le> i \<Longrightarrow> i < 2147483648 \<Longrightarrow> length (show_int i) \<le> 10"
proof -
  assume "0 \<le> i" "i < 2147483648"
  then have "nat i < 10 ^ 10" by simp
  then have "length (show_nat (nat i)) \<le> 10" by (rule length_show_nat) simp
  with \<open>0 \<le> i\<close> show ?thesis by (simp add: show_int_def)
qed

text \<open>A stream that stands at the end of its file.\<close>

definition at_end :: "string \<Rightarrow> item list \<Rightarrow> 'a sim_scheme \<Rightarrow> bool" where
  "at_end name c S \<longleftrightarrow> files S name = Some c \<and> streams S name = Some (length c)"

lemma at_endI [intro]: "files S name = Some c \<Longrightarrow> streams S name = Some (length c) \<Longrightarrow> at_end name c S"
  by (simp add: at_end_def)

definition grown :: "string \<Rightarrow> item list \<Rightarrow> item list \<Rightarrow> 'a sim_scheme \<Rightarrow> 'a sim_scheme" where
  "grown name c its S =
     S\<lparr>files := (files S)(name \<mapsto> c @ its), streams := (streams S)(name \<mapsto> length (c @ its))\<rparr>"

lemma grown_simps [simp]:
  "sampleTime (grown n c its S) = sampleTime S" "in_width (grown n c its S) = in_width S" "iwork (grown n c its S) = iwork S"
  "rwork (grown n c its S) = rwork S" "pwork (grown n c its S) = pwork S" "outs (grown n c its S) = outs S"
  "fs_ok (grown n c its S) = fs_ok S" "fs_tick (grown n c its S) = fs_tick S" "console (grown n c its S) = console S"
  "host_files (grown n c its S) = host_files S" "fmt_real (grown n c its S) = fmt_real S" "dbl (grown n c its S) = dbl S"
  "files (grown n c its S) = (files S)(n \<mapsto> c @ its)" "streams (grown n c its S) = (streams S)(n \<mapsto> length (c @ its))"
  "grown n (c @ its) its' (grown n c its S) = grown n c (its @ its') S"
  by (simp_all add: grown_def)

lemma at_end_grown [simp]: "at_end n (c @ its) (grown n c its S)"
  by (simp add: at_end_def)

lemma at_end_other [simp]: "n' \<noteq> n \<Longrightarrow> at_end n' c' (grown n c its S) = at_end n' c' S"
  by (simp add: at_end_def)

lemma fput_end: "at_end name c S \<Longrightarrow> fput its (Stream name) S = Some (grown name c its S)"
  by (simp add: fput_def at_end_def grown_def overlay_def)

lemma grown_nil [simp]: "at_end name c S \<Longrightarrow> grown name c [] S = S"
  by (cases S) (auto simp: at_end_def grown_def fun_upd_idem)

lemma fwrite_values_end:
  "at_end name c S \<Longrightarrow>
   fwrite_values n xs saved (Stream name) S
   = Some (fold (\<lambda>_ k. wrap32 (k + int n)) xs saved, grown name c (map (Val n) xs) S)"
proof (induction xs arbitrary: c saved S)
  case (Cons x xs)
  have "at_end name (c @ [Val n x]) (grown name c [Val n x] S)" by simp
  from Cons.IH [OF this] show ?case using Cons.prems by (simp add: fwrite_def fput_end)
qed simp

lemma fold_wrap:
  "0 \<le> saved \<Longrightarrow> saved + int (n * length xs) < 2147483648 \<Longrightarrow>
   fold (\<lambda>_ k. wrap32 (k + int n)) xs saved = saved + int (n * length xs)"
proof (induction xs arbitrary: saved)
  case (Cons x xs)
  have "int (n * length (x # xs)) = int n + int (n * length xs)" by (simp add: algebra_simps)
  with Cons.prems have "0 \<le> saved + int n" "saved + int n + int (n * length xs) < 2147483648" "saved + int n \<le> 2147483647"
    by linarith+
  with Cons.IH [of "saved + int n"] Cons.prems show ?case by (simp add: wrap32_id algebra_simps)
qed simp

lemma fprintf_each_end:
  assumes "\<And>x. c_format (fmt_real S) fmt [AD x] = Some (f x)"
  shows "at_end name c S \<Longrightarrow> fprintf_each fmt (Stream name) xs S = Some (grown name c (map Ch (concat (map f xs))) S)"
  using assms
proof (induction xs arbitrary: c S)
  case (Cons x xs)
  let ?t = "map Ch (f x)"
  have "at_end name (c @ ?t) (grown name c ?t S)" by simp
  from Cons.IH [OF this] Cons.prems(2) show ?case
    by (simp only: fprintf_each.simps fprintf_def Option.bind.simps fput_end [OF Cons.prems(1)] grown_simps) simp
qed simp

text \<open>The text of some lines.\<close>

fun lines_text :: "(string \<Rightarrow> real \<Rightarrow> string) \<Rightarrow> (string \<times> arg list) list \<Rightarrow> string option" where
  "lines_text fr [] = Some []"
| "lines_text fr ((fmt, as) # ls) =
     (case (c_format fr (endl fmt) as, lines_text fr ls) of (Some t, Some u) \<Rightarrow> Some (t @ u) | _ \<Rightarrow> None)"

lemma fprintf_lines_end:
  "at_end name c S \<Longrightarrow> lines_text (fmt_real S) ls = Some t \<Longrightarrow>
   fprintf_lines (Stream name) ls S = Some (grown name c (map Ch t) S)"
proof (induction ls arbitrary: c S t)
  case (Cons l ls)
  obtain fmt as where l: "l = (fmt, as)" by (cases l)
  from Cons.prems(2) obtain t1 t2 where
    t: "c_format (fmt_real S) (endl fmt) as = Some t1" "lines_text (fmt_real S) ls = Some t2" "t = t1 @ t2"
    by (auto simp: l split: option.splits)
  have "at_end name (c @ map Ch t1) (grown name c (map Ch t1) S)" by simp
  from Cons.IH [OF this] t show ?case by (simp add: l fprintf_def fput_end [OF Cons.prems(1)])
qed simp

text \<open>The same as rewrite rules, with what the file held left as a term.\<close>

lemma fprintf_lines_run:
  "streams S name = Some (length (the (files S name))) \<Longrightarrow> files S name \<noteq> None \<Longrightarrow> lines_text (fmt_real S) ls \<noteq> None \<Longrightarrow>
   fprintf_lines (Stream name) ls S = Some (grown name (the (files S name)) (map Ch (the (lines_text (fmt_real S) ls))) S)"
  by (rule fprintf_lines_end) (auto simp: at_end_def)

lemma fput_run:
  "streams S name = Some (length (the (files S name))) \<Longrightarrow> files S name \<noteq> None \<Longrightarrow>
   fput its (Stream name) S = Some (grown name (the (files S name)) its S)"
  by (rule fput_end) (auto simp: at_end_def)

lemma fwrite_values_run:
  "streams S name = Some (length (the (files S name))) \<Longrightarrow> files S name \<noteq> None \<Longrightarrow>
   fwrite_values n xs saved (Stream name) S
   = Some (fold (\<lambda>_ k. wrap32 (k + int n)) xs saved, grown name (the (files S name)) (map (Val n) xs) S)"
  by (rule fwrite_values_end) (auto simp: at_end_def)

lemma c_printf_run:
  "c_format (fmt_real S) fmt as \<noteq> None \<Longrightarrow> c_printf fmt as S = Some (S\<lparr>console := console S @ the (c_format (fmt_real S) fmt as)\<rparr>)"
  by (auto simp: c_printf_def)

lemmas format_simps = endl_def c_format.simps c_conv_def conversion_def newline_def lines_text.simps

end
