(* ===== verification/SaveToBin.thy ===== *)
theory SaveToBin
  imports SimStruct
begin

text \<open>
  The recorder block save2bin (SFunctions/SaveToBin/save2bin.c): it writes its input to a binary
  file, starts a new file when the size asked for is reached, and keeps a log of the files. The
  calls of the host are the definitions \<open>bin_\<dots>\<close>; the mask parameters are a record. The theorem is
  that the files, in the order of the log, are the recorded signal.
\<close>

section \<open>The block\<close>

record bin_mask =
  SAVE_DIRECTORY :: string
  FILENAME_ROOT :: string
  FILENAME_TYPE :: string
  MAX_FILE_SIZE :: real
  REF_TEXTFILE :: string
  RECORD_TIME :: real

definition SAVE_DIRECTORY_SIZE :: nat where "SAVE_DIRECTORY_SIZE = 150"
definition FILENAME_ROOT_SIZE :: nat where "FILENAME_ROOT_SIZE = 32"
definition FILENAME_TYPE_SIZE :: nat where "FILENAME_TYPE_SIZE = 5"

definition FULL_FILENAME_SIZE :: nat where
  "FULL_FILENAME_SIZE = SAVE_DIRECTORY_SIZE + FILENAME_ROOT_SIZE + FILENAME_TYPE_SIZE"

lemmas bin_sizes = SAVE_DIRECTORY_SIZE_def FILENAME_ROOT_SIZE_def FILENAME_TYPE_SIZE_def FULL_FILENAME_SIZE_def

text \<open>\<open>params\<close> is the number of parameters the mask has; the host may refuse the ports.\<close>

definition bin_InitializeSizes :: "nat \<Rightarrow> bool \<Rightarrow> bool \<Rightarrow> sizes" where
  "bin_InitializeSizes params inputs_ok outputs_ok =
     (let z = no_sizes\<lparr>num_params := 7\<rparr>
      in if params \<noteq> 7 then z
         else if \<not> inputs_ok then z
         else
           (let z = z\<lparr>in_widths := [Width 1, Dynamic], feedthrough := [True, True]\<rparr>
            in if \<not> outputs_ok then z
               else z\<lparr>out_widths := [Width 1], sample_times := 1, num_rwork := 3, num_iwork := 7, num_pwork := 5\<rparr>))"

definition bin_log_head :: "string \<Rightarrow> string \<Rightarrow> string \<Rightarrow> real \<Rightarrow> int \<Rightarrow> int \<Rightarrow> real \<Rightarrow> (string \<times> arg list) list" where
  "bin_log_head save_directory filename_root extension max_filesize_MB width bRecordTime rate =
     [(''%%%% Info on Recorded Data:'', []),
      (''LogInfo.SaveDirectory = '%s';'', [AS save_directory]),
      (''LogInfo.FilenameRoot  = '%s';'', [AS filename_root]),
      (''LogInfo.Extension     = '%s';'', [AS extension]),
      (''LogInfo.MaxFilesize   = %.3f; %% [MB]'', [AD max_filesize_MB]),
      (''LogInfo.TotalSignals  = %d;  %% [int]'', [AI (wrap32 (width + bRecordTime))]),
      (''LogInfo.SourceSignals = %d;  %% [int]'', [AI width]),
      (''LogInfo.TimeIsFirst   = %d;  %% [bool]'', [AI bRecordTime]),
      (''LogInfo.Baserate      = %6.3f; %% [sec]'', [AD rate]),
      (''%% NOTE: Do NOT Assume that data has been uniformly recorded'', []),
      (''%%       DataRecorder's decimation can be throttled during run'', []),
      ('''', []),
      (''%%%% Log Breakdown:'', [])]"

text \<open>The copy of the reference text ends at the end of the file, or at a byte 255, which as a \<open>char\<close> is \<open>EOF\<close>.\<close>

definition copy_text :: "string \<Rightarrow> string" where
  "copy_text = takeWhile (\<lambda>ch. ch \<noteq> CHR 0xFF)"

definition bin_Start :: "bin_mask \<Rightarrow> sim \<Rightarrow> sim option" where
  "bin_Start M S = do {
     let max_filesize_MB = MAX_FILE_SIZE M;
     let bSplitFiles = (if max_filesize_MB > 0 then 1 else 0);
     bRecordTime \<leftarrow> int_cast (RECORD_TIME M);
     let save_directory = mxGetString (SAVE_DIRECTORY M) SAVE_DIRECTORY_SIZE;
     let filename_root = mxGetString (FILENAME_ROOT M) FILENAME_ROOT_SIZE;
     let extension = mxGetString (FILENAME_TYPE M) FILENAME_TYPE_SIZE;
     let reftext_full = mxGetString (REF_TEXTFILE M) FULL_FILENAME_SIZE;
     fullfile_root \<leftarrow> sprintf (SAVE_DIRECTORY_SIZE + FILENAME_ROOT_SIZE) ''%s%s'' [AS save_directory, AS filename_root] S;
     S \<leftarrow> ssSetPWorkValue 0 (Str fullfile_root) S;
     S \<leftarrow> ssSetPWorkValue 4 (Str filename_root) S;
     S \<leftarrow> ssSetPWorkValue 1 (Str extension) S;
     S \<leftarrow> ssSetRWorkValue 0 (sampleTime S) S;
     rate \<leftarrow> ssGetRWorkValue 0 S;
     S \<leftarrow> ssSetRWorkValue 1 (- rate) S;
     S \<leftarrow> ssSetRWorkValue 2 0 S;
     S \<leftarrow> ssSetIWorkValue 0 0 S;
     S \<leftarrow> ssSetIWorkValue 1 0 S;
     S \<leftarrow> ssSetIWorkValue 2 1 S;
     let width = int (in_width S);
     max_filesize \<leftarrow> int_cast (dbl S (dbl S (max_filesize_MB * 1024) * 1024));
     S \<leftarrow> ssSetIWorkValue 3 max_filesize S;
     S \<leftarrow> ssSetIWorkValue 4 bSplitFiles S;
     S \<leftarrow> ssSetIWorkValue 5 0 S;
     S \<leftarrow> ssSetIWorkValue 6 bRecordTime S;
     filename_full \<leftarrow>
       (if bSplitFiles = 1
        then sprintf FULL_FILENAME_SIZE ''%s%s_%d.%s'' [AS save_directory, AS filename_root, AI 1, AS extension] S
        else sprintf FULL_FILENAME_SIZE ''%s%s.%s'' [AS save_directory, AS filename_root, AS extension] S);
     (data_stream, S) \<leftarrow> fopen filename_full ModeW S;
     S \<leftarrow> ssSetPWorkValue 2 data_stream S;
     S \<leftarrow> c_printf (endl ''SAVE2BIN :: Opening data recorder to save '%s' in '%s'...'') [AS filename_root, AS save_directory] S;
     log_full \<leftarrow> sprintf FULL_FILENAME_SIZE ''%s%s_Log.txt'' [AS save_directory, AS filename_root] S;
     (log_stream, S) \<leftarrow> fopen log_full ModeW S;
     S \<leftarrow> fprintf_lines log_stream
       (bin_log_head save_directory filename_root extension max_filesize_MB width bRecordTime rate) S;
     S \<leftarrow> c_printf (endl ''SAVE2BIN :: Adding '%s' to '%s_Log.txt'.'') [AS reftext_full, AS filename_root] S;
     S \<leftarrow> fprintf_lines log_stream [(''%%%% Additional Source Data:'', [])] S;
     S \<leftarrow> (case host_files S reftext_full of
            None \<Rightarrow> fprintf_lines log_stream [(''%% No Data Provided'', [])] S
          | Some t \<Rightarrow> fput (map Ch (copy_text t)) log_stream S);
     ssSetPWorkValue 3 log_stream S
   }"

text \<open>The entry of a file in the log.\<close>

definition bin_log_set :: "int \<Rightarrow> int \<Rightarrow> int \<Rightarrow> int \<Rightarrow> real \<Rightarrow> real \<Rightarrow> string \<Rightarrow> int \<Rightarrow> (real \<Rightarrow> real) \<Rightarrow> (string \<times> arg list) list" where
  "bin_log_set iFile timesteps width bRecordTime first simtime filename_full saved rnd =
     [(''LogInfo.Set(%d).Timesteps   = %10.0f;  %% [int]'', [AI iFile, AD (of_int timesteps)]),
      (''LogInfo.Set(%d).Signals     = %10.0f;  %% [int]'', [AI iFile, AD (of_int (wrap32 (width + bRecordTime)))]),
      (''LogInfo.Set(%d).TimeIsFirst = %10.0f;  %% [bool]'', [AI iFile, AD (of_int bRecordTime)]),
      (''LogInfo.Set(%d).ValueSize   = %10.0f;  %% [bytes]'', [AI iFile, AD 8]),
      (''LogInfo.Set(%d).StartTime   = %10.3f;  %% [sec]'', [AI iFile, AD first]),
      (''LogInfo.Set(%d).EndTime     = %10.3f;  %% [sec]'', [AI iFile, AD simtime]),
      (''LogInfo.Set(%d).Filename    = '%s';'', [AI iFile, AS filename_full]),
      (''LogInfo.Set(%d).Filesize    = %10.0f;  %% [bytes]'', [AI iFile, AD (of_int saved)]),
      (''LogInfo.Set(%d).Filesize_KB = %10.3f;  %% [KB]'', [AI iFile, AD (rnd (of_int saved / 1024))]),
      (''LogInfo.Set(%d).Filesize_MB = %10.3f;  %% [MB]'', [AI iFile, AD (rnd (of_int saved / (1024 * 1024)))]),
      ('''', [])]"

text \<open>Closing a file that has reached its size and opening the next one.\<close>

definition bin_split :: "real \<Rightarrow> real \<Rightarrow> int \<Rightarrow> int \<Rightarrow> int \<Rightarrow> sim \<Rightarrow> sim option" where
  "bin_split simtime stepsize local bytes_saved bRecordTime S = do {
     iFile \<leftarrow> ssGetIWorkValue 2 S;
     root \<leftarrow> pw_string 0 S;
     ext \<leftarrow> pw_string 1 S;
     data_stream \<leftarrow> ssGetPWorkValue 2 S;
     log_stream \<leftarrow> ssGetPWorkValue 3 S;
     first \<leftarrow> ssGetRWorkValue 2 S;
     filename_full \<leftarrow> sprintf FULL_FILENAME_SIZE ''%s_%d.%s'' [AS root, AI iFile, AS ext] S;
     S \<leftarrow> fprintf_lines log_stream
       (bin_log_set iFile local (int (in_width S)) bRecordTime first simtime filename_full bytes_saved (dbl S)) S;
     S \<leftarrow> fclose data_stream S;
     let iFile = wrap32 (iFile + 1);
     S \<leftarrow> ssSetIWorkValue 2 iFile S;
     S \<leftarrow> ssSetIWorkValue 5 0 S;
     S \<leftarrow> ssSetIWorkValue 1 0 S;
     S \<leftarrow> ssSetRWorkValue 2 (dbl S (simtime + stepsize)) S;
     filename_full \<leftarrow> sprintf FULL_FILENAME_SIZE ''%s_%d.%s'' [AS root, AI iFile, AS ext] S;
     (data_stream, S) \<leftarrow> fopen filename_full ModeW S;
     ssSetPWorkValue 2 data_stream S
   }"

text \<open>What is written for a step: the time, when it is asked for, and the values.\<close>

definition bin_values :: "int \<Rightarrow> real \<Rightarrow> real list \<Rightarrow> real list" where
  "bin_values bRecordTime simtime u1 = (if bRecordTime > 0 then [simtime] else []) @ u1"

text \<open>One call: \<open>u0\<close> is the flag to record, \<open>u1\<close> the values of the signal.\<close>

definition bin_Outputs :: "real \<Rightarrow> real list \<Rightarrow> sim \<Rightarrow> sim option" where
  "bin_Outputs u0 u1 S = do {
     stepsize \<leftarrow> ssGetRWorkValue 0 S;
     simtime \<leftarrow> ssGetRWorkValue 1 S;
     let simtime = dbl S (simtime + stepsize);
     S \<leftarrow> ssSetRWorkValue 1 simtime S;
     timesteps_saved \<leftarrow> ssGetIWorkValue 0 S;
     bytes_saved \<leftarrow> ssGetIWorkValue 1 S;
     max_bytes_to_save \<leftarrow> ssGetIWorkValue 3 S;
     bSplitFiles \<leftarrow> ssGetIWorkValue 4 S;
     local \<leftarrow> ssGetIWorkValue 5 S;
     bRecordTime \<leftarrow> ssGetIWorkValue 6 S;
     if u0 > 1 / 2 then do {
       S \<leftarrow> ssSetIWorkValue 0 (wrap32 (timesteps_saved + 1)) S;
       let local = wrap32 (local + 1);
       S \<leftarrow> ssSetIWorkValue 5 local S;
       data_stream \<leftarrow> ssGetPWorkValue 2 S;
       (bytes_saved, S) \<leftarrow> fwrite_values 8 (bin_values bRecordTime simtime u1) bytes_saved data_stream S;
       S \<leftarrow> ssSetIWorkValue 1 bytes_saved (S\<lparr>outs := [of_int bytes_saved]\<rparr>);
       if bytes_saved \<ge> max_bytes_to_save \<and> bSplitFiles > 0
       then bin_split simtime stepsize local bytes_saved bRecordTime S
       else Some S
     } else Some S
   }"

definition bin_Terminate :: "sim \<Rightarrow> sim option" where
  "bin_Terminate S = do {
     filename_root \<leftarrow> pw_string 4 S;
     extension \<leftarrow> pw_string 1 S;
     full_root \<leftarrow> pw_string 0 S;
     data_stream \<leftarrow> ssGetPWorkValue 2 S;
     log_stream \<leftarrow> ssGetPWorkValue 3 S;
     simtime \<leftarrow> ssGetRWorkValue 1 S;
     first \<leftarrow> ssGetRWorkValue 2 S;
     timesteps_saved \<leftarrow> ssGetIWorkValue 0 S;
     saved \<leftarrow> ssGetIWorkValue 1 S;
     bSplitFiles \<leftarrow> ssGetIWorkValue 4 S;
     local \<leftarrow> ssGetIWorkValue 5 S;
     bRecordTime \<leftarrow> ssGetIWorkValue 6 S;
     S \<leftarrow> fclose data_stream S;
     iFile \<leftarrow> ssGetIWorkValue 2 S;
     filename_full \<leftarrow>
       (if bSplitFiles > 0 then sprintf FULL_FILENAME_SIZE ''%s_%d.%s'' [AS full_root, AI iFile, AS extension] S
        else sprintf FULL_FILENAME_SIZE ''%s.%s'' [AS full_root, AS extension] S);
     S \<leftarrow> fprintf_lines log_stream
       (bin_log_set iFile local (int (in_width S)) bRecordTime first simtime filename_full saved (dbl S)) S;
     S \<leftarrow> fprintf_lines log_stream
       [(''%%%% Short Summary:'', []),
        (''LogInfo.StartTime  = %10.3f;  %% [sec]'', [AD 0]),
        (''LogInfo.EndTime    = %10.3f;  %% [sec]'', [AD simtime]),
        (''LogInfo.Timesteps  = %10.0f;  %% [int]'', [AD (of_int timesteps_saved)]),
        ('''', [])] S;
     S \<leftarrow> fclose log_stream S;
     if timesteps_saved = 0 then do {
       S \<leftarrow> c_printf (endl ''SAVE2BIN :: Removing '%s' since no data recorded'') [AS filename_full] S;
       let S = remove_file filename_full S;
       filename_full \<leftarrow> sprintf FULL_FILENAME_SIZE ''%s_Log.txt'' [AS full_root] S;
       S \<leftarrow> c_printf (endl ''SAVE2BIN :: Removing '%s' since no data recorded'') [AS filename_full] S;
       Some (remove_file filename_full S)
     } else
       c_printf (endl ''SAVE2BIN :: Logging of '%s' data complete.  Details cataloged in '%s_Log.txt'.'')
         [AS filename_root, AS full_root] S
   }"

text \<open>A simulation: the calls of the host, one \<open>bin_Outputs\<close> per step.\<close>

fun bin_run :: "(real \<times> real list) list \<Rightarrow> sim \<Rightarrow> sim option" where
  "bin_run [] S = Some S"
| "bin_run ((u0, u1) # us) S = Option.bind (bin_Outputs u0 u1 S) (bin_run us)"

section \<open>The abstract recorder\<close>

text \<open>
  The files that are complete, each with its number of steps and the times noted for it; the
  file being written; the time of the last call.
\<close>

record tape =
  tp_done :: "(item list \<times> int \<times> real \<times> real) list"
  tp_cur :: "item list"
  tp_local :: int
  tp_first :: real
  tp_now :: real
  tp_total :: int

definition bin_frame :: "int \<Rightarrow> real \<Rightarrow> real list \<Rightarrow> item list" where
  "bin_frame bRecordTime now u1 = map (Val 8) (bin_values bRecordTime now u1)"

definition tape_step :: "(real \<Rightarrow> real) \<Rightarrow> real \<Rightarrow> int \<Rightarrow> int \<Rightarrow> real \<times> real list \<Rightarrow> tape \<Rightarrow> tape" where
  "tape_step rnd h bRec limit u a =
     (let a = a\<lparr>tp_now := rnd (tp_now a + h)\<rparr>
      in if fst u > 1 / 2 then
           (let c = tp_cur a @ bin_frame bRec (tp_now a) (snd u); n = tp_local a + 1;
                a = a\<lparr>tp_total := tp_total a + 1\<rparr>
            in if int (8 * length c) \<ge> limit
               then a\<lparr>tp_done := tp_done a @ [(c, n, tp_first a, tp_now a)], tp_cur := [], tp_local := 0,
                      tp_first := rnd (tp_now a + h)\<rparr>
               else a\<lparr>tp_cur := c, tp_local := n\<rparr>)
         else a)"

fun bin_frames :: "(real \<Rightarrow> real) \<Rightarrow> real \<Rightarrow> int \<Rightarrow> real \<Rightarrow> (real \<times> real list) list \<Rightarrow> item list list" where
  "bin_frames rnd h bRec now [] = []"
| "bin_frames rnd h bRec now (u # us) =
     (let now = rnd (now + h)
      in (if fst u > 1 / 2 then [bin_frame bRec now (snd u)] else []) @ bin_frames rnd h bRec now us)"

definition tape_run :: "(real \<Rightarrow> real) \<Rightarrow> real \<Rightarrow> int \<Rightarrow> int \<Rightarrow> (real \<times> real list) list \<Rightarrow> tape \<Rightarrow> tape" where
  "tape_run rnd h bRec limit us a = fold (tape_step rnd h bRec limit) us a"

text \<open>The files of a tape, the last one included.\<close>

definition tape_files :: "tape \<Rightarrow> item list list" where
  "tape_files a = map fst (tp_done a) @ [tp_cur a]"

lemma tape_step_files:
  "concat (tape_files (tape_step rnd h bRec limit u a)) = concat (tape_files a) @ concat (bin_frames rnd h bRec (tp_now a) [u])
   \<and> tp_now (tape_step rnd h bRec limit u a) = rnd (tp_now a + h)"
  by (simp add: tape_step_def tape_files_def Let_def)

lemma tape_run_files:
  "concat (tape_files (tape_run rnd h bRec limit us a)) = concat (tape_files a) @ concat (bin_frames rnd h bRec (tp_now a) us)"
proof (induction us arbitrary: a)
  case (Cons u us)
  have step: "tape_run rnd h bRec limit (u # us) a = tape_run rnd h bRec limit us (tape_step rnd h bRec limit u a)"
    by (simp add: tape_run_def)
  show ?case unfolding step Cons.IH using tape_step_files [of rnd h bRec limit u a] by (simp add: Let_def)
qed (simp add: tape_run_def)

text \<open>The sizes: \<open>n\<close> values per step; a file is closed with the step that reaches the limit.\<close>

definition tape_ok :: "int \<Rightarrow> nat \<Rightarrow> int \<Rightarrow> tape \<Rightarrow> bool" where
  "tape_ok limit n most a \<longleftrightarrow>
     (\<forall>(c, k, _) \<in> set (tp_done a). limit \<le> int (8 * length c) \<and> int (8 * length c) < limit + int (8 * n) \<and> int (length c) = k * int n)
     \<and> int (8 * length (tp_cur a)) < limit \<and> int (length (tp_cur a)) = tp_local a * int n
     \<and> 0 \<le> tp_local a \<and> tp_local a \<le> tp_total a \<and> tp_total a \<le> most \<and> int (length (tp_done a)) \<le> tp_total a"

lemma tape_step_ok:
  assumes "tape_ok limit n most a" "0 < limit" "length (bin_frame bRec (rnd (tp_now a + h)) (snd u)) = n"
  shows "tape_ok limit n (most + 1) (tape_step rnd h bRec limit u a)"
  using assms by (auto simp: tape_ok_def tape_step_def Let_def algebra_simps)

section \<open>The block implements it\<close>

definition bin_name :: "string \<Rightarrow> string \<Rightarrow> int \<Rightarrow> string" where
  "bin_name full ext i = full @ ''_'' @ show_int i @ ''.'' @ ext"

definition bin_log_name :: "string \<Rightarrow> string" where
  "bin_log_name full = full @ ''_Log.txt''"

lemma show_nat_inject: "show_nat m = show_nat n \<longleftrightarrow> m = n"
  by (metis show_nat_digits of_nat_eq_iff)

lemma bin_name_inject: "0 \<le> i \<Longrightarrow> 0 \<le> j \<Longrightarrow> bin_name full ext i = bin_name full ext j \<longleftrightarrow> i = j"
  by (simp add: bin_name_def show_int_def show_nat_inject eq_nat_nat_iff)

lemma bin_name_log: "0 \<le> i \<Longrightarrow> bin_name full ext i \<noteq> bin_log_name full"
proof
  assume i: "0 \<le> i" and eq: "bin_name full ext i = bin_log_name full"
  obtain d ds where d: "show_nat (nat i) = d # ds" "is_digit d"
    using show_nat_digits [of "nat i"] by (cases "show_nat (nat i)") auto
  then have "d = CHR ''L''" using i eq by (simp add: bin_name_def bin_log_name_def show_int_def)
  with d(2) show False by (simp add: is_digit_def)
qed

lemma bin_name_text:
  assumes "length full + length ext \<le> 174" "0 \<le> i" "i < 2147483648"
  shows "sprintf FULL_FILENAME_SIZE ''%s_%d.%s'' [AS full, AI i, AS ext] S = Some (bin_name full ext i)"
proof -
  have "length (bin_name full ext i) < FULL_FILENAME_SIZE"
    using assms(1) length_show_int [OF assms(2,3)] by (simp add: bin_name_def bin_sizes)
  moreover have "c_format (fmt_real S) ''%s_%d.%s'' [AS full, AI i, AS ext] = Some (bin_name full ext i)"
    by (simp add: format_simps bin_name_def)
  ultimately show ?thesis by (simp add: sprintf_def)
qed

lemma bin_log_set_text: "\<exists>t. lines_text fr (bin_log_set i k w b first now name saved rnd) = Some t"
  by (simp add: format_simps bin_log_set_def)

definition bin_entry :: "sim \<Rightarrow> int \<Rightarrow> int \<Rightarrow> string \<Rightarrow> string \<Rightarrow> item list \<times> int \<times> real \<times> real \<Rightarrow> item list" where
  "bin_entry S bRec i full ext e =
     (case e of (c, k, first, now) \<Rightarrow>
        map Ch (the (lines_text (fmt_real S)
          (bin_log_set i k (int (in_width S)) bRec first now (bin_name full ext i) (int (8 * length c)) (dbl S)))))"

text \<open>The entries of the files that are complete.\<close>

definition bin_entries :: "sim \<Rightarrow> int \<Rightarrow> string \<Rightarrow> string \<Rightarrow> (item list \<times> int \<times> real \<times> real) list \<Rightarrow> item list" where
  "bin_entries S bRec full ext es = concat (map (\<lambda>i. bin_entry S bRec (int i + 1) full ext (es ! i)) [0..<length es])"

lemma bin_entries_snoc:
  "bin_entries S bRec full ext (es @ [e]) = bin_entries S bRec full ext es @ bin_entry S bRec (int (length es) + 1) full ext e"
  by (auto simp: bin_entries_def nth_append intro!: arg_cong [where f = concat] map_cong)

text \<open>The block stands for a tape.\<close>

definition bin_holds :: "real \<Rightarrow> int \<Rightarrow> int \<Rightarrow> string \<Rightarrow> string \<Rightarrow> string \<Rightarrow> item list \<Rightarrow> tape \<Rightarrow> sim \<Rightarrow> bool" where
  "bin_holds h bRec limit full rt ext head a S \<longleftrightarrow>
     iwork S = [tp_total a, int (8 * length (tp_cur a)), int (length (tp_done a)) + 1, limit, 1, tp_local a, bRec]
     \<and> rwork S = [h, tp_now a, tp_first a]
     \<and> pwork S = [Str full, Str ext, Stream (bin_name full ext (int (length (tp_done a)) + 1)), Stream (bin_log_name full), Str rt]
     \<and> fs_ok S = (\<lambda>_. True)
     \<and> at_end (bin_name full ext (int (length (tp_done a)) + 1)) (tp_cur a) S
     \<and> at_end (bin_log_name full) (head @ bin_entries S bRec full ext (tp_done a)) S
     \<and> (\<forall>i > int (length (tp_done a)) + 1. streams S (bin_name full ext i) = None)
     \<and> (\<forall>i < length (tp_done a). files S (bin_name full ext (int i + 1)) = Some (fst (tp_done a ! i)))"

lemma bin_split_run:
  fixes S :: sim
  assumes work: "iwork S = [ts, v, n, limit, 1, k', b]" "rwork S = [h, now', first]"
      "pwork S = [Str full, Str ext, Stream (bin_name full ext n), Stream lg, Str rt]" "fs_ok S = (\<lambda>_. True)"
    and n: "length full + length ext \<le> 174" "0 \<le> n" "n + 1 < 2147483648"
    and log: "at_end lg L S" "lg = bin_log_name full"
    and names: "streams S (bin_name full ext n) \<noteq> None" "streams S (bin_name full ext (n + 1)) = None"
    and t: "lines_text (fmt_real S) (bin_log_set n k (int (in_width S)) bRec first now (bin_name full ext n) saved (dbl S)) = Some t"
  defines "S1 \<equiv> grown lg L (map Ch t) S"
  shows "bin_split now h k saved bRec S =
    Some (S1\<lparr>iwork := [ts, 0, n + 1, limit, 1, 0, b], rwork := [h, now', dbl S (now + h)],
      pwork := [Str full, Str ext, Stream (bin_name full ext (n + 1)), Stream lg, Str rt], fs_tick := Suc (fs_tick S),
      files := (files S1)(bin_name full ext (n + 1) \<mapsto> []),
      streams := (streams S1)(bin_name full ext n := None, bin_name full ext (n + 1) \<mapsto> 0)\<rparr>)"
proof -
  note sp = bin_name_text [OF n(1)]
  have ne: "lg \<noteq> bin_name full ext n" "lg \<noteq> bin_name full ext (n + 1)" "bin_name full ext (n + 1) \<noteq> bin_name full ext n"
    using n log(2) bin_name_log [of n full ext] bin_name_log [of "n + 1" full ext] by (simp_all add: bin_name_inject)
  have "n < 2147483648" "0 \<le> n + 1" "wrap32 (n + 1) = n + 1" using n by (simp_all add: wrap32_id)
  with n ne work names t show ?thesis
    by (simp add: bin_split_def work_defs sp fprintf_lines_end [OF log(1) t] Let_def S1_def fclose_def fopen_def)
qed

text \<open>What the calls leave alone.\<close>

definition same_host :: "sim \<Rightarrow> sim \<Rightarrow> bool" where
  "same_host S S' \<longleftrightarrow> dbl S' = dbl S \<and> fmt_real S' = fmt_real S \<and> in_width S' = in_width S \<and> fs_ok S' = fs_ok S"

lemma bin_entry_same: "same_host S S' \<Longrightarrow> bin_entry S' b i full ext e = bin_entry S b i full ext e"
  by (simp add: same_host_def bin_entry_def split_def)

lemma bin_entries_same: "same_host S S' \<Longrightarrow> bin_entries S' b full ext es = bin_entries S b full ext es"
  by (simp add: bin_entries_def bin_entry_same)

lemma bin_split_holds:
  fixes a :: tape and S :: sim
  assumes holds: "bin_holds h bRec limit full rt ext head a S"
    and small: "length full + length ext \<le> 174" "int (length (tp_done a)) + 2 < 2147483648"
  shows "\<exists>S'. bin_split (tp_now a) h (tp_local a) (int (8 * length (tp_cur a))) bRec S = Some S'
    \<and> bin_holds h bRec limit full rt ext head
        (a\<lparr>tp_done := tp_done a @ [(tp_cur a, tp_local a, tp_first a, tp_now a)], tp_cur := [], tp_local := 0,
           tp_first := dbl S (tp_now a + h)\<rparr>) S'
    \<and> same_host S S'"
proof -
  define n where "n = int (length (tp_done a)) + 1"
  let ?old = "bin_name full ext n" and ?next = "bin_name full ext (n + 1)" and ?log = "bin_log_name full"
  let ?e = "(tp_cur a, tp_local a, tp_first a, tp_now a)"
  define saved where "saved = int (8 * length (tp_cur a))"
  have n: "0 \<le> n" "n + 1 < 2147483648" "0 < n" using small(2) by (simp_all add: n_def)
  obtain t where t: "lines_text (fmt_real S) (bin_log_set n (tp_local a) (int (in_width S)) bRec (tp_first a) (tp_now a) ?old saved (dbl S)) = Some t"
    using bin_log_set_text by blast
  have entry: "bin_entry S bRec n full ext ?e = map Ch t" unfolding bin_entry_def using t by (simp add: saved_def)
  have work: "iwork S = [tp_total a, saved, n, limit, 1, tp_local a, bRec]" "rwork S = [h, tp_now a, tp_first a]"
    "pwork S = [Str full, Str ext, Stream ?old, Stream ?log, Str rt]" "fs_ok S = (\<lambda>_. True)"
    and old: "at_end ?old (tp_cur a) S" and log: "at_end ?log (head @ bin_entries S bRec full ext (tp_done a)) S"
    and fresh: "\<forall>i > n. streams S (bin_name full ext i) = None"
    and parts: "\<forall>i < length (tp_done a). files S (bin_name full ext (int i + 1)) = Some (fst (tp_done a ! i))"
    using holds by (simp_all add: bin_holds_def n_def saved_def)
  have streams: "streams S ?old \<noteq> None" "streams S ?next = None" using old fresh by (simp_all add: at_end_def)
  note run = bin_split_run [OF work small(1) n(1,2) log refl streams t]
  have ne: "?log \<noteq> bin_name full ext i" if "0 \<le> i" for i using bin_name_log [OF that, of full ext] by metis
  have eq: "bin_name full ext i = bin_name full ext j \<longleftrightarrow> i = j" if "0 \<le> i" "0 \<le> j" for i j
    using bin_name_inject that by blast
  let ?S1 = "grown ?log (head @ bin_entries S bRec full ext (tp_done a)) (map Ch t) S"
  define S' where "S' = ?S1\<lparr>iwork := [tp_total a, 0, n + 1, limit, 1, 0, bRec], rwork := [h, tp_now a, dbl S (tp_now a + h)],
      pwork := [Str full, Str ext, Stream ?next, Stream ?log, Str rt], fs_tick := Suc (fs_tick S),
      files := (files ?S1)(?next \<mapsto> []), streams := (streams ?S1)(?old := None, ?next \<mapsto> 0)\<rparr>"
  have same: "same_host S S'" by (simp add: same_host_def S'_def)
  have "at_end ?log ((head @ bin_entries S bRec full ext (tp_done a)) @ map Ch t) S'"
    using ne [of n] ne [of "n + 1"] n by (simp add: S'_def at_end_def)
  then have 1: "at_end ?log (head @ bin_entries S' bRec full ext (tp_done a @ [?e])) S'"
    unfolding bin_entries_snoc by (simp only: bin_entries_same [OF same] bin_entry_same [OF same] n_def [symmetric] entry append_assoc)
  have 2: "\<forall>i > n + 1. streams S' (bin_name full ext i) = None"
  proof (intro allI impI)
    fix i assume i: "n + 1 < i"
    then have "bin_name full ext i \<noteq> ?next" "?log \<noteq> bin_name full ext i" using n ne [of i] by (simp_all add: eq)
    moreover have "streams S (bin_name full ext i) = None" using fresh i n by simp
    ultimately show "streams S' (bin_name full ext i) = None" by (simp add: S'_def)
  qed
  have 3: "\<forall>i < length (tp_done a @ [?e]). files S' (bin_name full ext (int i + 1)) = Some (fst ((tp_done a @ [?e]) ! i))"
  proof (intro allI impI)
    fix i assume i: "i < length (tp_done a @ [?e])"
    have "bin_name full ext (int i + 1) \<noteq> ?next" "bin_name full ext (int i + 1) \<noteq> ?log"
      using i ne [of "int i + 1"] by (auto simp: eq n_def)
    then have "files S' (bin_name full ext (int i + 1)) = files S (bin_name full ext (int i + 1))" by (simp add: S'_def)
    then show "files S' (bin_name full ext (int i + 1)) = Some (fst ((tp_done a @ [?e]) ! i))"
      using parts i old by (cases "i = length (tp_done a)") (simp_all add: nth_append at_end_def n_def)
  qed
  let ?a = "a\<lparr>tp_done := tp_done a @ [?e], tp_cur := [], tp_local := 0, tp_first := dbl S (tp_now a + h)\<rparr>"
  have len: "int (length (tp_done ?a)) + 1 = n + 1" by (simp add: n_def)
  have "bin_holds h bRec limit full rt ext head ?a S'"
    unfolding bin_holds_def len
  proof (intro conjI)
    show "at_end ?next (tp_cur ?a) S'" by (simp add: S'_def at_end_def)
    show "fs_ok S' = (\<lambda>_. True)" by (simp add: S'_def work(4))
  qed (use 1 2 3 in \<open>simp_all add: S'_def\<close>)
  with run same show ?thesis unfolding saved_def S'_def by blast
qed

text \<open>Writing a step, before the file is split or not.\<close>

definition tape_write :: "real \<Rightarrow> int \<Rightarrow> real list \<Rightarrow> tape \<Rightarrow> tape" where
  "tape_write now bRec u1 a =
     a\<lparr>tp_now := now, tp_cur := tp_cur a @ bin_frame bRec now u1, tp_local := tp_local a + 1, tp_total := tp_total a + 1\<rparr>"

lemma bin_Outputs_run:
  fixes a :: tape and S :: sim
  assumes holds: "bin_holds h bRec limit full rt ext head a S"
    and small: "0 \<le> tp_local a" "tp_local a < 2147483647" "0 \<le> tp_total a" "tp_total a < 2147483647"
      "int (8 * length (tp_cur a)) + int (8 * length (bin_frame bRec now u1)) < 2147483648"
    and now: "now = dbl S (tp_now a + h)"
  shows "\<exists>S'. bin_holds h bRec limit full rt ext head (if u0 > 1 / 2 then tape_write now bRec u1 a else a\<lparr>tp_now := now\<rparr>) S'
    \<and> same_host S S'
    \<and> bin_Outputs u0 u1 S =
        (if u0 > 1 / 2 \<and> int (8 * length (tp_cur (tape_write now bRec u1 a))) \<ge> limit
         then bin_split now h (tp_local a + 1) (int (8 * length (tp_cur (tape_write now bRec u1 a)))) bRec S'
         else Some S')"
proof -
  define n where "n = int (length (tp_done a)) + 1"
  define saved where "saved = int (8 * length (tp_cur a))"
  define fr where "fr = bin_frame bRec now u1"
  define saved' where "saved' = saved + int (8 * length fr)"
  let ?old = "bin_name full ext n" and ?log = "bin_log_name full"
  let ?tm = "if bRec > 0 then [now] else []"
  have work: "iwork S = [tp_total a, saved, n, limit, 1, tp_local a, bRec]" "rwork S = [h, tp_now a, tp_first a]"
    "pwork S = [Str full, Str ext, Stream ?old, Stream ?log, Str rt]" "fs_ok S = (\<lambda>_. True)"
    and old: "at_end ?old (tp_cur a) S" and log: "at_end ?log (head @ bin_entries S bRec full ext (tp_done a)) S"
    and fresh: "\<forall>i > n. streams S (bin_name full ext i) = None"
    and parts: "\<forall>i < length (tp_done a). files S (bin_name full ext (int i + 1)) = Some (fst (tp_done a ! i))"
    using holds by (simp_all add: bin_holds_def n_def saved_def)
  have ne: "?log \<noteq> bin_name full ext i" if "0 \<le> i" for i using bin_name_log [OF that, of full ext] by metis
  have eq: "bin_name full ext i = bin_name full ext j \<longleftrightarrow> i = j" if "0 \<le> i" "0 \<le> j" for i j
    using bin_name_inject that by blast
  let ?S0 = "S\<lparr>rwork := [h, now, tp_first a]\<rparr>"
  show ?thesis
  proof (cases "u0 > 1 / 2")
    case False
    have "bin_holds h bRec limit full rt ext head (a\<lparr>tp_now := now\<rparr>) ?S0"
      using holds by (simp add: bin_holds_def at_end_def bin_entries_same [of S ?S0] same_host_def)
    moreover have "bin_Outputs u0 u1 S = Some ?S0"
      using False by (simp add: bin_Outputs_def work_defs work Let_def now)
    ultimately show ?thesis using False by (intro exI [of _ ?S0]) (simp add: same_host_def)
  next
    case True
    have tot: "fold (\<lambda>_ k. wrap32 (k + int 8)) (bin_values bRec now u1) saved = saved'"
      unfolding saved'_def using fold_wrap [of saved 8 "bin_values bRec now u1"] small(5) by (simp add: saved_def fr_def bin_frame_def)
    let ?iw = "[tp_total a + 1, saved', n, limit, 1, tp_local a + 1, bRec]"
    define S' where "S' = (grown ?old (tp_cur a) fr ?S0)\<lparr>iwork := ?iw, outs := [of_int saved']\<rparr>"
    have same: "same_host S S'" by (simp add: same_host_def S'_def)
    have wr: "wrap32 (tp_total a + 1) = tp_total a + 1" "wrap32 (tp_local a + 1) = tp_local a + 1"
      using small by (simp_all add: wrap32_id)
    let ?S1 = "?S0\<lparr>iwork := [tp_total a + 1, saved, n, limit, 1, tp_local a + 1, bRec]\<rparr>"
    have "at_end ?old (tp_cur a) ?S1" using old by (simp add: at_end_def)
    from fwrite_values_end [OF this, of 8 "bin_values bRec now u1" saved]
    have w: "fwrite_values 8 (bin_values bRec now u1) saved (Stream ?old) ?S1 = Some (saved', grown ?old (tp_cur a) fr ?S1)"
      by (simp add: tot [simplified] fr_def bin_frame_def)
    have S1: "(grown ?old (tp_cur a) fr ?S1)\<lparr>outs := [of_int saved'], iwork := ?iw\<rparr> = S'"
      by (simp add: S'_def grown_def)
    have "bin_Outputs u0 u1 S = (if saved' \<ge> limit then bin_split now h (tp_local a + 1) saved' bRec S' else Some S')"
      using True by (simp add: bin_Outputs_def work_defs work Let_def now [symmetric] wr w S1)
    moreover have "bin_holds h bRec limit full rt ext head (tape_write now bRec u1 a) S'"
    proof -
      let ?a = "tape_write now bRec u1 a"
      have len: "int (length (tp_done ?a)) + 1 = n" "tp_done ?a = tp_done a" by (simp_all add: tape_write_def n_def)
      have ent: "bin_entries S' bRec full ext (tp_done a) = bin_entries S bRec full ext (tp_done a)" by (rule bin_entries_same [OF same])
      have n: "0 \<le> n" by (simp add: n_def)
      show ?thesis
        unfolding bin_holds_def len(1)
      proof (intro conjI)
        show "at_end ?old (tp_cur ?a) S'" by (simp add: S'_def at_end_def tape_write_def fr_def)
        show "at_end ?log (head @ bin_entries S' bRec full ext (tp_done ?a)) S'"
          using log ne [OF n] by (simp add: ent len(2)) (simp add: S'_def at_end_def)
        show "\<forall>i > n. streams S' (bin_name full ext i) = None"
          using fresh n by (simp add: S'_def eq)
        show "\<forall>i < length (tp_done ?a). files S' (bin_name full ext (int i + 1)) = Some (fst (tp_done ?a ! i))"
          using parts by (simp add: len(2)) (simp add: S'_def eq n_def)
      qed (use work in \<open>simp_all add: S'_def tape_write_def saved'_def saved_def fr_def\<close>)
    qed
    moreover have "int (8 * length (tp_cur (tape_write now bRec u1 a))) = saved'"
      by (simp add: saved'_def saved_def fr_def tape_write_def)
    ultimately show ?thesis using True same by (intro exI [of _ S']) (simp del: of_nat_mult)
  qed
qed

lemma bin_Outputs_holds:
  fixes a :: tape and S :: sim
  assumes holds: "bin_holds h bRec limit full rt ext head a S" and ok: "tape_ok limit n most a" "most < 2147483646"
    and small: "length full + length ext \<le> 174" "0 < limit" "limit + int (8 * n) < 2147483648"
    and len: "length (bin_frame bRec (dbl S (tp_now a + h)) u1) = n"
  shows "\<exists>S'. bin_Outputs u0 u1 S = Some S' \<and> same_host S S'
    \<and> bin_holds h bRec limit full rt ext head (tape_step (dbl S) h bRec limit (u0, u1) a) S'"
proof -
  define now where "now = dbl S (tp_now a + h)"
  have b: "0 \<le> tp_local a" "tp_local a < 2147483647" "0 \<le> tp_total a" "tp_total a < 2147483647"
    "int (length (tp_done a)) + 2 < 2147483648"
    "int (8 * length (tp_cur a)) + int (8 * length (bin_frame bRec now u1)) < 2147483648"
    using ok small(2,3) len by (auto simp: tape_ok_def now_def)
  from bin_Outputs_run [OF holds b(1-4,6) now_def, of u0] obtain S1 where
    S1: "bin_holds h bRec limit full rt ext head (if u0 > 1 / 2 then tape_write now bRec u1 a else a\<lparr>tp_now := now\<rparr>) S1" "same_host S S1"
    and run: "bin_Outputs u0 u1 S =
        (if u0 > 1 / 2 \<and> int (8 * length (tp_cur (tape_write now bRec u1 a))) \<ge> limit
         then bin_split now h (tp_local a + 1) (int (8 * length (tp_cur (tape_write now bRec u1 a)))) bRec S1
         else Some S1)"
    by blast
  let ?w = "tape_write now bRec u1 a"
  have w: "tp_now ?w = now" "tp_local ?w = tp_local a + 1" "tp_done ?w = tp_done a" by (simp_all add: tape_write_def)
  show ?thesis
  proof (cases "u0 > 1 / 2 \<and> int (8 * length (tp_cur ?w)) \<ge> limit")
    case True
    with S1 have "bin_holds h bRec limit full rt ext head ?w S1" by simp
    from bin_split_holds [OF this small(1)] b(5) obtain S' where
      "bin_split now h (tp_local a + 1) (int (8 * length (tp_cur ?w))) bRec S1 = Some S'" "same_host S1 S'"
      "bin_holds h bRec limit full rt ext head
        (?w\<lparr>tp_done := tp_done ?w @ [(tp_cur ?w, tp_local ?w, tp_first ?w, tp_now ?w)], tp_cur := [], tp_local := 0,
           tp_first := dbl S1 (tp_now ?w + h)\<rparr>) S'"
      unfolding w by auto
    moreover have "?w\<lparr>tp_done := tp_done ?w @ [(tp_cur ?w, tp_local ?w, tp_first ?w, tp_now ?w)], tp_cur := [], tp_local := 0,
           tp_first := dbl S1 (tp_now ?w + h)\<rparr> = tape_step (dbl S) h bRec limit (u0, u1) a"
      using True S1(2) by (simp add: tape_step_def tape_write_def Let_def now_def same_host_def)
    ultimately show ?thesis using True run S1(2) by (auto simp: same_host_def)
  next
    case False
    have "(if u0 > 1 / 2 then ?w else a\<lparr>tp_now := now\<rparr>) = tape_step (dbl S) h bRec limit (u0, u1) a"
      using False by (auto simp: tape_step_def tape_write_def Let_def now_def)
    with S1 show ?thesis unfolding run if_not_P [OF False] by auto
  qed
qed

lemma bin_run_holds:
  fixes a :: tape and S :: sim
  assumes "bin_holds h bRec limit full rt ext head a S" "tape_ok limit n most a" "most + int (length us) < 2147483647"
    and "length full + length ext \<le> 174" "0 < limit" "limit + int (8 * n) < 2147483648"
    and "\<forall>u \<in> set us. length (bin_values bRec 0 (snd u)) = n"
  shows "\<exists>S'. bin_run us S = Some S' \<and> same_host S S' \<and> tape_ok limit n (most + int (length us)) (tape_run (dbl S) h bRec limit us a)
    \<and> bin_holds h bRec limit full rt ext head (tape_run (dbl S) h bRec limit us a) S'"
  using assms
proof (induction us arbitrary: a S most)
  case Nil
  then show ?case by (simp add: tape_run_def same_host_def)
next
  case (Cons u us)
  obtain u0 u1 where u: "u = (u0, u1)" by (cases u)
  have len: "length (bin_frame bRec t u1) = n" for t using Cons.prems(7) by (auto simp: u bin_frame_def bin_values_def split: if_splits)
  let ?a = "tape_step (dbl S) h bRec limit (u0, u1) a"
  from bin_Outputs_holds [OF Cons.prems(1,2) _ Cons.prems(4-6) len] Cons.prems(3) obtain S1 where
    S1: "bin_Outputs u0 u1 S = Some S1" "same_host S S1" "bin_holds h bRec limit full rt ext head ?a S1" by auto
  have ok: "tape_ok limit n (most + 1) ?a" by (rule tape_step_ok [OF Cons.prems(2,5)]) (simp add: len)
  have "most + 1 + int (length us) < 2147483647" using Cons.prems(3) by simp
  from Cons.IH [OF S1(3) ok this Cons.prems(4-6)] Cons.prems(7) obtain S' where
    "bin_run us S1 = Some S'" "same_host S1 S'"
    "tape_ok limit n (most + 1 + int (length us)) (tape_run (dbl S1) h bRec limit us ?a)"
    "bin_holds h bRec limit full rt ext head (tape_run (dbl S1) h bRec limit us ?a) S'" by auto
  with S1 show ?case by (simp add: u tape_run_def same_host_def add.assoc)
qed

section \<open>A session\<close>

definition bin_session :: "bin_mask \<Rightarrow> (real \<times> real list) list \<Rightarrow> sim \<Rightarrow> sim option" where
  "bin_session M us S = do {
     S \<leftarrow> bin_Start M (work_vectors (bin_InitializeSizes 7 True True) S);
     S \<leftarrow> bin_run us S;
     bin_Terminate S
   }"

text \<open>The names as the block has them.\<close>

definition bin_root :: "bin_mask \<Rightarrow> string" where
  "bin_root M = mxGetString (SAVE_DIRECTORY M) SAVE_DIRECTORY_SIZE @ mxGetString (FILENAME_ROOT M) FILENAME_ROOT_SIZE"

definition bin_type :: "bin_mask \<Rightarrow> string" where
  "bin_type M = mxGetString (FILENAME_TYPE M) FILENAME_TYPE_SIZE"

definition blank_tape :: "real \<Rightarrow> tape" where
  "blank_tape h = \<lparr>tp_done = [], tp_cur = [], tp_local = 0, tp_first = 0, tp_now = - h, tp_total = 0\<rparr>"

lemma bin_Start_holds:
  assumes "MAX_FILE_SIZE M > 0" "int_cast (RECORD_TIME M) = Some bRec"
    "int_cast (dbl S (dbl S (MAX_FILE_SIZE M * 1024) * 1024)) = Some limit"
    "fs_ok S = (\<lambda>_. True)" "streams S = (\<lambda>_. None)" "length (bin_root M) + length (bin_type M) \<le> 174"
  shows "\<exists>S' head. bin_Start M (work_vectors (bin_InitializeSizes 7 True True) S) = Some S' \<and> same_host S S'
    \<and> bin_holds (sampleTime S) bRec limit (bin_root M) (mxGetString (FILENAME_ROOT M) FILENAME_ROOT_SIZE) (bin_type M) head
        (blank_tape (sampleTime S)) S'"
proof -
  define dir where "dir = mxGetString (SAVE_DIRECTORY M) SAVE_DIRECTORY_SIZE"
  define rt where "rt = mxGetString (FILENAME_ROOT M) FILENAME_ROOT_SIZE"
  define ext where "ext = bin_type M"
  define full where "full = dir @ rt"
  have root: "bin_root M = full" by (simp add: bin_root_def full_def dir_def rt_def)
  have small: "length full + length ext \<le> 174" using assms(6) by (simp add: root ext_def)
  let ?n1 = "bin_name full ext 1" and ?log = "bin_log_name full"
  have ne: "?log \<noteq> ?n1" using bin_name_log [of 1 full ext] by (metis zero_le_one)
  have "bin_name full ext i \<noteq> ?n1 \<and> bin_name full ext i \<noteq> ?log" if "1 < i" for i
    using that bin_name_log [of i full ext] by (simp add: bin_name_inject)
  then have fresh: "\<forall>i > 1. bin_name full ext i \<noteq> ?n1 \<and> bin_name full ext i \<noteq> ?log" by blast
  have f0: "sprintf (SAVE_DIRECTORY_SIZE + FILENAME_ROOT_SIZE) ''%s%s'' [AS dir, AS rt] s = Some full" for s :: sim
    using small by (simp add: sprintf_def format_simps full_def bin_sizes)
  have f1: "sprintf FULL_FILENAME_SIZE ''%s%s_%d.%s'' [AS dir, AS rt, AI 1, AS ext] s = Some ?n1" for s :: sim
    using small length_show_int [of 1] by (simp add: sprintf_def format_simps full_def bin_name_def bin_sizes)
  have f2: "sprintf FULL_FILENAME_SIZE ''%s%s_Log.txt'' [AS dir, AS rt] s = Some ?log" for s :: sim
    using small by (simp add: sprintf_def format_simps full_def bin_log_name_def bin_sizes)
  have p: "c_format fr (endl ''SAVE2BIN :: Opening data recorder to save '%s' in '%s'...'') [AS x, AS y] \<noteq> None"
    "c_format fr (endl ''SAVE2BIN :: Adding '%s' to '%s_Log.txt'.'') [AS x, AS y] \<noteq> None" for fr x y
    by (simp_all add: format_simps)
  have l: "lines_text fr (bin_log_head a b c d e f g) \<noteq> None" "lines_text fr [(''%%%% Additional Source Data:'', [])] \<noteq> None"
    "lines_text fr [(''%% No Data Provided'', [])] \<noteq> None" for fr a b c d e f g
    by (simp_all add: format_simps bin_log_head_def)
  define S0 where "S0 = work_vectors (bin_InitializeSizes 7 True True) S"
  have S0: "iwork S0 = [0, 0, 0, 0, 0, 0, 0]" "rwork S0 = [0, 0, 0]" "pwork S0 = [Null, Null, Null, Null, Null]"
    "files S0 = files S" "streams S0 = (\<lambda>_. None)" "fs_ok S0 = (\<lambda>_. True)" "sampleTime S0 = sampleTime S" "same_host S S0"
    "dbl S0 = dbl S" "host_files S0 = host_files S" "in_width S0 = in_width S" "fmt_real S0 = fmt_real S"
    using assms(4,5) by (simp_all add: S0_def work_vectors_def bin_InitializeSizes_def no_sizes_def Let_def numeral_eq_Suc same_host_def)
  show ?thesis
    unfolding S0_def [symmetric]
    using assms(1-4) ne fresh
    by (cases "host_files S (mxGetString (REF_TEXTFILE M) FULL_FILENAME_SIZE)")
      (auto simp add: bin_Start_def Let_def dir_def [symmetric] rt_def [symmetric] ext_def [symmetric, unfolded bin_type_def] f0 f1 f2 work_defs S0
       fopen_def c_printf_run p fprintf_lines_run fput_run l same_host_def root ext_def [symmetric] bin_holds_def blank_tape_def at_end_def bin_entries_def
       simp del: fprintf_lines.simps lines_text.simps c_format.simps)
qed

lemma bin_Terminate_run:
  assumes holds: "bin_holds h bRec limit full rt ext head a S" and small: "length full + length ext \<le> 174" "int (length (tp_done a)) + 2 < 2147483648"
    and some: "tp_total a \<noteq> 0"
  shows "\<exists>S' tail. bin_Terminate S = Some S' \<and> (\<forall>name. name \<noteq> bin_log_name full \<longrightarrow> files S' name = files S name)
    \<and> files S' (bin_log_name full) =
        Some (head @ bin_entries S bRec full ext (tp_done a @ [(tp_cur a, tp_local a, tp_first a, tp_now a)]) @ tail)"
proof -
  define n where "n = int (length (tp_done a)) + 1"
  define saved where "saved = int (8 * length (tp_cur a))"
  let ?old = "bin_name full ext n" and ?log = "bin_log_name full"
  let ?e = "(tp_cur a, tp_local a, tp_first a, tp_now a)"
  have n: "0 \<le> n" "n < 2147483648" using small(2) by (simp_all add: n_def)
  obtain t where t: "lines_text (fmt_real S) (bin_log_set n (tp_local a) (int (in_width S)) bRec (tp_first a) (tp_now a) ?old saved (dbl S)) = Some t"
    using bin_log_set_text by blast
  have entry: "bin_entry S bRec n full ext ?e = map Ch t" unfolding bin_entry_def using t by (simp add: saved_def)
  have work: "iwork S = [tp_total a, saved, n, limit, 1, tp_local a, bRec]" "rwork S = [h, tp_now a, tp_first a]"
    "pwork S = [Str full, Str ext, Stream ?old, Stream ?log, Str rt]"
    and old: "streams S ?old \<noteq> None" and log: "at_end ?log (head @ bin_entries S bRec full ext (tp_done a)) S"
    using holds by (simp_all add: bin_holds_def n_def saved_def at_end_def)
  have ne: "?log \<noteq> ?old" using bin_name_log [OF n(1), of full ext] by metis
  have p: "c_format fr (endl ''SAVE2BIN :: Logging of '%s' data complete.  Details cataloged in '%s_Log.txt'.'') [AS x, AS y] \<noteq> None" for fr x y
    by (simp add: format_simps)
  have l: "lines_text fr
       [(''%%%% Short Summary:'', []),
        (''LogInfo.StartTime  = %10.3f;  %% [sec]'', [AD 0]),
        (''LogInfo.EndTime    = %10.3f;  %% [sec]'', [AD simtime]),
        (''LogInfo.Timesteps  = %10.0f;  %% [int]'', [AD (of_int timesteps_saved)]),
        ('''', [])] \<noteq> None" for fr simtime timesteps_saved
    by (simp add: format_simps)
  show ?thesis
    unfolding bin_entries_snoc n_def [symmetric] entry
    using log ne old some t
    by (auto simp add: bin_Terminate_def Let_def work work_defs bin_name_text [OF small(1) n] fclose_def c_printf_run p fprintf_lines_run l at_end_def
       simp del: fprintf_lines.simps lines_text.simps c_format.simps)
qed

lemma tape_run_total:
  "tp_total (tape_run rnd h bRec limit us a) = tp_total a + int (length (filter (\<lambda>u. fst u > 1 / 2) us))"
  by (induction us arbitrary: a) (simp_all add: tape_run_def tape_step_def Let_def)

text \<open>
  C26. save2bin loses nothing at the seams of its files: whenever the names fit their buffers and
  every file opens, a session ends without an access out of bounds; the files, in the order of their
  numbers, hold the recorded steps one after the other; each file but the last was closed with the
  step that reached the limit, and the log describes each file, with its number of steps and its size.
\<close>
theorem recorder_lossless:
  assumes M: "MAX_FILE_SIZE M > 0" "int_cast (RECORD_TIME M) = Some bRec"
      "int_cast (dbl S (dbl S (MAX_FILE_SIZE M * 1024) * 1024)) = Some limit" "length (bin_root M) + length (bin_type M) \<le> 174"
    and S: "fs_ok S = (\<lambda>_. True)" "streams S = (\<lambda>_. None)"
    and us: "\<forall>u \<in> set us. length (bin_values bRec 0 (snd u)) = n" "\<exists>u \<in> set us. fst u > 1 / 2" "length us < 2147483646"
    and limit: "0 < limit" "limit + int (8 * n) < 2147483648"
  shows "\<exists>S' parts head tail. bin_session M us S = Some S'
    \<and> concat (map fst parts) = concat (bin_frames (dbl S) (sampleTime S) bRec (- sampleTime S) us)
    \<and> (\<forall>i < length parts. files S' (bin_name (bin_root M) (bin_type M) (int i + 1)) = Some (fst (parts ! i)))
    \<and> (\<forall>p \<in> set (butlast parts). limit \<le> int (8 * length (fst p)) \<and> int (8 * length (fst p)) < limit + int (8 * n))
    \<and> int (8 * length (fst (last parts))) < limit
    \<and> (\<forall>(c, k, first, end) \<in> set parts. int (length c) = k * int n)
    \<and> files S' (bin_log_name (bin_root M)) = Some (head @ bin_entries S bRec (bin_root M) (bin_type M) parts @ tail)"
proof -
  let ?root = "bin_root M" and ?ext = "bin_type M" and ?h = "sampleTime S" and ?rt = "mxGetString (FILENAME_ROOT M) FILENAME_ROOT_SIZE"
  obtain S1 head where S1: "bin_Start M (work_vectors (bin_InitializeSizes 7 True True) S) = Some S1" "same_host S S1"
      "bin_holds ?h bRec limit ?root ?rt ?ext head (blank_tape ?h) S1"
    using bin_Start_holds [OF M(1-3) S M(4)] by blast
  have blank: "tape_ok limit n 0 (blank_tape ?h)" using limit by (simp add: tape_ok_def blank_tape_def)
  define a where "a = tape_run (dbl S) ?h bRec limit us (blank_tape ?h)"
  have "0 + int (length us) < 2147483647" using us(3) by simp
  from bin_run_holds [OF S1(3) blank this M(4) limit us(1)] obtain S2 where
    S2: "bin_run us S1 = Some S2" "same_host S1 S2" "tape_ok limit n (int (length us)) a" "bin_holds ?h bRec limit ?root ?rt ?ext head a S2"
    using S1(2) by (auto simp: a_def same_host_def)
  have "filter (\<lambda>u. fst u > 1 / 2) us \<noteq> []" using us(2) by (simp add: filter_empty_conv)
  then have "tp_total a \<noteq> 0" by (simp add: a_def tape_run_total blank_tape_def)
  have few: "int (length (tp_done a)) + 2 < 2147483648" using S2(3) us(3) by (simp add: tape_ok_def)
  define parts where "parts = tp_done a @ [(tp_cur a, tp_local a, tp_first a, tp_now a)]"
  from bin_Terminate_run [OF S2(4) M(4) few \<open>tp_total a \<noteq> 0\<close>] obtain S3 tail where
    S3: "bin_Terminate S2 = Some S3" "\<forall>name. name \<noteq> bin_log_name ?root \<longrightarrow> files S3 name = files S2 name"
      "files S3 (bin_log_name ?root) = Some (head @ bin_entries S2 bRec ?root ?ext parts @ tail)"
    unfolding parts_def by blast
  have "same_host S S2" using S1(2) S2(2) by (simp add: same_host_def)
  with S3(3) have log: "files S3 (bin_log_name ?root) = Some (head @ bin_entries S bRec ?root ?ext parts @ tail)"
    by (simp add: bin_entries_same)
  have run: "bin_session M us S = Some S3" by (simp add: bin_session_def S1(1) S2(1) S3(1))
  have data: "concat (map fst parts) = concat (bin_frames (dbl S) ?h bRec (- ?h) us)"
    using tape_run_files [of "dbl S" ?h bRec limit us "blank_tape ?h"]
    by (simp add: parts_def a_def tape_files_def blank_tape_def)
  have content: "files S3 (bin_name ?root ?ext (int i + 1)) = Some (fst (parts ! i))" if "i < length parts" for i
    using that S2(4) S3(2) bin_name_log [of "int i + 1" ?root ?ext]
    by (cases "i = length (tp_done a)") (simp_all add: parts_def nth_append bin_holds_def at_end_def)
  show ?thesis
    using S2(3) by (intro exI [of _ S3] exI [of _ parts] exI [of _ head] exI [of _ tail] conjI run data log allI impI content)
      (auto simp: parts_def tape_ok_def)
qed

text \<open>Five steps of one value, of which one is not recorded, in files of two values.\<close>

definition small_mask :: bin_mask where
  "small_mask = \<lparr>SAVE_DIRECTORY = ''out/'', FILENAME_ROOT = ''signal'', FILENAME_TYPE = ''bin'', MAX_FILE_SIZE = 1 / 65536,
     REF_TEXTFILE = ''none.txt'', RECORD_TIME = 0\<rparr>"

definition quiet_sim :: sim where
  "quiet_sim = \<lparr>sampleTime = 1, in_width = 1, iwork = [], rwork = [], pwork = [], outs = [], errorStatus = None,
     files = (\<lambda>_. None), streams = (\<lambda>_. None), fs_ok = (\<lambda>_. True), fs_tick = 0, host_files = (\<lambda>_. None), console = [],
     fmt_real = (\<lambda>_ _. ''0''), dbl = (\<lambda>x. x)\<rparr>"

lemma recorder_lossless_witness:
  "\<exists>S' parts head tail. bin_session small_mask [(1, [10]), (1, [20]), (0, [30]), (1, [40]), (1, [50])] quiet_sim = Some S'
    \<and> concat (map fst parts) = [Val 8 10, Val 8 20, Val 8 40, Val 8 50]
    \<and> files S' (bin_log_name ''out/signal'') = Some (head @ bin_entries quiet_sim 0 ''out/signal'' ''bin'' parts @ tail)"
proof -
  have M: "int_cast (RECORD_TIME small_mask) = Some 0"
    "int_cast (dbl quiet_sim (dbl quiet_sim (MAX_FILE_SIZE small_mask * 1024) * 1024)) = Some 16"
    "bin_root small_mask = ''out/signal''" "bin_type small_mask = ''bin''"
    by (simp_all add: small_mask_def quiet_sim_def int_cast_def trunc_def bin_root_def bin_type_def mxGetString_def bin_sizes)
  show ?thesis
    using recorder_lossless [of small_mask 0 quiet_sim 16 "[(1, [10]), (1, [20]), (0, [30]), (1, [40]), (1, [50])]" 1] M
    by (auto simp: small_mask_def quiet_sim_def bin_values_def bin_frame_def)
qed

end
