(* ===== verification/TimeSeries.thy ===== *)
theory TimeSeries
  imports SimStruct
begin

text \<open>
  The recorders of time series, save2ts (SFunctions/SaveToTS/save2ts.c), for one signal of any
  type, and bus2ts (SFunctions/BusToTS/bus2ts.c), for a bus: each writes a binary file, one record per
  step, and a MATLAB function that reads it back. save2ts keeps its files open, bus2ts opens them for
  each step. The generated text is part of the model; MATLAB, which runs it, is not.
\<close>

section \<open>Records\<close>

text \<open>Every \<open>step\<close>-th item from \<open>k\<close> on: what a reader finds that skips the rest of each record.\<close>

definition stride :: "nat \<Rightarrow> nat \<Rightarrow> 'a list \<Rightarrow> 'a list" where
  "stride k step xs = map (\<lambda>i. xs ! (k + i * step)) [0..<length xs div step]"

lemma nth_concat_records:
  "\<forall>r \<in> set rs. length r = n \<Longrightarrow> i < length rs \<Longrightarrow> k < n \<Longrightarrow> concat rs ! (k + i * n) = rs ! i ! k"
proof (induction rs arbitrary: i)
  case (Cons r rs)
  then show ?case by (cases i) (simp_all add: nth_append algebra_simps)
qed simp

lemma length_concat_records: "\<forall>r \<in> set rs. length r = n \<Longrightarrow> length (concat rs) = length rs * n"
  by (induction rs) simp_all

lemma stride_records:
  assumes "\<forall>r \<in> set rs. length r = n" "k < n"
  shows "stride k n (concat rs) = map (\<lambda>r. r ! k) rs"
proof (rule nth_equalityI)
  have len: "length (concat rs) = length rs * n" by (rule length_concat_records [OF assms(1)])
  then have "length (concat rs) div n = length rs" using assms(2) by (simp del: length_concat)
  then have len': "length (stride k n (concat rs)) = length rs" by (simp add: stride_def del: length_concat)
  then show "length (stride k n (concat rs)) = length (map (\<lambda>r. r ! k) rs)" by simp
  fix i assume "i < length (stride k n (concat rs))"
  then have i: "i < length rs" by (simp add: len')
  then show "stride k n (concat rs) ! i = map (\<lambda>r. r ! k) rs ! i"
    using assms len by (simp add: stride_def nth_concat_records del: length_concat)
qed

section \<open>One signal\<close>

datatype DTypeId = SS_DOUBLE | SS_SINGLE | SS_INT8 | SS_UINT8 | SS_INT16 | SS_UINT16 | SS_INT32 | SS_UINT32 | SS_BOOLEAN | SS_OTHER

record ts_mask =
  TS_SAVE_DIRECTORY :: string
  TS_SIGNAL_NAME :: string
  TS_SIGNAL_UNITS :: string
  TS_LOG_NAME :: string

definition TS_SAVE_DIRECTORY_SIZE :: nat where "TS_SAVE_DIRECTORY_SIZE = 150"
definition SIGNAL_NAME_SIZE :: nat where "SIGNAL_NAME_SIZE = 32"
definition SIGNAL_UNITS_SIZE :: nat where "SIGNAL_UNITS_SIZE = 32"

definition TS_FULL_FILENAME_SIZE :: nat where
  "TS_FULL_FILENAME_SIZE = TS_SAVE_DIRECTORY_SIZE + SIGNAL_NAME_SIZE + 5"

lemmas ts_sizes = TS_SAVE_DIRECTORY_SIZE_def SIGNAL_NAME_SIZE_def SIGNAL_UNITS_SIZE_def TS_FULL_FILENAME_SIZE_def

definition ts_InitializeSizes :: "nat \<Rightarrow> bool \<Rightarrow> bool \<Rightarrow> sizes" where
  "ts_InitializeSizes params inputs_ok outputs_ok =
     (let z = no_sizes\<lparr>num_params := 5\<rparr>
      in if params \<noteq> 5 then z
         else if \<not> inputs_ok then z
         else
           (let z = z\<lparr>in_widths := [Dynamic], feedthrough := [True]\<rparr>
            in if \<not> outputs_ok then z else z\<lparr>sample_times := 1, num_rwork := 2, num_iwork := 2, num_pwork := 6\<rparr>))"

text \<open>The size of a value in the file, and what the script is told of the type.\<close>

fun type_size :: "DTypeId \<Rightarrow> nat" where
  "type_size SS_DOUBLE = 8" | "type_size SS_SINGLE = 4" | "type_size SS_INT8 = 1" | "type_size SS_UINT8 = 1"
| "type_size SS_INT16 = 2" | "type_size SS_UINT16 = 2" | "type_size SS_INT32 = 4" | "type_size SS_UINT32 = 4"
| "type_size SS_BOOLEAN = 1" | "type_size SS_OTHER = 0"

fun ts_type_lines :: "DTypeId \<Rightarrow> (string \<times> arg list) list" where
  "ts_type_lines SS_DOUBLE = [(''SrcDataType   = 'double';'', []), (''SrcDTBitSize  = %d; %% [bytes]'', [AI 8]),
     (''DestDataType  = 'double';'', []), (''InterpMethod  = 'linear';'', [])]"
| "ts_type_lines SS_SINGLE = [(''SrcDataType   = 'single';'', []), (''SrcDTBitSize  = %d; %% [bytes]'', [AI 4]),
     (''DestDataType  = 'single';'', []), (''InterpMethod  = 'linear';'', [])]"
| "ts_type_lines SS_INT8 = [(''SrcDataType   = 'int8';'', []), (''SrcDTBitSize     = %d; %% [bytes]'', [AI 1]),
     (''DestDataType  = 'int8';'', []), (''InterpMethod  = 'zoh';'', [])]"
| "ts_type_lines SS_UINT8 = [(''SrcDataType   = 'uint8';'', []), (''SrcDTBitSize  = %d; %% [bytes]'', [AI 1]),
     (''DestDataType  = 'uint8';'', []), (''InterpMethod  = 'zoh';'', [])]"
| "ts_type_lines SS_INT16 = [(''SrcDataType   = 'int16';'', []), (''SrcDTBitSize  = %d; %% [bytes]'', [AI 2]),
     (''DestDataType  = 'int16';'', []), (''InterpMethod  = 'zoh';'', [])]"
| "ts_type_lines SS_UINT16 = [(''SrcDataType   = 'uint16';'', []), (''SrcDTBitSize  = %d; %% [bytes]'', [AI 2]),
     (''DestDataType  = 'uint16';'', []), (''InterpMethod  = 'zoh';'', [])]"
| "ts_type_lines SS_INT32 = [(''SrcDataType   = 'int32';'', []), (''SrcDTBitSize  = %d; %% [bytes]'', [AI 4]),
     (''DestDataType  = 'int32';'', []), (''InterpMethod  = 'zoh';'', [])]"
| "ts_type_lines SS_UINT32 = [(''SrcDataType   = 'uint32';'', []), (''SrcDTBitSize  = %d; %% [bytes]'', [AI 4]),
     (''DestDataType  = 'uint32';'', []), (''InterpMethod  = 'zoh';'', [])]"
| "ts_type_lines SS_BOOLEAN = [(''SrcDataType   = 'uint8';'', []), (''SrcDTBitSize  = %d; %% [bytes]'', [AI 1]),
     (''DestDataType  = 'logical';'', []), (''InterpMethod  = 'zoh';'', [])]"
| "ts_type_lines SS_OTHER = []"

definition ts_head :: "string \<Rightarrow> string \<Rightarrow> string \<Rightarrow> int \<Rightarrow> (string \<times> arg list) list" where
  "ts_head signal_name filename_full signal_units numSignals =
     [(''function ts = ConvertBin2TS()'', []),
      (''%% Time History Information:'', []),
      (''SignalName    = '%s';'', [AS signal_name]),
      (''binFilename   = '%s';'', [AS filename_full]),
      (''SignalUnits   = '%s';'', [AS signal_units]),
      (''SignalDim     = %d;  %% [int]'', [AI numSignals])]"

definition ts_Start :: "ts_mask \<Rightarrow> DTypeId \<Rightarrow> sim \<Rightarrow> sim option" where
  "ts_Start M dtId S = do {
     let save_directory = mxGetString (TS_SAVE_DIRECTORY M) TS_SAVE_DIRECTORY_SIZE;
     let signal_name = mxGetString (TS_SIGNAL_NAME M) SIGNAL_NAME_SIZE;
     let signal_units = mxGetString (TS_SIGNAL_UNITS M) SIGNAL_UNITS_SIZE;
     let log_name = mxGetString (TS_LOG_NAME M) SIGNAL_NAME_SIZE;
     S \<leftarrow> ssSetRWorkValue 0 (sampleTime S) S;
     rate \<leftarrow> ssGetRWorkValue 0 S;
     S \<leftarrow> ssSetRWorkValue 1 (- rate) S;
     S \<leftarrow> ssSetIWorkValue 0 0 S;
     S \<leftarrow> ssSetIWorkValue 1 0 S;
     S \<leftarrow> ssSetPWorkValue 0 (Str save_directory) S;
     S \<leftarrow> ssSetPWorkValue 1 (Str signal_name) S;
     S \<leftarrow> ssSetPWorkValue 2 (Str signal_units) S;
     filename_full \<leftarrow> sprintf TS_FULL_FILENAME_SIZE ''%s%s.bin'' [AS save_directory, AS signal_name] S;
     (data_stream, S) \<leftarrow> fopen filename_full ModeW S;
     S \<leftarrow> ssSetPWorkValue 3 data_stream S;
     log_full \<leftarrow> sprintf TS_FULL_FILENAME_SIZE ''%s%s.m'' [AS save_directory, AS log_name] S;
     (log_stream, S) \<leftarrow> fopen log_full ModeW S;
     S \<leftarrow> fprintf_lines log_stream (ts_head signal_name filename_full signal_units (int (in_width S))) S;
     S \<leftarrow> fprintf_lines log_stream (ts_type_lines dtId) S;
     S \<leftarrow> ssSetPWorkValue 4 log_stream S;
     ssSetPWorkValue 5 (Str log_name) S
   }"

text \<open>The switch of \<open>mdlOutputs\<close>: each case writes the values in the size of the type; an unknown type writes none.\<close>

definition ts_values :: "DTypeId \<Rightarrow> real list \<Rightarrow> real list" where
  "ts_values dtId u0 = (if dtId = SS_OTHER then [] else u0)"

definition ts_Outputs :: "DTypeId \<Rightarrow> real list \<Rightarrow> sim \<Rightarrow> sim option" where
  "ts_Outputs dtId u0 S = do {
     stepsize \<leftarrow> ssGetRWorkValue 0 S;
     simtime \<leftarrow> ssGetRWorkValue 1 S;
     let simtime = dbl S (simtime + stepsize);
     S \<leftarrow> ssSetRWorkValue 1 simtime S;
     timesteps_saved \<leftarrow> ssGetIWorkValue 0 S;
     bytes_saved \<leftarrow> ssGetIWorkValue 1 S;
     S \<leftarrow> ssSetIWorkValue 0 (wrap32 (timesteps_saved + 1)) S;
     data_stream \<leftarrow> ssGetPWorkValue 3 S;
     (bytes_saved, S) \<leftarrow> fwrite_values 8 [simtime] bytes_saved data_stream S;
     (bytes_saved, S) \<leftarrow> fwrite_values (type_size dtId) (ts_values dtId u0) bytes_saved data_stream S;
     ssSetIWorkValue 1 bytes_saved S
   }"

definition ts_script :: "int \<Rightarrow> (string \<times> arg list) list" where
  "ts_script timesteps_saved =
     [(''Timesteps     = %d; %% [int]'', [AI timesteps_saved]),
      ('''', []),
      ('''', []),
      (''fid = fopen(binFilename, 'rb');'', []),
      (''t = fread(fid, [Timesteps 1], 'double', SignalDim*SrcDTBitSize);'', []),
      (''fseek(fid, 8, 'bof');'', []),
      (''y = fread(fid, [Timesteps SignalDim], [num2str(SignalDim) '*' SrcDataType '=>' DestDataType], 8);'', []),
      (''fclose(fid);'', []),
      (''ts = timeseries(y,t);'', []),
      (''ts.Name = SignalName;'', []),
      (''ts.DataInfo.Units = SignalUnits;'', []),
      (''ts = setinterpmethod(ts, InterpMethod);'', []),
      (''matFilename = strrep(binFilename, '.bin', '.mat');'', []),
      (''save(matFilename, 'ts');'', []),
      (''recycle(binFilename);'', []),
      ('''', []),
      (''if(nargout == 0)'', []),
      (''    assignin('base', 'ts', ts);'', []),
      (''end'', [])]"

definition ts_Terminate :: "sim \<Rightarrow> sim option" where
  "ts_Terminate S = do {
     dir \<leftarrow> pw_string 0 S;
     signal_name \<leftarrow> pw_string 1 S;
     log_name \<leftarrow> pw_string 5 S;
     filename_full \<leftarrow> sprintf TS_FULL_FILENAME_SIZE ''%s%s.bin'' [AS dir, AS signal_name] S;
     timesteps_saved \<leftarrow> ssGetIWorkValue 0 S;
     data_stream \<leftarrow> ssGetPWorkValue 3 S;
     log_stream \<leftarrow> ssGetPWorkValue 4 S;
     S \<leftarrow> fclose data_stream S;
     S \<leftarrow> fprintf_lines log_stream (ts_script timesteps_saved) S;
     S \<leftarrow> fclose log_stream S;
     if timesteps_saved = 0 then do {
       S \<leftarrow> c_printf (endl ''SAVE2TS :: Removing '%s' since no data recorded'') [AS filename_full] S;
       let S = remove_file filename_full S;
       filename_full \<leftarrow> sprintf TS_FULL_FILENAME_SIZE ''%s%s.m'' [AS dir, AS log_name] S;
       S \<leftarrow> c_printf (endl ''SAVE2TS :: Removing '%s' since no data recorded'') [AS filename_full] S;
       Some (remove_file filename_full S)
     } else Some S
   }"

fun ts_run :: "DTypeId \<Rightarrow> real list list \<Rightarrow> sim \<Rightarrow> sim option" where
  "ts_run dtId [] S = Some S"
| "ts_run dtId (u0 # us) S = Option.bind (ts_Outputs dtId u0 S) (ts_run dtId us)"

definition ts_session :: "ts_mask \<Rightarrow> DTypeId \<Rightarrow> real list list \<Rightarrow> sim \<Rightarrow> sim option" where
  "ts_session M dtId us S = do {
     S \<leftarrow> ts_Start M dtId (work_vectors (ts_InitializeSizes 5 True True) S);
     S \<leftarrow> ts_run dtId us S;
     ts_Terminate S
   }"

text \<open>The records of the steps; the first one has the time that \<open>now\<close> comes to after one step.\<close>

fun ts_records :: "(real \<Rightarrow> real) \<Rightarrow> real \<Rightarrow> nat \<Rightarrow> real \<Rightarrow> real list list \<Rightarrow> item list list" where
  "ts_records rnd h sz now [] = []"
| "ts_records rnd h sz now (u # us) =
     (Val 8 (rnd (now + h)) # map (Val sz) u) # ts_records rnd h sz (rnd (now + h)) us"

text \<open>The times of the steps.\<close>

fun sample_times_of :: "(real \<Rightarrow> real) \<Rightarrow> real \<Rightarrow> real \<Rightarrow> nat \<Rightarrow> real list" where
  "sample_times_of rnd h now 0 = []"
| "sample_times_of rnd h now (Suc n) = rnd (now + h) # sample_times_of rnd h (rnd (now + h)) n"

lemma length_ts_records [simp]: "length (ts_records rnd h sz now us) = length us"
  by (induction us arbitrary: now) simp_all

lemma ts_records_columns:
  "map (\<lambda>r. r ! 0) (ts_records rnd h sz now us) = map (Val 8) (sample_times_of rnd h now (length us))"
  "\<forall>u \<in> set us. length u = d \<Longrightarrow> j < d \<Longrightarrow> map (\<lambda>r. r ! Suc j) (ts_records rnd h sz now us) = map (\<lambda>u. Val sz (u ! j)) us"
  "\<forall>u \<in> set us. length u = d \<Longrightarrow> \<forall>r \<in> set (ts_records rnd h sz now us). length r = Suc d"
  by (induction us arbitrary: now) auto

text \<open>So a reader that skips the rest of each record finds the times, and each signal.\<close>

lemma ts_records_read:
  assumes "\<forall>u \<in> set us. length u = d"
  shows "stride 0 (Suc d) (concat (ts_records rnd h sz now us)) = map (Val 8) (sample_times_of rnd h now (length us))
    \<and> (\<forall>j < d. stride (Suc j) (Suc d) (concat (ts_records rnd h sz now us)) = map (\<lambda>u. Val sz (u ! j)) us)"
  using stride_records [OF ts_records_columns(3) [OF assms]] ts_records_columns(1) ts_records_columns(2) [OF assms] by simp

definition ts_data_name :: "ts_mask \<Rightarrow> string" where
  "ts_data_name M = mxGetString (TS_SAVE_DIRECTORY M) TS_SAVE_DIRECTORY_SIZE @ mxGetString (TS_SIGNAL_NAME M) SIGNAL_NAME_SIZE @ ''.bin''"

definition ts_log_name :: "ts_mask \<Rightarrow> string" where
  "ts_log_name M = mxGetString (TS_SAVE_DIRECTORY M) TS_SAVE_DIRECTORY_SIZE @ mxGetString (TS_LOG_NAME M) SIGNAL_NAME_SIZE @ ''.m''"

lemma ts_names: "ts_data_name M \<noteq> ts_log_name M'"
proof
  assume "ts_data_name M = ts_log_name M'"
  then have "last (ts_data_name M) = last (ts_log_name M')" by simp
  then show False by (simp add: ts_data_name_def ts_log_name_def)
qed

definition ts_holds :: "ts_mask \<Rightarrow> real \<Rightarrow> real \<Rightarrow> int \<Rightarrow> item list \<Rightarrow> item list \<Rightarrow> sim \<Rightarrow> bool" where
  "ts_holds M h now k c head S \<longleftrightarrow>
     (\<exists>saved units dir name lg. iwork S = [k, saved] \<and> rwork S = [h, now]
       \<and> pwork S = [Str dir, Str name, Str units, Stream (ts_data_name M), Stream (ts_log_name M), Str lg]
       \<and> dir = mxGetString (TS_SAVE_DIRECTORY M) TS_SAVE_DIRECTORY_SIZE \<and> name = mxGetString (TS_SIGNAL_NAME M) SIGNAL_NAME_SIZE
       \<and> lg = mxGetString (TS_LOG_NAME M) SIGNAL_NAME_SIZE)
     \<and> at_end (ts_data_name M) c S \<and> at_end (ts_log_name M) head S"

lemma ts_name_texts:
  fixes S :: sim
  shows "sprintf TS_FULL_FILENAME_SIZE ''%s%s.bin''
      [AS (mxGetString (TS_SAVE_DIRECTORY M) TS_SAVE_DIRECTORY_SIZE), AS (mxGetString (TS_SIGNAL_NAME M) SIGNAL_NAME_SIZE)] S = Some (ts_data_name M)"
    "sprintf TS_FULL_FILENAME_SIZE ''%s%s.m''
      [AS (mxGetString (TS_SAVE_DIRECTORY M) TS_SAVE_DIRECTORY_SIZE), AS (mxGetString (TS_LOG_NAME M) SIGNAL_NAME_SIZE)] S = Some (ts_log_name M)"
  by (simp_all add: sprintf_def format_simps ts_data_name_def ts_log_name_def mxGetString_def ts_sizes)

lemma ts_texts:
  "lines_text fr (ts_head a b c d) \<noteq> None" "lines_text fr (ts_type_lines dt) \<noteq> None" "lines_text fr (ts_script k) \<noteq> None"
  "c_format fr (endl ''SAVE2TS :: Removing '%s' since no data recorded'') [AS x] \<noteq> None"
  by (simp_all add: format_simps ts_head_def ts_script_def) (cases dt; simp add: format_simps)

definition ts_log_head :: "ts_mask \<Rightarrow> DTypeId \<Rightarrow> sim \<Rightarrow> item list" where
  "ts_log_head M dt S =
     map Ch (the (lines_text (fmt_real S) (ts_head (mxGetString (TS_SIGNAL_NAME M) SIGNAL_NAME_SIZE) (ts_data_name M)
         (mxGetString (TS_SIGNAL_UNITS M) SIGNAL_UNITS_SIZE) (int (in_width S)))))
     @ map Ch (the (lines_text (fmt_real S) (ts_type_lines dt)))"

lemma ts_Start_holds:
  assumes "fs_ok S = (\<lambda>_. True)" "streams S = (\<lambda>_. None)"
  shows "\<exists>S'. ts_Start M dt (work_vectors (ts_InitializeSizes 5 True True) S) = Some S'
    \<and> ts_holds M (sampleTime S) (- sampleTime S) 0 [] (ts_log_head M dt S) S' \<and> dbl S' = dbl S \<and> fmt_real S' = fmt_real S"
proof -
  define S0 where "S0 = work_vectors (ts_InitializeSizes 5 True True) S"
  have S0: "iwork S0 = [0, 0]" "rwork S0 = [0, 0]" "pwork S0 = [Null, Null, Null, Null, Null, Null]"
    "files S0 = files S" "streams S0 = (\<lambda>_. None)" "fs_ok S0 = (\<lambda>_. True)" "sampleTime S0 = sampleTime S"
    "dbl S0 = dbl S" "in_width S0 = in_width S" "fmt_real S0 = fmt_real S"
    using assms by (simp_all add: S0_def work_vectors_def ts_InitializeSizes_def no_sizes_def Let_def numeral_eq_Suc)
  show ?thesis
    unfolding S0_def [symmetric]
    using ts_names [of M M]
    by (simp add: ts_Start_def Let_def ts_name_texts work_defs S0 fopen_def fprintf_lines_run ts_texts ts_holds_def at_end_def ts_log_head_def
      del: fprintf_lines.simps lines_text.simps c_format.simps)
qed

lemma ts_Outputs_holds:
  assumes holds: "ts_holds M h now k c head S" and k: "0 \<le> k" "k < 2147483647" and dt: "dt \<noteq> SS_OTHER"
  shows "\<exists>S'. ts_Outputs dt u S = Some S'
    \<and> ts_holds M h (dbl S (now + h)) (k + 1) (c @ Val 8 (dbl S (now + h)) # map (Val (type_size dt)) u) head S'
    \<and> dbl S' = dbl S \<and> fmt_real S' = fmt_real S"
proof -
  let ?now = "dbl S (now + h)"
  obtain saved units dir name lg where work: "iwork S = [k, saved]" "rwork S = [h, now]"
      "pwork S = [Str dir, Str name, Str units, Stream (ts_data_name M), Stream (ts_log_name M), Str lg]"
      "dir = mxGetString (TS_SAVE_DIRECTORY M) TS_SAVE_DIRECTORY_SIZE" "name = mxGetString (TS_SIGNAL_NAME M) SIGNAL_NAME_SIZE"
      "lg = mxGetString (TS_LOG_NAME M) SIGNAL_NAME_SIZE"
    and data: "at_end (ts_data_name M) c S" and log: "at_end (ts_log_name M) head S"
    using holds by (auto simp: ts_holds_def)
  have wr: "wrap32 (k + 1) = k + 1" using k by (simp add: wrap32_id)
  from ts_names [of M M] data log show ?thesis
    by (simp add: ts_Outputs_def work_defs work Let_def wr ts_values_def dt fwrite_values_run ts_holds_def at_end_def
      del: fwrite_values.simps)
qed

lemma ts_run_holds:
  assumes "ts_holds M h now k c head S" "0 \<le> k" "k + int (length us) < 2147483647" "dt \<noteq> SS_OTHER"
  shows "\<exists>S' now'. ts_run dt us S = Some S'
    \<and> ts_holds M h now' (k + int (length us)) (c @ concat (ts_records (dbl S) h (type_size dt) now us)) head S'
    \<and> fmt_real S' = fmt_real S"
  using assms
proof (induction us arbitrary: now k c S)
  case (Cons u us)
  from Cons.prems(3) have k: "k < 2147483647" "0 \<le> k + 1" "k + 1 + int (length us) < 2147483647" using Cons.prems(2) by simp_all
  from ts_Outputs_holds [OF Cons.prems(1,2) k(1) Cons.prems(4), of u] obtain S1 where S1: "ts_Outputs dt u S = Some S1"
    "ts_holds M h (dbl S (now + h)) (k + 1) (c @ Val 8 (dbl S (now + h)) # map (Val (type_size dt)) u) head S1"
    "dbl S1 = dbl S" "fmt_real S1 = fmt_real S" by blast
  have len: "k + int (length (u # us)) = k + 1 + int (length us)" by simp
  from Cons.IH [OF S1(2) k(2,3) Cons.prems(4)] S1 show ?case unfolding len by auto
qed auto

lemma ts_Terminate_run:
  assumes holds: "ts_holds M h now k c head S"
  shows "\<exists>S'. ts_Terminate S = Some S'
    \<and> files S' (ts_data_name M) = (if k = 0 then None else Some c)
    \<and> files S' (ts_log_name M) = (if k = 0 then None else Some (head @ map Ch (the (lines_text (fmt_real S) (ts_script k)))))"
  using holds ts_names [of M M]
  by (auto simp add: ts_holds_def ts_Terminate_def work_defs Let_def ts_name_texts at_end_def fclose_def fprintf_lines_run c_printf_run ts_texts
      remove_file_def simp del: fprintf_lines.simps lines_text.simps c_format.simps)

lemma ts_session_files:
  assumes S: "fs_ok S = (\<lambda>_. True)" "streams S = (\<lambda>_. None)" and us: "us \<noteq> []" "length us < 2147483647" and dt: "dt \<noteq> SS_OTHER"
  shows "\<exists>S'. ts_session M dt us S = Some S'
    \<and> files S' (ts_data_name M) = Some (concat (ts_records (dbl S) (sampleTime S) (type_size dt) (- sampleTime S) us))
    \<and> files S' (ts_log_name M) = Some (ts_log_head M dt S @ map Ch (the (lines_text (fmt_real S) (ts_script (int (length us))))))"
proof -
  obtain S1 where S1: "ts_Start M dt (work_vectors (ts_InitializeSizes 5 True True) S) = Some S1"
      "ts_holds M (sampleTime S) (- sampleTime S) 0 [] (ts_log_head M dt S) S1" "dbl S1 = dbl S" "fmt_real S1 = fmt_real S"
    using ts_Start_holds [OF S] by blast
  have "0 + int (length us) < 2147483647" using us(2) by simp
  from ts_run_holds [OF S1(2) order_refl this dt] obtain S2 now' where S2: "ts_run dt us S1 = Some S2"
      "ts_holds M (sampleTime S) now' (int (length us)) (concat (ts_records (dbl S) (sampleTime S) (type_size dt) (- sampleTime S) us))
        (ts_log_head M dt S) S2" "fmt_real S2 = fmt_real S"
    using S1(3,4) by auto
  from ts_Terminate_run [OF S2(2)] us(1) S2(3) show ?thesis by (auto simp: ts_session_def S1(1) S2(1))
qed

section \<open>A bus\<close>

record bus_mask =
  BUS_SAVE_DIRECTORY :: string
  BUS_NAME :: string
  BUS_SIGNAL_INFO :: string
  BUS_LOG_NAME :: string

definition BUS_SAVE_DIRECTORY_SIZE :: nat where "BUS_SAVE_DIRECTORY_SIZE = 150"
definition BUS_NAME_SIZE :: nat where "BUS_NAME_SIZE = 100"

definition BUS_FULL_FILENAME_SIZE :: nat where
  "BUS_FULL_FILENAME_SIZE = BUS_SAVE_DIRECTORY_SIZE + BUS_NAME_SIZE + 5"

lemmas bus_sizes = BUS_SAVE_DIRECTORY_SIZE_def BUS_NAME_SIZE_def BUS_FULL_FILENAME_SIZE_def

definition bus_InitializeSizes :: "nat \<Rightarrow> bool \<Rightarrow> bool \<Rightarrow> sizes" where
  "bus_InitializeSizes params inputs_ok outputs_ok =
     (let z = no_sizes\<lparr>num_params := 5\<rparr>
      in if params \<noteq> 5 then z
         else if \<not> inputs_ok then z
         else
           (let z = z\<lparr>in_widths := [Dynamic], feedthrough := [True]\<rparr>
            in if \<not> outputs_ok then z else z\<lparr>sample_times := 1, num_rwork := 2, num_iwork := 2, num_pwork := 2\<rparr>))"

definition bus_head :: "string \<Rightarrow> string \<Rightarrow> string \<Rightarrow> string \<Rightarrow> string \<Rightarrow> int \<Rightarrow> (string \<times> arg list) list" where
  "bus_head log_name save_directory bus_name data_full signal_info numSignals =
     [(''function ts = %s(lstDesired, flgDelete)'', [AS log_name]),
      (''%% Time History Information:'', []),
      (''SaveDirectory = '%s';'', [AS save_directory]),
      (''BusName       = '%s';'', [AS bus_name]),
      (''binFilename   = '%s';'', [AS data_full]),
      (''%s'', [AS signal_info]),
      (''numRefSignals = %d;  %% [int]'', [AI numSignals]),
      (''SrcDataType   = 'double'; %% 'string'' @ [CHR 0x27], []),
      (''SrcDTBitSize  = %d; %% [bytes]'', [AI 8])]"

text \<open>A stream that could not be opened is closed all the same: \<open>fclose(NULL)\<close>.\<close>

definition bus_Start :: "bus_mask \<Rightarrow> sim \<Rightarrow> sim option" where
  "bus_Start M S = do {
     let save_directory = mxGetString (BUS_SAVE_DIRECTORY M) BUS_SAVE_DIRECTORY_SIZE;
     let bus_name = mxGetString (BUS_NAME M) BUS_NAME_SIZE;
     let signal_info = mxGetString (BUS_SIGNAL_INFO M) (in_width S * 100);
     let log_name = mxGetString (BUS_LOG_NAME M) BUS_NAME_SIZE;
     S \<leftarrow> ssSetRWorkValue 0 (sampleTime S) S;
     rate \<leftarrow> ssGetRWorkValue 0 S;
     S \<leftarrow> ssSetRWorkValue 1 (- rate) S;
     S \<leftarrow> ssSetIWorkValue 0 0 S;
     S \<leftarrow> ssSetIWorkValue 1 0 S;
     data_full \<leftarrow> sprintf BUS_FULL_FILENAME_SIZE ''%s%s.bin'' [AS save_directory, AS bus_name] S;
     S \<leftarrow> ssSetPWorkValue 0 (Str data_full) S;
     (data_stream, S) \<leftarrow> fopen data_full ModeW S;
     S \<leftarrow> (if data_stream = Null
          then c_printf (endl ''BUS2TS :: Failed to open datafile '%s'.  Exiting...'') [AS data_full] S
          else fclose data_stream S);
     log_full \<leftarrow> sprintf BUS_FULL_FILENAME_SIZE ''%s%s.m'' [AS save_directory, AS log_name] S;
     S \<leftarrow> ssSetPWorkValue 1 (Str log_full) S;
     (log_stream, S) \<leftarrow> fopen log_full ModeW S;
     S \<leftarrow> (if log_stream = Null
          then c_printf (endl ''BUS2TS :: Failed to open logfile '%s'.  Exiting...'') [AS log_full] S
          else fprintf_lines log_stream
            (bus_head log_name save_directory bus_name data_full signal_info (int (in_width S))) S);
     fclose log_stream S
   }"

definition bus_Outputs :: "real list \<Rightarrow> sim \<Rightarrow> sim option" where
  "bus_Outputs u0 S = do {
     name \<leftarrow> pw_string 0 S;
     (data_stream, S) \<leftarrow> fopen name ModeA S;
     if data_stream = Null then do {
       S \<leftarrow> c_printf (endl ''BUS2TS :: Failed to open datafile '%s'.  Exiting...'') [AS name] S;
       fclose data_stream S
     } else do {
       stepsize \<leftarrow> ssGetRWorkValue 0 S;
       simtime \<leftarrow> ssGetRWorkValue 1 S;
       let simtime = dbl S (simtime + stepsize);
       S \<leftarrow> ssSetRWorkValue 1 simtime S;
       timesteps_saved \<leftarrow> ssGetIWorkValue 0 S;
       bytes_saved \<leftarrow> ssGetIWorkValue 1 S;
       S \<leftarrow> ssSetIWorkValue 0 (wrap32 (timesteps_saved + 1)) S;
       (bytes_saved, S) \<leftarrow> fwrite_values 8 (simtime # u0) bytes_saved data_stream S;
       S \<leftarrow> fclose data_stream S;
       ssSetIWorkValue 1 bytes_saved S
     }
   }"

text \<open>The MATLAB text that the block adds to the log.\<close>

definition bus_script :: "string list" where
  "bus_script =
     ['''',
      ''numSignals = size(lstBO, 1);'',
      '''',
      ''if(nargin == 0)'',
      ''    lstDesired = {};'',
      ''end'',
      '''',
      ''if(isempty(lstDesired))'',
      ''    lstDesired = lstBO(:,1);'',
      ''end'',
      ''numDesired = size(lstDesired, 1);'',
      '''',
      ''arrExtract = [];'',
      ''for iDesired = 1:numDesired'',
      ''    curDesired = lstDesired{iDesired, 1};'',
      ''    iExtract = max(strcmp(curDesired, lstBO(:,1)).*[1:numSignals]');'',
      ''    if(iExtract > 0)'',
      ''        arrExtract = [arrExtract; iExtract];'',
      ''    end'',
      ''end'',
      ''numExtract = length(arrExtract);'',
      ''flgExtractMatchesRef = (numSignals == numExtract);'',
      ''if((nargin < 2) || isempty(flgDelete))'',
      ''    flgDelete = flgExtractMatchesRef;'',
      ''end'',
      '''',
      ''fid = fopen(binFilename, 'rb');'',
      ''t = fread(fid, [Timesteps 1], SrcDataType, numRefSignals*SrcDTBitSize);'',
      ''offset = SrcDTBitSize;'',
      '''',
      ''for iExtract = 1:numExtract'',
      ''    iSignal = arrExtract(iExtract);'',
      ''    fseek(fid, offset, 'bof');'',
      ''    curSignal   = lstBO{iSignal, 1};'',
      ''    curSignalName = [BusName '.' curSignal];'',
      ''    curDim      = lstBO{iSignal, 2};'',
      ''    curDatatype = lstBO{iSignal, 3};'',
      ''    if(isempty(curDatatype))'',
      ''        curDatatype = 'double';'',
      ''    end'',
      ''    curUnits = lstBO{iSignal, 4};'',
      '''',
      ''    switch curDatatype'',
      ''        case {'double'; 'single'}'',
      ''            curInterpMethod = 'linear';'',
      ''        otherwise'',
      ''            curInterpMethod = 'zoh';'',
      ''    end'',
      '''',
      ''    disp(sprintf('%%s : %%d/%%d : Building #%%d: '' @ [CHR 0x27, CHR 0x27] @ ''%%s.mat'' @ [CHR 0x27, CHR 0x27, CHR 0x27] @ '', mfilename, iExtract, numExtract, iSignal, curSignalName));'',
      '''',
      ''    bytes2skip = (numRefSignals - curDim + 1)*SrcDTBitSize;'',
      ''    y = fread(fid, [curDim Timesteps], [num2str(curDim) '*' SrcDataType '=>' curDatatype], bytes2skip)';'',
      ''    if(strcmp(curDatatype, 'boolean'))'',
      ''        y = (y > 0.5); %% Convert to logical'',
      ''    end'',
      ''    ts = timeseries(y,t);'',
      ''    ts.Name = curSignalName;'',
      ''    ts.DataInfo.Units = curUnits;'',
      ''    ts = setinterpmethod(ts, curInterpMethod);'',
      '''',
      ''    matFilename = sprintf('%%s%%s.mat', SaveDirectory, curSignalName);'',
      ''    save(matFilename, 'ts');'',
      '''',
      ''    offset = offset + curDim*SrcDTBitSize;'',
      ''end'',
      ''fclose(fid);'',
      '''',
      ''if(flgDelete)'',
      ''    recycle(binFilename);'',
      ''end'',
      '''',
      ''if(numExtract == 1)'',
      ''    assignin('base', 'ts', ts);'',
      ''end'']"

definition bus_Terminate :: "sim \<Rightarrow> sim option" where
  "bus_Terminate S = do {
     data_name \<leftarrow> pw_string 0 S;
     log_name \<leftarrow> pw_string 1 S;
     timesteps_saved \<leftarrow> ssGetIWorkValue 0 S;
     (log_stream, S) \<leftarrow> fopen log_name ModeA S;
     S \<leftarrow> (if log_stream = Null
          then c_printf (endl ''BUS2TS :: Failed to open logfile '%s'.  Exiting...'') [AS log_name] S
          else do {
            S \<leftarrow> fprintf_lines log_stream [(''Timesteps     = %d; %% [int]'', [AI timesteps_saved])] S;
            S \<leftarrow> fprintf_lines log_stream (map (\<lambda>l. (l, [])) bus_script) S;
            fclose log_stream S
          });
     S \<leftarrow> (if timesteps_saved = 0 then do {
            S \<leftarrow> c_printf (endl ''BUS2TS :: Removing '%s' since no data recorded'') [AS data_name] S;
            let S = remove_file data_name S;
            S \<leftarrow> c_printf (endl ''BUS2TS :: Removing '%s' since no data recorded'') [AS log_name] S;
            Some (remove_file log_name S)
          } else Some S);
     Some (S\<lparr>pwork := map (\<lambda>_. Null) (pwork S)\<rparr>)
   }"

fun bus_run :: "real list list \<Rightarrow> sim \<Rightarrow> sim option" where
  "bus_run [] S = Some S"
| "bus_run (u0 # us) S = Option.bind (bus_Outputs u0 S) (bus_run us)"

definition bus_session :: "bus_mask \<Rightarrow> real list list \<Rightarrow> sim \<Rightarrow> sim option" where
  "bus_session M us S = do {
     S \<leftarrow> bus_Start M (work_vectors (bus_InitializeSizes 5 True True) S);
     S \<leftarrow> bus_run us S;
     bus_Terminate S
   }"

definition bus_data_name :: "bus_mask \<Rightarrow> string" where
  "bus_data_name M = mxGetString (BUS_SAVE_DIRECTORY M) BUS_SAVE_DIRECTORY_SIZE @ mxGetString (BUS_NAME M) BUS_NAME_SIZE @ ''.bin''"

definition bus_log_file :: "bus_mask \<Rightarrow> string" where
  "bus_log_file M = mxGetString (BUS_SAVE_DIRECTORY M) BUS_SAVE_DIRECTORY_SIZE @ mxGetString (BUS_LOG_NAME M) BUS_NAME_SIZE @ ''.m''"

lemma bus_names: "bus_data_name M \<noteq> bus_log_file M'"
proof
  assume "bus_data_name M = bus_log_file M'"
  then have "last (bus_data_name M) = last (bus_log_file M')" by simp
  then show False by (simp add: bus_data_name_def bus_log_file_def)
qed

lemma bus_name_texts:
  fixes S :: sim
  shows "sprintf BUS_FULL_FILENAME_SIZE ''%s%s.bin''
      [AS (mxGetString (BUS_SAVE_DIRECTORY M) BUS_SAVE_DIRECTORY_SIZE), AS (mxGetString (BUS_NAME M) BUS_NAME_SIZE)] S = Some (bus_data_name M)"
    "sprintf BUS_FULL_FILENAME_SIZE ''%s%s.m''
      [AS (mxGetString (BUS_SAVE_DIRECTORY M) BUS_SAVE_DIRECTORY_SIZE), AS (mxGetString (BUS_LOG_NAME M) BUS_NAME_SIZE)] S = Some (bus_log_file M)"
  by (simp_all add: sprintf_def format_simps bus_data_name_def bus_log_file_def mxGetString_def bus_sizes)

lemma bus_texts:
  "lines_text fr (bus_head a b c d e f) \<noteq> None"
  "c_format fr (endl ''BUS2TS :: Removing '%s' since no data recorded'') [AS x] \<noteq> None"
  "lines_text fr [(''Timesteps     = %d; %% [int]'', [AI k])] \<noteq> None"
  by (simp_all add: format_simps bus_head_def)

lemma bus_script_text: "lines_text fr (map (\<lambda>l. (l, [])) bus_script) \<noteq> None"
  by (simp add: format_simps bus_script_def)

text \<open>Between two calls no file is open.\<close>

definition bus_holds :: "bus_mask \<Rightarrow> real \<Rightarrow> real \<Rightarrow> int \<Rightarrow> item list \<Rightarrow> item list \<Rightarrow> sim \<Rightarrow> bool" where
  "bus_holds M h now k c head S \<longleftrightarrow>
     (\<exists>saved. iwork S = [k, saved]) \<and> rwork S = [h, now] \<and> pwork S = [Str (bus_data_name M), Str (bus_log_file M)]
     \<and> files S (bus_data_name M) = Some c \<and> files S (bus_log_file M) = Some head
     \<and> streams S = (\<lambda>_. None) \<and> fs_ok S = (\<lambda>_. True)"

definition bus_log_head :: "bus_mask \<Rightarrow> sim \<Rightarrow> item list" where
  "bus_log_head M S =
     map Ch (the (lines_text (fmt_real S) (bus_head (mxGetString (BUS_LOG_NAME M) BUS_NAME_SIZE)
       (mxGetString (BUS_SAVE_DIRECTORY M) BUS_SAVE_DIRECTORY_SIZE) (mxGetString (BUS_NAME M) BUS_NAME_SIZE) (bus_data_name M)
       (mxGetString (BUS_SIGNAL_INFO M) (in_width S * 100)) (int (in_width S)))))"

lemma bus_Start_holds:
  assumes "fs_ok S = (\<lambda>_. True)" "streams S = (\<lambda>_. None)"
  shows "\<exists>S'. bus_Start M (work_vectors (bus_InitializeSizes 5 True True) S) = Some S'
    \<and> bus_holds M (sampleTime S) (- sampleTime S) 0 [] (bus_log_head M S) S' \<and> dbl S' = dbl S \<and> fmt_real S' = fmt_real S"
proof -
  define S0 where "S0 = work_vectors (bus_InitializeSizes 5 True True) S"
  have S0: "iwork S0 = [0, 0]" "rwork S0 = [0, 0]" "pwork S0 = [Null, Null]"
    "files S0 = files S" "streams S0 = (\<lambda>_. None)" "fs_ok S0 = (\<lambda>_. True)" "sampleTime S0 = sampleTime S"
    "dbl S0 = dbl S" "in_width S0 = in_width S" "fmt_real S0 = fmt_real S"
    using assms by (simp_all add: S0_def work_vectors_def bus_InitializeSizes_def no_sizes_def Let_def numeral_eq_Suc)
  show ?thesis
    unfolding S0_def [symmetric]
    using bus_names [of M M]
    by (simp add: bus_Start_def Let_def bus_name_texts work_defs S0 fopen_def fclose_def fprintf_lines_run bus_texts bus_holds_def bus_log_head_def fun_upd_idem
      del: fprintf_lines.simps lines_text.simps c_format.simps)
qed

lemma bus_Outputs_holds:
  assumes holds: "bus_holds M h now k c head S" and k: "0 \<le> k" "k < 2147483647"
  shows "\<exists>S'. bus_Outputs u S = Some S'
    \<and> bus_holds M h (dbl S (now + h)) (k + 1) (c @ Val 8 (dbl S (now + h)) # map (Val 8) u) head S'
    \<and> dbl S' = dbl S \<and> fmt_real S' = fmt_real S"
proof -
  let ?now = "dbl S (now + h)" and ?data = "bus_data_name M"
  obtain saved where work: "iwork S = [k, saved]" "rwork S = [h, now]" "pwork S = [Str ?data, Str (bus_log_file M)]"
      "files S ?data = Some c" "files S (bus_log_file M) = Some head" "streams S = (\<lambda>_. None)" "fs_ok S = (\<lambda>_. True)"
    using holds by (auto simp: bus_holds_def)
  have wr: "wrap32 (k + 1) = k + 1" using k by (simp add: wrap32_id)
  have idem: "(files S)(?data \<mapsto> c) = files S" using work(4) by (simp add: fun_upd_idem)
  from bus_names [of M M] work show ?thesis
    by (simp add: bus_Outputs_def fopen_def work_defs Let_def wr idem fwrite_values_run bus_holds_def fclose_def fun_upd_idem del: fwrite_values.simps)
qed

lemma bus_run_holds:
  assumes "bus_holds M h now k c head S" "0 \<le> k" "k + int (length us) < 2147483647"
  shows "\<exists>S' now'. bus_run us S = Some S'
    \<and> bus_holds M h now' (k + int (length us)) (c @ concat (ts_records (dbl S) h 8 now us)) head S' \<and> fmt_real S' = fmt_real S"
  using assms
proof (induction us arbitrary: now k c S)
  case (Cons u us)
  from Cons.prems(3) have k: "k < 2147483647" "0 \<le> k + 1" "k + 1 + int (length us) < 2147483647" using Cons.prems(2) by simp_all
  from bus_Outputs_holds [OF Cons.prems(1,2) k(1), of u] obtain S1 where S1: "bus_Outputs u S = Some S1"
    "bus_holds M h (dbl S (now + h)) (k + 1) (c @ Val 8 (dbl S (now + h)) # map (Val 8) u) head S1"
    "dbl S1 = dbl S" "fmt_real S1 = fmt_real S" by blast
  have len: "k + int (length (u # us)) = k + 1 + int (length us)" by simp
  from Cons.IH [OF S1(2) k(2,3)] S1 show ?case unfolding len by auto
qed auto

lemma bus_Terminate_run:
  assumes holds: "bus_holds M h now k c head S"
  shows "\<exists>S'. bus_Terminate S = Some S'
    \<and> files S' (bus_data_name M) = (if k = 0 then None else Some c)
    \<and> files S' (bus_log_file M) = (if k = 0 then None
        else Some (head @ map Ch (the (lines_text (fmt_real S) [(''Timesteps     = %d; %% [int]'', [AI k])]))
          @ map Ch (the (lines_text (fmt_real S) (map (\<lambda>l. (l, [])) bus_script)))))"
  using holds bus_names [of M M]
  by (auto simp add: bus_holds_def bus_Terminate_def work_defs Let_def fopen_def fclose_def fprintf_lines_run c_printf_run bus_texts bus_script_text
      remove_file_def simp del: fprintf_lines.simps lines_text.simps c_format.simps)


text \<open>Two steps of a bus of two signals.\<close>

definition ts_sim :: sim where
  "ts_sim = \<lparr>sampleTime = 1, in_width = 2, iwork = [], rwork = [], pwork = [], outs = [], errorStatus = None,
     files = (\<lambda>_. None), streams = (\<lambda>_. None), fs_ok = (\<lambda>_. True), fs_tick = 0, host_files = (\<lambda>_. None), console = [],
     fmt_real = (\<lambda>_ _. ''0''), dbl = (\<lambda>x. x)\<rparr>"

definition ts_bus :: bus_mask where
  "ts_bus = \<lparr>BUS_SAVE_DIRECTORY = ''out/'', BUS_NAME = ''bus'', BUS_SIGNAL_INFO = ''lstBO = {};'', BUS_LOG_NAME = ''bus_Log''\<rparr>"


end
