(* ===== verification/SaveToFile.thy ===== *)
theory SaveToFile
  imports SimStruct
begin

text \<open>
  The text recorder save2file (SFunctions/SaveToFile/save2file.c): every \<open>decimation\<close>-th step
  becomes a line of tab-separated numbers. The theorem says which steps those are, with which
  times, and that the number of lines reported at the end is the number written.
\<close>

section \<open>The block\<close>

record file_mask =
  fm_enable :: real
  fm_sample_time :: real
  fm_datafile :: string
  fm_decimation :: real

definition file_InitializeSizes :: "nat \<Rightarrow> bool \<Rightarrow> bool \<Rightarrow> sizes" where
  "file_InitializeSizes params inputs_ok outputs_ok =
     (let z = no_sizes\<lparr>num_params := 4\<rparr>
      in if params \<noteq> 4 then z
         else if \<not> inputs_ok then z
         else
           (let z = z\<lparr>in_widths := [Dynamic], feedthrough := [True]\<rparr>
            in if \<not> outputs_ok then z else z\<lparr>sample_times := 1, num_rwork := 2, num_iwork := 3, num_pwork := 1\<rparr>))"

definition file_Start :: "file_mask \<Rightarrow> sim \<Rightarrow> sim option" where
  "file_Start M S = do {
     enable_record \<leftarrow> int_cast (fm_enable M);
     decimation \<leftarrow> int_cast (fm_decimation M);
     S \<leftarrow> ssSetIWorkValue 0 enable_record S;
     S \<leftarrow> ssSetIWorkValue 1 decimation S;
     S \<leftarrow> ssSetIWorkValue 2 decimation S;
     S \<leftarrow> ssSetRWorkValue 0 (fm_sample_time M) S;
     S \<leftarrow> ssSetRWorkValue 1 0 S;
     if enable_record = 1 then do {
       (data_stream, S) \<leftarrow> fopen (mxGetString (fm_datafile M) 32) ModeW S;
       ssSetPWorkValue 0 data_stream S
     } else Some S
   }"

text \<open>The values of a line, one call of \<open>fprintf\<close> for each.\<close>

definition fprintf_values :: "pval \<Rightarrow> real list \<Rightarrow> sim \<Rightarrow> sim option" where
  "fprintf_values = fprintf_each (''%.15e'' @ [tab])"

definition file_Outputs :: "real list \<Rightarrow> sim \<Rightarrow> sim option" where
  "file_Outputs u1 S = do {
     data_stream \<leftarrow> ssGetPWorkValue 0 S;
     enable_record \<leftarrow> ssGetIWorkValue 0 S;
     decDesired \<leftarrow> ssGetIWorkValue 1 S;
     decCount \<leftarrow> ssGetIWorkValue 2 S;
     stepsize \<leftarrow> ssGetRWorkValue 0 S;
     simtime \<leftarrow> ssGetRWorkValue 1 S;
     if enable_record = 1 then do {
       S \<leftarrow> (if decCount = decDesired then do {
              S \<leftarrow> fprintf_values data_stream (simtime # u1) S;
              S \<leftarrow> fprintf data_stream [newline] [] S;
              ssSetRWorkValue 1 (dbl S (simtime + dbl S (stepsize * of_int decDesired))) S
            } else Some S);
       let decCount = wrap32 (decCount - 1);
       let decCount = (if decCount = 0 then decDesired else decCount);
       ssSetIWorkValue 2 decCount S
     } else Some S
   }"

text \<open>\<open>None\<close>: the number of points is an infinity or a NaN.\<close>

definition file_Terminate :: "file_mask \<Rightarrow> sim \<Rightarrow> sim option" where
  "file_Terminate M S = do {
     enable_record \<leftarrow> ssGetIWorkValue 0 S;
     if enable_record = 1 then do {
       data_stream \<leftarrow> ssGetPWorkValue 0 S;
       S \<leftarrow> fclose data_stream S;
       stepsize \<leftarrow> ssGetRWorkValue 0 S;
       simtime \<leftarrow> ssGetRWorkValue 1 S;
       decDesired \<leftarrow> ssGetIWorkValue 1 S;
       let simtime = dbl S (simtime - dbl S (stepsize * of_int decDesired));
       numpts \<leftarrow> (if stepsize = 0 \<or> decDesired = 0 then None
          else Some (dbl S (dbl S (dbl S (simtime / stepsize) / of_int decDesired) + 1)));
       c_printf (endl ''SAVE2FILE :: Created '%s' :: %.0f Datapoints for %d Signals (%.3f sec @ %dx decimation)'')
         [AS (mxGetString (fm_datafile M) 32), AD numpts, AI (int (in_width S)), AD simtime, AI decDesired] S
     } else Some S
   }"

fun file_run :: "real list list \<Rightarrow> sim \<Rightarrow> sim option" where
  "file_run [] S = Some S"
| "file_run (u1 # us) S = Option.bind (file_Outputs u1 S) (file_run us)"

definition file_session :: "file_mask \<Rightarrow> real list list \<Rightarrow> sim \<Rightarrow> sim option" where
  "file_session M us S = do {
     S \<leftarrow> file_Start M (work_vectors (file_InitializeSizes 4 True True) S);
     S \<leftarrow> file_run us S;
     file_Terminate M S
   }"

section \<open>Lines\<close>

definition file_line :: "(string \<Rightarrow> real \<Rightarrow> string) \<Rightarrow> real \<Rightarrow> real list \<Rightarrow> item list" where
  "file_line fr t u = map Ch (concat (map (\<lambda>x. fr ''.15e'' x @ [tab]) (t # u)) @ [newline])"

lemma tab_format: "c_format fr (''%.15e'' @ [tab]) [AD x] = Some (fr ''.15e'' x @ [tab])"
  by (simp add: format_simps tab_def)

lemma fprintf_values_end:
  "at_end name c S \<Longrightarrow> fprintf_values (Stream name) xs S
   = Some (grown name c (map Ch (concat (map (\<lambda>x. fmt_real S ''.15e'' x @ [tab]) xs))) S)"
  unfolding fprintf_values_def by (rule fprintf_each_end) (rule tab_format)

text \<open>The times and steps that become lines, in a run that is \<open>count\<close> steps before its next line.\<close>

fun decimate :: "(real \<Rightarrow> real) \<Rightarrow> nat \<Rightarrow> nat \<Rightarrow> real \<Rightarrow> 'a list \<Rightarrow> (real \<times> 'a) list" where
  "decimate nx d count t [] = []"
| "decimate nx d count t (u # us) =
     (let count' = (if count - 1 = 0 then d else count - 1)
      in if count = d then (t, u) # decimate nx d count' (nx t) us else decimate nx d count' t us)"

lemma decimate_wait:
  "0 < count \<Longrightarrow> count < d \<Longrightarrow> decimate nx d count t us = decimate nx d d t (drop count us)"
proof (induction us arbitrary: count)
  case (Cons u us)
  show ?case
  proof (cases "count = 1")
    case False
    then have "0 < count - 1" "count - 1 < d" using Cons.prems by simp_all
    from Cons.IH [OF this] show ?thesis using False Cons.prems by (simp add: Let_def drop_Cons')
  qed (use Cons.prems in \<open>simp add: Let_def\<close>)
qed simp

lemma decimate_next:
  assumes "0 < d"
  shows "decimate nx d d t (u # us) = (t, u) # decimate nx d d (nx t) (drop (d - 1) us)"
  using assms decimate_wait [of "d - 1" d nx "nx t" us] by (simp add: Let_def)

text \<open>The number of the lines of \<open>n\<close> steps.\<close>

definition line_total :: "nat \<Rightarrow> nat \<Rightarrow> nat" where
  "line_total d n = (n + d - 1) div d"

lemma line_total_Suc: "0 < d \<Longrightarrow> line_total d (Suc n) = Suc (line_total d (n - (d - 1)))"
proof (cases "d - 1 \<le> n")
  case True
  assume "0 < d"
  then have "Suc n + d - 1 = (n - (d - 1) + d - 1) + d" using True by simp
  then have "line_total d (Suc n) = ((n - (d - 1) + d - 1) + d) div d" unfolding line_total_def by (rule arg_cong)
  also have "\<dots> = Suc (line_total d (n - (d - 1)))" unfolding line_total_def using \<open>0 < d\<close> by (simp only: div_add_self2)
  finally show ?thesis .
next
  case False
  assume "0 < d"
  with False have "(n + d) div d = 1" by (simp add: div_add_self2)
  with False \<open>0 < d\<close> show ?thesis by (simp add: line_total_def)
qed

lemma decimate_every:
  assumes "0 < d"
  shows "decimate nx d d t us = map (\<lambda>k. ((nx ^^ k) t, us ! (k * d))) [0..<line_total d (length us)]"
proof (induction "length us" arbitrary: us t rule: less_induct)
  case less
  show ?case
  proof (cases us)
    case Nil
    then show ?thesis using assms by (simp add: line_total_def)
  next
    case (Cons u vs)
    let ?rest = "drop (d - 1) vs"
    have len: "line_total d (length us) = Suc (line_total d (length ?rest))"
      using line_total_Suc [OF assms] by (simp add: Cons)
    have nth: "us ! (Suc k * d) = ?rest ! (k * d)" if "k < line_total d (length ?rest)" for k
    proof -
      have "k * d < length ?rest"
      proof (rule ccontr)
        assume "\<not> k * d < length ?rest"
        then have "length ?rest + d - 1 < (k + 1) * d" using assms by simp
        then have "line_total d (length ?rest) < k + 1" unfolding line_total_def by (rule less_mult_imp_div_less)
        with that show False by simp
      qed
      moreover have "Suc k * d - 1 = (d - 1) + k * d" using assms by simp
      ultimately show ?thesis using assms by (simp add: Cons nth_Cons')
    qed
    have "decimate nx d d t us = (t, u) # decimate nx d d (nx t) ?rest"
      by (simp add: Cons decimate_next [OF assms] del: decimate.simps)
    also have "decimate nx d d (nx t) ?rest
      = map (\<lambda>k. ((nx ^^ k) (nx t), ?rest ! (k * d))) [0..<line_total d (length ?rest)]"
      by (rule less.hyps) (simp add: Cons)
    also have "\<dots> = map (\<lambda>k. ((nx ^^ Suc k) t, us ! (Suc k * d))) [0..<line_total d (length ?rest)]"
      using nth by (intro map_cong) (simp_all add: funpow_swap1 del: mult_Suc)
    finally show ?thesis
      unfolding len by (simp add: upt_conv_Cons map_Suc_upt [symmetric] comp_def Cons del: upt_Suc)
  qed
qed

section \<open>A session\<close>

definition file_text :: "(string \<Rightarrow> real \<Rightarrow> string) \<Rightarrow> (real \<times> real list) list \<Rightarrow> item list" where
  "file_text fr ls = concat (map (\<lambda>(t, u). file_line fr t u) ls)"

definition file_holds :: "string \<Rightarrow> real \<Rightarrow> real \<Rightarrow> nat \<Rightarrow> nat \<Rightarrow> item list \<Rightarrow> sim \<Rightarrow> bool" where
  "file_holds name h t d count c S \<longleftrightarrow>
     iwork S = [1, int d, int count] \<and> rwork S = [h, t] \<and> pwork S = [Stream name] \<and> at_end name c S"

definition file_next :: "(real \<Rightarrow> real) \<Rightarrow> real \<Rightarrow> nat \<Rightarrow> real \<Rightarrow> real" where
  "file_next rnd h d t = rnd (t + rnd (h * real d))"

text \<open>What the calls leave alone.\<close>

definition same_sim :: "sim \<Rightarrow> sim \<Rightarrow> bool" where
  "same_sim S S' \<longleftrightarrow> dbl S' = dbl S \<and> fmt_real S' = fmt_real S \<and> in_width S' = in_width S \<and> console S' = console S"

lemma file_Outputs_holds:
  assumes holds: "file_holds name h t d count c S" and count: "0 < count" "count \<le> d" "d < 2147483648"
  shows "\<exists>S'. file_Outputs u S = Some S'
    \<and> file_holds name h (if count = d then file_next (dbl S) h d t else t) d (if count - 1 = 0 then d else count - 1)
        (c @ (if count = d then file_line (fmt_real S) t u else [])) S'
    \<and> same_sim S S'"
proof -
  have work: "iwork S = [1, int d, int count]" "rwork S = [h, t]" "pwork S = [Stream name]" and c: "at_end name c S"
    using holds by (simp_all add: file_holds_def)
  have wr: "wrap32 (int count - 1) = int (count - 1)" using count by (simp add: wrap32_id)
  show ?thesis
  proof (cases "count = d")
    case False
    then show ?thesis
      using work c wr count by (auto simp: file_Outputs_def work_defs file_holds_def same_sim_def at_end_def Let_def)
  next
    case True
    define L where "L = map Ch (concat (map (\<lambda>x. fmt_real S ''.15e'' x @ [tab]) (t # u)))"
    have v: "fprintf_values (Stream name) (t # u) S = Some (grown name c L S)"
      unfolding L_def by (rule fprintf_values_end [OF c])
    have nl: "fprintf (Stream name) [newline] [] (grown name c L S) = Some (grown name c (L @ [Ch newline]) S)"
      by (simp add: fprintf_def fput_end [OF at_end_grown] format_simps)
    have "file_line (fmt_real S) t u = L @ [Ch newline]" by (simp add: file_line_def L_def)
    then show ?thesis
      using work wr count True
      by (simp add: file_Outputs_def work_defs v nl file_holds_def same_sim_def at_end_def Let_def file_next_def)
  qed
qed

lemma file_run_holds:
  fixes us :: "real list list"
  assumes "file_holds name h t d count c S" "0 < count" "count \<le> d" "d < 2147483648"
  defines "ls \<equiv> decimate (file_next (dbl S) h d) d count t us"
  shows "\<exists>S' count'. file_run us S = Some S'
    \<and> file_holds name h ((file_next (dbl S) h d ^^ length ls) t) d count' (c @ file_text (fmt_real S) ls) S' \<and> same_sim S S'"
  using assms(1-3) unfolding ls_def
proof (induction us arbitrary: c S t count)
  case Nil
  then show ?case by (auto simp: file_text_def same_sim_def)
next
  case (Cons u us)
  let ?t = "if count = d then file_next (dbl S) h d t else t" and ?count = "if count - 1 = 0 then d else count - 1"
  from file_Outputs_holds [OF Cons.prems assms(4), of u] obtain S1 where S1: "file_Outputs u S = Some S1"
    "file_holds name h ?t d ?count (c @ (if count = d then file_line (fmt_real S) t u else [])) S1" "same_sim S S1" by blast
  have pos: "0 < ?count" "?count \<le> d" using Cons.prems by auto
  have same: "dbl S1 = dbl S" "fmt_real S1 = fmt_real S" using S1(3) by (simp_all add: same_sim_def)
  let ?ls = "decimate (file_next (dbl S) h d) d ?count ?t us"
  have ls: "decimate (file_next (dbl S) h d) d count t (u # us) = (if count = d then [(t, u)] else []) @ ?ls" by (simp add: Let_def)
  have lines: "file_text (fmt_real S) ((if count = d then [(t, u)] else []) @ ?ls)
      = (if count = d then file_line (fmt_real S) t u else []) @ file_text (fmt_real S) ?ls"
    by (simp add: file_text_def)
  have time: "(file_next (dbl S) h d ^^ length ((if count = d then [(t, u)] else []) @ ?ls)) t = (file_next (dbl S) h d ^^ length ?ls) ?t"
    by (simp add: funpow_swap1)
  from Cons.IH [OF S1(2) pos] obtain S' count' where "file_run us S1 = Some S'" "same_sim S1 S'"
    "file_holds name h ((file_next (dbl S) h d ^^ length ?ls) ?t) d count'
      (c @ (if count = d then file_line (fmt_real S) t u else []) @ file_text (fmt_real S) ?ls) S'"
    unfolding same append_assoc by blast
  with S1 show ?case unfolding ls lines time by (auto simp: same_sim_def)
qed
definition report :: string where
  "report = ''SAVE2FILE :: Created '%s' :: %.0f Datapoints for %d Signals (%.3f sec @ %dx decimation)''"

lemma report_format: "c_format fr (endl report) [AS a, AD x, AI w, AD y, AI d] \<noteq> None"
  by (simp add: format_simps report_def)

lemma exact_time: "(file_next (\<lambda>x. x) h d ^^ n) 0 = real n * (h * real d)"
  by (induction n) (simp_all add: file_next_def algebra_simps)

text \<open>
  C31. save2file with a positive decimation d writes the lines of steps 0, d, 2d and so on, the
  first one included and none after the last step, with times that advance by d sample times; the
  number of points it reports at the end is, but for rounding, the number of the lines.
\<close>
theorem decimated_file:
  fixes us :: "real list list"
  assumes M: "int_cast (fm_enable M) = Some 1" "int_cast (fm_decimation M) = Some (int d)" "0 < d" "fm_sample_time M \<noteq> 0"
    and S: "fs_ok S = (\<lambda>_. True)" "streams S = (\<lambda>_. None)"
  shows "\<exists>S'. file_session M us S = Some S'
    \<and> files S' (mxGetString (fm_datafile M) 32) =
        Some (concat (map (\<lambda>k. file_line (fmt_real S) ((file_next (dbl S) (fm_sample_time M) d ^^ k) 0) (us ! (k * d)))
          [0..<line_total d (length us)]))
    \<and> (dbl S = (\<lambda>x. x) \<longrightarrow> console S' = console S @ the (c_format (fmt_real S) (endl report)
          [AS (mxGetString (fm_datafile M) 32), AD (real (line_total d (length us))), AI (int (in_width S)),
           AD ((real (line_total d (length us)) - 1) * (fm_sample_time M * real d)), AI (int d)]))"
proof -
  let ?h = "fm_sample_time M" and ?name = "mxGetString (fm_datafile M) 32" and ?n = "line_total d (length us)"
  have d: "d < 2147483648" using M(2) by (auto simp: int_cast_def split: if_splits)
  define S0 where "S0 = work_vectors (file_InitializeSizes 4 True True) S"
  have S0: "iwork S0 = [0, 0, 0]" "rwork S0 = [0, 0]" "pwork S0 = [Null]" "files S0 = files S" "streams S0 = (\<lambda>_. None)" "fs_ok S0 = (\<lambda>_. True)"
    "dbl S0 = dbl S" "in_width S0 = in_width S" "fmt_real S0 = fmt_real S" "console S0 = console S"
    using S by (simp_all add: S0_def work_vectors_def file_InitializeSizes_def no_sizes_def Let_def numeral_eq_Suc)
  obtain S1 where S1: "file_Start M S0 = Some S1" "file_holds ?name ?h 0 d d [] S1" "same_sim S S1"
    by (simp add: file_Start_def M(1,2) work_defs S0 fopen_def file_holds_def at_end_def same_sim_def)
  then have same: "dbl S1 = dbl S" "fmt_real S1 = fmt_real S" by (simp_all add: same_sim_def)
  let ?ls = "decimate (file_next (dbl S) ?h d) d d 0 us"
  have ls: "length ?ls = ?n" by (simp add: decimate_every [OF M(3)])
  let ?t = "(file_next (dbl S) ?h d ^^ ?n) 0"
  from file_run_holds [OF S1(2) M(3) order_refl d, of us] obtain S2 count where S2: "file_run us S1 = Some S2"
    "file_holds ?name ?h ?t d count (file_text (fmt_real S) ?ls) S2" "same_sim S1 S2"
    unfolding same ls append_Nil by blast
  have same2: "dbl S2 = dbl S" "fmt_real S2 = fmt_real S" "in_width S2 = in_width S" "console S2 = console S"
    using S1(3) S2(3) by (simp_all add: same_sim_def)
  obtain S3 where S3: "file_Terminate M S2 = Some S3" "files S3 = files S2"
    "console S3 = console S @ the (c_format (fmt_real S) (endl report)
       [AS ?name, AD (dbl S (dbl S (dbl S (dbl S (?t - dbl S (?h * real d)) / ?h) / real d) + 1)), AI (int (in_width S)),
        AD (dbl S (?t - dbl S (?h * real d))), AI (int d)])"
    using S2(2) M(3,4)
    by (simp add: file_Terminate_def work_defs file_holds_def at_end_def fclose_def c_printf_run report_def [symmetric] report_format same2 Let_def)
  have "file_session M us S = Some S3" by (simp add: file_session_def S0_def [symmetric] S1(1) S2(1) S3(1))
  moreover have "files S3 ?name = Some (file_text (fmt_real S) ?ls)" using S2(2) by (simp add: S3(2) file_holds_def at_end_def)
  moreover have "?t - ?h * real d = (real ?n - 1) * (?h * real d)"
      "?t / ?h / real d = real ?n" if "dbl S = (\<lambda>x. x)"
    using M(3,4) by (simp_all add: that exact_time algebra_simps)
  ultimately show ?thesis using M(3,4)
    by (auto simp: S3(3) file_text_def decimate_every [OF M(3)] comp_def diff_divide_distrib)
qed

text \<open>Five steps, of which every second one is recorded.\<close>

definition file_sim :: sim where
  "file_sim = \<lparr>sampleTime = 1, in_width = 1, iwork = [], rwork = [], pwork = [], outs = [], errorStatus = None,
     files = (\<lambda>_. None), streams = (\<lambda>_. None), fs_ok = (\<lambda>_. True), fs_tick = 0, host_files = (\<lambda>_. None), console = [],
     fmt_real = (\<lambda>_ _. ''0''), dbl = (\<lambda>x. x)\<rparr>"

definition every_second :: file_mask where
  "every_second = \<lparr>fm_enable = 1, fm_sample_time = 1 / 2, fm_datafile = ''data.txt'', fm_decimation = 2\<rparr>"

lemma decimated_file_witness:
  "\<exists>S'. file_session every_second [[1], [2], [3], [4], [5]] file_sim = Some S'
    \<and> files S' ''data.txt'' = Some (file_line (fmt_real file_sim) 0 [1] @ file_line (fmt_real file_sim) 1 [3] @ file_line (fmt_real file_sim) 2 [5])"
proof -
  have M: "int_cast (fm_enable every_second) = Some 1" "int_cast (fm_decimation every_second) = Some (int 2)" "(0 :: nat) < 2"
    "fm_sample_time every_second \<noteq> 0" "fs_ok file_sim = (\<lambda>_. True)" "streams file_sim = (\<lambda>_. None)"
    by (simp_all add: every_second_def int_cast_def trunc_def file_sim_def)
  have three: "line_total 2 (length [[1], [2], [3], [4], [5 :: real]]) = 3" by (simp add: line_total_def)
  have "[0..<3] = [0, 1, 2 :: nat]" by (simp add: upt_rec)
  then show ?thesis
    using decimated_file [OF M, of "[[1], [2], [3], [4], [5]]", unfolded three]
    by (auto simp: every_second_def mxGetString_def file_sim_def exact_time)
qed

end
