(* ===== verification/UdpBlocks.thy ===== *)
theory UdpBlocks
  imports SimStruct
begin

text \<open>
  The blocks that send a signal over the network and receive one (Universal_UDP_Send, with
  socket_multi.c, and Universal_UDP_Receive). The name services and the kernel are oracles; the
  addresses come from a text file. The end of the process (\<open>exit\<close>) is \<open>None\<close>, like a fault. The theorems
  are the account of what was sent, and the link of a sender with a receiver.
\<close>

section \<open>The network\<close>

text \<open>What \<open>recv\<close> answers: a datagram, in whole values, or an error.\<close>

datatype recv_answer = Datagram "real list" | Would_block | Recv_error

record udp = sim +
  getservbyname :: "string \<Rightarrow> string \<Rightarrow> 16 word option"
  gethostbyname :: "string \<Rightarrow> 32 word option"
  inet_addr :: "string \<Rightarrow> 32 word"
  getprotobyname :: "string \<Rightarrow> int option"
  net_socket :: "nat \<Rightarrow> int"
  net_connect :: "int \<Rightarrow> 16 word \<Rightarrow> 32 word \<Rightarrow> int"
  net_send :: "nat \<Rightarrow> int"
  net_recv :: "nat \<Rightarrow> recv_answer"
  net_setup :: "nat \<Rightarrow> bool"
  heap :: "nat \<Rightarrow> real"
  net_tick :: nat
  sent :: "(int \<times> real list) list"
  shut :: "int list"

definition htons :: "16 word \<Rightarrow> 16 word" where
  "htons x = or (push_bit 8 x) (drop_bit 8 x)"

definition INADDR_NONE :: "32 word" where
  "INADDR_NONE = 0xffffffff"

text \<open>\<open>None\<close> is \<open>exit(EXIT_FAILURE)\<close>, after a message.\<close>

definition connectsock :: "string \<Rightarrow> string \<Rightarrow> string \<Rightarrow> 'a udp_scheme \<Rightarrow> (int \<times> 'a udp_scheme) option" where
  "connectsock host service transport S = do {
     port \<leftarrow> (case getservbyname S service transport of
        Some p \<Rightarrow> Some p
      | None \<Rightarrow> do {
          n \<leftarrow> atoi service;
          let p = htons (word_of_int n);
          if p = 0 then None else Some p
        });
     addr \<leftarrow> (case gethostbyname S host of
        Some a \<Rightarrow> Some a
      | None \<Rightarrow> if inet_addr S host = INADDR_NONE then None else Some (inet_addr S host));
     proto \<leftarrow> getprotobyname S transport;
     let s = net_socket S (net_tick S);
     let S = S\<lparr>net_tick := Suc (net_tick S)\<rparr>;
     if s < 0 then None
     else if net_connect S s port addr < 0 then None
     else Some (s, S)
   }"

section \<open>The sender\<close>

definition MAX_CLIENTS :: nat where
  "MAX_CLIENTS = 20"

definition send_InitializeSizes :: "nat \<Rightarrow> bool \<Rightarrow> bool \<Rightarrow> sizes" where
  "send_InitializeSizes params inputs_ok outputs_ok =
     (let z = no_sizes\<lparr>num_params := 3\<rparr>
      in if params \<noteq> 3 then z
         else if \<not> inputs_ok then z
         else
           (let z = z\<lparr>in_widths := [Width 1, Dynamic], feedthrough := [True, True]\<rparr>
            in if \<not> outputs_ok then z
               else z\<lparr>out_widths := [Width 1], sample_times := 1, num_rwork := 0, num_iwork := 2, num_pwork := 2\<rparr>))"

text \<open>The words of a text: what \<open>fscanf\<close> finds with \<open>%s\<close>.\<close>

function words_of :: "string \<Rightarrow> string list" where
  "words_of t =
     (let t = dropWhile isspace t
      in if t = [] then [] else takeWhile (\<lambda>c. \<not> isspace c) t # words_of (dropWhile (\<lambda>c. \<not> isspace c) t))"
  by pat_completeness auto
termination
proof (relation "measure length", goal_cases)
  case (2 t x)
  then obtain c cs where c: "dropWhile isspace t = c # cs" "x = c # cs" by (metis neq_Nil_conv)
  then have "\<not> isspace c" using hd_dropWhile [of isspace t] by (metis list.distinct(1) list.sel(1))
  with c(2) have "length (dropWhile (\<lambda>c. \<not> isspace c) x) \<le> length cs" by (simp add: length_dropWhile_le)
  moreover have "Suc (length cs) \<le> length t" using length_dropWhile_le [of isspace t] c(1) by simp
  ultimately show ?case by simp
qed simp

declare words_of.simps [simp del]

text \<open>
  The loop of \<open>get_ip_addresses\<close>, with the second line of the turn before (\<open>None\<close> before the first: the
  buffer is not initialised). A last name without a port takes that of the client before it.
\<close>

fun read_clients :: "nat \<Rightarrow> string option \<Rightarrow> string list \<Rightarrow> udp_client list option" where
  "read_clients 0 line2 ws = Some []"
| "read_clients (Suc room) line2 [] = Some []"
| "read_clients (Suc room) line2 (line1 # ws) = do {
     (l2, rest) \<leftarrow> (case ws of [] \<Rightarrow> map_option (\<lambda>l. (l, [])) line2 | w # ws' \<Rightarrow> Some (w, ws'));
     if length line1 < 64 \<and> length l2 < 64
     then map_option ((#) \<lparr>ip_address = line1, port = l2, sockfd = 0, active = 1\<rparr>) (read_clients room (Some l2) rest)
     else None
   }"

definition no_client :: udp_client where
  "no_client = \<lparr>ip_address = [], port = [], sockfd = 0, active = 0\<rparr>"

text \<open>The file is read over the clients, which are all inactive before.\<close>

definition get_ip_addresses :: "string \<Rightarrow> 'a udp_scheme \<Rightarrow> (udp_client list \<times> 'a udp_scheme) option" where
  "get_ip_addresses ipfile S =
     (case host_files S ipfile of
        None \<Rightarrow> do {
          S \<leftarrow> c_printf (endl ''Universal_UDP_send :: Could not find: %s - Aborting'') [AS ipfile] S;
          Some (replicate MAX_CLIENTS no_client,
            S\<lparr>errorStatus := Some ''Could not locate Universal_UDP_send IP configuration file (usually ip_addresses.txt)''\<rparr>)
        }
      | Some t \<Rightarrow> do {
          cs \<leftarrow> read_clients MAX_CLIENTS None (words_of t);
          Some (cs @ replicate (MAX_CLIENTS - length cs) no_client, S)
        })"

fun connect_clients :: "int \<Rightarrow> udp_client list \<Rightarrow> 'a udp_scheme \<Rightarrow> (udp_client list \<times> 'a udp_scheme) option" where
  "connect_clients i [] S = Some ([], S)"
| "connect_clients i (c # cs) S = do {
     (c, S) \<leftarrow> (if active c = 1 then do {
          S \<leftarrow> c_printf (endl ''Universal_UDP_Send:: Destination #%d: IP Address: %s (Port: %s)'') [AI (i + 1), AS (ip_address c), AS (port c)] S;
          (fd, S) \<leftarrow> connectsock (ip_address c) (port c) ''udp'' S;
          Some (c\<lparr>sockfd := fd\<rparr>, S)
        } else Some (c, S));
     (cs, S) \<leftarrow> connect_clients (i + 1) cs S;
     Some (c # cs, S)
   }"

record send_mask =
  sm_enable :: real
  sm_ip_file :: string

definition send_Start :: "send_mask \<Rightarrow> 'a udp_scheme \<Rightarrow> 'a udp_scheme option" where
  "send_Start M S = do {
     let client = replicate MAX_CLIENTS no_client;
     let ip_address_file = mxGetString (sm_ip_file M) 64;
     enabled \<leftarrow> int_cast (sm_enable M);
     S \<leftarrow> ssSetIWorkValue 0 enabled S;
     S \<leftarrow> ssSetIWorkValue 1 0 S;
     S \<leftarrow> ssSetPWorkValue 0 (Clients client) S;
     S \<leftarrow> ssSetPWorkValue 1 (Str ip_address_file) S;
     if enabled = 1 then do {
       let numbytes = int (8 * in_width S);
       (client, S) \<leftarrow> get_ip_addresses ip_address_file S;
       S \<leftarrow> c_printf (newline # endl ''Universal_UDP_Send:: Reference IP Address File: %s'') [AS ip_address_file] S;
       S \<leftarrow> c_printf (endl ''Universal_UDP_Send:: Sending: %d doubles (%d bytes)'') [AI (int (in_width S)), AI (wrap32 numbytes)] S;
       (client, S) \<leftarrow> connect_clients 0 client S;
       ssSetPWorkValue 0 (Clients client) S
     } else Some S
   }"

text \<open>The loop over the clients; an error of \<open>send\<close> is reported and its -1 is added all the same.\<close>

fun send_clients :: "real list \<Rightarrow> udp_client list \<Rightarrow> int \<Rightarrow> 'a udp_scheme \<Rightarrow> int \<times> 'a udp_scheme" where
  "send_clients v [] n S = (n, S)"
| "send_clients v (c # cs) n S =
     (if active c = 1
      then
        (let numbytes = net_send S (net_tick S);
             S = S\<lparr>net_tick := Suc (net_tick S), sent := sent S @ [(sockfd c, v)]\<rparr>
         in send_clients v cs (wrap32 (n + numbytes)) S)
      else send_clients v cs n S)"

definition pw_clients :: "'a udp_scheme \<Rightarrow> udp_client list option" where
  "pw_clients S = (case ssGetPWorkValue 0 S of Some (Clients cs) \<Rightarrow> Some cs | _ \<Rightarrow> None)"

definition send_Outputs :: "real \<Rightarrow> real list \<Rightarrow> 'a udp_scheme \<Rightarrow> 'a udp_scheme option" where
  "send_Outputs u0 u1 S =
     (if u0 = 1 then do {
        client \<leftarrow> pw_clients S;
        enabled \<leftarrow> ssGetIWorkValue 0 S;
        if enabled = 1 then do {
          let (byteCounter, S) = send_clients u1 client 0 S;
          total \<leftarrow> ssGetIWorkValue 1 S;
          S \<leftarrow> ssSetIWorkValue 1 (wrap32 (total + byteCounter)) S;
          Some (S\<lparr>outs := [of_int (wrap32 (total + byteCounter))]\<rparr>)
        } else Some (S\<lparr>outs := [0]\<rparr>)
      } else Some S)"

definition send_Terminate :: "'a udp_scheme \<Rightarrow> 'a udp_scheme option" where
  "send_Terminate S = do {
     client \<leftarrow> pw_clients S;
     ipfile \<leftarrow> pw_string 1 S;
     enabled \<leftarrow> ssGetIWorkValue 0 S;
     Some (if enabled = 1 then S\<lparr>shut := shut S @ map sockfd (filter (\<lambda>c. active c = 1) client)\<rparr> else S)
   }"

fun send_run :: "(real \<times> real list) list \<Rightarrow> 'a udp_scheme \<Rightarrow> 'a udp_scheme option" where
  "send_run [] S = Some S"
| "send_run ((u0, u1) # us) S = Option.bind (send_Outputs u0 u1 S) (send_run us)"

section \<open>The receiver\<close>

record recv_mask =
  rm_enable :: real
  rm_width :: real
  rm_port :: real

definition recv_InitializeSizes :: "nat \<Rightarrow> bool \<Rightarrow> bool \<Rightarrow> recv_mask \<Rightarrow> sizes option" where
  "recv_InitializeSizes params inputs_ok outputs_ok M =
     (let z = no_sizes\<lparr>num_params := 4\<rparr>
      in if params \<noteq> 4 then Some z
         else if \<not> inputs_ok then Some z
         else if \<not> outputs_ok then Some z
         else map_option (\<lambda>w. z\<lparr>out_widths := [Width w], sample_times := 1, num_rwork := 0, num_iwork := 2, num_pwork := 0\<rparr>)
           (int_cast (rm_width M)))"

text \<open>The socket, its non-blocking mode and \<open>bind\<close>; each can fail, and that ends the process.\<close>

definition recv_Start :: "recv_mask \<Rightarrow> 'a udp_scheme \<Rightarrow> 'a udp_scheme option" where
  "recv_Start M S = do {
     enabled \<leftarrow> int_cast (rm_enable M);
     S \<leftarrow> ssSetIWorkValue 0 enabled S;
     if enabled = 1 then do {
       let sd = net_socket S (net_tick S);
       let S = S\<lparr>net_tick := Suc (net_tick S)\<rparr>;
       S \<leftarrow> ssSetIWorkValue 1 sd S;
       if sd = -1 then None
       else if \<not> net_setup S 0 then None
       else do {
         n \<leftarrow> int_cast (rm_port M);
         S \<leftarrow> c_printf (endl ''COM Receive Port = %d'') [AI (uint (word_of_int n :: 16 word))] S;
         if \<not> net_setup S 1 then None else Some S
       }
     } else Some S
   }"

text \<open>
  \<open>width\<close> values are copied to the output whatever the length of the datagram; those it did not
  have are what the memory from \<open>malloc\<close> held.
\<close>

definition recv_Outputs :: "nat \<Rightarrow> 'a udp_scheme \<Rightarrow> 'a udp_scheme option" where
  "recv_Outputs width S = do {
     enabled \<leftarrow> ssGetIWorkValue 0 S;
     if enabled = 1 then do {
       sd \<leftarrow> ssGetIWorkValue 1 S;
       let answer = net_recv S (net_tick S);
       let S = S\<lparr>net_tick := Suc (net_tick S)\<rparr>;
       case answer of
         Recv_error \<Rightarrow> None
       | Would_block \<Rightarrow> Some S
       | Datagram d \<Rightarrow> Some (S\<lparr>outs := map (\<lambda>i. if i < length d then d ! i else heap S i) [0..<width]\<rparr>)
     } else Some S
   }"

definition recv_Terminate :: "'a udp_scheme \<Rightarrow> 'a udp_scheme option" where
  "recv_Terminate S = do {
     enabled \<leftarrow> ssGetIWorkValue 0 S;
     sd \<leftarrow> ssGetIWorkValue 1 S;
     Some (if enabled = 1 then S\<lparr>shut := shut S @ [sd]\<rparr> else S)
   }"

section \<open>Lemmas\<close>

text \<open>The address file of some destinations, one name and port on a line.\<close>

definition address_file :: "(string \<times> string) list \<Rightarrow> string" where
  "address_file ds = concat (map (\<lambda>(h, p). h @ '' '' @ p @ [newline]) ds)"

definition word_ok :: "string \<Rightarrow> bool" where
  "word_ok w \<longleftrightarrow> w \<noteq> [] \<and> length w < 64 \<and> list_all (\<lambda>c. \<not> isspace c) w"

definition clients_of :: "(string \<times> string) list \<Rightarrow> udp_client list" where
  "clients_of ds = map (\<lambda>(h, p). \<lparr>ip_address = h, port = p, sockfd = 0, active = 1\<rparr>) ds"

lemma isspace_blank [simp]: "isspace newline" "isspace CHR '' ''"
  by (simp_all add: isspace_def newline_def)

lemma words_of_space [simp]: "isspace s \<Longrightarrow> words_of (s # t) = words_of t"
  by (simp add: words_of.simps [of "s # t"] words_of.simps [of t])

lemma words_of_nil [simp]: "words_of [] = []"
  by (simp add: words_of.simps)

lemma words_of_word:
  assumes "word_ok w" "isspace s"
  shows "words_of (w @ s # t) = w # words_of t"
proof -
  have w: "\<forall>c \<in> set w. \<not> isspace c" "w \<noteq> []" using assms(1) by (auto simp: word_ok_def list_all_iff)
  then have "dropWhile isspace (w @ s # t) = w @ s # t" by (cases w) auto
  moreover have "takeWhile (\<lambda>c. \<not> isspace c) (w @ s # t) = w" "dropWhile (\<lambda>c. \<not> isspace c) (w @ s # t) = s # t"
    using w(1) assms(2) by (simp_all add: takeWhile_append2 dropWhile_append2)
  ultimately show ?thesis using assms(2) by (simp add: words_of.simps [of "w @ s # t"] Let_def)
qed

lemma words_of_address_file:
  "list_all (\<lambda>(h, p). word_ok h \<and> word_ok p) ds \<Longrightarrow> words_of (address_file ds) = concat (map (\<lambda>(h, p). [h, p]) ds)"
  by (induction ds) (auto simp: address_file_def words_of_word)

lemma read_clients_all:
  "list_all (\<lambda>(h, p). word_ok h \<and> word_ok p) ds \<Longrightarrow> length ds \<le> room \<Longrightarrow>
   read_clients room l2 (concat (map (\<lambda>(h, p). [h, p]) ds)) = Some (clients_of ds)"
proof (induction ds arbitrary: room l2)
  case Nil
  then show ?case by (cases room) (simp_all add: clients_of_def)
next
  case (Cons d ds)
  then obtain n where "room = Suc n" by (cases room) auto
  with Cons show ?case by (auto simp: clients_of_def word_ok_def)
qed

text \<open>The console aside, connecting takes one socket per client, in order.\<close>

definition reachable_dest :: "udp \<Rightarrow> string \<times> string \<Rightarrow> bool" where
  "reachable_dest S d \<longleftrightarrow> gethostbyname S (fst d) \<noteq> None \<and> getservbyname S (snd d) ''udp'' \<noteq> None"

definition network_up :: "udp \<Rightarrow> bool" where
  "network_up S \<longleftrightarrow> getprotobyname S ''udp'' \<noteq> None \<and> (\<forall>k. 0 \<le> net_socket S k) \<and> (\<forall>s p a. 0 \<le> net_connect S s p a)"

fun connected :: "udp \<Rightarrow> nat \<Rightarrow> (string \<times> string) list \<Rightarrow> udp_client list" where
  "connected S n [] = []"
| "connected S n ((h, p) # ds) =
     \<lparr>ip_address = h, port = p, sockfd = net_socket S n, active = 1\<rparr> # connected S (Suc n) ds"

lemma connected_cong: "net_socket S' = net_socket S \<Longrightarrow> connected S' n ds = connected S n ds"
  by (induction S n ds rule: connected.induct) simp_all

lemma connectsock_up:
  "reachable_dest S (h, p) \<Longrightarrow> network_up S \<Longrightarrow>
   connectsock h p ''udp'' S = Some (net_socket S (net_tick S), S\<lparr>net_tick := Suc (net_tick S)\<rparr>)"
  by (auto simp: connectsock_def reachable_dest_def network_up_def Let_def not_less [symmetric])

lemma connect_inactive: "connect_clients i (replicate n no_client) S = Some (replicate n no_client, S)"
  by (induction n arbitrary: i) (simp_all add: no_client_def)

lemma connect_clients_all:
  assumes "list_all (reachable_dest S) ds" "network_up S" "net_tick S = n"
  shows "\<exists>out. connect_clients i (clients_of ds @ replicate r no_client) S
    = Some (connected S n ds @ replicate r no_client, S\<lparr>net_tick := n + length ds, console := out\<rparr>)"
  using assms
proof (induction ds arbitrary: i S n)
  case Nil
  then show ?case by (intro exI [of _ "console S"]) (simp add: clients_of_def connect_inactive)
next
  case (Cons d ds)
  obtain h p where d: "d = (h, p)" by (cases d)
  let ?fmt = "endl ''Universal_UDP_Send:: Destination #%d: IP Address: %s (Port: %s)''"
  obtain t where t: "c_format (fmt_real S) ?fmt [AI (i + 1), AS h, AS p] = Some t"
    by (simp add: format_simps)
  let ?S = "S\<lparr>console := console S @ t, net_tick := Suc n\<rparr>"
  have up: "connectsock h p ''udp'' (S\<lparr>console := console S @ t\<rparr>) = Some (net_socket S n, ?S)"
    using Cons.prems by (subst connectsock_up) (simp_all add: d reachable_dest_def network_up_def)
  have "list_all (reachable_dest ?S) ds" "network_up ?S" "net_tick ?S = Suc n"
    using Cons.prems by (auto simp: list_all_iff reachable_dest_def network_up_def)
  from Cons.IH [OF this, of "i + 1"] obtain out where
    "connect_clients (i + 1) (clients_of ds @ replicate r no_client) ?S
     = Some (connected ?S (Suc n) ds @ replicate r no_client, ?S\<lparr>net_tick := Suc n + length ds, console := out\<rparr>)" by blast
  moreover have "connected ?S (Suc n) ds = connected S (Suc n) ds" by (rule connected_cong) simp
  moreover have "c_printf ?fmt [AI (i + 1), AS h, AS p] S = Some (S\<lparr>console := console S @ t\<rparr>)"
    by (simp only: c_printf_def t option.map)
  moreover have "clients_of (d # ds) = \<lparr>ip_address = h, port = p, sockfd = 0, active = 1\<rparr> # clients_of ds"
    by (simp add: clients_of_def d)
  ultimately have "connect_clients i (clients_of (d # ds) @ replicate r no_client) S
     = Some (connected S n (d # ds) @ replicate r no_client, ?S\<lparr>net_tick := Suc n + length ds, console := out\<rparr>)"
    by (simp only: connect_clients.simps append_Cons udp_client.simps if_True simp_thms Option.bind_lunit up prod.case connected.simps d)
  then show ?case by (intro exI [of _ out]) (simp only: list.size udp.simps sim.simps udp.cases_scheme add_Suc_right add_Suc add_0_right One_nat_def, simp)
qed

text \<open>One step sends to every client in order and adds the answers.\<close>

lemma wrap32_add: "wrap32 (wrap32 a + b) = wrap32 (a + b)"
  using signed_take_bit_add [of 31 "signed_take_bit 31 a" b] signed_take_bit_add [of 31 a b] by (simp add: wrap32_def)

lemma send_clients_all:
  "send_clients v (connected S0 m ds @ replicate r no_client) (wrap32 b) S
   = (wrap32 (b + (\<Sum>k<length ds. net_send S (net_tick S + k))),
      S\<lparr>net_tick := net_tick S + length ds, sent := sent S @ map (\<lambda>k. (net_socket S0 (m + k), v)) [0..<length ds]\<rparr>)"
proof (induction ds arbitrary: m b S)
  case Nil
  have "send_clients v (replicate r no_client) (wrap32 b) S = (wrap32 b, S)"
    by (induction r) (simp_all add: no_client_def)
  then show ?case by simp
next
  case (Cons d ds)
  obtain h p where d: "d = (h, p)" by (cases d)
  let ?S = "S\<lparr>net_tick := Suc (net_tick S), sent := sent S @ [(net_socket S0 m, v)]\<rparr>"
  have "map (\<lambda>k. (net_socket S0 (m + k), v)) [0..<length (d # ds)]
     = (net_socket S0 m, v) # map (\<lambda>k. (net_socket S0 (Suc m + k), v)) [0..<length ds]"
    by (simp add: upt_rec [of 0 "Suc (length ds)"] flip: map_Suc_upt del: upt_Suc) 
  moreover have "(\<Sum>k<length (d # ds). net_send S (net_tick S + k))
     = net_send S (net_tick S) + (\<Sum>k<length ds. net_send S (Suc (net_tick S) + k))"
    by (simp only: list.size sum.lessThan_Suc_shift add_0_right add_Suc_right add_Suc One_nat_def)
  ultimately show ?case
    using Cons.IH [of "Suc m" "b + net_send S (net_tick S)" ?S]
    by (simp add: d wrap32_add algebra_simps)
qed

definition triggered :: "(real \<times> real list) list \<Rightarrow> real list list" where
  "triggered us = map snd (filter (\<lambda>u. fst u = 1) us)"

text \<open>What a run has sent after some triggered steps, and what its output is.\<close>

definition sends :: "udp \<Rightarrow> nat \<Rightarrow> real list list \<Rightarrow> (int \<times> real list) list" where
  "sends S n vs = concat (map (\<lambda>v. map (\<lambda>k. (net_socket S (net_tick S + k), v)) [0..<n]) vs)"

definition total :: "udp \<Rightarrow> nat \<Rightarrow> real list list \<Rightarrow> int" where
  "total S n vs = (\<Sum>k<n * length vs. net_send S (net_tick S + n + k))"

lemma sends_simps [simp]:
  "sends S n [] = []" "sends S n (vs @ [v]) = sends S n vs @ map (\<lambda>k. (net_socket S (net_tick S + k), v)) [0..<n]"
  by (simp_all add: sends_def)

lemma sum_split: "(\<Sum>k<a + b. f k) = (\<Sum>k<a. f k) + (\<Sum>k<b. f (a + k))" for f :: "nat \<Rightarrow> int"
  by (induction b) (simp_all add: algebra_simps)

lemma total_simps [simp]:
  "total S n [] = 0"
  "total S n (vs @ [v]) = total S n vs + (\<Sum>k<n. net_send S (net_tick S + n + n * length vs + k))"
  using sum_split [of "\<lambda>k. net_send S (net_tick S + n + k)" "n * length vs" n]
  by (simp_all add: total_def algebra_simps)

text \<open>The invariant of the sender between two steps.\<close>

definition sending :: "udp \<Rightarrow> (string \<times> string) list \<Rightarrow> real list list \<Rightarrow> udp \<Rightarrow> bool" where
  "sending S0 ds vs S \<longleftrightarrow>
     iwork S = [1, wrap32 (total S0 (length ds) vs)]
   \<and> (\<exists>ipfile. pwork S = [Clients (connected S0 (net_tick S0) ds @ replicate (MAX_CLIENTS - length ds) no_client), Str ipfile])
   \<and> net_send S = net_send S0 \<and> net_tick S = net_tick S0 + length ds + length ds * length vs
   \<and> shut S = shut S0 \<and> sent S = sent S0 @ sends S0 (length ds) vs
   \<and> (if vs = [] then outs S = outs S0 else outs S = [of_int (wrap32 (total S0 (length ds) vs))])"

lemma send_step:
  assumes "sending S0 ds vs S"
  shows "\<exists>S'. send_Outputs u v S = Some S' \<and> sending S0 ds (if u = 1 then vs @ [v] else vs) S'"
proof (cases "u = 1")
  case True
  obtain ipfile where S: "iwork S = [1, wrap32 (total S0 (length ds) vs)]"
    "pwork S = [Clients (connected S0 (net_tick S0) ds @ replicate (MAX_CLIENTS - length ds) no_client), Str ipfile]"
    "net_send S = net_send S0" "net_tick S = net_tick S0 + length ds + length ds * length vs"
    "shut S = shut S0" "sent S = sent S0 @ sends S0 (length ds) vs"
    using assms by (auto simp: sending_def)
  have "wrap32 0 = 0" by (simp add: wrap32_def)
  note all = send_clients_all [of v S0 "net_tick S0" ds "MAX_CLIENTS - length ds" 0 S, unfolded this]
  define N where "N = (\<Sum>k<length ds. net_send S0 (net_tick S0 + length ds + length ds * length vs + k))"
  have w: "wrap32 (wrap32 a + wrap32 b) = wrap32 (a + b)" for a b
    by (simp add: wrap32_def signed_take_bit_add)
  show ?thesis
    using all by (simp add: True send_Outputs_def pw_clients_def work_defs S w flip: N_def)
      (simp add: sending_def S N_def w)
next
  case False
  with assms show ?thesis by (simp add: send_Outputs_def)
qed

lemma send_steps:
  "sending S0 ds vs S \<Longrightarrow> \<exists>S'. send_run us S = Some S' \<and> sending S0 ds (vs @ triggered us) S'"
proof (induction us arbitrary: vs S)
  case Nil
  then show ?case by (simp add: triggered_def)
next
  case (Cons u us)
  obtain t v where u: "u = (t, v)" by (cases u)
  from send_step [OF Cons.prems, of t v] obtain S' where
    "send_Outputs t v S = Some S'" "sending S0 ds (if t = 1 then vs @ [v] else vs) S'" by blast
  with Cons.IH [OF this(2)] show ?case by (auto simp: u triggered_def split: if_splits)
qed

lemma get_ip_addresses_ok:
  assumes "list_all (\<lambda>(h, p). word_ok h \<and> word_ok p) ds" "length ds \<le> MAX_CLIENTS"
    and "host_files S f = Some (address_file ds)"
  shows "get_ip_addresses f S = Some (clients_of ds @ replicate (MAX_CLIENTS - length ds) no_client, S)"
  using assms by (simp add: get_ip_addresses_def words_of_address_file read_clients_all) (simp add: clients_of_def)

lemma send_Start_ok:
  assumes "list_all (\<lambda>(h, p). word_ok h \<and> word_ok p) ds" "length ds \<le> MAX_CLIENTS"
    and "host_files S (mxGetString (sm_ip_file M) 64) = Some (address_file ds)"
    and "list_all (reachable_dest S) ds" "network_up S" "sm_enable M = 1"
  shows "\<exists>S'. send_Start M (work_vectors (send_InitializeSizes 3 True True) S) = Some S' \<and> sending S ds [] S'"
proof -
  define S1 where "S1 = work_vectors (send_InitializeSizes 3 True True) S"
  have S1: "iwork S1 = [0, 0]" "pwork S1 = [Null, Null]" "outs S1 = outs S" "net_tick S1 = net_tick S" "sent S1 = sent S"
    "shut S1 = shut S" "net_send S1 = net_send S" "net_socket S1 = net_socket S" "host_files S1 = host_files S" "in_width S1 = in_width S"
    by (simp_all add: S1_def work_vectors_def send_InitializeSizes_def no_sizes_def numeral_eq_Suc)
  define f where "f = mxGetString (sm_ip_file M) 64"
  define S2 where "S2 = S1\<lparr>iwork := [1, 0], pwork := [Clients (replicate MAX_CLIENTS no_client), Str f]\<rparr>"
  obtain t1 where t1: "c_format (fmt_real S) (newline # endl ''Universal_UDP_Send:: Reference IP Address File: %s'') [AS f] = Some t1"
    by (simp add: format_simps)
  obtain t2 where t2: "c_format (fmt_real S) (endl ''Universal_UDP_Send:: Sending: %d doubles (%d bytes)'')
      [AI (int (in_width S)), AI (wrap32 (int (8 * in_width S)))] = Some t2"
    by (simp add: format_simps)
  define S3 where "S3 = S2\<lparr>console := (console S @ t1) @ t2\<rparr>"
  have fields: "fmt_real S2 = fmt_real S" "in_width S2 = in_width S" "console S2 = console S"
    by (simp_all add: S2_def S1_def work_vectors_def)
  have up: "list_all (reachable_dest S3) ds" "network_up S3" "net_tick S3 = net_tick S"
    using assms(4,5) by (simp_all add: list_all_iff reachable_dest_def network_up_def S3_def S2_def S1_def work_vectors_def)
  from connect_clients_all [OF up] obtain out where
    c: "connect_clients 0 (clients_of ds @ replicate (MAX_CLIENTS - length ds) no_client) S3
     = Some (connected S3 (net_tick S) ds @ replicate (MAX_CLIENTS - length ds) no_client,
         S3\<lparr>net_tick := net_tick S + length ds, console := out\<rparr>)" by blast
  have con: "connected S3 (net_tick S) ds = connected S (net_tick S) ds"
    by (rule connected_cong) (simp add: S3_def S2_def S1_def work_vectors_def)
  have g: "get_ip_addresses f S2 = Some (clients_of ds @ replicate (MAX_CLIENTS - length ds) no_client, S2)"
    using assms(1-3) by (intro get_ip_addresses_ok) (simp_all add: S2_def S1 f_def)
  have p: "c_printf (newline # endl ''Universal_UDP_Send:: Reference IP Address File: %s'') [AS f] S2 = Some (S2\<lparr>console := console S @ t1\<rparr>)"
    "c_printf (endl ''Universal_UDP_Send:: Sending: %d doubles (%d bytes)'') [AI (int (in_width S)), AI (wrap32 (int (8 * in_width S)))]
       (S2\<lparr>console := console S @ t1\<rparr>) = Some S3"
    by (simp only: c_printf_def fields t1 option.map) (simp only: c_printf_def fields t2 option.map S3_def sim.simps udp.simps, simp add: fields t2 [simplified])
  have "int_cast 1 = Some 1" by (simp add: int_cast_def trunc_def)
  then have "send_Start M S1 = ssSetPWorkValue 0 (Clients (connected S (net_tick S) ds @ replicate (MAX_CLIENTS - length ds) no_client))
      (S3\<lparr>net_tick := net_tick S + length ds, console := out\<rparr>)"
    using g p c con fields
    by (simp add: send_Start_def assms(6) work_defs S1 Let_def flip: f_def S2_def)
  moreover have "wrap32 0 = 0" by (simp add: wrap32_def)
  ultimately show ?thesis
    by (simp add: work_defs S3_def S2_def S1 sending_def flip: S1_def)
qed

section \<open>Theorems\<close>

text \<open>
  C29. A session of the sender, from an address file with up to 20 destinations: every triggered
  step sends the values once to every destination, in the order of the file, to the socket opened
  for it; the output is the sum of all answers of \<open>send\<close> in the session, a -1 of a failed one included, as a
  32-bit integer; and at the end every socket is closed once.
\<close>

theorem udp_send_account:
  fixes S :: udp
  assumes "list_all (\<lambda>(h, p). word_ok h \<and> word_ok p) ds" "length ds \<le> MAX_CLIENTS"
    and "host_files S (mxGetString (sm_ip_file M) 64) = Some (address_file ds)"
    and "list_all (reachable_dest S) ds" "network_up S" "sm_enable M = 1" "triggered us \<noteq> []"
  shows "\<exists>S1 S2 S3.
     send_Start M (work_vectors (send_InitializeSizes 3 True True) S) = Some S1
   \<and> send_run us S1 = Some S2 \<and> send_Terminate S2 = Some S3
   \<and> sent S2 = sent S @ concat (map (\<lambda>v. map (\<lambda>k. (net_socket S (net_tick S + k), v)) [0..<length ds]) (triggered us))
   \<and> outs S2 = [of_int (wrap32 (\<Sum>k<length ds * length (triggered us). net_send S (net_tick S + length ds + k)))]
   \<and> shut S3 = shut S @ map (\<lambda>k. net_socket S (net_tick S + k)) [0..<length ds]"
proof -
  obtain S1 where S1: "send_Start M (work_vectors (send_InitializeSizes 3 True True) S) = Some S1" "sending S ds [] S1"
    using send_Start_ok [OF assms(1-6)] by blast
  from send_steps [OF S1(2), of us] obtain S2 where S2: "send_run us S1 = Some S2" "sending S ds (triggered us) S2" by auto
  have socks: "map sockfd (filter (\<lambda>c. active c = 1) (connected S n ds @ replicate r no_client))
      = map (\<lambda>k. net_socket S (n + k)) [0..<length ds]" for n r
    by (induction S n ds rule: connected.induct)
      (simp_all add: no_client_def upt_rec [of 0] del: upt_Suc flip: map_Suc_upt)
  have "\<exists>S3. send_Terminate S2 = Some S3 \<and> shut S3 = shut S @ map (\<lambda>k. net_socket S (net_tick S + k)) [0..<length ds]"
    using S2(2) socks [of "net_tick S" "MAX_CLIENTS - length ds"]
    by (auto simp: send_Terminate_def sending_def pw_clients_def work_defs)
  with S1(1) S2 assms(7) show ?thesis by (auto simp: sending_def sends_def total_def)
qed


text \<open>
  A session of two destinations with two triggered steps of three, in which the third send fails.
\<close>

theorem udp_send_account_witness:
  "\<exists>(S :: udp) M us. \<exists>S1 S2 S3.
     send_Start M (work_vectors (send_InitializeSizes 3 True True) S) = Some S1
   \<and> send_run us S1 = Some S2 \<and> send_Terminate S2 = Some S3
   \<and> sent S2 = [(4, [1]), (5, [1]), (4, [3]), (5, [3])] \<and> outs S2 = [23] \<and> shut S3 = [4, 5]"
proof -
  define ds where "ds = [(''a'', ''1''), (''b'', ''2'')]"
  define us :: "(real \<times> real list) list" where "us = [(1, [1]), (0, [2]), (1, [3])]"
  define S :: udp where "S = \<lparr>sampleTime = 1, in_width = 1, iwork = [], rwork = [], pwork = [], outs = [0], errorStatus = None,
     files = (\<lambda>_. None), streams = (\<lambda>_. None), fs_ok = (\<lambda>_. True), fs_tick = 0, host_files = (\<lambda>_. Some (address_file ds)),
     console = [], fmt_real = (\<lambda>_ _. []), dbl = id,
     getservbyname = (\<lambda>_ _. Some 7), gethostbyname = (\<lambda>_. Some 9), inet_addr = (\<lambda>_. 0), getprotobyname = (\<lambda>_. Some 17),
     net_socket = (\<lambda>k. int k + 4), net_connect = (\<lambda>_ _ _. 0), net_send = (\<lambda>k. if k = 4 then - 1 else 8),
     net_recv = (\<lambda>_. Would_block), net_setup = (\<lambda>_. True), heap = (\<lambda>_. 0), net_tick = 0, sent = [], shut = []\<rparr>"
  define M where "M = \<lparr>sm_enable = 1, sm_ip_file = ''f''\<rparr>"
  have ok: "list_all (\<lambda>(h, p). word_ok h \<and> word_ok p) ds" "length ds \<le> MAX_CLIENTS"
    "list_all (reachable_dest S) ds" "network_up S" "sm_enable M = 1" "triggered us \<noteq> []"
    "host_files S (mxGetString (sm_ip_file M) 64) = Some (address_file ds)"
    by (simp_all add: ds_def us_def M_def word_ok_def isspace_def MAX_CLIENTS_def reachable_dest_def network_up_def S_def triggered_def)
  have "triggered us = [[1], [3]]" "length ds = 2" by (simp_all add: triggered_def us_def ds_def)
  moreover have "wrap32 23 = 23" by (rule wrap32_id) simp_all
  ultimately show ?thesis
    using udp_send_account [OF ok(1,2,7,3-6)]
    by - (rule exI [of _ S], rule exI [of _ M], rule exI [of _ us], simp add: S_def numeral_eq_Suc lessThan_Suc)
qed

text \<open>A receiver of the width of the sender puts out the values of the datagram it gets.\<close>

lemma receiver_delivers:
  "iwork S = [1, sd] \<Longrightarrow> net_recv S (net_tick S) = Datagram v \<Longrightarrow>
   \<exists>S'. recv_Outputs (length v) S = Some S' \<and> outs S' = v"
  by (simp add: recv_Outputs_def work_defs map_upt_eqI)

text \<open>A shorter one leaves the rest of the output to what the memory held.\<close>

lemma receiver_short_datagram:
  "iwork S = [1, sd] \<Longrightarrow> net_recv S (net_tick S) = Datagram v \<Longrightarrow>
   \<exists>S'. recv_Outputs (length v + n) S = Some S' \<and> outs S' = v @ map (heap S) [length v..<length v + n]"
  by (auto simp: recv_Outputs_def work_defs nth_append Let_def intro!: nth_equalityI)

text \<open>A receiver that has started: without a datagram the output is kept; an error ends the process.\<close>

lemma receiver_keeps:
  "iwork S = [1, sd] \<Longrightarrow> net_recv S (net_tick S) = Would_block \<Longrightarrow> map_option outs (recv_Outputs w S) = Some (outs S)"
  "iwork S = [1, sd] \<Longrightarrow> net_recv S (net_tick S) = Recv_error \<Longrightarrow> recv_Outputs w S = None"
  by (simp_all add: recv_Outputs_def work_defs)

end
