(* ===== verification/WriteStk.thy ===== *)
theory WriteStk
  imports SimStruct
begin

text \<open>
  The recorder WriteSTK (SFunctions/WriteSTK/WriteSTK.c): an ephemeris, an attitude and an
  articulation file for the viewer STK. The number of points stands at the head of the first two
  and is not known before the end, so a blank line is written there and overwritten at the end. The
  theorem says what the finished files hold: that the number goes where it belongs, damages nothing
  and is the number of the lines that follow.
\<close>

section \<open>The block\<close>

record stk_mask =
  wm_sample_time :: real
  wm_enable :: real
  wm_ephemeris :: real
  wm_attitude :: real
  wm_articulation :: real
  wm_prefix :: string
  wm_suffix :: string
  wm_number :: real
  wm_artinfo :: string
  wm_epoch :: string
  wm_body :: string
  wm_axes :: string

definition stk_InitializeSizes :: "nat \<Rightarrow> bool \<Rightarrow> bool \<Rightarrow> stk_mask \<Rightarrow> sizes option" where
  "stk_InitializeSizes params inputs_ok outputs_ok M =
     (let z = no_sizes\<lparr>num_params := 12\<rparr>
      in if params \<noteq> 12 then Some z
         else if \<not> inputs_ok then Some z
         else do {
           n \<leftarrow> int_cast (wm_number M);
           let z = z\<lparr>in_widths := [Width 1, Width 11, Width n], feedthrough := [True, True, True]\<rparr>;
           Some (if \<not> outputs_ok then z else z\<lparr>sample_times := 1, num_rwork := 0, num_iwork := 7, num_pwork := 6\<rparr>)
         })"

definition STK_version :: string where
  "STK_version = ''stk.v.6.1''"

text \<open>The two lines before the number of points, that line, and what follows it.\<close>

definition stk_begin :: "string \<Rightarrow> (string \<times> arg list) list" where
  "stk_begin what = [(''%s'', [AS STK_version]), (''BEGIN '' @ what, [])]"

definition stk_points :: "string \<Rightarrow> string" where
  "stk_points what = ''NumberOf'' @ what @ ''Points''"

definition stk_blank :: "string \<Rightarrow> (string \<times> arg list) list" where
  "stk_blank what = [(stk_points what @ replicate 31 (CHR '' ''), []), ([], [])]"

definition e_settings :: "string \<Rightarrow> string \<Rightarrow> (string \<times> arg list) list" where
  "e_settings EpochStrSTK CentralBody =
     [(''ScenarioEpoch           %s'', [AS EpochStrSTK]),
      (''InterpolationMethod     %s'', [AS ''Lagrange'']),
      (''InterpolationSamplesM1  %d'', [AI 5]),
      (''CentralBody             %s'', [AS CentralBody]),
      (''CoordinateSystem        %s'', [AS ''Fixed'']),
      (''BlockingFactor          %d'', [AI 20]),
      (''EphemerisLLATimePosVel'', []), ([], [])]"

definition a_settings :: "string \<Rightarrow> string \<Rightarrow> string \<Rightarrow> (string \<times> arg list) list" where
  "a_settings EpochStrSTK CentralBody CoordAxes =
     [(''BlockingFactor          %d'', [AI 20]),
      (''InterpolationOrder      %d'', [AI 1]),
      (''CentralBody             %s'', [AS CentralBody]),
      (''ScenarioEpoch           %s'', [AS EpochStrSTK]),
      (''CoordinateAxes          %s'', [AS CoordAxes]),
      (''AttitudeTimeQuaternions'', []), ([], [])]"

text \<open>\<open>strcat\<close> into a buffer of \<open>n\<close> characters.\<close>

definition strcat :: "nat \<Rightarrow> string \<Rightarrow> string \<Rightarrow> string option" where
  "strcat n a b = (if length (a @ b) < n then Some (a @ b) else None)"

text \<open>\<open>strtok\<close> with a blank and a newline as separators: the token and what is left.\<close>

definition strtok :: "string \<Rightarrow> (string \<times> string) option" where
  "strtok s =
     (let separator = (\<lambda>c. c = CHR '' '' \<or> c = newline); t = dropWhile separator s
      in if t = [] then None
         else Some (takeWhile (\<lambda>c. \<not> separator c) t, drop 1 (dropWhile (\<lambda>c. \<not> separator c) t)))"

text \<open>
  The loop over the articulation file. Its test for the end of the file is never true; after the
  last line the buffer holds the line before, cut off by \<open>strtok\<close>, and the missing second word is a
  fault, like that of any line of one word.
\<close>

fun read_articulations :: "nat \<Rightarrow> string \<Rightarrow> (string \<times> string) list option" where
  "read_articulations 0 t = Some []"
| "read_articulations (Suc n) t =
     (if t = [] then None
      else do {
        let (line1, t) = fgets 99 t;
        (name, rest) \<leftarrow> strtok line1;
        (cmd, _) \<leftarrow> strtok rest;
        if length name < 64 \<and> length cmd < 64
        then map_option ((#) (name, cmd)) (read_articulations n t)
        else None
      })"

text \<open>One of the two files with a number of points: its stream goes to entry \<open>k\<close>, the position to entry \<open>j\<close>.\<close>

definition stk_open :: "string \<Rightarrow> string \<Rightarrow> nat \<Rightarrow> nat \<Rightarrow> (string \<times> arg list) list \<Rightarrow> string \<Rightarrow> sim \<Rightarrow> sim option" where
  "stk_open fileprefix ext k j settings what S = do {
     fname \<leftarrow> strcat 32 fileprefix ext;
     (stream, S) \<leftarrow> fopen fname ModeW S;
     S \<leftarrow> ssSetPWorkValue k stream S;
     S \<leftarrow> fprintf_lines stream (stk_begin what) S;
     nPointsPos \<leftarrow> fgetpos stream S;
     S \<leftarrow> ssSetPWorkValue j (Pos nPointsPos) S;
     S \<leftarrow> fprintf_lines stream (stk_blank what) S;
     fprintf_lines stream settings S
   }"

definition stk_Start :: "stk_mask \<Rightarrow> sim \<Rightarrow> sim option" where
  "stk_Start M S = do {
     enable_record \<leftarrow> int_cast (wm_enable M);
     record_ephemeris \<leftarrow> int_cast (wm_ephemeris M);
     record_attitude \<leftarrow> int_cast (wm_attitude M);
     record_articulation \<leftarrow> int_cast (wm_articulation M);
     numArticulations \<leftarrow> int_cast (wm_number M);
     S \<leftarrow> ssSetIWorkValue 0 enable_record S;
     S \<leftarrow> ssSetIWorkValue 1 record_ephemeris S;
     S \<leftarrow> ssSetIWorkValue 2 record_attitude S;
     S \<leftarrow> ssSetIWorkValue 3 record_articulation S;
     S \<leftarrow> ssSetIWorkValue 4 numArticulations S;
     S \<leftarrow> ssSetIWorkValue 5 0 S;
     S \<leftarrow> ssSetIWorkValue 6 0 S;
     if enable_record = 1 then do {
       let fileprefix = mxGetString (wm_prefix M) 32;
       let EpochStrSTK = mxGetString (wm_epoch M) 64;
       let CentralBody = mxGetString (wm_body M) 32;
       S \<leftarrow> (if record_ephemeris = 1
             then stk_open fileprefix ''.e'' 0 3 (e_settings EpochStrSTK CentralBody) ''Ephemeris'' S
             else Some S);
       S \<leftarrow> (if record_attitude = 1
             then stk_open fileprefix ''.a'' 1 4 (a_settings EpochStrSTK CentralBody (mxGetString (wm_axes M) 32)) ''Attitude'' S
             else Some S);
       if record_articulation = 1 then do {
         artfile \<leftarrow> strcat 32 fileprefix (mxGetString (wm_suffix M) 10);
         (art_stream, S) \<leftarrow> fopen artfile ModeW S;
         S \<leftarrow> ssSetPWorkValue 2 art_stream S;
         S \<leftarrow> fprintf_lines art_stream [(''SPREADSHEET'', []), ([], [])] S;
         t \<leftarrow> host_files S (mxGetString (wm_artinfo M) 64);
         artinfo \<leftarrow> read_articulations (nat numArticulations) t;
         ssSetPWorkValue 5 (Articulations artinfo) S
       } else Some S
     } else Some S
   }"

definition stk_row :: "pval \<Rightarrow> real list \<Rightarrow> sim \<Rightarrow> sim option" where
  "stk_row stream xs S = Option.bind (fprintf_each (''%.8e'' @ [tab]) stream xs S) (fprintf stream [newline] [])"

definition pw_articulations :: "sim \<Rightarrow> (string \<times> string) list option" where
  "pw_articulations S = (case ssGetPWorkValue 5 S of Some (Articulations xs) \<Rightarrow> Some xs | _ \<Rightarrow> None)"

definition art_line :: string where
  "art_line = ''ARTICULATION  %.4f'' @ [tab] @ ''%.4f'' @ [tab] @ '' 0 0 0 0 0 %s'' @ [tab] @ ''%s'' @ [tab] @ ''%.2f'' @ [tab] @ ''%.2f''"

definition count_up :: "nat \<Rightarrow> sim \<Rightarrow> sim option" where
  "count_up k S = Option.bind (ssGetIWorkValue k S) (\<lambda>n. ssSetIWorkValue k (wrap32 (n + 1)) S)"

text \<open>A line of a file with a number of points, counted in entry \<open>i\<close>.\<close>

definition stk_point :: "pval \<Rightarrow> real list \<Rightarrow> nat \<Rightarrow> sim \<Rightarrow> sim option" where
  "stk_point stream xs i S = Option.bind (stk_row stream xs S) (count_up i)"

definition stk_Outputs :: "stk_mask \<Rightarrow> real \<Rightarrow> real list \<Rightarrow> real list \<Rightarrow> sim \<Rightarrow> sim option" where
  "stk_Outputs M uRecord uSTKVector uArticulations S = do {
     e_stream \<leftarrow> ssGetPWorkValue 0 S;
     a_stream \<leftarrow> ssGetPWorkValue 1 S;
     art_stream \<leftarrow> ssGetPWorkValue 2 S;
     enable_record \<leftarrow> ssGetIWorkValue 0 S;
     record_ephemeris \<leftarrow> ssGetIWorkValue 1 S;
     record_attitude \<leftarrow> ssGetIWorkValue 2 S;
     record_articulation \<leftarrow> ssGetIWorkValue 3 S;
     numArticulations \<leftarrow> ssGetIWorkValue 4 S;
     if uRecord > 1 / 2 then do {
       S \<leftarrow> (if enable_record = 1 \<and> record_ephemeris = 1
             then stk_point e_stream (take 7 uSTKVector) 5 S
             else Some S);
       S \<leftarrow> (if enable_record = 1 \<and> record_attitude = 1
             then stk_point a_stream (uSTKVector ! 0 # take 4 (drop 7 uSTKVector)) 6 S
             else Some S);
       if enable_record = 1 \<and> record_articulation = 1 then do {
         artinfo \<leftarrow> pw_articulations S;
         if length artinfo < nat numArticulations \<or> length uArticulations < nat numArticulations then None
         else fprintf_lines art_stream
           (map (\<lambda>i. (art_line, [AD (uSTKVector ! 0), AD (wm_sample_time M), AS (fst (artinfo ! i)), AS (snd (artinfo ! i)),
              AD (uArticulations ! i), AD (uArticulations ! i)])) [0..<nat numArticulations]) S
       } else Some S
     } else Some S
   }"

definition stk_report :: "string \<Rightarrow> string \<Rightarrow> string" where
  "stk_report spelled ext = ''WriteSTK : '' @ [CHR 0x27] @ ''%s'' @ [CHR 0x27] @ '' '' @ spelled @ '' data written to '' @ [CHR 0x27]
     @ ''%s'' @ ext @ [CHR 0x27] @ '' (%d points)''"

text \<open>The end of one of the two files with a number of points.\<close>

definition stk_close :: "string \<Rightarrow> string \<Rightarrow> nat \<Rightarrow> nat \<Rightarrow> nat \<Rightarrow> string \<Rightarrow> string \<Rightarrow> sim \<Rightarrow> sim option" where
  "stk_close fileprefix what k j i spelled ext S = do {
     stream \<leftarrow> ssGetPWorkValue k S;
     S \<leftarrow> fprintf_lines stream [([], []), (''END '' @ what, []), ([], [])] S;
     nPointsPos \<leftarrow> (case ssGetPWorkValue j S of Some (Pos pos) \<Rightarrow> Some pos | _ \<Rightarrow> None);
     S \<leftarrow> fsetpos stream nPointsPos S;
     n \<leftarrow> ssGetIWorkValue i S;
     S \<leftarrow> fprintf stream (endl (stk_points what @ '' %d'')) [AI n] S;
     S \<leftarrow> c_printf (endl (stk_report spelled ext)) [AS fileprefix, AS fileprefix, AI n] S;
     fclose stream S
   }"

definition stk_Terminate :: "stk_mask \<Rightarrow> sim \<Rightarrow> sim option" where
  "stk_Terminate M S = do {
     enable_record \<leftarrow> ssGetIWorkValue 0 S;
     record_ephemeris \<leftarrow> ssGetIWorkValue 1 S;
     record_attitude \<leftarrow> ssGetIWorkValue 2 S;
     record_articulation \<leftarrow> ssGetIWorkValue 3 S;
     let fileprefix = mxGetString (wm_prefix M) 32;
     let artsuffix = mxGetString (wm_suffix M) 10;
     S \<leftarrow> (if enable_record = 1 \<and> record_ephemeris = 1 then stk_close fileprefix ''Ephemeris'' 0 3 5 ''Emphemeris'' ''.e'' S else Some S);
     S \<leftarrow> (if enable_record = 1 \<and> record_attitude = 1 then stk_close fileprefix ''Attitude'' 1 4 6 ''Attitude'' ''.a'' S else Some S);
     if enable_record = 1 \<and> record_articulation = 1 then do {
       art_stream \<leftarrow> ssGetPWorkValue 2 S;
       S \<leftarrow> c_printf (endl (''WriteSTK : '' @ [CHR 0x27] @ ''%s'' @ [CHR 0x27] @ '' Articulation data written to '' @ [CHR 0x27]
              @ ''%s%s'' @ [CHR 0x27])) [AS fileprefix, AS fileprefix, AS artsuffix] S;
       fclose art_stream S
     } else Some S
   }"

text \<open>A step: the trigger, the eleven values and the articulations.\<close>

type_synonym stk_step = "real \<times> real list \<times> real list"

fun stk_run :: "stk_mask \<Rightarrow> stk_step list \<Rightarrow> sim \<Rightarrow> sim option" where
  "stk_run M [] S = Some S"
| "stk_run M ((u0, u1, u2) # us) S = Option.bind (stk_Outputs M u0 u1 u2 S) (stk_run M us)"

definition stk_session :: "stk_mask \<Rightarrow> stk_step list \<Rightarrow> sim \<Rightarrow> sim option" where
  "stk_session M us S = do {
     z \<leftarrow> stk_InitializeSizes 12 True True M;
     S \<leftarrow> stk_Start M (work_vectors z S);
     S \<leftarrow> stk_run M us S;
     stk_Terminate M S
   }"

section \<open>Texts\<close>

definition plain :: "string \<Rightarrow> bool" where
  "plain s \<longleftrightarrow> list_all (\<lambda>c. c \<noteq> CHR ''%'') s"

lemma c_format_plain: "plain s \<Longrightarrow> c_format fr (s @ t) as = map_option ((@) s) (c_format fr t as)"
  by (cases "c_format fr t as"; induction s) (simp_all add: plain_def)

lemma c_format_only_plain: "plain s \<Longrightarrow> c_format fr s as = Some s"
  using c_format_plain [of s fr "[]" as] by simp

lemma plain_simps [simp]: "plain []" "plain (c # s) \<longleftrightarrow> c \<noteq> CHR ''%'' \<and> plain s" "plain (s @ t) \<longleftrightarrow> plain s \<and> plain t"
  "plain (replicate n CHR '' '')"
  by (auto simp: plain_def list_all_iff)

definition stk_begin_text :: "string \<Rightarrow> string" where
  "stk_begin_text what = endl STK_version @ endl (''BEGIN '' @ what)"

lemma stk_begin_lines: "plain what \<Longrightarrow> lines_text fr (stk_begin what) = Some (stk_begin_text what)"
  by (simp add: stk_begin_def stk_begin_text_def c_format_only_plain endl_def newline_def c_conv_def conversion_def)

lemma stk_blank_lines:
  "plain what \<Longrightarrow> lines_text fr (stk_blank what) = Some (stk_points what @ replicate 31 (CHR '' '') @ [newline, newline])"
  by (simp add: stk_blank_def c_format_only_plain endl_def stk_points_def newline_def)

lemma settings_lines: "lines_text fr (e_settings x y) \<noteq> None" "lines_text fr (a_settings x y z) \<noteq> None"
  by (simp_all add: e_settings_def a_settings_def format_simps)

definition row_text :: "(string \<Rightarrow> real \<Rightarrow> string) \<Rightarrow> real list \<Rightarrow> string" where
  "row_text fr xs = endl (concat (map (\<lambda>x. fr ''.8e'' x @ [tab]) xs))"

lemma stk_row_end: "at_end f c S \<Longrightarrow> stk_row (Stream f) xs S = Some (grown f c (map Ch (row_text (fmt_real S) xs)) S)"
proof -
  assume fin: "at_end f c S"
  have fmt: "c_format (fmt_real S) (''%.8e'' @ [tab]) [AD x] = Some (fmt_real S ''.8e'' x @ [tab])" for x
    by (simp add: format_simps tab_def)
  have each: "fprintf_each (''%.8e'' @ [tab]) (Stream f) xs S
      = Some (grown f c (map Ch (concat (map (\<lambda>x. fmt_real S ''.8e'' x @ [tab]) xs))) S)"
    by (rule fprintf_each_end [OF fmt fin])
  show ?thesis
    by (simp only: stk_row_def each Option.bind.simps)
      (simp add: fprintf_def fput_end [OF at_end_grown] newline_def row_text_def endl_def)
qed

text \<open>The finished file.\<close>

definition stk_file :: "(string \<Rightarrow> real \<Rightarrow> string) \<Rightarrow> string \<Rightarrow> (string \<times> arg list) list \<Rightarrow> real list list \<Rightarrow> string" where
  "stk_file fr what settings rows =
     (let digits = show_nat (length rows)
      in stk_begin_text what
       @ endl (stk_points what @ '' '' @ digits)
       @ endl (replicate (29 - length digits) (CHR '' '')) @ endl []
       @ the (lines_text fr settings)
       @ concat (map (row_text fr) rows)
       @ endl [] @ endl (''END '' @ what) @ endl [])"

text \<open>The same before its end.\<close>

definition stk_open_file :: "(string \<Rightarrow> real \<Rightarrow> string) \<Rightarrow> string \<Rightarrow> (string \<times> arg list) list \<Rightarrow> real list list \<Rightarrow> string" where
  "stk_open_file fr what settings rows =
     stk_begin_text what @ stk_points what @ replicate 31 (CHR '' '') @ [newline, newline]
       @ the (lines_text fr settings) @ concat (map (row_text fr) rows)"

section \<open>A session\<close>

definition elsewhere :: "string \<Rightarrow> sim \<Rightarrow> sim \<Rightarrow> bool" where
  "elsewhere f S S' \<longleftrightarrow> (\<forall>g. g \<noteq> f \<longrightarrow> files S' g = files S g \<and> streams S' g = streams S g)
     \<and> iwork S' = iwork S \<and> fmt_real S' = fmt_real S \<and> fs_ok S' = fs_ok S"

lemma elsewhere_end: "elsewhere f S S' \<Longrightarrow> g \<noteq> f \<Longrightarrow> at_end g c S' = at_end g c S"
  by (simp add: elsewhere_def at_end_def)

lemma stk_open_run:
  assumes "plain what" "lines_text (fmt_real S) settings \<noteq> None" "length (p @ ext) < 32"
    and S: "fs_ok S = (\<lambda>_. True)" "streams S (p @ ext) = None" "k < length (pwork S)" "j < length (pwork S)"
  shows "\<exists>S'. stk_open p ext k j settings what S = Some S' \<and> elsewhere (p @ ext) S S'
    \<and> pwork S' = (pwork S)[k := Stream (p @ ext), j := Pos (length (stk_begin_text what))]
    \<and> at_end (p @ ext) (map Ch (stk_open_file (fmt_real S) what settings [])) S'"
proof -
  define f where "f = p @ ext"
  obtain t where t: "lines_text (fmt_real S) settings = Some t" using assms(2) by blast
  note lines = stk_begin_lines [OF assms(1)] stk_blank_lines [OF assms(1)]
  have "strcat 32 p ext = Some f" using assms(3) by (simp add: strcat_def f_def)
  then show ?thesis
    using S(2-4) unfolding f_def [symmetric]
    by (simp add: stk_open_def fopen_def S(1) Let_def work_defs fprintf_lines_run lines t fgetpos_def stk_open_file_def elsewhere_def
        at_end_def del: fprintf_lines.simps lines_text.simps)
qed

lemma overlay_blank:
  assumes "length t \<le> length b"
  shows "overlay (length a) t (a @ b @ c) = a @ t @ drop (length t) b @ c"
  using assms by (simp add: overlay_def)

lemma stk_close_run:
  assumes what: "plain what" "plain ext" "plain spelled" and n: "length rows < 2147483648" "ssGetIWorkValue i S = Some (int (length rows))"
    and S: "ssGetPWorkValue k S = Some (Stream f)" "ssGetPWorkValue j S = Some (Pos (length (stk_begin_text what)))"
    and c: "at_end f (map Ch (stk_open_file (fmt_real S) what settings rows)) S"
  shows "\<exists>S'. stk_close p what k j i spelled ext S = Some S' \<and> elsewhere f S S' \<and> pwork S' = pwork S
    \<and> files S' f = Some (map Ch (stk_file (fmt_real S) what settings rows))"
proof -
  define E where "E = endl [] @ endl (''END '' @ what) @ endl []"
  have E: "lines_text (fmt_real S) [([], []), (''END '' @ what, []), ([], [])] = Some E"
    using what(1) by (simp add: E_def c_format_only_plain endl_def newline_def)
  define c where "c = map Ch (stk_open_file (fmt_real S) what settings rows)"
  define S1 where "S1 = grown f c (map Ch E) S"
  have S1: "fprintf_lines (Stream f) [([], []), (''END '' @ what, []), ([], [])] S = Some S1"
    unfolding S1_def using c E by (intro fprintf_lines_end) (simp_all add: c_def)
  define D where "D = show_nat (length rows)"
  define T where "T = endl (stk_points what @ '' '' @ D)"
  have T: "c_format (fmt_real S) (endl (stk_points what @ '' %d'')) [AI (int (length rows))] = Some T"
    using what(1) by (simp add: T_def D_def c_format_plain endl_def stk_points_def show_int_def newline_def c_conv_def conversion_def)
  obtain t where t: "c_format (fmt_real S) (endl (stk_report spelled ext)) [AS p, AS p, AI (int (length rows))] = Some t"
    using what(2,3) by (simp add: stk_report_def c_format_plain endl_def newline_def c_conv_def conversion_def)
  have D: "length D \<le> 10" using length_show_int [of "int (length rows)"] n(1) by (simp add: D_def show_int_def)
  define rest where "rest = [newline, newline] @ the (lines_text (fmt_real S) settings) @ concat (map (row_text (fmt_real S)) rows) @ E"
  have before: "c @ map Ch E = map Ch (stk_begin_text what) @ map Ch (stk_points what @ replicate 31 (CHR '' '')) @ map Ch rest"
    by (simp add: c_def stk_open_file_def rest_def)
  have over: "overlay (length (stk_begin_text what)) (map Ch T) (c @ map Ch E) = map Ch (stk_file (fmt_real S) what settings rows)"
  proof -
    have "drop (length T) (stk_points what @ replicate 31 (CHR '' '')) = replicate (29 - length D) (CHR '' '')"
      using D by (simp add: T_def endl_def)
    then show ?thesis
      using overlay_blank [of "map Ch T" "map Ch (stk_points what @ replicate 31 (CHR '' ''))" "map Ch (stk_begin_text what)" "map Ch rest"] D
      unfolding before by (simp add: T_def stk_file_def Let_def drop_map rest_def E_def endl_def flip: D_def)
  qed
  show ?thesis
    using S n(2) S1
    by (simp add: stk_close_def work_defs fprintf_def T fput_def S1_def fsetpos_def over c_printf_def t fclose_def elsewhere_def
        split: if_splits del: fprintf_lines.simps)
qed

text \<open>Between the steps of a session with both numbered files and no articulations.\<close>

definition stk_holds ::
  "string \<Rightarrow> (string \<times> arg list) list \<Rightarrow> (string \<times> arg list) list \<Rightarrow> int \<Rightarrow> (string \<Rightarrow> real \<Rightarrow> string) \<Rightarrow> real list list \<Rightarrow> sim \<Rightarrow> bool" where
  "stk_holds p es as n fr rows S \<longleftrightarrow>
     iwork S = [1, 1, 1, 0, n, int (length rows), int (length rows)]
   \<and> pwork S = [Stream (p @ ''.e''), Stream (p @ ''.a''), Null,
        Pos (length (stk_begin_text ''Ephemeris'')), Pos (length (stk_begin_text ''Attitude'')), Null]
   \<and> fmt_real S = fr
   \<and> at_end (p @ ''.e'') (map Ch (stk_open_file fr ''Ephemeris'' es (map (take 7) rows))) S
   \<and> at_end (p @ ''.a'') (map Ch (stk_open_file fr ''Attitude'' as (map (\<lambda>u. u ! 0 # take 4 (drop 7 u)) rows))) S"

lemma stk_open_file_snoc:
  "stk_open_file fr what settings (rows @ [u]) = stk_open_file fr what settings rows @ row_text fr u"
  by (simp add: stk_open_file_def)

lemma stk_Outputs_holds:
  assumes holds: "stk_holds p es as n fr rows S" and "length rows < 2147483647"
  shows "\<exists>S'. stk_Outputs M u0 u1 u2 S = Some S' \<and> stk_holds p es as n fr (if u0 > 1 / 2 then rows @ [u1] else rows) S'"
proof (cases "u0 > 1 / 2")
  case False
  with holds show ?thesis by (simp add: stk_Outputs_def work_defs stk_holds_def)
next
  case True
  let ?e = "p @ ''.e''" and ?a = "p @ ''.a''"
  define ce where "ce = map Ch (stk_open_file fr ''Ephemeris'' es (map (take 7) rows))"
  define ca where "ca = map Ch (stk_open_file fr ''Attitude'' as (map (\<lambda>u. u ! 0 # take 4 (drop 7 u)) rows))"
  define re where "re = take 7 u1"
  define ra where "ra = u1 ! 0 # take 4 (drop 7 u1)"
  define m where "m = int (length rows)"
  have S: "iwork S = [1, 1, 1, 0, n, m, m]" "fmt_real S = fr"
    "pwork S = [Stream ?e, Stream ?a, Null, Pos (length (stk_begin_text ''Ephemeris'')), Pos (length (stk_begin_text ''Attitude'')), Null]"
    and ends: "at_end ?e ce S" "at_end ?a ca S"
    using holds unfolding stk_holds_def m_def ce_def ca_def by blast+
  have w: "wrap32 (m + 1) = m + 1" using assms(2) unfolding m_def by (intro wrap32_id) auto
  define S1 where "S1 = (grown ?e ce (map Ch (row_text fr re)) S)\<lparr>iwork := [1, 1, 1, 0, n, m + 1, m]\<rparr>"
  have e: "stk_point (Stream ?e) re 5 S = Some S1"
    using stk_row_end [OF ends(1), of re] by (simp add: stk_point_def S count_up_def work_defs w S1_def)
  have end1: "at_end ?a ca S1" using ends(2) by (simp add: S1_def at_end_def)
  define S2 where "S2 = (grown ?a ca (map Ch (row_text fr ra)) S1)\<lparr>iwork := [1, 1, 1, 0, n, m + 1, m + 1]\<rparr>"
  have fr1: "fmt_real S1 = fr" by (simp add: S1_def S)
  have a: "stk_point (Stream ?a) ra 6 S1 = Some S2"
    using stk_row_end [OF end1, of ra, unfolded fr1] by (simp add: stk_point_def count_up_def work_defs S2_def) (simp add: S1_def w)
  have out: "stk_Outputs M u0 u1 u2 S = Some S2"
    using True e a by (simp add: stk_Outputs_def work_defs S re_def [symmetric] ra_def [symmetric])
  have "at_end ?e (ce @ map Ch (row_text fr re)) S2" "at_end ?a (ca @ map Ch (row_text fr ra)) S2"
    by (simp_all add: S2_def S1_def at_end_def)
  moreover have "iwork S2 = [1, 1, 1, 0, n, m + 1, m + 1]" "pwork S2 = pwork S" "fmt_real S2 = fr"
    by (simp_all add: S2_def S1_def S)
  ultimately have "stk_holds p es as n fr (rows @ [u1]) S2"
    by (simp add: stk_holds_def stk_open_file_snoc S ce_def ca_def re_def ra_def m_def)
  with True out show ?thesis by simp
qed

definition recorded :: "stk_step list \<Rightarrow> real list list" where
  "recorded us = map (\<lambda>u. fst (snd u)) (filter (\<lambda>u. fst u > 1 / 2) us)"

lemma stk_run_holds:
  "stk_holds p es as n fr rows S \<Longrightarrow> length rows + length us < 2147483648 \<Longrightarrow>
   \<exists>S'. stk_run M us S = Some S' \<and> stk_holds p es as n fr (rows @ recorded us) S'"
proof (induction us arbitrary: rows S)
  case Nil
  then show ?case by (simp add: recorded_def)
next
  case (Cons u us)
  obtain u0 u1 u2 where u: "u = (u0, u1, u2)" by (cases u)
  let ?rows = "if u0 > 1 / 2 then rows @ [u1] else rows"
  have "length rows < 2147483647" using Cons.prems(2) by simp
  from stk_Outputs_holds [OF Cons.prems(1) this] obtain S1 where
    S1: "stk_Outputs M u0 u1 u2 S = Some S1" "stk_holds p es as n fr ?rows S1" by blast
  have "length ?rows + length us < 2147483648" using Cons.prems(2) by simp
  from Cons.IH [OF S1(2) this] obtain S' where
    "stk_run M us S1 = Some S'" "stk_holds p es as n fr (?rows @ recorded us) S'" by blast
  moreover have "?rows @ recorded us = rows @ recorded (u # us)" by (simp add: recorded_def u)
  ultimately show ?case by (simp add: u S1)
qed

text \<open>
  C30. A session of WriteSTK with an ephemeris and an attitude file: each finished file has its
  head, the number of the recorded steps at the place left for it, with nothing else of the file
  damaged, the settings, one line for each step whose trigger was on, in order, and the end mark.
\<close>

theorem stk_files:
  fixes S :: sim and M :: stk_mask
  assumes M: "int_cast (wm_enable M) = Some 1" "int_cast (wm_ephemeris M) = Some 1" "int_cast (wm_attitude M) = Some 1"
      "int_cast (wm_articulation M) = Some 0" "int_cast (wm_number M) = Some n" "length (wm_prefix M) < 30"
    and S: "fs_ok S = (\<lambda>_. True)" "streams S = (\<lambda>_. None)" and us: "length us < 2147483648"
  shows "\<exists>S'. stk_session M us S = Some S'
    \<and> files S' (wm_prefix M @ ''.e'') = Some (map Ch (stk_file (fmt_real S) ''Ephemeris''
        (e_settings (mxGetString (wm_epoch M) 64) (mxGetString (wm_body M) 32)) (map (take 7) (recorded us))))
    \<and> files S' (wm_prefix M @ ''.a'') = Some (map Ch (stk_file (fmt_real S) ''Attitude''
        (a_settings (mxGetString (wm_epoch M) 64) (mxGetString (wm_body M) 32) (mxGetString (wm_axes M) 32))
        (map (\<lambda>u. u ! 0 # take 4 (drop 7 u)) (recorded us))))"
proof -
  define p where "p = wm_prefix M"
  define es where "es = e_settings (mxGetString (wm_epoch M) 64) (mxGetString (wm_body M) 32)"
  define as where "as = a_settings (mxGetString (wm_epoch M) 64) (mxGetString (wm_body M) 32) (mxGetString (wm_axes M) 32)"
  have name: "mxGetString (wm_prefix M) 32 = p" using M(6) by (simp add: mxGetString_def p_def)
  have plain: "plain ''Ephemeris''" "plain ''Attitude''" "plain ''.e''" "plain ''.a''" "plain ''Emphemeris''" by simp_all
  obtain z where z: "stk_InitializeSizes 12 True True M = Some z" "num_iwork z = 7" "num_rwork z = 0" "num_pwork z = 6"
    by (simp add: stk_InitializeSizes_def M(5) Let_def)
  define S0 where "S0 = (work_vectors z S)\<lparr>iwork := [1, 1, 1, 0, n, 0, 0]\<rparr>"
  have S0: "pwork S0 = replicate 6 Null" "fs_ok S0 = (\<lambda>_. True)" "streams S0 = (\<lambda>_. None)" "fmt_real S0 = fmt_real S"
    by (simp_all add: S0_def work_vectors_def z S)
  have "\<exists>S1. stk_open p ''.e'' 0 3 es ''Ephemeris'' S0 = Some S1 \<and> elsewhere (p @ ''.e'') S0 S1
    \<and> pwork S1 = (pwork S0)[0 := Stream (p @ ''.e''), 3 := Pos (length (stk_begin_text ''Ephemeris''))]
    \<and> at_end (p @ ''.e'') (map Ch (stk_open_file (fmt_real S0) ''Ephemeris'' es [])) S1"
    using M(6) by (intro stk_open_run) (simp_all add: S0 es_def settings_lines p_def)
  then obtain S1 where S1: "stk_open p ''.e'' 0 3 es ''Ephemeris'' S0 = Some S1" "elsewhere (p @ ''.e'') S0 S1"
    "pwork S1 = (pwork S0)[0 := Stream (p @ ''.e''), 3 := Pos (length (stk_begin_text ''Ephemeris''))]"
    "at_end (p @ ''.e'') (map Ch (stk_open_file (fmt_real S) ''Ephemeris'' es [])) S1" unfolding S0(4) by blast
  have same: "fs_ok S1 = (\<lambda>_. True)" "fmt_real S1 = fmt_real S" "iwork S1 = [1, 1, 1, 0, n, 0, 0]" "streams S1 (p @ ''.a'') = None"
    using S1(2) by (simp_all add: elsewhere_def S0) (simp add: S0_def)
  have "\<exists>S2. stk_open p ''.a'' 1 4 as ''Attitude'' S1 = Some S2 \<and> elsewhere (p @ ''.a'') S1 S2
    \<and> pwork S2 = (pwork S1)[1 := Stream (p @ ''.a''), 4 := Pos (length (stk_begin_text ''Attitude''))]
    \<and> at_end (p @ ''.a'') (map Ch (stk_open_file (fmt_real S1) ''Attitude'' as [])) S2"
    using M(6) by (intro stk_open_run) (simp_all add: same same(4) [unfolded p_def] as_def settings_lines p_def S1(3) S0(1))
  then obtain S2 where S2: "stk_open p ''.a'' 1 4 as ''Attitude'' S1 = Some S2" "elsewhere (p @ ''.a'') S1 S2"
    "pwork S2 = (pwork S1)[1 := Stream (p @ ''.a''), 4 := Pos (length (stk_begin_text ''Attitude''))]"
    "at_end (p @ ''.a'') (map Ch (stk_open_file (fmt_real S) ''Attitude'' as [])) S2" unfolding same(2) by blast
  have start: "stk_Start M (work_vectors z S) = Some S2"
  proof -
    have "iwork (work_vectors z S) = [0, 0, 0, 0, 0, 0, 0]" by (simp add: work_vectors_def z numeral_eq_Suc)
    then show ?thesis
      using S1(1) S2(1)
      by (simp add: stk_Start_def M(1-5) name work_defs Let_def es_def [symmetric] as_def [symmetric] flip: S0_def)
  qed
  have "stk_holds p es as n (fmt_real S) [] S2"
  proof -
    have "iwork S2 = [1, 1, 1, 0, n, 0, 0]" "fmt_real S2 = fmt_real S"
      "at_end (p @ ''.e'') (map Ch (stk_open_file (fmt_real S) ''Ephemeris'' es [])) S2"
      using S2(2) S1(4) same by (simp_all add: elsewhere_def at_end_def)
    moreover have "pwork S2 = [Stream (p @ ''.e''), Stream (p @ ''.a''), Null,
        Pos (length (stk_begin_text ''Ephemeris'')), Pos (length (stk_begin_text ''Attitude'')), Null]"
      by (simp add: S2(3) S1(3) S0(1) numeral_eq_Suc)
    ultimately show ?thesis using S2(4) by (simp add: stk_holds_def)
  qed
  from stk_run_holds [OF this, of us M] us obtain S3 where S3: "stk_run M us S2 = Some S3"
    "stk_holds p es as n (fmt_real S) (recorded us) S3" by auto
  have few: "length (map f (recorded us)) < 2147483648" for f :: "real list \<Rightarrow> real list"
    using us length_filter_le [of "\<lambda>u. fst u > 1 / 2" us] unfolding recorded_def length_map by linarith
  have "\<exists>S4. stk_close p ''Ephemeris'' 0 3 5 ''Emphemeris'' ''.e'' S3 = Some S4 \<and> elsewhere (p @ ''.e'') S3 S4 \<and> pwork S4 = pwork S3
    \<and> files S4 (p @ ''.e'') = Some (map Ch (stk_file (fmt_real S3) ''Ephemeris'' es (map (take 7) (recorded us))))"
    using S3(2) by (intro stk_close_run plain few) (simp_all add: stk_holds_def work_defs)
  then obtain S4 where S4: "stk_close p ''Ephemeris'' 0 3 5 ''Emphemeris'' ''.e'' S3 = Some S4" "elsewhere (p @ ''.e'') S3 S4" "pwork S4 = pwork S3"
    "files S4 (p @ ''.e'') = Some (map Ch (stk_file (fmt_real S) ''Ephemeris'' es (map (take 7) (recorded us))))"
    using S3(2) by (auto simp: stk_holds_def)
  have same4: "iwork S4 = iwork S3" "fmt_real S4 = fmt_real S" "at_end (p @ ''.a'') c S4 = at_end (p @ ''.a'') c S3" for c
    using S4(2) S3(2) by (simp_all add: elsewhere_def at_end_def stk_holds_def)
  have "\<exists>S5. stk_close p ''Attitude'' 1 4 6 ''Attitude'' ''.a'' S4 = Some S5 \<and> elsewhere (p @ ''.a'') S4 S5 \<and> pwork S5 = pwork S4
    \<and> files S5 (p @ ''.a'') = Some (map Ch (stk_file (fmt_real S4) ''Attitude'' as (map (\<lambda>u. u ! 0 # take 4 (drop 7 u)) (recorded us))))"
    using S3(2) by (intro stk_close_run plain few) (simp_all add: stk_holds_def work_defs same4 S4(3))
  then obtain S5 where S5: "stk_close p ''Attitude'' 1 4 6 ''Attitude'' ''.a'' S4 = Some S5" "elsewhere (p @ ''.a'') S4 S5"
    "files S5 (p @ ''.a'') = Some (map Ch (stk_file (fmt_real S) ''Attitude'' as (map (\<lambda>u. u ! 0 # take 4 (drop 7 u)) (recorded us))))"
    unfolding same4(2) by blast
  have "iwork S3 = [1, 1, 1, 0, n, int (length (recorded us)), int (length (recorded us))]" using S3(2) by (simp add: stk_holds_def)
  then have fin: "stk_Terminate M S3 = Some S5"
    using S4(1) S5(1) by (simp add: stk_Terminate_def work_defs name)
  have "files S5 (p @ ''.e'') = files S4 (p @ ''.e'')" using S5(2) by (simp add: elsewhere_def)
  then show ?thesis
    using S4(4) S5(3) by (simp add: stk_session_def z(1) start S3(1) fin flip: p_def es_def as_def)
qed

text \<open>Three steps, of which two are recorded.\<close>

definition stk_sim :: sim where
  "stk_sim = \<lparr>sampleTime = 1, in_width = 11, iwork = [], rwork = [], pwork = [], outs = [], errorStatus = None,
     files = (\<lambda>_. None), streams = (\<lambda>_. None), fs_ok = (\<lambda>_. True), fs_tick = 0, host_files = (\<lambda>_. None), console = [],
     fmt_real = (\<lambda>_ _. ''0''), dbl = (\<lambda>x. x)\<rparr>"

definition stk_example :: stk_mask where
  "stk_example = \<lparr>wm_sample_time = 1, wm_enable = 1, wm_ephemeris = 1, wm_attitude = 1, wm_articulation = 0, wm_prefix = ''run'',
     wm_suffix = ''.acma'', wm_number = 0, wm_artinfo = [], wm_epoch = ''now'', wm_body = ''Earth'', wm_axes = ''J2000''\<rparr>"

lemma stk_files_witness:
  "\<exists>S'. stk_session stk_example [(1, replicate 11 0, []), (0, replicate 11 1, []), (1, replicate 11 2, [])] stk_sim = Some S'
    \<and> files S' ''run.a'' = Some (map Ch (stk_file (fmt_real stk_sim) ''Attitude'' (a_settings ''now'' ''Earth'' ''J2000'')
        [replicate 5 0, replicate 5 2]))"
proof -
  have M: "int_cast (wm_enable stk_example) = Some 1" "int_cast (wm_ephemeris stk_example) = Some 1" "int_cast (wm_attitude stk_example) = Some 1"
    "int_cast (wm_articulation stk_example) = Some 0" "int_cast (wm_number stk_example) = Some 0" "length (wm_prefix stk_example) < 30"
    "fs_ok stk_sim = (\<lambda>_. True)" "streams stk_sim = (\<lambda>_. None)"
    by (simp_all add: stk_example_def int_cast_def trunc_def stk_sim_def)
  have rec: "recorded [(1, replicate 11 0, []), (0, replicate 11 1, []), (1, replicate 11 2, [])] = [replicate 11 0, replicate 11 2]"
    by (simp add: recorded_def)
  have five: "x # replicate 4 x = replicate 5 x" for x :: real by (simp add: numeral_eq_Suc)
  show ?thesis
    using stk_files [OF M, of "[(1, replicate 11 0, []), (0, replicate 11 1, []), (1, replicate 11 2, [])]", unfolded rec]
    by (auto simp: stk_example_def mxGetString_def five)
qed

end
