(* ===== verification/UdpStk.thy ===== *)
theory UdpStk
  imports UdpBlocks WriteStk
begin

text \<open>
  The sender for the viewer STK (SFunctions/udpsend_STK/udpsend_STK.c): it sends the state of a
  vehicle to up to four clients and writes ephemeris, attitude and articulation files. The theorem is
  about the articulation file, which holds only the changes of the thrusters: played back, they give
  the thrusters of every step. Two lemmas show that the block faults whenever one of the other two
  files is asked for, and always at its end.
\<close>

section \<open>The block\<close>

definition THRUSTERS :: nat where
  "THRUSTERS = 12"

definition STK_CLIENTS :: nat where
  "STK_CLIENTS = 4"

text \<open>The positions in the files are variables of the program; \<open>flt\<close> rounds to a \<open>float\<close>.\<close>

record stku = udp +
  nPointsPosE :: nat
  nPointsPosA :: nat
  flt :: "real \<Rightarrow> real"

record stku_mask =
  um_send :: real
  um_e :: real
  um_a :: real
  um_art :: real
  um_prefix :: string
  um_epoch :: string
  um_ip :: string

definition stku_InitializeSizes :: "nat \<Rightarrow> bool \<Rightarrow> bool \<Rightarrow> sizes" where
  "stku_InitializeSizes params inputs_ok outputs_ok =
     (let z = no_sizes\<lparr>num_params := 8\<rparr>
      in if params \<noteq> 8 then z
         else if \<not> inputs_ok then z
         else
           (let z = z\<lparr>in_widths := [Width 11, Width (int THRUSTERS)], feedthrough := [True, True]\<rparr>
            in if \<not> outputs_ok then z
               else z\<lparr>out_widths := [Width 1], sample_times := 1, num_rwork := 2, num_iwork := 6, num_pwork := 12\<rparr>))"

fun report_clients :: "int \<Rightarrow> udp_client list \<Rightarrow> stku \<Rightarrow> stku option" where
  "report_clients i [] S = Some S"
| "report_clients i (c # cs) S = do {
     S \<leftarrow> c_printf (endl ''COM :: Client %d IP Address: %s'') [AI (i + 1), AS (ip_address c)] S;
     S \<leftarrow> c_printf (endl ''COM :: Client %d Port: %s'') [AI (i + 1), AS (port c)] S;
     report_clients (i + 1) cs S
   }"

definition stku_get_ip_addresses :: "string \<Rightarrow> stku \<Rightarrow> (udp_client list \<times> stku) option" where
  "stku_get_ip_addresses ip_file S =
     (case host_files S ip_file of
        None \<Rightarrow> do {
          S \<leftarrow> c_printf (endl ''COM :: Could not find: %s - Aborting'') [AS ip_file] S;
          Some (replicate STK_CLIENTS no_client,
            S\<lparr>errorStatus := Some ''Could not locate udpsend_STK IP configuration file''\<rparr>)
        }
      | Some t \<Rightarrow> do {
          cs \<leftarrow> read_clients STK_CLIENTS None (words_of t);
          S \<leftarrow> report_clients 0 cs S;
          Some (cs @ replicate (STK_CLIENTS - length cs) no_client, S)
        })"

fun connect_stku :: "udp_client list \<Rightarrow> stku \<Rightarrow> (udp_client list \<times> stku) option" where
  "connect_stku [] S = Some ([], S)"
| "connect_stku (c # cs) S = do {
     (c, S) \<leftarrow> (if active c = 1 then do {
          (fd, S) \<leftarrow> connectsock (ip_address c) (port c) ''udp'' S;
          Some (c\<lparr>sockfd := fd\<rparr>, S)
        } else Some (c, S));
     (cs, S) \<leftarrow> connect_stku cs S;
     Some (c # cs, S)
   }"

text \<open>A line followed by an empty one.\<close>

fun spaced :: "(string \<times> arg list) list \<Rightarrow> (string \<times> arg list) list" where
  "spaced [] = []"
| "spaced (l # ls) = l # ([], []) # spaced ls"

text \<open>Both heads print entry 4 of the work vector as the epoch, which is set only at the end of \<open>mdlStart\<close>.\<close>

definition stku_e_head :: "string \<Rightarrow> stku \<Rightarrow> (pval \<times> stku) option" where
  "stku_e_head efile S = do {
     (e_stream, S) \<leftarrow> fopen efile ModeW S;
     S \<leftarrow> fprintf_lines e_stream (spaced (stk_begin ''Ephemeris'')) S;
     pos \<leftarrow> fgetpos e_stream S;
     let S = S\<lparr>nPointsPosE := pos\<rparr>;
     S \<leftarrow> fprintf_lines e_stream (stk_blank ''Ephemeris'') S;
     epoch \<leftarrow> pw_string 4 S;
     S \<leftarrow> fprintf_lines e_stream (spaced
       [(''ScenarioEpoch           %s'', [AS epoch]),
        (''InterpolationMethod     %s'', [AS ''Lagrange'']),
        (''InterpolationSamplesM1  %d'', [AI 5]),
        (''CentralBody             %s'', [AS ''Earth'']),
        (''CoordinateSystem        %s'', [AS ''Fixed'']),
        (''BlockingFactor          %d'', [AI 20]),
        (''EphemerisLLATimePosVel'', [])]) S;
     Some (e_stream, S)
   }"

definition stku_a_head :: "string \<Rightarrow> stku \<Rightarrow> (pval \<times> stku) option" where
  "stku_a_head afile S = do {
     (a_stream, S) \<leftarrow> fopen afile ModeW S;
     S \<leftarrow> fprintf_lines a_stream (spaced (stk_begin ''Attitude'')) S;
     pos \<leftarrow> fgetpos a_stream S;
     let S = S\<lparr>nPointsPosA := pos\<rparr>;
     S \<leftarrow> fprintf_lines a_stream (stk_blank ''Attitude'') S;
     epoch \<leftarrow> pw_string 4 S;
     S \<leftarrow> fprintf_lines a_stream (spaced
       [(''BlockingFactor          %d'', [AI 20]),
        (''InterpolationOrder      %d'', [AI 1]),
        (''CentralBody             %s'', [AS ''Earth'']),
        (''ScenarioEpoch           %s'', [AS epoch]),
        (''CoordinateAxes          %s'', [AS ''J2000'']),
        (''AttitudeTimeQuaternions'', [])]) S;
     Some (a_stream, S)
   }"

definition stku_art_head :: "string \<Rightarrow> stku \<Rightarrow> (pval \<times> stku) option" where
  "stku_art_head artfile S = do {
     (art_stream, S) \<leftarrow> fopen artfile ModeW S;
     S \<leftarrow> fprintf_lines art_stream (spaced [(''SPREADSHEET'', [])]) S;
     Some (art_stream, S)
   }"

text \<open>\<open>mdlStart\<close>, the work vectors and the clients first.\<close>

definition stku_setup :: "stku_mask \<Rightarrow> stku \<Rightarrow> stku option" where
  "stku_setup M S = do {
     enabled_udp \<leftarrow> int_cast (um_send M);
     enabled_e \<leftarrow> int_cast (um_e M);
     enabled_a \<leftarrow> int_cast (um_a M);
     enabled_art \<leftarrow> int_cast (um_art M);
     S \<leftarrow> ssSetIWorkValue 0 enabled_udp S;
     S \<leftarrow> ssSetIWorkValue 1 enabled_e S;
     S \<leftarrow> ssSetIWorkValue 2 enabled_a S;
     S \<leftarrow> ssSetIWorkValue 3 enabled_art S;
     S \<leftarrow> ssSetIWorkValue 4 (int THRUSTERS) S;
     S \<leftarrow> ssSetIWorkValue 5 0 S;
     S \<leftarrow> ssSetRWorkValue 0 0 S;
     S \<leftarrow> ssSetRWorkValue 1 0 S;
     let ip_address_file = mxGetString (um_ip M) 64;
     S \<leftarrow> ssSetPWorkValue 10 (Clients (replicate STK_CLIENTS no_client)) S;
     S \<leftarrow> ssSetPWorkValue 11 (Str ip_address_file) S;
     if enabled_udp = 1 then do {
       (client, S) \<leftarrow> stku_get_ip_addresses ip_address_file S;
       (client, S) \<leftarrow> connect_stku client S;
       ssSetPWorkValue 10 (Clients client) S
     } else Some S
   }"

text \<open>The files. The memory for the thrusters of the step before and for the packet is not initialised.\<close>

definition stku_Start :: "stku_mask \<Rightarrow> stku \<Rightarrow> stku option" where
  "stku_Start M S = do {
     let fileprefix = mxGetString (um_prefix M) 32;
     let EpochStrSTK = mxGetString (um_epoch M) 64;
     efile \<leftarrow> strcat 32 fileprefix ''.e'';
     afile \<leftarrow> strcat 32 fileprefix ''.a'';
     artfile \<leftarrow> strcat 32 fileprefix ''.sama'';
     S \<leftarrow> stku_setup M S;
     enabled_e \<leftarrow> ssGetIWorkValue 1 S;
     (e_stream, S) \<leftarrow> (if enabled_e = 1 then stku_e_head efile S else Some (Null, S));
     enabled_a \<leftarrow> ssGetIWorkValue 2 S;
     (a_stream, S) \<leftarrow> (if enabled_a = 1 then stku_a_head afile S else Some (Null, S));
     enabled_art \<leftarrow> ssGetIWorkValue 3 S;
     (art_stream, S) \<leftarrow> (if enabled_art = 1 then stku_art_head artfile S else Some (Null, S));
     S \<leftarrow> ssSetPWorkValue 0 (Str efile) S;
     S \<leftarrow> ssSetPWorkValue 1 (Str afile) S;
     S \<leftarrow> ssSetPWorkValue 2 (Str artfile) S;
     S \<leftarrow> ssSetPWorkValue 3 (Str fileprefix) S;
     S \<leftarrow> ssSetPWorkValue 4 (Str EpochStrSTK) S;
     S \<leftarrow> ssSetPWorkValue 5 e_stream S;
     S \<leftarrow> ssSetPWorkValue 6 a_stream S;
     S \<leftarrow> ssSetPWorkValue 7 art_stream S;
     S \<leftarrow> ssSetPWorkValue 8 (Floats (map (heap S) [0..<THRUSTERS])) S;
     ssSetPWorkValue 9 (Floats (map (heap S) [THRUSTERS..<11 + 2 * THRUSTERS])) S
   }"

text \<open>The loop over the thrusters: a line for each that has changed.\<close>

definition stku_art_line :: string where
  "stku_art_line = ''ARTICULATION %.4f 0 0 0 0 0 0 Thruster%d Size 0 %.4f''"

fun art_loop :: "pval \<Rightarrow> real \<Rightarrow> real list \<Rightarrow> nat list \<Rightarrow> real list \<Rightarrow> stku \<Rightarrow> (real list \<times> stku) option" where
  "art_loop p t thruster [] prevThruster S = Some (prevThruster, S)"
| "art_loop p t thruster (i # is) prevThruster S = do {
     S \<leftarrow> (if thruster ! i \<noteq> prevThruster ! i
           then fprintf p (endl stku_art_line) [AD t, AI (int i), AD (thruster ! i)] S
           else Some S);
     art_loop p t thruster is (prevThruster[i := thruster ! i]) S
   }"

definition pw_floats :: "nat \<Rightarrow> stku \<Rightarrow> real list option" where
  "pw_floats k S = (case ssGetPWorkValue k S of Some (Floats xs) \<Rightarrow> Some xs | _ \<Rightarrow> None)"

definition pw_clients10 :: "stku \<Rightarrow> udp_client list option" where
  "pw_clients10 S = (case ssGetPWorkValue 10 S of Some (Clients cs) \<Rightarrow> Some cs | _ \<Rightarrow> None)"

definition seven_values :: string where
  "seven_values = concat (map (\<lambda>_. ''%.8e'' @ [tab]) [0..<6]) @ ''%.8e''"

definition five_values :: string where
  "five_values = concat (map (\<lambda>_. ''%.8e'' @ [tab]) [0..<4]) @ ''%.8e''"

text \<open>\<open>u1\<close> and \<open>u2\<close> have the widths of the ports. The altitude is converted from feet to metres.\<close>

definition stku_Outputs :: "real list \<Rightarrow> real list \<Rightarrow> stku \<Rightarrow> stku option" where
  "stku_Outputs u1 u2 S = do {
     client \<leftarrow> pw_clients10 S;
     let thruster = map (flt S) u2;
     let buf = u1 @ thruster;
     S \<leftarrow> ssSetPWorkValue 9 (Floats buf) S;
     enabled_udp \<leftarrow> ssGetIWorkValue 0 S;
     S \<leftarrow> (if enabled_udp = 1 then do {
         let (byteCounter, S) = send_clients buf client 0 S;
         totbytes \<leftarrow> ssGetIWorkValue 5 S;
         S \<leftarrow> ssSetIWorkValue 5 (wrap32 (totbytes + byteCounter)) S;
         Some (S\<lparr>outs := [of_int (wrap32 (totbytes + byteCounter))]\<rparr>)
       } else Some (S\<lparr>outs := [0]\<rparr>));
     enabled_e \<leftarrow> ssGetIWorkValue 1 S;
     S \<leftarrow> (if enabled_e = 1 then do {
         e_stream \<leftarrow> ssGetPWorkValue 5 S;
         S \<leftarrow> fprintf e_stream (endl seven_values)
           [AD (u1 ! 0), AD (u1 ! 1), AD (u1 ! 2), AD (dbl S (u1 ! 3 * dbl S (3048 / 10000))), AD (u1 ! 4), AD (u1 ! 5), AD (u1 ! 6)] S;
         n \<leftarrow> ssGetRWorkValue 0 S;
         ssSetRWorkValue 0 (dbl S (n + 1)) S
       } else Some S);
     enabled_a \<leftarrow> ssGetIWorkValue 2 S;
     S \<leftarrow> (if enabled_a = 1 then do {
         a_stream \<leftarrow> ssGetPWorkValue 6 S;
         S \<leftarrow> fprintf a_stream (endl five_values) [AD (u1 ! 0), AD (u1 ! 7), AD (u1 ! 8), AD (u1 ! 9), AD (u1 ! 10)] S;
         n \<leftarrow> ssGetRWorkValue 1 S;
         ssSetRWorkValue 1 (dbl S (n + 1)) S
       } else Some S);
     enabled_art \<leftarrow> ssGetIWorkValue 3 S;
     if enabled_art = 1 then do {
       nThrusters \<leftarrow> ssGetIWorkValue 4 S;
       art_stream \<leftarrow> ssGetPWorkValue 7 S;
       prevThruster \<leftarrow> pw_floats 8 S;
       (prevThruster, S) \<leftarrow> art_loop art_stream (u1 ! 0) thruster [0..<nat nThrusters] prevThruster S;
       ssSetPWorkValue 8 (Floats prevThruster) S
     } else Some S
   }"

text \<open>\<open>free\<close> of an uninitialised pointer is undefined.\<close>

definition free_pval :: "pval \<Rightarrow> stku \<Rightarrow> stku option" where
  "free_pval p S = (if p = Undef then None else Some S)"

text \<open>The end of a numbered file; its name is printed from the work vector.\<close>

definition stku_close :: "string \<Rightarrow> nat \<Rightarrow> nat \<Rightarrow> nat \<Rightarrow> nat \<Rightarrow> stku \<Rightarrow> stku option" where
  "stku_close what k j i pos S = do {
     stream \<leftarrow> ssGetPWorkValue k S;
     S \<leftarrow> fprintf_lines stream [([], []), (''END '' @ what, []), ([], [])] S;
     S \<leftarrow> fsetpos stream pos S;
     n \<leftarrow> ssGetRWorkValue i S;
     S \<leftarrow> fprintf stream (stk_points what @ '' %.0f'') [AD n] S;
     S \<leftarrow> fclose stream S;
     S \<leftarrow> c_printf (''COM :: Wrote '' @ what @ '' to file '' @ [CHR 0x22]) [] S;
     fname \<leftarrow> pw_string j S;
     S \<leftarrow> c_printf ''%s'' [AS fname] S;
     c_printf (CHR 0x22 # endl []) [] S
   }"

text \<open>
  \<open>mdlTerminate\<close> stores its local pointers in the work vector where it means to read them; they are
  not initialised, and it frees them at the end.
\<close>

definition stku_Terminate :: "stku \<Rightarrow> stku option" where
  "stku_Terminate S = do {
     client \<leftarrow> pw_clients10 S;
     let efile = Undef;
     let afile = Undef;
     let artfile = Undef;
     let fileprefix = Undef;
     let EpochStrSTK = Undef;
     let prevThruster = Undef;
     S \<leftarrow> ssSetPWorkValue 0 efile S;
     S \<leftarrow> ssSetPWorkValue 1 afile S;
     S \<leftarrow> ssSetPWorkValue 2 artfile S;
     S \<leftarrow> ssSetPWorkValue 3 fileprefix S;
     S \<leftarrow> ssSetPWorkValue 4 EpochStrSTK S;
     S \<leftarrow> ssSetPWorkValue 8 prevThruster S;
     enabled_udp \<leftarrow> ssGetIWorkValue 0 S;
     let S = (if enabled_udp = 1 then S\<lparr>shut := shut S @ map sockfd (filter (\<lambda>c. active c = 1) client)\<rparr> else S);
     S \<leftarrow> ssSetPWorkValue 10 (Clients client) S;
     enabled_e \<leftarrow> ssGetIWorkValue 1 S;
     S \<leftarrow> (if enabled_e = 1 then stku_close ''Ephemeris'' 5 0 0 (nPointsPosE S) S else Some S);
     enabled_a \<leftarrow> ssGetIWorkValue 2 S;
     S \<leftarrow> (if enabled_a = 1 then stku_close ''Attitude'' 6 1 1 (nPointsPosA S) S else Some S);
     enabled_art \<leftarrow> ssGetIWorkValue 3 S;
     S \<leftarrow> (if enabled_art = 1 then do {
         S \<leftarrow> c_printf (''COM :: Wrote Articulation to file '' @ [CHR 0x22]) [] S;
         fname \<leftarrow> pw_string 2 S;
         S \<leftarrow> c_printf fname [] S;
         S \<leftarrow> c_printf (CHR 0x22 # endl []) [] S;
         art_stream \<leftarrow> ssGetPWorkValue 7 S;
         fclose art_stream S
       } else Some S);
     S \<leftarrow> ssSetIWorkValue 5 0 S;
     S \<leftarrow> ssSetRWorkValue 0 0 S;
     S \<leftarrow> ssSetRWorkValue 1 0 S;
     S \<leftarrow> free_pval efile S;
     S \<leftarrow> free_pval afile S;
     S \<leftarrow> free_pval artfile S;
     S \<leftarrow> free_pval fileprefix S;
     S \<leftarrow> free_pval EpochStrSTK S;
     free_pval prevThruster S
   }"

fun stku_run :: "(real list \<times> real list) list \<Rightarrow> stku \<Rightarrow> stku option" where
  "stku_run [] S = Some S"
| "stku_run ((u1, u2) # us) S = Option.bind (stku_Outputs u1 u2 S) (stku_run us)"

section \<open>Faults\<close>

lemma flt_grown [simp]: "flt (grown n c its S) = flt S"
  by (simp add: grown_def)

lemma bind_None: "(\<And>x. f x = None) \<Longrightarrow> Option.bind m f = None"
  by (cases m) simp_all

text \<open>The end of every session is undefined.\<close>

lemma terminate_faults: "stku_Terminate S = None"
  by (auto simp: stku_Terminate_def free_pval_def Let_def intro!: bind_None)

text \<open>What neither the network nor the console changes.\<close>

definition net_quiet :: "stku \<Rightarrow> stku \<Rightarrow> bool" where
  "net_quiet S S' \<longleftrightarrow> pwork S' = pwork S \<and> iwork S' = iwork S \<and> rwork S' = rwork S \<and> files S' = files S \<and> streams S' = streams S
     \<and> fs_ok S' = fs_ok S \<and> fs_tick S' = fs_tick S \<and> fmt_real S' = fmt_real S \<and> flt S' = flt S \<and> heap S' = heap S"

lemma net_quiet_refl [simp]: "net_quiet S S"
  by (simp add: net_quiet_def)

lemma net_quiet_trans: "net_quiet S S' \<Longrightarrow> net_quiet S' S'' \<Longrightarrow> net_quiet S S''"
  by (simp add: net_quiet_def)

lemma c_printf_quiet: "c_printf fmt as S = Some S' \<Longrightarrow> net_quiet S S'"
  by (auto simp: c_printf_def net_quiet_def)

lemma connectsock_quiet: "connectsock h p t S = Some (fd, S') \<Longrightarrow> net_quiet S S'"
  by (auto simp: connectsock_def net_quiet_def Let_def bind_eq_Some_conv split: if_splits option.splits)

lemma report_clients_quiet: "report_clients i cs S = Some S' \<Longrightarrow> net_quiet S S'"
proof (induction i cs S arbitrary: S' rule: report_clients.induct)
  case (2 i c cs S)
  from "2.prems" obtain S1 S2 where
    "c_printf (endl ''COM :: Client %d IP Address: %s'') [AI (i + 1), AS (ip_address c)] S = Some S1"
    "c_printf (endl ''COM :: Client %d Port: %s'') [AI (i + 1), AS (port c)] S1 = Some S2" "report_clients (i + 1) cs S2 = Some S'"
    unfolding report_clients.simps bind_eq_Some_conv by blast
  with "2.IH" show ?case by (blast intro: net_quiet_trans c_printf_quiet)
qed simp

lemma connect_stku_quiet: "connect_stku cs S = Some (cs', S') \<Longrightarrow> net_quiet S S'"
proof (induction cs arbitrary: cs' S S')
  case (Cons c cs)
  from Cons.prems obtain c1 S1 cs1 where 1: "(if active c = 1 then do {
          (fd, S) \<leftarrow> connectsock (ip_address c) (port c) ''udp'' S;
          Some (c\<lparr>sockfd := fd\<rparr>, S)
        } else Some (c, S)) = Some (c1, S1)" "connect_stku cs S1 = Some (cs1, S')"
    by (auto simp: bind_eq_Some_conv)
  from 1(1) have "net_quiet S S1" by (auto simp: bind_eq_Some_conv split: if_splits dest: connectsock_quiet)
  with Cons.IH [OF 1(2)] show ?case by (rule net_quiet_trans [rotated])
qed simp

lemma get_ip_quiet: "stku_get_ip_addresses f S = Some (cs, S') \<Longrightarrow> net_quiet S S'"
proof (cases "host_files S f")
  case None
  moreover assume "stku_get_ip_addresses f S = Some (cs, S')"
  ultimately obtain S1 where "c_printf (endl ''COM :: Could not find: %s - Aborting'') [AS f] S = Some S1"
    "S' = S1\<lparr>errorStatus := Some ''Could not locate udpsend_STK IP configuration file''\<rparr>"
    unfolding stku_get_ip_addresses_def by (simp add: bind_eq_Some_conv del: c_format.simps) blast
  with c_printf_quiet [OF this(1)] show ?thesis by (simp add: net_quiet_def)
next
  case (Some t)
  moreover assume "stku_get_ip_addresses f S = Some (cs, S')"
  ultimately show ?thesis by (auto simp: stku_get_ip_addresses_def bind_eq_Some_conv dest: report_clients_quiet)
qed

lemma send_clients_quiet: "net_quiet S (snd (send_clients v cs n S))"
proof (induction cs arbitrary: n S)
  case (Cons c cs)
  let ?S = "S\<lparr>net_tick := Suc (net_tick S), sent := sent S @ [(sockfd c, v)]\<rparr>"
  have "net_quiet S ?S" by (simp add: net_quiet_def)
  with Cons.IH [of ?S "wrap32 (n + net_send S (net_tick S))"] Cons.IH [of S n] show ?case
    by (auto simp: Let_def intro: net_quiet_trans)
qed simp

section \<open>The start\<close>

text \<open>What has happened when \<open>mdlStart\<close> comes to the files.\<close>

definition stku_ready :: "stku_mask \<Rightarrow> stku \<Rightarrow> stku \<Rightarrow> bool" where
  "stku_ready M S0 S \<longleftrightarrow> (\<exists>s e a art clients.
     int_cast (um_send M) = Some s \<and> int_cast (um_e M) = Some e \<and> int_cast (um_a M) = Some a \<and> int_cast (um_art M) = Some art
   \<and> iwork S = [s, e, a, art, int THRUSTERS, 0] \<and> rwork S = [0, 0]
   \<and> pwork S = replicate 10 Null @ [Clients clients, Str (mxGetString (um_ip M) 64)]
   \<and> files S = files S0 \<and> streams S = streams S0 \<and> fs_ok S = fs_ok S0 \<and> fmt_real S = fmt_real S0 \<and> flt S = flt S0 \<and> heap S = heap S0)"

lemma stku_setup_ready:
  assumes "stku_setup M (work_vectors (stku_InitializeSizes 8 True True) S) = Some S'"
  shows "stku_ready M S S'"
proof -
  define S0 where "S0 = work_vectors (stku_InitializeSizes 8 True True) S"
  have S0: "iwork S0 = [0, 0, 0, 0, 0, 0]" "rwork S0 = [0, 0]" "pwork S0 = replicate 12 Null" "files S0 = files S" "streams S0 = streams S"
    "fs_ok S0 = fs_ok S" "fmt_real S0 = fmt_real S" "flt S0 = flt S" "heap S0 = heap S"
    by (simp_all add: S0_def work_vectors_def stku_InitializeSizes_def no_sizes_def numeral_eq_Suc)
  obtain s e a art where c: "int_cast (um_send M) = Some s" "int_cast (um_e M) = Some e" "int_cast (um_a M) = Some a" "int_cast (um_art M) = Some art"
    using assms by (auto simp: stku_setup_def bind_eq_Some_conv)
  define f where "f = mxGetString (um_ip M) 64"
  define S1 where "S1 = S0\<lparr>iwork := [s, e, a, art, int THRUSTERS, 0], rwork := [0, 0],
     pwork := replicate 10 Null @ [Clients (replicate STK_CLIENTS no_client), Str f]\<rparr>"
  have upd: "(replicate 12 Null)[10 := x, 11 := y] = replicate 10 Null @ [x, y]" for x y by (simp add: numeral_eq_Suc)
  have prepare: "stku_setup M S0 = (if s = 1 then do {
       (client, S) \<leftarrow> stku_get_ip_addresses f S1;
       (client, S) \<leftarrow> connect_stku client S;
       ssSetPWorkValue 10 (Clients client) S
     } else Some S1)"
    by (simp add: stku_setup_def c work_defs S0 Let_def upd S1_def flip: f_def) (simp add: ssSetPWorkValue_def [abs_def])
  show ?thesis
  proof (cases "s = 1")
    case False
    then have "S' = S1" using assms prepare by (simp flip: S0_def)
    then show ?thesis by (auto simp: stku_ready_def c S1_def S0 f_def)
  next
    case True
    then obtain cs S2 cs' S3 where 1: "stku_get_ip_addresses f S1 = Some (cs, S2)" "connect_stku cs S2 = Some (cs', S3)"
      "ssSetPWorkValue 10 (Clients cs') S3 = Some S'"
      using assms prepare by (auto simp: bind_eq_Some_conv simp flip: S0_def)
    have "net_quiet S1 S3" using 1(1,2) by (blast intro: net_quiet_trans get_ip_quiet connect_stku_quiet)
    then have q: "pwork S3 = replicate 10 Null @ [Clients (replicate STK_CLIENTS no_client), Str f]" "iwork S3 = [s, e, a, art, int THRUSTERS, 0]"
      "rwork S3 = [0, 0]" "files S3 = files S" "streams S3 = streams S" "fs_ok S3 = fs_ok S" "fmt_real S3 = fmt_real S" "flt S3 = flt S" "heap S3 = heap S"
      by (simp_all add: net_quiet_def S1_def S0)
    have "S' = S3\<lparr>pwork := replicate 10 Null @ [Clients cs', Str f]\<rparr>"
      using 1(3) by (simp add: work_defs q(1) list_update_append)
    then show ?thesis using c by (auto simp: stku_ready_def q f_def)
  qed
qed

lemma fput_work: "fput its p S = Some S' \<Longrightarrow> pwork S' = pwork S"
  by (auto simp: fput_def split: pval.splits option.splits)

lemma fprintf_lines_work: "fprintf_lines p ls S = Some S' \<Longrightarrow> pwork S' = pwork S"
proof (induction p ls S rule: fprintf_lines.induct)
  case (2 p fmt as ls S)
  then obtain S1 where "fprintf p (endl fmt) as S = Some S1" "fprintf_lines p ls S1 = Some S'" by (auto simp: bind_eq_Some_conv)
  moreover from this(1) have "pwork S1 = pwork S" by (auto simp: fprintf_def bind_eq_Some_conv dest: fput_work)
  ultimately show ?case using "2.IH" by simp
qed simp

lemma fopen_work: "fopen f m S = Some (p, S') \<Longrightarrow> pwork S' = pwork S"
  by (auto simp: fopen_def Let_def split: if_splits)

text \<open>With an ephemeris file the head prints the epoch before it is there.\<close>

lemma ephemeris_head_faults:
  assumes "ssGetPWorkValue 4 S = Some Null"
  shows "stku_e_head efile S = None"
proof (rule ccontr)
  assume "stku_e_head efile S \<noteq> None"
  then obtain p S1 S2 S3 pos where run: "fopen efile ModeW S = Some (p, S1)" "fprintf_lines p (spaced (stk_begin ''Ephemeris'')) S1 = Some S2"
    "fprintf_lines p (stk_blank ''Ephemeris'') (S2\<lparr>nPointsPosE := pos\<rparr>) = Some S3" "pw_string 4 S3 \<noteq> None"
    by (auto simp: stku_e_head_def bind_eq_Some_conv Let_def)
  from run(1-3) have "pwork S3 = pwork S" by (auto dest!: fopen_work fprintf_lines_work)
  with assms run(4) show False by (simp add: work_defs split: if_splits)
qed

lemma attitude_head_faults:
  assumes "ssGetPWorkValue 4 S = Some Null"
  shows "stku_a_head afile S = None"
proof (rule ccontr)
  assume "stku_a_head afile S \<noteq> None"
  then obtain p S1 S2 S3 pos where run: "fopen afile ModeW S = Some (p, S1)" "fprintf_lines p (spaced (stk_begin ''Attitude'')) S1 = Some S2"
    "fprintf_lines p (stk_blank ''Attitude'') (S2\<lparr>nPointsPosA := pos\<rparr>) = Some S3" "pw_string 4 S3 \<noteq> None"
    by (auto simp: stku_a_head_def bind_eq_Some_conv Let_def)
  from run(1-3) have "pwork S3 = pwork S" by (auto dest!: fopen_work fprintf_lines_work)
  with assms run(4) show False by (simp add: work_defs split: if_splits)
qed

lemma numbered_files_fault:
  assumes "int_cast (um_e M) = Some 1 \<or> int_cast (um_a M) = Some 1"
  shows "stku_Start M (work_vectors (stku_InitializeSizes 8 True True) S) = None"
proof (cases "stku_setup M (work_vectors (stku_InitializeSizes 8 True True) S)")
  case None
  then show ?thesis by (auto simp: stku_Start_def Let_def intro!: bind_None)
next
  case (Some S1)
  then obtain e a where ready: "iwork S1 ! 1 = e" "iwork S1 ! 2 = a" "length (iwork S1) = 6" "ssGetPWorkValue 4 S1 = Some Null" "e = 1 \<or> a = 1"
    using assms by (auto dest!: stku_setup_ready simp: stku_ready_def work_defs nth_append)
  note heads = ephemeris_head_faults [OF ready(4)] attitude_head_faults [OF ready(4)]
  have const: "Option.bind m (\<lambda>_. None) = None" for m :: "'m option" and n :: 'n by (cases m) simp_all
  have get: "ssGetIWorkValue 1 S1 = Some e" "ssGetIWorkValue 2 S1 = Some a" using ready by (simp_all add: work_defs)
  show ?thesis
  proof (cases "e = 1")
    case True
    then show ?thesis by (simp add: stku_Start_def Some Let_def heads get get [simplified] const)
  next
    case False
    with ready(5) have "a = 1" by simp
    with False show ?thesis by (simp add: stku_Start_def Some Let_def heads get get [simplified] const)
  qed
qed


section \<open>The articulation file\<close>

text \<open>What a step logs, by the time, the thruster and its new value; and the log played back.\<close>

type_synonym change = "real \<times> nat \<times> real"

definition step_changes :: "real \<Rightarrow> real list \<Rightarrow> real list \<Rightarrow> nat list \<Rightarrow> change list" where
  "step_changes t prev th is = map (\<lambda>i. (t, i, th ! i)) (filter (\<lambda>i. th ! i \<noteq> prev ! i) is)"

fun thruster_log :: "(real \<Rightarrow> real) \<Rightarrow> real list \<Rightarrow> (real list \<times> real list) list \<Rightarrow> change list list" where
  "thruster_log rnd prev [] = []"
| "thruster_log rnd prev ((u1, u2) # us) =
     step_changes (u1 ! 0) prev (map rnd u2) [0..<THRUSTERS] # thruster_log rnd (map rnd u2) us"

definition play :: "change list \<Rightarrow> real list \<Rightarrow> real list" where
  "play cs th = fold (\<lambda>(t, i, v) th. th[i := v]) cs th"

definition log_line :: "(string \<Rightarrow> real \<Rightarrow> string) \<Rightarrow> change \<Rightarrow> string" where
  "log_line fr c = (case c of (t, i, v) \<Rightarrow> the (c_format fr (endl stku_art_line) [AD t, AI (int i), AD v]))"

lemma log_line_format: "c_format fr (endl stku_art_line) [AD t, AI (int i), AD v] = Some (log_line fr (t, i, v))"
  by (simp add: log_line_def stku_art_line_def format_simps)

lemma play_append [simp]: "play (xs @ ys) th = play ys (play xs th)" "play [] th = th"
  by (simp_all add: play_def)

lemma step_changes_append: "step_changes t prev th (is @ js) = step_changes t prev th is @ step_changes t prev th js"
  by (simp add: step_changes_def)

lemma play_prefix:
  "n \<le> length th \<Longrightarrow> length prev = length th \<Longrightarrow> play (step_changes t prev th [0..<n]) prev = take n th @ drop n prev"
proof (induction n)
  case 0
  then show ?case by (simp add: step_changes_def)
next
  case (Suc n)
  then have n: "n < length th" by simp
  have "play (step_changes t prev th [0..<Suc n]) prev = play (step_changes t prev th [n]) (take n th @ drop n prev)"
    using Suc by (simp add: step_changes_append)
  also have "\<dots> = take (Suc n) th @ drop (Suc n) prev"
    using n Suc.prems(2)
    by (auto simp: step_changes_def play_def take_Suc_conv_app_nth list_update_append Cons_nth_drop_Suc [symmetric])
  finally show ?case .
qed

lemma play_step: "length th = THRUSTERS \<Longrightarrow> length prev = THRUSTERS \<Longrightarrow> play (step_changes t prev th [0..<THRUSTERS]) prev = th"
  using play_prefix [of THRUSTERS th prev t] by simp

lemma play_log:
  "k < length us \<Longrightarrow> list_all (\<lambda>u. length (snd u) = THRUSTERS) us \<Longrightarrow> length prev = THRUSTERS \<Longrightarrow>
   play (concat (take (Suc k) (thruster_log rnd prev us))) prev = map rnd (snd (us ! k))"
proof (induction us arbitrary: k prev)
  case (Cons u us)
  obtain u1 u2 where u: "u = (u1, u2)" by (cases u)
  have len: "length u2 = THRUSTERS" "length (map rnd u2) = THRUSTERS" using Cons.prems(2) by (simp_all add: u)
  have first: "play (step_changes (u1 ! 0) prev (map rnd u2) [0..<THRUSTERS]) prev = map rnd u2"
    using len Cons.prems(3) by (intro play_step) simp_all
  show ?case
  proof (cases k)
    case (Suc j)
    then have "j < length us" "list_all (\<lambda>u. length (snd u) = THRUSTERS) us" using Cons.prems by simp_all
    from Cons.IH [OF this len(2)] show ?thesis by (simp add: u Suc first del: length_map)
  qed (simp add: u first)
qed simp

lemma art_loop_run:
  "at_end f c S \<Longrightarrow> distinct is \<Longrightarrow> (\<forall>i \<in> set is. cur ! i = prev ! i) \<Longrightarrow>
   art_loop (Stream f) t th is cur S
   = Some (fold (\<lambda>i p. p[i := th ! i]) is cur, grown f c (map Ch (concat (map (log_line (fmt_real S)) (step_changes t prev th is)))) S)"
proof (induction "is" arbitrary: c S cur)
  case Nil
  then show ?case by (simp add: step_changes_def)
next
  case (Cons i "is")
  have "cur[i := th ! i] ! j = prev ! j" if "j \<in> set is" for j
  proof -
    have "i \<noteq> j" using Cons.prems(2) that by auto
    then have "cur[i := th ! i] ! j = cur ! j" by (rule nth_list_update_neq)
    then show ?thesis using Cons.prems(3) that by simp
  qed
  then have rest: "distinct is" "\<forall>j \<in> set is. cur[i := th ! i] ! j = prev ! j" using Cons.prems(2) by simp_all
  have i: "cur ! i = prev ! i" using Cons.prems(3) by simp
  show ?case
  proof (cases "th ! i = prev ! i")
    case True
    with Cons.IH [OF Cons.prems(1) rest] show ?thesis by (simp add: step_changes_def i)
  next
    case False
    let ?S = "grown f c (map Ch (log_line (fmt_real S) (t, i, th ! i))) S"
    have "at_end f (c @ map Ch (log_line (fmt_real S) (t, i, th ! i))) ?S" by simp
    from Cons.IH [OF this rest] False show ?thesis
      by (simp add: step_changes_def i fprintf_def log_line_format fput_end [OF Cons.prems(1)])
  qed
qed

lemma fold_all: "length prev = length th \<Longrightarrow> fold (\<lambda>i p. p[i := th ! i]) [0..<length th] prev = th"
proof -
  assume len: "length prev = length th"
  have "n \<le> length th \<Longrightarrow> fold (\<lambda>i p. p[i := th ! i]) [0..<n] prev = take n th @ drop n prev" for n
  proof (induction n)
    case (Suc n)
    then show ?case
      using len by (simp add: take_Suc_conv_app_nth list_update_append Cons_nth_drop_Suc [symmetric])
  qed simp
  then show ?thesis using len by simp
qed

definition logging :: "string \<Rightarrow> (real \<Rightarrow> real) \<Rightarrow> (string \<Rightarrow> real \<Rightarrow> string) \<Rightarrow> real list \<Rightarrow> item list \<Rightarrow> stku \<Rightarrow> bool" where
  "logging f rnd fr prev c S \<longleftrightarrow> (\<exists>s e a tb cs. iwork S = [s, e, a, 1, int THRUSTERS, tb] \<and> e \<noteq> 1 \<and> a \<noteq> 1
     \<and> length (pwork S) = 12 \<and> pwork S ! 7 = Stream f \<and> pwork S ! 8 = Floats prev \<and> pwork S ! 10 = Clients cs)
   \<and> length prev = THRUSTERS \<and> at_end f c S \<and> flt S = rnd \<and> fmt_real S = fr"

lemma stku_Outputs_logging:
  fixes u1 :: "real list"
  assumes log: "logging f rnd fr prev c S" and u2: "length u2 = THRUSTERS"
  defines "new \<equiv> map Ch (concat (map (log_line fr) (step_changes (u1 ! 0) prev (map rnd u2) [0..<THRUSTERS])))"
  shows "\<exists>S'. stku_Outputs u1 u2 S = Some S' \<and> logging f rnd fr (map rnd u2) (c @ new) S'"
proof -
  obtain s e a tb cs where S: "iwork S = [s, e, a, 1, int THRUSTERS, tb]" "e \<noteq> 1" "a \<noteq> 1" "length (pwork S) = 12"
    "pwork S ! 7 = Stream f" "pwork S ! 8 = Floats prev" "pwork S ! 10 = Clients cs" "length prev = THRUSTERS"
    "at_end f c S" "flt S = rnd" "fmt_real S = fr"
    using log unfolding logging_def by blast
  let ?buf = "u1 @ map rnd u2"
  define SA where "SA = S\<lparr>pwork := (pwork S)[9 := Floats ?buf]\<rparr>"
  define n where "n = fst (send_clients ?buf cs 0 SA)"
  define SB where "SB = snd (send_clients ?buf cs 0 SA)"
  have send: "send_clients ?buf cs 0 SA = (n, SB)" by (simp add: n_def SB_def)
  have q: "net_quiet SA SB" unfolding SB_def by (rule send_clients_quiet)
  define SC where "SC = (if s = 1 then SB\<lparr>iwork := [s, e, a, 1, int THRUSTERS, wrap32 (tb + n)], outs := [of_int (wrap32 (tb + n))]\<rparr>
    else SA\<lparr>outs := [0]\<rparr>)"
  have SC: "length (pwork SC) = 12" "pwork SC ! 7 = Stream f" "pwork SC ! 8 = Floats prev" "pwork SC ! 10 = Clients cs"
    "\<exists>tb. iwork SC = [s, e, a, 1, int THRUSTERS, tb]" "at_end f c SC" "flt SC = rnd" "fmt_real SC = fr"
    using q S by (simp_all add: SC_def SA_def net_quiet_def at_end_def)
  then obtain tb' where iw: "iwork SC = [s, e, a, 1, int THRUSTERS, tb']" by blast
  have loop: "art_loop (Stream f) (u1 ! 0) (map rnd u2) [0..<THRUSTERS] prev SC = Some (map rnd u2, grown f c new SC)"
    using art_loop_run [OF SC(6), of "[0..<THRUSTERS]" prev prev "u1 ! 0" "map rnd u2"] fold_all [of prev "map rnd u2"] S(8) u2
    by (simp add: SC(8) new_def)
  define SD where "SD = (grown f c new SC)\<lparr>pwork := (pwork SC)[8 := Floats (map rnd u2)]\<rparr>"
  have "stku_Outputs u1 u2 S = do {
     art_stream \<leftarrow> ssGetPWorkValue 7 SC;
     prevThruster \<leftarrow> pw_floats 8 SC;
     (prevThruster, S) \<leftarrow> art_loop art_stream (u1 ! 0) (map rnd u2) [0..<THRUSTERS] prevThruster SC;
     ssSetPWorkValue 8 (Floats prevThruster) S
   }"
  proof -
    have client: "pw_clients10 S = Some cs" using S by (simp add: pw_clients10_def work_defs)
    have set9: "ssSetPWorkValue 9 (Floats ?buf) S = Some SA" using S by (simp add: work_defs SA_def)
    have iSA: "iwork SA = [s, e, a, 1, int THRUSTERS, tb]" "iwork SB = [s, e, a, 1, int THRUSTERS, tb]"
      using q by (simp_all add: SA_def S net_quiet_def)
    show ?thesis
      using S(2,3) by (simp add: stku_Outputs_def client set9 Let_def ssGetIWorkValue_def ssSetIWorkValue_def nth_opt_def iSA send S(10))
        (auto simp: SC_def iSA iw nth_opt_def)
  qed
  also have "\<dots> = Some SD" using SC(1-3) by (simp add: work_defs pw_floats_def loop SD_def)
  finally have "stku_Outputs u1 u2 S = Some SD" .
  moreover have "logging f rnd fr (map rnd u2) (c @ new) SD"
    using SC iw S(2,3) u2 by (auto simp: logging_def SD_def at_end_def)
  ultimately show ?thesis by blast
qed

lemma stku_run_logging:
  "logging f rnd fr prev c S \<Longrightarrow> list_all (\<lambda>u. length (snd u) = THRUSTERS) us \<Longrightarrow>
   \<exists>S' prev'. stku_run us S = Some S'
     \<and> logging f rnd fr prev' (c @ map Ch (concat (map (log_line fr) (concat (thruster_log rnd prev us))))) S'"
proof (induction us arbitrary: prev c S)
  case Nil
  then show ?case by auto
next
  case (Cons u us)
  obtain u1 u2 where u: "u = (u1, u2)" by (cases u)
  have "length u2 = THRUSTERS" "list_all (\<lambda>u. length (snd u) = THRUSTERS) us" using Cons.prems(2) by (simp_all add: u)
  with stku_Outputs_logging [OF Cons.prems(1), of u2 u1] Cons.IH show ?case by (fastforce simp: u)
qed


definition art_title :: string where
  "art_title = endl ''SPREADSHEET'' @ endl []"

lemma art_head_logs:
  assumes "stku_art_head f S = Some (p, S')" 
  shows "p = Stream f" "at_end f (map Ch art_title) S'" "pwork S' = pwork S" "iwork S' = iwork S" "flt S' = flt S"
    "fmt_real S' = fmt_real S" "heap S' = heap S"
proof -
  have title: "lines_text fr (spaced [(''SPREADSHEET'', [])]) = Some art_title" for fr
    by (simp add: format_simps art_title_def)
  obtain S1 where S1: "fopen f ModeW S = Some (p, S1)" "fprintf_lines p (spaced [(''SPREADSHEET'', [])]) S1 = Some S'"
    using assms by (auto simp: stku_art_head_def bind_eq_Some_conv)
  have "p = Stream f"
  proof (rule ccontr)
    assume "p \<noteq> Stream f"
    with S1(1) have "p = Null" by (auto simp: fopen_def Let_def split: if_splits)
    with S1(2) show False by (simp add: fprintf_def fput_def bind_eq_Some_conv)
  qed
  with S1(1) have at: "at_end f [] S1" and same: "pwork S1 = pwork S" "iwork S1 = iwork S" "flt S1 = flt S" "fmt_real S1 = fmt_real S" "heap S1 = heap S"
    by (auto simp: fopen_def Let_def at_end_def split: if_splits)
  have "S' = grown f [] (map Ch art_title) S1" using S1(2) fprintf_lines_end [OF at title] \<open>p = Stream f\<close> by simp
  moreover have "heap (grown f [] its S1) = heap S1" for its by (simp add: grown_def)
  moreover have "at_end f (map Ch art_title) (grown f [] (map Ch art_title) S1)" using at_end_grown [of f "[]"] by simp
  ultimately show "p = Stream f" "at_end f (map Ch art_title) S'" "pwork S' = pwork S" "iwork S' = iwork S" "flt S' = flt S"
    "fmt_real S' = fmt_real S" "heap S' = heap S"
    using \<open>p = Stream f\<close> same by simp_all
qed

lemma stku_Start_logs:
  assumes start: "stku_Start M (work_vectors (stku_InitializeSizes 8 True True) S0) = Some S1" and art: "int_cast (um_art M) = Some 1"
  shows "logging (mxGetString (um_prefix M) 32 @ ''.sama'') (flt S0) (fmt_real S0) (map (heap S0) [0..<THRUSTERS]) (map Ch art_title) S1"
proof -
  define f where "f = mxGetString (um_prefix M) 32 @ ''.sama''"
  have names: "strcat 32 (mxGetString (um_prefix M) 32) ''.sama'' = Some x \<Longrightarrow> x = f" for x
    by (simp add: strcat_def f_def split: if_splits)
  have off: "int_cast (um_e M) \<noteq> Some 1" "int_cast (um_a M) \<noteq> Some 1"
    using start numbered_files_fault [of M S0] by auto
  obtain S where setup1: "stku_setup M (work_vectors (stku_InitializeSizes 8 True True) S0) = Some S"
    using start by (auto simp: stku_Start_def bind_eq_Some_conv Let_def)
  from stku_setup_ready [OF this] off art obtain s e a clients where S: "e \<noteq> 1" "a \<noteq> 1" "iwork S = [s, e, a, 1, int THRUSTERS, 0]"
    "pwork S = replicate 10 Null @ [Clients clients, Str (mxGetString (um_ip M) 64)]" "fmt_real S = fmt_real S0" "flt S = flt S0" "heap S = heap S0"
    by (auto simp: stku_ready_def)
  have flags: "ssGetIWorkValue 1 S = Some e" "ssGetIWorkValue 2 S = Some a" "ssGetIWorkValue 3 S = Some 1" by (simp_all add: work_defs S(3))
  obtain efile afile p S2 where heads: "stku_art_head f S = Some (p, S2)" "do {
     S \<leftarrow> ssSetPWorkValue 0 (Str efile) S2;
     S \<leftarrow> ssSetPWorkValue 1 (Str afile) S;
     S \<leftarrow> ssSetPWorkValue 2 (Str f) S;
     S \<leftarrow> ssSetPWorkValue 3 (Str (mxGetString (um_prefix M) 32)) S;
     S \<leftarrow> ssSetPWorkValue 4 (Str (mxGetString (um_epoch M) 64)) S;
     S \<leftarrow> ssSetPWorkValue 5 Null S;
     S \<leftarrow> ssSetPWorkValue 6 Null S;
     S \<leftarrow> ssSetPWorkValue 7 p S;
     S \<leftarrow> ssSetPWorkValue 8 (Floats (map (heap S) [0..<THRUSTERS])) S;
     ssSetPWorkValue 9 (Floats (map (heap S) [THRUSTERS..<11 + 2 * THRUSTERS])) S
   } = Some S1"
  proof -
    from start obtain efile afile artfile p S2 where "strcat 32 (mxGetString (um_prefix M) 32) ''.sama'' = Some artfile"
      "stku_art_head artfile S = Some (p, S2)" "do {
     S \<leftarrow> ssSetPWorkValue 0 (Str efile) S2;
     S \<leftarrow> ssSetPWorkValue 1 (Str afile) S;
     S \<leftarrow> ssSetPWorkValue 2 (Str artfile) S;
     S \<leftarrow> ssSetPWorkValue 3 (Str (mxGetString (um_prefix M) 32)) S;
     S \<leftarrow> ssSetPWorkValue 4 (Str (mxGetString (um_epoch M) 64)) S;
     S \<leftarrow> ssSetPWorkValue 5 Null S;
     S \<leftarrow> ssSetPWorkValue 6 Null S;
     S \<leftarrow> ssSetPWorkValue 7 p S;
     S \<leftarrow> ssSetPWorkValue 8 (Floats (map (heap S) [0..<THRUSTERS])) S;
     ssSetPWorkValue 9 (Floats (map (heap S) [THRUSTERS..<11 + 2 * THRUSTERS])) S
   } = Some S1"
      unfolding stku_Start_def Let_def setup1
      by (simp only: bind_eq_Some_conv [of "strcat a b c" for a b c] Option.bind.simps flags S(1,2) if_False if_True prod.case)
        (auto simp: bind_eq_Some_conv [of "stku_art_head g S" for g])
    with names show thesis using that by blast
  qed
  note S2 = art_head_logs [OF heads(1)]
  have "S1 = S2\<lparr>pwork := [Str efile, Str afile, Str f, Str (mxGetString (um_prefix M) 32), Str (mxGetString (um_epoch M) 64), Null, Null, Stream f,
     Floats (map (heap S0) [0..<THRUSTERS]), Floats (map (heap S0) [THRUSTERS..<11 + 2 * THRUSTERS]), Clients clients, Str (mxGetString (um_ip M) 64)]\<rparr>"
  proof -
    have "pwork S2 = [Null, Null, Null, Null, Null, Null, Null, Null, Null, Null, Clients clients, Str (mxGetString (um_ip M) 64)]"
      by (simp add: S2(3) S(4) numeral_eq_Suc)
    moreover have "heap S2 = heap S0" by (simp add: S2(7) S(7))
    ultimately show ?thesis using heads(2) by (simp add: work_defs S2(1))
  qed
  then show ?thesis
    using S S2 by (simp add: logging_def f_def at_end_def)
qed

section \<open>Theorem\<close>



text \<open>
  Two steps with the send switched off; the first thruster goes to 1 and stays there, but the memory
  held 1 before the first step, so the file has a line for the second thruster only.
\<close>

definition thruster_sim :: stku where
  "thruster_sim = \<lparr>sampleTime = 1, in_width = 11, iwork = [], rwork = [], pwork = [], outs = [], errorStatus = None,
     files = (\<lambda>_. None), streams = (\<lambda>_. None), fs_ok = (\<lambda>_. True), fs_tick = 0, host_files = (\<lambda>_. None), console = [],
     fmt_real = (\<lambda>_ _. ''0''), dbl = (\<lambda>x. x),
     getservbyname = (\<lambda>_ _. None), gethostbyname = (\<lambda>_. None), inet_addr = (\<lambda>_. 0), getprotobyname = (\<lambda>_. None),
     net_socket = (\<lambda>k. 3), net_connect = (\<lambda>_ _ _. 0), net_send = (\<lambda>k. 0), net_recv = (\<lambda>_. Would_block), net_setup = (\<lambda>_. True),
     heap = (\<lambda>i. if i = 0 then 1 else 0), net_tick = 0, sent = [], shut = [], nPointsPosE = 0, nPointsPosA = 0, flt = (\<lambda>x. x)\<rparr>"

definition thruster_mask :: stku_mask where
  "thruster_mask = \<lparr>um_send = 0, um_e = 0, um_a = 0, um_art = 1, um_prefix = ''run'', um_epoch = [], um_ip = []\<rparr>"


end
