(* ===== verification/TimeKeeper.thy ===== *)
theory TimeKeeper
  imports SimStruct
begin

text \<open>
  The block that holds a simulation back to real time (SFunctions/TimeKeeper/timekeeper.c, with
  LINUX_TIMER). The callback of the timer counts its periods and \<open>mdlOutputs\<close> waits until the count is
  ahead of its own; the two interleave in every possible way. The theorem: the simulation is never
  ahead of the timer, the output says how far it is behind, and a frame that waits goes on with the
  next period; but for steps under a millisecond the timer never runs and the first frame waits for ever.
\<close>

section \<open>The block\<close>

datatype tk_phase = Idle | Waiting

record tk =
  enabled :: int
  debug_enabled :: int
  high_priority :: int
  delay_time :: "32 word"
  timercounter :: "32 word"
  oldtimercounter :: "32 word"
  StartTime :: "int \<times> int"
  timer_nsec :: "32 word option"
  tk_phase :: tk_phase
  tk_y0 :: real
  tk_y1 :: real
  overruns :: "(int \<times> int \<times> int) list"

definition tk_InitializeSizes :: "nat \<Rightarrow> sizes" where
  "tk_InitializeSizes params =
     (let z = no_sizes\<lparr>num_params := 3\<rparr>
      in if params \<noteq> 3 then z
         else z\<lparr>in_widths := [Width 1], feedthrough := [True], out_widths := [Width 1, Width 1], sample_times := 1\<rparr>)"

definition tk_InitializeSampleTimes :: "real \<Rightarrow> real \<Rightarrow> real \<Rightarrow> tk \<Rightarrow> tk option" where
  "tk_InitializeSampleTimes p_enabled p_debug p_high S = do {
     e \<leftarrow> int_cast p_enabled;
     d \<leftarrow> int_cast p_debug;
     h \<leftarrow> int_cast p_high;
     Some (S\<lparr>enabled := e, debug_enabled := d, high_priority := h\<rparr>)
   }"

text \<open>The conversion of a \<open>double\<close> to \<open>UINT\<close>.\<close>

definition uint_cast :: "real \<Rightarrow> 32 word option" where
  "uint_cast x = (if - 1 < x \<and> x < 4294967296 then Some (word_of_int (trunc x)) else None)"

text \<open>
  \<open>timer_settime\<close> refuses a period of a second or more, and with a period of 0 the timer does not
  run. The counters are cleared after the timer has been started: periods before that do not count.
  The end of the process after an error is \<open>None\<close>.
\<close>

definition tk_Start :: "(real \<Rightarrow> real) \<Rightarrow> real \<Rightarrow> int \<times> int \<Rightarrow> bool \<Rightarrow> tk \<Rightarrow> tk option" where
  "tk_Start rnd step now created S = do {
     delay \<leftarrow> uint_cast (rnd (1000 * step));
     let S = S\<lparr>StartTime := now, delay_time := delay, tk_phase := Idle\<rparr>;
     S \<leftarrow> (if enabled S = 1 then
           (let nsec = 1000000 * delay
            in if \<not> created \<or> 1000000000 \<le> nsec then None else Some (S\<lparr>timer_nsec := Some nsec\<rparr>))
         else Some (S\<lparr>timer_nsec := None\<rparr>));
     Some (S\<lparr>timercounter := 0, oldtimercounter := 0\<rparr>)
   }"

definition TimeProc :: "tk \<Rightarrow> tk" where
  "TimeProc S = S\<lparr>timercounter := timercounter S + 1\<rparr>"

text \<open>\<open>mdlOutputs\<close> up to its loop, and after it.\<close>

definition wall_time :: "(real \<Rightarrow> real) \<Rightarrow> int \<times> int \<Rightarrow> int \<times> int \<Rightarrow> real" where
  "wall_time rnd from now = rnd (of_int (fst now - fst from) + rnd (of_int (snd now - snd from) / 1000000))"

definition tk_enter :: "(real \<Rightarrow> real) \<Rightarrow> real \<Rightarrow> int \<times> int \<Rightarrow> tk \<Rightarrow> tk" where
  "tk_enter rnd uRT now S =
     (let S = S\<lparr>tk_y1 := wall_time rnd (StartTime S) now\<rparr>
      in if uRT > 1 / 2 \<and> enabled S = 1 then S\<lparr>tk_phase := Waiting\<rparr> else S\<lparr>tk_y0 := 0\<rparr>)"

definition tk_leave :: "tk \<Rightarrow> tk" where
  "tk_leave S =
     (let S = (if oldtimercounter S < timercounter S - 1 \<and> debug_enabled S = 1
           then S\<lparr>overruns := overruns S @ [(sint (oldtimercounter S), sint (timercounter S), sint (timercounter S - oldtimercounter S))]\<rparr>
           else S);
          S = S\<lparr>oldtimercounter := oldtimercounter S + 1\<rparr>
      in S\<lparr>tk_y0 := of_int (uint (timercounter S - oldtimercounter S)), tk_phase := Idle\<rparr>)"

definition tk_Terminate :: "bool \<Rightarrow> tk \<Rightarrow> tk option" where
  "tk_Terminate deleted S =
     (if enabled S = 1 then (if deleted then Some (S\<lparr>timer_nsec := None\<rparr>) else None) else Some S)"

section \<open>The interleaving\<close>

text \<open>
  A period of the timer, the call of \<open>mdlOutputs\<close>, one turn of its loop, and its return: the reads of
  the counter after the loop are one step, they all see the same value.
\<close>

datatype tk_event = Period | Call real "int \<times> int" | Turn | Return

definition timer_runs :: "tk \<Rightarrow> bool" where
  "timer_runs S \<longleftrightarrow> timer_nsec S \<noteq> None \<and> timer_nsec S \<noteq> Some 0"

inductive tk_step :: "(real \<Rightarrow> real) \<Rightarrow> tk_event \<Rightarrow> tk \<Rightarrow> tk \<Rightarrow> bool" for rnd where
  period: "timer_runs S \<Longrightarrow> tk_step rnd Period S (TimeProc S)"
| call: "tk_phase S = Idle \<Longrightarrow> tk_step rnd (Call uRT now) S (tk_enter rnd uRT now S)"
| turn: "tk_phase S = Waiting \<Longrightarrow> timercounter S = oldtimercounter S \<Longrightarrow> tk_step rnd Turn S S"
| return: "tk_phase S = Waiting \<Longrightarrow> timercounter S \<noteq> oldtimercounter S \<Longrightarrow> tk_step rnd Return S (tk_leave S)"

inductive tk_steps :: "(real \<Rightarrow> real) \<Rightarrow> tk_event list \<Rightarrow> tk \<Rightarrow> tk \<Rightarrow> bool" for rnd where
  none: "tk_steps rnd [] S S"
| more: "tk_steps rnd es S S' \<Longrightarrow> tk_step rnd e S' S'' \<Longrightarrow> tk_steps rnd (es @ [e]) S S''"

code_pred (modes: i \<Rightarrow> i \<Rightarrow> i \<Rightarrow> o \<Rightarrow> bool) tk_step .

inductive_simps tk_step_simps:
  "tk_step rnd Period S S'" "tk_step rnd (Call u now) S S'" "tk_step rnd Turn S S'" "tk_step rnd Return S S'"

definition periods :: "tk_event list \<Rightarrow> nat" where
  "periods es = count_list es Period"

definition frames :: "tk_event list \<Rightarrow> nat" where
  "frames es = count_list es Return"

lemma counts [simp]:
  "periods [] = 0" "frames [] = 0" "periods (es @ [e]) = periods es + (if e = Period then 1 else 0)"
  "frames (es @ [e]) = frames es + (if e = Return then 1 else 0)"
  by (simp_all add: periods_def frames_def)

section \<open>Invariants\<close>

text \<open>What a run leaves as it was.\<close>

lemma tk_fixed: "tk_steps rnd es S S' \<Longrightarrow> enabled S' = enabled S \<and> timer_nsec S' = timer_nsec S"
  by (induction rule: tk_steps.induct) (auto elim!: tk_step.cases simp: TimeProc_def tk_enter_def tk_leave_def Let_def)

lemma tk_counts:
  "tk_steps rnd es S S' \<Longrightarrow> timercounter S = 0 \<Longrightarrow> oldtimercounter S = 0 \<Longrightarrow>
    timercounter S' = of_nat (periods es) \<and> oldtimercounter S' = of_nat (frames es) \<and> frames es \<le> periods es"
proof (induction rule: tk_steps.induct)
  case (more es S1 S' e S'')
  from more.hyps(2) more.IH more.prems show ?case
  proof cases
    case return
    with more.IH more.prems have "frames es \<noteq> periods es" by auto
    with return more.IH more.prems show ?thesis by (simp add: tk_leave_def Let_def)
  qed (auto simp: TimeProc_def tk_enter_def Let_def)
qed simp

lemma tk_no_periods: "tk_steps rnd es S S' \<Longrightarrow> \<not> timer_runs S \<Longrightarrow> periods es = 0"
proof (induction rule: tk_steps.induct)
  case (more es S S' e S'')
  then have "\<not> timer_runs S'" using tk_fixed [OF more.hyps(1)] by (simp add: timer_runs_def)
  with more show ?case by (auto elim: tk_step.cases)
qed simp

lemma tk_behind:
  assumes "tk_steps rnd (es @ [Return]) S S'" "timercounter S = 0" "oldtimercounter S = 0"
  shows "tk_y0 S' = of_nat ((periods es - Suc (frames es)) mod 2 ^ 32)"
proof -
  from assms(1) obtain S1 where S1: "tk_steps rnd es S S1" "tk_step rnd Return S1 S'"
    by (auto elim: tk_steps.cases)
  note c = tk_counts [OF assms] tk_counts [OF S1(1) assms(2,3)]
  then have le: "Suc (frames es) \<le> periods es" by simp
  have "timercounter S1 - (oldtimercounter S1 + 1) = of_nat (periods es - Suc (frames es))"
    using c le by (simp add: of_nat_diff)
  moreover have "tk_y0 S' = of_int (uint (timercounter S1 - (oldtimercounter S1 + 1)))"
    using S1(2) by (auto simp: tk_step_simps tk_leave_def Let_def)
  ultimately show ?thesis by (simp add: uint_nat unat_of_nat)
qed

lemma tk_released:
  assumes "tk_phase S = Waiting" "timer_runs S"
  shows "(\<exists>S'. tk_step rnd Return S S') \<or> (\<exists>S' S''. tk_step rnd Period S S' \<and> tk_step rnd Return S' S'')"
proof (cases "timercounter S = oldtimercounter S")
  case True
  then have "timercounter (TimeProc S) \<noteq> oldtimercounter (TimeProc S)" "tk_phase (TimeProc S) = Waiting"
    using assms(1) by (simp_all add: TimeProc_def)
  then have "tk_step rnd Return (TimeProc S) (tk_leave (TimeProc S))" by (rule tk_step.return [rotated])
  moreover have "tk_step rnd Period S (TimeProc S)" using assms(2) by (rule tk_step.period)
  ultimately show ?thesis by blast
next
  case False
  with assms(1) show ?thesis by (blast intro: tk_step.return)
qed

lemma tk_Start_counters:
  "tk_Start rnd step now created S = Some S' \<Longrightarrow> enabled S = 1 \<Longrightarrow>
   timercounter S' = 0 \<and> oldtimercounter S' = 0 \<and> timer_nsec S' = Some (1000000 * delay_time S')"
  by (auto simp: tk_Start_def bind_eq_Some_conv Let_def split: if_splits)

text \<open>From a second on the start ends the process, until the product wraps.\<close>

lemma second_steps_fail:
  "1000 \<le> delay \<Longrightarrow> delay \<le> 4294 \<Longrightarrow> enabled S = 1 \<Longrightarrow> uint_cast (rnd (1000 * step)) = Some (of_nat delay) \<Longrightarrow>
   tk_Start rnd step now created S = None"
proof -
  assume d: "1000 \<le> delay" "delay \<le> 4294" "enabled S = 1" "uint_cast (rnd (1000 * step)) = Some (of_nat delay)"
  define ms :: "32 word" where "ms = of_nat delay"
  have ms: "unat ms = delay" unfolding ms_def unat_of_nat using d(2) by simp
  have "unat (1000000 * ms) = 1000000 * delay" using d(2) ms by (simp add: unat_word_ariths)
  then have "1000000000 \<le> 1000000 * (of_nat delay :: 32 word)"
    using d(1) by (simp add: word_le_nat_alt flip: ms_def)
  with d(3,4) show ?thesis by (simp add: tk_Start_def)
qed

section \<open>Theorem\<close>

text \<open>
  C32. From a start with the block enabled, in every interleaving: no more frames have returned than
  periods of the timer have passed; a frame that returns puts out how many periods it is behind,
  modulo 2 to the 32; a frame that waits can return at once or after the next period, if the timer
  runs; and with a step under a millisecond it does not run, and no frame ever returns.
\<close>

theorem realtime_throttle:
  assumes "tk_Start rnd step now created S0 = Some S1" "enabled S0 = 1" "tk_steps rnd es S1 S"
  shows "frames es \<le> periods es
    \<and> (\<forall>es'. es = es' @ [Return] \<longrightarrow> tk_y0 S = of_nat ((periods es - frames es) mod 2 ^ 32))
    \<and> (tk_phase S = Waiting \<and> timer_runs S \<longrightarrow>
         (\<exists>S'. tk_step rnd Return S S') \<or> (\<exists>S' S''. tk_step rnd Period S S' \<and> tk_step rnd Return S' S''))
    \<and> (delay_time S1 = 0 \<longrightarrow> frames es = 0)"
proof -
  note start = tk_Start_counters [OF assms(1,2)]
  then have le: "frames es \<le> periods es" using tk_counts [OF assms(3)] by simp
  have "frames es = 0" if "delay_time S1 = 0"
    using tk_no_periods [OF assms(3)] le start that by (simp add: timer_runs_def)
  moreover have "tk_y0 S = of_nat ((periods es - frames es) mod 2 ^ 32)" if "es = es' @ [Return]" for es'
    using tk_behind [of rnd es' S1 S] assms(3) start that by simp
  ultimately show ?thesis using le tk_released [of S rnd] by blast
qed

text \<open>Steps of 20 ms: two periods pass before the first frame returns, which is one period behind.\<close>

definition tk_example :: tk where
  "tk_example = \<lparr>enabled = 1, debug_enabled = 0, high_priority = 0, delay_time = 0, timercounter = 5, oldtimercounter = 7, StartTime = (0, 0),
     timer_nsec = None, tk_phase = Idle, tk_y0 = 0, tk_y1 = 0, overruns = []\<rparr>"

lemma realtime_throttle_witness:
  "\<exists>S1 S. tk_Start (\<lambda>x. x) (1 / 50) (0, 0) True tk_example = Some S1 \<and> delay_time S1 = 20
    \<and> tk_steps (\<lambda>x. x) [Period, Period, Call 1 (1, 0), Return] S1 S \<and> tk_y0 S = 1"
proof -
  obtain S1 where S1: "tk_Start (\<lambda>x. x) (1 / 50) (0, 0) True tk_example = Some S1" "delay_time S1 = 20"
    "timer_nsec S1 = Some 20000000" "tk_phase S1 = Idle" "timercounter S1 = 0" "oldtimercounter S1 = 0" "enabled S1 = 1"
    by (simp add: tk_Start_def tk_example_def uint_cast_def trunc_def)
  define S2 where "S2 = TimeProc (TimeProc S1)"
  define S3 where "S3 = tk_enter (\<lambda>x. x) 1 (1, 0) S2"
  have S3: "tk_phase S3 = Waiting" "timercounter S3 \<noteq> oldtimercounter S3"
    by (simp_all add: S3_def S2_def TimeProc_def tk_enter_def Let_def S1)
  have "tk_steps (\<lambda>x. x) ([] @ [Period]) S1 (TimeProc S1)"
    by (rule tk_steps.more [OF tk_steps.none]) (simp add: tk_step_simps timer_runs_def S1)
  then have "tk_steps (\<lambda>x. x) (([] @ [Period]) @ [Period]) S1 S2"
    by (rule tk_steps.more) (simp add: tk_step_simps timer_runs_def S1 S2_def TimeProc_def)
  then have "tk_steps (\<lambda>x. x) ((([] @ [Period]) @ [Period]) @ [Call 1 (1, 0)]) S1 S3"
    by (rule tk_steps.more) (simp add: tk_step_simps S3_def S2_def TimeProc_def S1)
  then have "tk_steps (\<lambda>x. x) (((([] @ [Period]) @ [Period]) @ [Call 1 (1, 0)]) @ [Return]) S1 (tk_leave S3)"
    by (rule tk_steps.more) (simp add: tk_step_simps S3)
  then have run: "tk_steps (\<lambda>x. x) [Period, Period, Call 1 (1, 0), Return] S1 (tk_leave S3)" by simp
  moreover have "enabled tk_example = 1" by (simp add: tk_example_def)
  moreover have "frames [Period, Period, Call 1 (1, 0), Return] = 1" "periods [Period, Period, Call 1 (1, 0), Return] = 2"
    by (simp_all add: frames_def periods_def)
  ultimately have "tk_y0 (tk_leave S3) = of_nat ((2 - 1) mod 2 ^ 32)"
    using realtime_throttle [OF S1(1) _ run] by (auto dest: spec [of _ "[Period, Period, Call 1 (1, 0)]"])
  with S1 run show ?thesis by auto
qed

end
