(* ===== verification/Joystick.thy ===== *)
theory Joystick
  imports SimStruct "HOL-Library.Word"
begin

unbundle bit_operations_syntax

text \<open>
  The joystick block for Linux (SFunctions/LINUX/joystick/joystick_s.c), the program it was made
  from (joystick.c), and the sound block (SFunctions/PlaySound/playsound.c). The device is an
  oracle: how many axes and buttons it has, and what each \<open>read\<close>, which does not wait, delivers. An
  access beyond an array is \<open>None\<close>. The theorem: the outputs of the block are the last events read.
\<close>

section \<open>Events\<close>

text \<open>An event of the device, without its time, which the code ignores.\<close>

record js_event =
  js_value :: "16 word"
  js_type :: "8 word"
  js_number :: nat

definition JS_EVENT_BUTTON :: "8 word" where
  "JS_EVENT_BUTTON = 1"

definition JS_EVENT_AXIS :: "8 word" where
  "JS_EVENT_AXIS = 2"

definition JS_EVENT_INIT :: "8 word" where
  "JS_EVENT_INIT = 0x80"

definition no_event :: js_event where
  "no_event = \<lparr>js_value = 0, js_type = 0, js_number = 0\<rparr>"

definition event_kind :: "js_event \<Rightarrow> 8 word" where
  "event_kind e = js_type e AND NOT JS_EVENT_INIT"

text \<open>The axes are \<open>int\<close>, the buttons \<open>char\<close>.\<close>

definition joy_event :: "js_event \<Rightarrow> int list \<times> 8 word list \<Rightarrow> (int list \<times> 8 word list) option" where
  "joy_event e ab =
     (case ab of (axis, button) \<Rightarrow>
        if event_kind e = JS_EVENT_AXIS then
          (if js_number e < length axis then Some (axis[js_number e := sint (js_value e)], button) else None)
        else if event_kind e = JS_EVENT_BUTTON then
          (if js_number e < length button then Some (axis, button[js_number e := ucast (js_value e)]) else None)
        else Some (axis, button))"

section \<open>The block\<close>

record joy =
  enabledJoystick :: int
  joy_fd :: int
  num_of_axis :: nat
  num_of_buttons :: nat
  joy_axes :: "int list"
  joy_buttons :: "8 word list"
  joy_js :: js_event
  joy_y1 :: "real list"
  joy_y2 :: "real list"
  closed_fds :: "int list"

definition joy_InitializeSizes :: "nat \<Rightarrow> sizes" where
  "joy_InitializeSizes params =
     (let z = no_sizes\<lparr>num_params := 1\<rparr>
      in if params \<noteq> 1 then z else z\<lparr>out_widths := [Width 4, Width 10], sample_times := 1\<rparr>)"

definition joy_InitializeSampleTimes :: "real \<Rightarrow> joy \<Rightarrow> joy option" where
  "joy_InitializeSampleTimes p S = map_option (\<lambda>e. S\<lparr>enabledJoystick := e\<rparr>) (int_cast p)"

text \<open>\<open>device\<close> is the descriptor with the numbers of axes and buttons; a device that cannot be opened leaves them as they were.\<close>

definition joy_Start :: "(int \<times> nat \<times> nat) option \<Rightarrow> joy \<Rightarrow> joy" where
  "joy_Start device S =
     (if enabledJoystick S = 1 then
        (let S = (case device of
                    None \<Rightarrow> S\<lparr>joy_fd := -1\<rparr>
                  | Some (fd, axes, buttons) \<Rightarrow> S\<lparr>joy_fd := fd, num_of_axis := axes, num_of_buttons := buttons\<rparr>)
         in S\<lparr>joy_axes := replicate (num_of_axis S) 0, joy_buttons := replicate (num_of_buttons S) 0\<rparr>)
      else S)"

text \<open>The conversion of a 16-bit value to \<open>float\<close> is exact; the division is rounded by \<open>rnd\<close>. A \<open>read\<close> that fails leaves the event as it was.\<close>

definition joy_Outputs :: "(real \<Rightarrow> real) \<Rightarrow> js_event option \<Rightarrow> joy \<Rightarrow> joy option" where
  "joy_Outputs rnd r S =
     (if enabledJoystick S = 1 then do {
        let S = S\<lparr>joy_js := (case r of Some e \<Rightarrow> e | None \<Rightarrow> joy_js S)\<rparr>;
        (axis, button) \<leftarrow> joy_event (joy_js S) (joy_axes S, joy_buttons S);
        if length axis < 4 \<or> length button < 10 then None
        else Some (S\<lparr>joy_axes := axis, joy_buttons := button,
               joy_y1 := map (\<lambda>i. rnd (of_int (axis ! i) / 32767)) [0..<4],
               joy_y2 := map (\<lambda>i. of_int (sint (button ! i))) [0..<10]\<rparr>)
      } else Some S)"

definition joy_Terminate :: "joy \<Rightarrow> joy" where
  "joy_Terminate S = S\<lparr>closed_fds := closed_fds S @ [joy_fd S]\<rparr>"

fun joy_run :: "(real \<Rightarrow> real) \<Rightarrow> js_event option list \<Rightarrow> joy \<Rightarrow> joy option" where
  "joy_run rnd [] S = Some S"
| "joy_run rnd (r # rs) S = do { S \<leftarrow> joy_Outputs rnd r S; joy_run rnd rs S }"

section \<open>The program\<close>

definition padded :: "nat \<Rightarrow> string \<Rightarrow> string" where
  "padded width s = replicate (width - length s) CHR '' '' @ s"

definition joy_line :: "int list \<Rightarrow> 8 word list \<Rightarrow> string option" where
  "joy_line axis button =
     (if length axis < 2 then None
      else Some (''X: '' @ padded 6 (show_int (axis ! 0)) @ ''  Y: '' @ padded 6 (show_int (axis ! 1)) @ ''  ''
        @ (if length axis > 2 then ''Z: '' @ padded 6 (show_int (axis ! 2)) @ ''  '' else [])
        @ (if length axis > 3 then ''R: '' @ padded 6 (show_int (axis ! 3)) @ ''  '' else [])
        @ concat (map (\<lambda>x. ''B'' @ show_int (int x) @ '': '' @ show_int (sint (button ! x)) @ ''  '') [0..<length button])
        @ ''  '' @ [CHR 0x0D]))"

text \<open>The endless loop, over the answers of \<open>read\<close>; before the first event \<open>js\<close> is what the stack held.\<close>

fun joy_loop :: "js_event \<Rightarrow> js_event option list \<Rightarrow> int list \<times> 8 word list \<Rightarrow> string list option" where
  "joy_loop js [] ab = Some []"
| "joy_loop js (r # rs) ab =
     (let js = (case r of Some e \<Rightarrow> e | None \<Rightarrow> js)
      in do {
        ab \<leftarrow> joy_event js ab;
        line \<leftarrow> joy_line (fst ab) (snd ab);
        lines \<leftarrow> joy_loop js rs ab;
        Some (line # lines)
      })"

definition joy_main :: "(int \<times> nat \<times> nat) option \<Rightarrow> js_event \<Rightarrow> js_event option list \<Rightarrow> int \<times> string list option" where
  "joy_main device js reads =
     (case device of
        None \<Rightarrow> (-1, Some [])
      | Some (fd, axes, buttons) \<Rightarrow> (0, joy_loop js reads (replicate axes 0, replicate buttons 0)))"

section \<open>The sound block\<close>

definition sound_InitializeSizes :: "nat \<Rightarrow> sizes" where
  "sound_InitializeSizes params =
     (let z = no_sizes\<lparr>num_params := 1\<rparr>
      in if params \<noteq> 1 then z
         else z\<lparr>in_widths := [Width 1], feedthrough := [True], out_widths := [Width 1], sample_times := 1,
                num_iwork := 1, num_pwork := 1\<rparr>)"


text \<open>The block with the sounds it has played; \<open>soundCount\<close> is an \<open>int\<close>.\<close>

record sound = sim +
  played :: "string list"

definition sound_Start :: "string \<Rightarrow> sound \<Rightarrow> sound option" where
  "sound_Start p S = do {
     S \<leftarrow> ssSetIWorkValue 0 0 S;
     let soundfile = mxGetString p 100;
     S \<leftarrow> ssSetPWorkValue 0 (Str soundfile) S;
     c_printf (endl (''playsound : Using File: '' @ [CHR 0x27] @ ''%s'' @ [CHR 0x27])) [AS soundfile] S
   }"

definition sound_Outputs :: "real \<Rightarrow> sound \<Rightarrow> sound option" where
  "sound_Outputs u S = do {
     soundCount \<leftarrow> ssGetIWorkValue 0 S;
     (soundCount, S) \<leftarrow> (if u > 1 / 2 then do {
         soundfile \<leftarrow> pw_string 0 S;
         S \<leftarrow> ssSetIWorkValue 0 (soundCount + 1) (S\<lparr>played := played S @ [soundfile]\<rparr>);
         if is_int32 (soundCount + 1) then Some (soundCount + 1, S) else None
       } else Some (soundCount, S));
     Some (S\<lparr>outs := [of_int soundCount]\<rparr>)
   }"

fun sound_run :: "real list \<Rightarrow> sound \<Rightarrow> sound option" where
  "sound_run [] S = Some S"
| "sound_run (u # us) S = do { S \<leftarrow> sound_Outputs u S; sound_run us S }"

lemma sound_run_count:
  assumes "iwork S = [int c]" "pwork S = [Str f]" "c + length us < 2 ^ 31" "us \<noteq> []"
  shows "\<exists>S'. sound_run us S = Some S'
    \<and> played S' = played S @ replicate (length (filter (\<lambda>u. u > 1 / 2) us)) f
    \<and> outs S' = [of_nat (c + length (filter (\<lambda>u. u > 1 / 2) us))]"
  using assms
proof (induction us arbitrary: c S)
  case (Cons u us)
  define k where "k = (if u > 1 / 2 then 1 else 0 :: nat)"
  define S1 where "S1 = S\<lparr>iwork := [int (c + k)], played := played S @ replicate k f, outs := [of_nat (c + k)]\<rparr>"
  have one: "sound_Outputs u S = Some S1"
    using Cons.prems by (simp add: sound_Outputs_def work_defs S1_def k_def is_int32_def)
  have "\<exists>S'. sound_run us S1 = Some S'
    \<and> played S' = played S1 @ replicate (length (filter (\<lambda>u. u > 1 / 2) us)) f
    \<and> outs S' = [of_nat (c + k + length (filter (\<lambda>u. u > 1 / 2) us))]"
  proof (cases "us = []")
    case False
    then show ?thesis using Cons.prems by (intro Cons.IH) (auto simp: S1_def k_def)
  qed (simp add: S1_def)
  then show ?case by (auto simp: one S1_def k_def replicate_app_Cons_same)
qed simp

section \<open>The outputs are the last events\<close>

text \<open>The last value that the events read so far give to an axis or a button.\<close>

definition last_of :: "8 word \<Rightarrow> nat \<Rightarrow> js_event option list \<Rightarrow> 16 word" where
  "last_of kind i rs = foldl (\<lambda>v r. case r of Some e \<Rightarrow> if event_kind e = kind \<and> js_number e = i then js_value e else v | None \<Rightarrow> v) 0 rs"

definition in_range :: "nat \<Rightarrow> nat \<Rightarrow> js_event \<Rightarrow> bool" where
  "in_range axes buttons e \<longleftrightarrow> (event_kind e = JS_EVENT_AXIS \<longrightarrow> js_number e < axes) \<and> (event_kind e = JS_EVENT_BUTTON \<longrightarrow> js_number e < buttons)"

definition last_axes :: "nat \<Rightarrow> js_event option list \<Rightarrow> int list" where
  "last_axes axes rs = map (\<lambda>i. sint (last_of JS_EVENT_AXIS i rs)) [0..<axes]"

definition last_buttons :: "nat \<Rightarrow> js_event option list \<Rightarrow> 8 word list" where
  "last_buttons buttons rs = map (\<lambda>i. ucast (last_of JS_EVENT_BUTTON i rs)) [0..<buttons]"

lemma kinds_differ: "JS_EVENT_AXIS \<noteq> JS_EVENT_BUTTON" "JS_EVENT_BUTTON \<noteq> JS_EVENT_AXIS"
  by (simp_all add: JS_EVENT_AXIS_def JS_EVENT_BUTTON_def)

lemma last_of_snoc:
  "last_of kind i (rs @ [r]) = (case r of Some e \<Rightarrow> if event_kind e = kind \<and> js_number e = i then js_value e else last_of kind i rs | None \<Rightarrow> last_of kind i rs)"
  by (simp add: last_of_def split: option.split)

lemma joy_event_last:
  "in_range axes buttons e \<Longrightarrow>
   joy_event e (last_axes axes rs, last_buttons buttons rs) = Some (last_axes axes (rs @ [Some e]), last_buttons buttons (rs @ [Some e]))"
  by (auto simp: joy_event_def in_range_def last_axes_def last_buttons_def last_of_snoc kinds_differ intro!: nth_equalityI)

text \<open>An event that is applied a second time, because the next \<open>read\<close> fails, changes nothing.\<close>

lemma joy_event_again: "joy_event e ab = Some ab' \<Longrightarrow> joy_event e ab' = Some ab'"
  by (auto simp: joy_event_def kinds_differ split: prod.splits if_splits)

definition joy_inv :: "nat \<Rightarrow> nat \<Rightarrow> js_event option list \<Rightarrow> joy \<Rightarrow> bool" where
  "joy_inv axes buttons rs S \<longleftrightarrow>
     enabledJoystick S = 1 \<and> joy_axes S = last_axes axes rs \<and> joy_buttons S = last_buttons buttons rs
     \<and> joy_event (joy_js S) (joy_axes S, joy_buttons S) = Some (joy_axes S, joy_buttons S)"

definition joy_out :: "(real \<Rightarrow> real) \<Rightarrow> js_event option list \<Rightarrow> joy \<Rightarrow> bool" where
  "joy_out rnd rs S \<longleftrightarrow>
     joy_y1 S = map (\<lambda>i. rnd (of_int (sint (last_of JS_EVENT_AXIS i rs)) / 32767)) [0..<4]
     \<and> joy_y2 S = map (\<lambda>i. of_int (sint (ucast (last_of JS_EVENT_BUTTON i rs) :: 8 word))) [0..<10]"

lemma joy_Outputs_inv:
  assumes "joy_inv axes buttons rs S" "4 \<le> axes" "10 \<le> buttons" "\<And>e. r = Some e \<Longrightarrow> in_range axes buttons e"
  shows "\<exists>S'. joy_Outputs rnd r S = Some S' \<and> joy_inv axes buttons (rs @ [r]) S' \<and> joy_out rnd (rs @ [r]) S'"
proof -
  have ev: "joy_event (case r of Some e \<Rightarrow> e | None \<Rightarrow> joy_js S) (joy_axes S, joy_buttons S)
      = Some (last_axes axes (rs @ [r]), last_buttons buttons (rs @ [r]))"
  proof (cases r)
    case None
    then have "last_axes axes (rs @ [r]) = last_axes axes rs" "last_buttons buttons (rs @ [r]) = last_buttons buttons rs"
      by (simp_all add: last_axes_def last_buttons_def last_of_snoc)
    with None assms(1) show ?thesis by (auto simp: joy_inv_def)
  next
    case (Some e)
    with assms(1,4) joy_event_last [of axes buttons e rs] show ?thesis by (simp add: joy_inv_def)
  qed
  moreover have "map (\<lambda>i. rnd (of_int (last_axes axes (rs @ [r]) ! i) / 32767)) [0..<4]
      = map (\<lambda>i. rnd (of_int (sint (last_of JS_EVENT_AXIS i (rs @ [r]))) / 32767)) [0..<4]"
    using assms(2) by (auto simp: last_axes_def)
  moreover have "map (\<lambda>i. of_int (sint (last_buttons buttons (rs @ [r]) ! i)) :: real) [0..<10]
      = map (\<lambda>i. of_int (sint (ucast (last_of JS_EVENT_BUTTON i (rs @ [r])) :: 8 word))) [0..<10]"
    using assms(3) by (auto simp: last_buttons_def)
  moreover have "length (last_axes axes q) = axes" "length (last_buttons buttons q) = buttons" for q
    by (simp_all add: last_axes_def last_buttons_def)
  ultimately show ?thesis
    using assms(1,2,3) joy_event_again [OF ev]
    by (simp add: joy_Outputs_def joy_inv_def joy_out_def del: upt_Suc)
qed

lemma joy_run_inv:
  assumes "joy_inv axes buttons rs S" "4 \<le> axes" "10 \<le> buttons" "\<And>e. Some e \<in> set qs \<Longrightarrow> in_range axes buttons e" "qs \<noteq> []"
  shows "\<exists>S'. joy_run rnd qs S = Some S' \<and> joy_out rnd (rs @ qs) S'"
  using assms
proof (induction qs arbitrary: rs S)
  case (Cons q qs)
  have "\<exists>S'. joy_Outputs rnd q S = Some S' \<and> joy_inv axes buttons (rs @ [q]) S' \<and> joy_out rnd (rs @ [q]) S'"
    using Cons.prems by (intro joy_Outputs_inv) auto
  then obtain S1 where S1: "joy_Outputs rnd q S = Some S1" "joy_inv axes buttons (rs @ [q]) S1" "joy_out rnd (rs @ [q]) S1"
    by blast
  show ?case
  proof (cases "qs = []")
    case False
    with Cons.IH [OF S1(2) Cons.prems(2,3) Cons.prems(4)] S1(1) show ?thesis by auto
  qed (use S1 in simp)
qed simp


text \<open>A block that is not enabled closes the standard input at the end: its descriptor is still 0.\<close>

lemma closes_stdin:
  "enabledJoystick S \<noteq> 1 \<Longrightarrow> joy_fd S = 0 \<Longrightarrow> 0 \<in> set (closed_fds (joy_Terminate (joy_Start device S)))"
  by (simp add: joy_Start_def joy_Terminate_def)

text \<open>The scaled values of an axis: the lowest is a little below -1.\<close>

lemma axis_range: "- 1 - 1 / 32767 \<le> real_of_int (sint (w :: 16 word)) / 32767" "real_of_int (sint w) / 32767 \<le> 1"
proof -
  have "- 1 - 1 / 32767 \<le> real_of_int k / 32767 \<and> real_of_int k / 32767 \<le> 1" if "- 32768 \<le> k" "k < 32768" for k
    using that by (simp add: field_simps)
  then show "- 1 - 1 / 32767 \<le> real_of_int (sint w) / 32767" "real_of_int (sint w) / 32767 \<le> 1"
    using sint_ge [of w] sint_lt [of w] by (auto simp del: of_int_sint)
qed

text \<open>
  C33. After any reads of a device with at least four axes and ten buttons the block has not faulted, and
  its outputs are the last values of the axes, scaled, and of the buttons, 0 before the first, whatever
  reads failed in between. With fewer axes or buttons, or no device at all, the first step faults.
\<close>
theorem joystick_outputs:
  assumes "enabledJoystick S = 1" "joy_js S = no_event" "reads \<noteq> []"
    and "\<forall>e. Some e \<in> set reads \<longrightarrow> in_range axes buttons e"
  shows "(4 \<le> axes \<and> 10 \<le> buttons \<longrightarrow>
      (\<exists>S'. joy_run rnd reads (joy_Start (Some (fd, axes, buttons)) S) = Some S'
        \<and> joy_y1 S' = map (\<lambda>i. rnd (of_int (sint (last_of JS_EVENT_AXIS i reads)) / 32767)) [0..<4]
        \<and> joy_y2 S' = map (\<lambda>i. of_int (sint (ucast (last_of JS_EVENT_BUTTON i reads) :: 8 word))) [0..<10]))
    \<and> (axes < 4 \<or> buttons < 10 \<longrightarrow> joy_run rnd reads (joy_Start (Some (fd, axes, buttons)) S) = None)
    \<and> (num_of_axis S = 0 \<longrightarrow> joy_run rnd reads (joy_Start None S) = None)"
proof (intro conjI impI)
  have none: "joy_event no_event ab = Some ab" for ab
    by (auto simp: joy_event_def event_kind_def no_event_def JS_EVENT_AXIS_def JS_EVENT_BUTTON_def split: prod.split)
  have start: "joy_inv axes buttons [] (joy_Start (Some (fd, axes, buttons)) S)"
    using assms(1,2)
    by (simp add: joy_inv_def joy_Start_def none last_axes_def last_buttons_def last_of_def map_replicate_const)
  assume enough: "4 \<le> axes \<and> 10 \<le> buttons"
  have "\<exists>S'. joy_run rnd reads (joy_Start (Some (fd, axes, buttons)) S) = Some S' \<and> joy_out rnd ([] @ reads) S'"
    using assms(3,4) enough by (intro joy_run_inv [OF start]) auto
  then show "\<exists>S'. joy_run rnd reads (joy_Start (Some (fd, axes, buttons)) S) = Some S'
        \<and> joy_y1 S' = map (\<lambda>i. rnd (of_int (sint (last_of JS_EVENT_AXIS i reads)) / 32767)) [0..<4]
        \<and> joy_y2 S' = map (\<lambda>i. of_int (sint (ucast (last_of JS_EVENT_BUTTON i reads) :: 8 word))) [0..<10]"
    by (simp add: joy_out_def del: upt_Suc)
next
  have short: "joy_run rnd reads T = None"
    if "enabledJoystick T = 1" "length (joy_axes T) < 4 \<or> length (joy_buttons T) < 10" for T
    using that assms(3) by (cases reads) (auto simp: joy_Outputs_def joy_event_def Let_def split: option.splits if_splits)
  show "joy_run rnd reads (joy_Start (Some (fd, axes, buttons)) S) = None" if "axes < 4 \<or> buttons < 10"
    using assms(1) that by (intro short) (simp_all add: joy_Start_def)
  show "joy_run rnd reads (joy_Start None S) = None" if "num_of_axis S = 0"
    using assms(1) that by (intro short) (simp_all add: joy_Start_def)
qed

lemma joystick_outputs_witness:
  "\<exists>S'. joy_run (\<lambda>x. x) [None, Some \<lparr>js_value = -32768, js_type = 0x82, js_number = 1\<rparr>, Some \<lparr>js_value = 1, js_type = 1, js_number = 9\<rparr>, None]
      (joy_Start (Some (3, 4, 10)) \<lparr>enabledJoystick = 1, joy_fd = 0, num_of_axis = 0, num_of_buttons = 0, joy_axes = [],
         joy_buttons = [], joy_js = no_event, joy_y1 = [], joy_y2 = [], closed_fds = []\<rparr>) = Some S'
    \<and> joy_y1 S' = [0, - (32768 / 32767), 0, 0] \<and> joy_y2 S' = [0, 0, 0, 0, 0, 0, 0, 0, 0, 1]"
  using joystick_outputs [of "\<lparr>enabledJoystick = 1, joy_fd = 0, num_of_axis = 0, num_of_buttons = 0, joy_axes = [],
         joy_buttons = [], joy_js = no_event, joy_y1 = [], joy_y2 = [], closed_fds = []\<rparr>"
      "[None, Some \<lparr>js_value = -32768, js_type = 0x82, js_number = 1\<rparr>, Some \<lparr>js_value = 1, js_type = 1, js_number = 9\<rparr>, None]"
      4 10 "\<lambda>x. x" 3]
  by (simp add: in_range_def event_kind_def JS_EVENT_AXIS_def JS_EVENT_BUTTON_def JS_EVENT_INIT_def last_of_def upt_rec)

end
