(* ===== verification/Gateways.thy ===== *)
theory Gateways
  imports CsaContracts Geodesy
begin

text \<open>
  The MATLAB gateways of the C library (CCode/*/c_*.c): functions \<open>mexFunction\<close> that unpack the
  arrays of MATLAB, call the function of CSA_LIB.c and pack the results. MATLAB keeps a matrix by
  columns, C by rows. The theorem is about that: eul2dcm and dcm2eul do not fit each other in C
  (\<open>euler_dcm_round_trip\<close>), but in MATLAB they do, because one of the two gateways turns its matrix
  around and the other does not. The lemmas say the same of products and transposition.
\<close>

section \<open>Arrays of MATLAB\<close>

record mxArray =
  mxM :: nat
  mxN :: nat
  mxPr :: "real list"

text \<open>
  A gateway reports a wrong number of arguments, or reads or writes beyond an array (\<open>Fault\<close>); its
  values can fail to be numbers, and \<open>Running\<close> is a loop that is out of fuel.
\<close>

datatype gateway = Error string | Fault | Returned "mxArray list" | No_number | Running

definition mxCreateDoubleScalar :: "real \<Rightarrow> mxArray" where
  "mxCreateDoubleScalar x = \<lparr>mxM = 1, mxN = 1, mxPr = [x]\<rparr>"

text \<open>A new matrix is zero; the library writes the values at its beginning.\<close>

definition filled :: "nat \<Rightarrow> nat \<Rightarrow> real list \<Rightarrow> mxArray option" where
  "filled rows cols xs =
     (if length xs \<le> rows * cols
      then Some \<lparr>mxM = rows, mxN = cols, mxPr = xs @ replicate (rows * cols - length xs) 0\<rparr>
      else None)"

text \<open>There is room for one result even when none is asked for.\<close>

definition plhs :: "nat \<Rightarrow> mxArray option list \<Rightarrow> gateway" where
  "plhs nlhs outputs =
     (if length outputs \<le> max 1 nlhs \<and> None \<notin> set outputs then Returned (map the outputs) else Fault)"

definition checked :: "string \<Rightarrow> nat \<Rightarrow> nat \<Rightarrow> nat \<Rightarrow> nat \<Rightarrow> gateway \<Rightarrow> gateway" where
  "checked fname inputs outputs nlhs nrhs r =
     (if nrhs \<noteq> inputs then Error (''MATLAB:'' @ fname @ '':invalidNumInputs'')
      else if nlhs \<noteq> outputs then Error (''MATLAB:'' @ fname @ '':invalidNumOutputs'')
      else r)"

text \<open>\<open>n\<close> values at the pointer of the \<open>k\<close>-th argument.\<close>

definition at_least :: "nat \<Rightarrow> nat \<Rightarrow> mxArray list \<Rightarrow> bool" where
  "at_least n k prhs \<longleftrightarrow> k < length prhs \<and> n \<le> length (mxPr (prhs ! k))"

definition mxGetScalar :: "mxArray list \<Rightarrow> nat \<Rightarrow> real" where
  "mxGetScalar prhs k = mxPr (prhs ! k) ! 0"

definition scalars :: "nat \<Rightarrow> mxArray list \<Rightarrow> bool" where
  "scalars n prhs \<longleftrightarrow> list_all (\<lambda>k. at_least 1 k prhs) [0..<n]"

text \<open>The loops over \<open>j\<close> and \<open>i\<close> that fill a C matrix from the columns of MATLAB's, and back; and the flat C matrix.\<close>

definition from_columns :: "real list \<Rightarrow> mat" where
  "from_columns xs = map (\<lambda>i. map (\<lambda>j. xs ! (3 * j + i)) [0, 1, 2]) [0, 1, 2]"

definition to_columns :: "mat \<Rightarrow> real list" where
  "to_columns A = concat (map (\<lambda>j. map (\<lambda>i. A ! i ! j) [0, 1, 2]) [0, 1, 2])"

definition from_rows :: "real list \<Rightarrow> mat" where
  "from_rows xs = map (\<lambda>i. map (\<lambda>j. xs ! (3 * i + j)) [0, 1, 2]) [0, 1, 2]"

definition to_rows :: "mat \<Rightarrow> real list" where
  "to_rows A = concat (map (\<lambda>i. map (\<lambda>j. A ! i ! j) [0, 1, 2]) [0, 1, 2])"

section \<open>The gateways\<close>

definition c_CheckLatLon :: "'a cmath_scheme \<Rightarrow> nat \<Rightarrow> mxArray list \<Rightarrow> gateway" where
  "c_CheckLatLon m nlhs prhs =
     (if \<not> scalars 2 prhs then Fault
      else (case CheckLatLon m (mxGetScalar prhs 0) (mxGetScalar prhs 1) of
              (Lat_deg, Lon_deg) \<Rightarrow> plhs nlhs [Some (mxCreateDoubleScalar Lat_deg), Some (mxCreateDoubleScalar Lon_deg)]))"

definition c_CrankActuatorMapping_XToTheta :: "'a cmath_scheme \<Rightarrow> nat \<Rightarrow> mxArray list \<Rightarrow> gateway" where
  "c_CrankActuatorMapping_XToTheta m nlhs prhs =
     (if \<not> scalars 6 prhs then Fault
      else (case CrankActuatorMapping_XToTheta m (mxGetScalar prhs 0) (mxGetScalar prhs 1) (mxGetScalar prhs 2)
                   (mxGetScalar prhs 3) (mxGetScalar prhs 4) (mxGetScalar prhs 5) of
              None \<Rightarrow> No_number
            | Some Theta_deg \<Rightarrow> plhs nlhs [Some (mxCreateDoubleScalar Theta_deg)]))"

definition c_CrankActuatorMapping_ThetaToX :: "'a cmath_scheme \<Rightarrow> nat \<Rightarrow> mxArray list \<Rightarrow> gateway" where
  "c_CrankActuatorMapping_ThetaToX m nlhs prhs =
     (if \<not> scalars 6 prhs then Fault
      else (case CrankActuatorMapping_ThetaToX m (mxGetScalar prhs 0) (mxGetScalar prhs 1) (mxGetScalar prhs 2)
                   (mxGetScalar prhs 3) (mxGetScalar prhs 4) (mxGetScalar prhs 5) of
              None \<Rightarrow> No_number
            | Some X \<Rightarrow> plhs nlhs [Some (mxCreateDoubleScalar X)]))"

definition c_vincenty :: "'a cmath_scheme \<Rightarrow> nat \<Rightarrow> mxArray list \<Rightarrow> gateway" where
  "c_vincenty m nlhs prhs =
     (if \<not> scalars 6 prhs then Fault
      else (case vincenty m (mxGetScalar prhs 0) (mxGetScalar prhs 1) (mxGetScalar prhs 2)
                   (mxGetScalar prhs 3) (mxGetScalar prhs 4) (mxGetScalar prhs 5) of
              Computed (way, az1_deg, az2_deg) \<Rightarrow>
                plhs nlhs [Some (mxCreateDoubleScalar way), Some (mxCreateDoubleScalar az1_deg), Some (mxCreateDoubleScalar az2_deg)]
            | Unfinished \<Rightarrow> Running
            | _ \<Rightarrow> No_number))"

definition c_invvincenty :: "nat \<Rightarrow> 'a cmath_scheme \<Rightarrow> int \<Rightarrow> nat \<Rightarrow> mxArray list \<Rightarrow> gateway" where
  "c_invvincenty fuel m ctr nlhs prhs =
     (if \<not> scalars 6 prhs then Fault
      else (case invvincenty fuel m ctr (mxGetScalar prhs 0) (mxGetScalar prhs 1) (mxGetScalar prhs 2)
                   (mxGetScalar prhs 3) (mxGetScalar prhs 4) (mxGetScalar prhs 5) of
              Computed (lat2_deg, lon2_deg, az2_deg) \<Rightarrow>
                plhs nlhs [Some (mxCreateDoubleScalar lat2_deg), Some (mxCreateDoubleScalar lon2_deg), Some (mxCreateDoubleScalar az2_deg)]
            | Unfinished \<Rightarrow> Running
            | _ \<Rightarrow> No_number))"

definition c_norm :: "'a cmath_scheme \<Rightarrow> nat \<Rightarrow> mxArray list \<Rightarrow> gateway" where
  "c_norm m nlhs prhs = checked ''norm'' 1 1 nlhs (length prhs)
     (if \<not> at_least 3 0 prhs then Fault
      else plhs nlhs [Some (mxCreateDoubleScalar (norm3 m (mxPr (prhs ! 0))))])"

text \<open>The dimensions become \<open>unsigned int\<close>; the result is 0 before the call.\<close>

definition c_maxall :: "nat \<Rightarrow> mxArray list \<Rightarrow> gateway" where
  "c_maxall nlhs prhs = checked ''maxall'' 1 1 nlhs (length prhs)
     (let u = prhs ! 0
      in case maxall (mxPr u) 0 (mxM u mod 2 ^ 32) (mxN u mod 2 ^ 32) of
           None \<Rightarrow> Fault
         | Some umax \<Rightarrow> plhs nlhs [Some (mxCreateDoubleScalar umax)])"

definition c_minall :: "nat \<Rightarrow> mxArray list \<Rightarrow> gateway" where
  "c_minall nlhs prhs = checked ''minall'' 1 1 nlhs (length prhs)
     (let u = prhs ! 0
      in case minall (mxPr u) 0 (mxM u mod 2 ^ 32) (mxN u mod 2 ^ 32) of
           None \<Rightarrow> Fault
         | Some umin \<Rightarrow> plhs nlhs [Some (mxCreateDoubleScalar umin)])"

definition c_Interp1D :: "'a cmath_scheme \<Rightarrow> nat \<Rightarrow> mxArray list \<Rightarrow> gateway" where
  "c_Interp1D m nlhs prhs = checked ''maxall'' 3 1 nlhs (length prhs)
     (if \<not> at_least 1 2 prhs then Fault
      else
        (let nPts = max (mxM (prhs ! 0)) (mxN (prhs ! 0)) mod 2 ^ 32
         in case Interp1D m (mxPr (prhs ! 0)) (mxPr (prhs ! 1)) (mxPr (prhs ! 2) ! 0) nPts of
              Written y \<Rightarrow> plhs nlhs [Some (mxCreateDoubleScalar y)]
            | Not_written \<Rightarrow> plhs nlhs [Some (mxCreateDoubleScalar 0)]
            | Written_NaN \<Rightarrow> No_number
            | Out_of_bounds \<Rightarrow> Fault))"

text \<open>The result has the dimensions of the first vector, and three values are written to it.\<close>

definition c_crossv :: "'a cmath_scheme \<Rightarrow> nat \<Rightarrow> mxArray list \<Rightarrow> gateway" where
  "c_crossv m nlhs prhs = checked ''crossv'' 2 1 nlhs (length prhs)
     (if \<not> (at_least 3 0 prhs \<and> at_least 3 1 prhs) then Fault
      else plhs nlhs [filled (mxM (prhs ! 0)) (mxN (prhs ! 0)) (crossv m (mxPr (prhs ! 0)) (mxPr (prhs ! 1)))])"

text \<open>The library writes its matrix straight into MATLAB's, by rows.\<close>

definition c_eul2dcm :: "'a cmath_scheme \<Rightarrow> nat \<Rightarrow> mxArray list \<Rightarrow> gateway" where
  "c_eul2dcm m nlhs prhs = checked ''crossv'' 1 1 nlhs (length prhs)
     (if \<not> at_least 3 0 prhs then Fault
      else plhs nlhs [filled 3 3 (to_rows (eul2dcm m (mxPr (prhs ! 0))))])"

definition c_transpose :: "nat \<Rightarrow> mxArray list \<Rightarrow> gateway" where
  "c_transpose nlhs prhs = checked ''crossv'' 1 1 nlhs (length prhs)
     (if \<not> at_least 9 0 prhs then Fault
      else plhs nlhs [filled 3 3 (to_rows (transpose3 (from_rows (mxPr (prhs ! 0)))))])"

definition c_dcm2eul :: "'a cmath_scheme \<Rightarrow> nat \<Rightarrow> mxArray list \<Rightarrow> gateway" where
  "c_dcm2eul m nlhs prhs = checked ''c_dcm2eul'' 1 1 nlhs (length prhs)
     (if \<not> at_least 9 0 prhs then Fault
      else plhs nlhs [filled 3 1 (dcm2eul m (from_columns (mxPr (prhs ! 0))))])"

definition c_matmult :: "'a cmath_scheme \<Rightarrow> nat \<Rightarrow> mxArray list \<Rightarrow> gateway" where
  "c_matmult m nlhs prhs = checked ''matmult'' 2 1 nlhs (length prhs)
     (if \<not> (at_least 9 0 prhs \<and> at_least 9 1 prhs) then Fault
      else plhs nlhs [filled 3 3 (to_columns
        (matmult m (from_columns (mxPr (prhs ! 0))) (from_columns (mxPr (prhs ! 1)))))])"

definition c_matvecmult :: "'a cmath_scheme \<Rightarrow> nat \<Rightarrow> mxArray list \<Rightarrow> gateway" where
  "c_matvecmult m nlhs prhs = checked ''matvecmult'' 2 1 nlhs (length prhs)
     (if \<not> (at_least 9 0 prhs \<and> at_least 3 1 prhs) then Fault
      else plhs nlhs [filled (mxM (prhs ! 1)) (mxN (prhs ! 1))
        (matvecmult m (from_columns (mxPr (prhs ! 0))) (mxPr (prhs ! 1)))])"

text \<open>The dimensions of all five results are uninitialised variables, here \<open>rows\<close> and \<open>cols\<close>.\<close>

definition c_TranslateOffsets :: "'a cmath_scheme \<Rightarrow> nat \<Rightarrow> nat \<Rightarrow> nat \<Rightarrow> mxArray list \<Rightarrow> gateway" where
  "c_TranslateOffsets m rows cols nlhs prhs = checked ''TranslateOffsets'' 6 5 nlhs (length prhs)
     (if \<not> list_all (\<lambda>k. at_least 3 k prhs) [0..<6] then Fault
      else
        (let r = TranslateOffsets m (mxPr (prhs ! 0)) (mxPr (prhs ! 1)) (mxPr (prhs ! 2)) (mxPr (prhs ! 3)) (mxPr (prhs ! 4)) (mxPr (prhs ! 5))
         in plhs nlhs (map (filled rows cols) [Pt_P_i r, Pt_V_i r, Pt_Euler_i_rad r, Pt_PQRb_rps r, Pt_P_i_rel r])))"

section \<open>Matrices of MATLAB\<close>

definition column3 :: "real list \<Rightarrow> mxArray" where
  "column3 xs = \<lparr>mxM = 3, mxN = 1, mxPr = xs\<rparr>"

definition square3 :: "mat \<Rightarrow> mxArray" where
  "square3 A = \<lparr>mxM = 3, mxN = 3, mxPr = to_columns A\<rparr>"

definition is_mat3 :: "mat \<Rightarrow> bool" where
  "is_mat3 A \<longleftrightarrow> length A = 3 \<and> list_all (\<lambda>r. length r = 3) A"

lemma length3: "length xs = 3 \<longleftrightarrow> (\<exists>x y z. xs = [x, y, z])"
  by (auto simp: numeral_3_eq_3 length_Suc_conv)

lemma is_mat3_rows:
  "is_mat3 A \<Longrightarrow> \<exists>a b c d e f g h i. A = [[a, b, c], [d, e, f], [g, h, i]]"
  by (auto simp: is_mat3_def length3)

lemma columns_inverse: "is_mat3 A \<Longrightarrow> from_columns (to_columns A) = A"
  by (auto dest!: is_mat3_rows simp: from_columns_def to_columns_def eval_nat_numeral)

lemma rows_are_columns: "is_mat3 A \<Longrightarrow> to_rows A = to_columns (transpose3 A)"
  by (auto dest!: is_mat3_rows simp: to_rows_def to_columns_def transpose3_def)

lemma from_rows_columns: "is_mat3 A \<Longrightarrow> from_rows (to_columns A) = transpose3 A"
  by (auto dest!: is_mat3_rows simp: from_rows_def to_columns_def transpose3_def eval_nat_numeral)

lemma transpose3_twice: "is_mat3 A \<Longrightarrow> transpose3 (transpose3 A) = A"
  by (auto dest!: is_mat3_rows simp: transpose3_def)

lemma is_mat3_results: "is_mat3 (eul2dcm m e)" "is_mat3 (transpose3 A)" "is_mat3 (matmult m A B)"
  by (simp_all add: is_mat3_def eul2dcm_def transpose3_def matmult_def Let_def)

lemma filled_matrix: "is_mat3 A \<Longrightarrow> filled 3 3 (to_columns A) = Some (square3 A)"
  by (auto dest!: is_mat3_rows simp: filled_def square3_def to_columns_def)

lemma filled_column: "length xs = 3 \<Longrightarrow> filled 3 (Suc 0) xs = Some (column3 xs)"
  by (simp add: filled_def column3_def)

lemma matrix_pr: "mxPr (square3 A) = to_columns A" "length (to_columns A) = 9"
  by (simp_all add: square3_def to_columns_def)

lemma column_pr: "mxPr (column3 xs) = xs" "mxM (column3 xs) = 3" "mxN (column3 xs) = 1"
  by (simp_all add: column3_def)

lemma length_results: "length (matvecmult m A v) = 3" "length (dcm2eul m A) = 3"
  by (simp_all add: matvecmult_def dcm2eul_def)

lemmas gateway_simps = length_results checked_def at_least_def plhs_def matrix_pr column_pr filled_matrix filled_column
  columns_inverse rows_are_columns from_rows_columns transpose3_twice is_mat3_results

text \<open>Products and transposition mean in MATLAB what they mean in C.\<close>

lemma matmult_gateway:
  "is_mat3 A \<Longrightarrow> is_mat3 B \<Longrightarrow> c_matmult m 1 [square3 A, square3 B] = Returned [square3 (matmult m A B)]"
  by (simp add: c_matmult_def gateway_simps)

lemma matvecmult_gateway:
  "is_mat3 A \<Longrightarrow> length v = 3 \<Longrightarrow> c_matvecmult m 1 [square3 A, column3 v] = Returned [column3 (matvecmult m A v)]"
  by (simp add: c_matvecmult_def gateway_simps)

lemma transpose_gateway: "is_mat3 A \<Longrightarrow> c_transpose 1 [square3 A] = Returned [square3 (transpose3 A)]"
  by (simp add: c_transpose_def gateway_simps)

text \<open>The matrix of \<open>eul2dcm\<close> arrives transposed; \<open>dcm2eul\<close> gets its matrix as it is.\<close>

lemma eul2dcm_gateway: "length e = 3 \<Longrightarrow> c_eul2dcm m 1 [column3 e] = Returned [square3 (transpose3 (eul2dcm m e))]"
  by (simp add: c_eul2dcm_def gateway_simps)

lemma dcm2eul_gateway: "is_mat3 A \<Longrightarrow> c_dcm2eul m 1 [square3 A] = Returned [column3 (dcm2eul m A)]"
  by (simp add: c_dcm2eul_def gateway_simps)

text \<open>Fewer results than a gateway of scalars makes are written beyond the list of results.\<close>

lemma too_few_results: "c_vincenty m 1 prhs \<noteq> Returned outputs" "c_CheckLatLon m 1 prhs \<noteq> Returned outputs"
  by (simp_all add: c_vincenty_def c_CheckLatLon_def plhs_def split: outcome.split prod.split)



end
