(* ===== verification/IniReader.thy ===== *)
theory IniReader
  imports AutopilotConfig Floats
begin

text \<open>
  The C++ class over the INI parser (inih/cpp/INIReader.cpp): a table of all values of a file under
  keys without case, the values of a key joined by newlines, and typed accessors with default
  values. \<open>strtol\<close> and \<open>strtod\<close> of the C library are written out; the rounding of \<open>strtod\<close> and the
  range of \<open>long\<close> are arguments. The theorem: the lookups give back what was written to the file.
\<close>

section \<open>The table\<close>

definition tolower :: "char \<Rightarrow> char" where
  "tolower c = (if of_char c \<in> {65..90 :: nat} then char_of ((of_char c :: nat) + 32) else c)"

record ini_reader =
  reader_error :: int
  reader_values :: "string \<rightharpoonup> string"

definition MakeKey :: "string \<Rightarrow> string \<Rightarrow> string" where
  "MakeKey sec name = map tolower (sec @ ''.'' @ name)"

text \<open>The index operator of the table creates an empty value.\<close>

definition index_of :: "(string \<rightharpoonup> string) \<Rightarrow> string \<Rightarrow> string" where
  "index_of values key = (case values key of Some v \<Rightarrow> v | None \<Rightarrow> [])"

definition ValueHandler :: "ini_reader ini_handler" where
  "ValueHandler reader sec name v =
     (let key = MakeKey sec name;
          old = index_of (reader_values reader) key;
          start = (if 0 < length old then old @ [newline] else old)
      in (True, reader\<lparr>reader_values := (reader_values reader)(key \<mapsto> start @ v)\<rparr>))"

definition INIReader :: "string option \<Rightarrow> ini_reader" where
  "INIReader contents =
     (case ini_parse contents ValueHandler \<lparr>reader_error = 0, reader_values = Map.empty\<rparr> of
        (e, reader) \<Rightarrow> reader\<lparr>reader_error := e\<rparr>)"

definition ParseError :: "ini_reader \<Rightarrow> int" where
  "ParseError reader = reader_error reader"

definition Get :: "ini_reader \<Rightarrow> string \<Rightarrow> string \<Rightarrow> string \<Rightarrow> string" where
  "Get reader sec name default_value =
     (let key = MakeKey sec name
      in if reader_values reader key \<noteq> None then index_of (reader_values reader) key else default_value)"

section \<open>Numbers\<close>

definition digit_of :: "char \<Rightarrow> nat" where
  "digit_of c =
     (let n = of_char (tolower c) :: nat
      in if n \<in> {48..57} then n - 48 else if n \<in> {97..122} then n - 87 else 36)"

definition number_digits :: "nat \<Rightarrow> string \<Rightarrow> string" where
  "number_digits base s = takeWhile (\<lambda>c. digit_of c < base) s"

definition number_value :: "nat \<Rightarrow> string \<Rightarrow> int" where
  "number_value base ds = foldl (\<lambda>a c. int base * a + int (digit_of c)) 0 ds"

text \<open>A sign: whether it is a minus, and the rest.\<close>

definition sign_of :: "string \<Rightarrow> bool \<times> string" where
  "sign_of s =
     (case s of c # t \<Rightarrow> (if c = CHR ''-'' then (True, t) else if c = CHR ''+'' then (False, t) else (False, s))
      | [] \<Rightarrow> (False, []))"

definition hex_text :: "string \<Rightarrow> bool" where
  "hex_text s \<longleftrightarrow> take 1 s = ''0'' \<and> map tolower (take 1 (drop 1 s)) = ''x''"

text \<open>\<open>strtol\<close> with base 0: a prefix tells the base, values out of range are cut off, \<open>None\<close> is no conversion.\<close>

definition strtol :: "int \<Rightarrow> string \<Rightarrow> int option" where
  "strtol LONG_MAX s =
     (case sign_of (dropWhile isspace s) of
        (neg, t) \<Rightarrow>
          (let hex = hex_text t \<and> number_digits 16 (drop 2 t) \<noteq> [];
               base = (if hex then 16 else if take 1 t = ''0'' then 8 else 10);
               ds = number_digits base (if hex then drop 2 t else t);
               v = (if neg then - number_value base ds else number_value base ds)
           in if ds = [] then None else Some (min LONG_MAX (max (- LONG_MAX - 1) v))))"

datatype strtod_result = No_conversion | Finite real | Infinite bool | Not_a_number

text \<open>A mantissa of digits with a point, and an exponent after \<open>marker\<close> if digits follow it.\<close>

definition exponent_of :: "char \<Rightarrow> string \<Rightarrow> int" where
  "exponent_of marker s =
     (if s \<noteq> [] \<and> tolower (hd s) = marker
      then (case sign_of (tl s) of (neg, t) \<Rightarrow>
              (let e = number_value 10 (number_digits 10 t) in if neg then - e else e))
      else 0)"

definition mantissa_of :: "nat \<Rightarrow> nat \<Rightarrow> char \<Rightarrow> string \<Rightarrow> real option" where
  "mantissa_of base step marker s =
     (let whole = number_digits base s;
          r = drop (length whole) s;
          point = take 1 r = ''.'';
          part = (if point then number_digits base (tl r) else []);
          r = (if point then drop (length part) (tl r) else r)
      in if whole @ part = [] then None
         else Some (of_int (number_value base (whole @ part)) / of_nat base ^ length part * of_nat step powi exponent_of marker r))"

definition strtod :: "(real \<Rightarrow> real) \<Rightarrow> string \<Rightarrow> strtod_result" where
  "strtod rnd s =
     (case sign_of (dropWhile isspace s) of
        (neg, t) \<Rightarrow>
          (let signed = (\<lambda>x. Finite (rnd (if neg then - x else x)))
           in if map tolower (take 3 t) = ''inf'' then Infinite neg
              else if map tolower (take 3 t) = ''nan'' then Not_a_number
              else (case (if hex_text t then mantissa_of 16 2 CHR ''p'' (drop 2 t) else None) of
                      Some x \<Rightarrow> signed x
                    | None \<Rightarrow> (case mantissa_of 10 10 CHR ''e'' t of Some x \<Rightarrow> signed x | None \<Rightarrow> No_conversion))))"

section \<open>The accessors\<close>

definition GetInteger :: "int \<Rightarrow> ini_reader \<Rightarrow> string \<Rightarrow> string \<Rightarrow> int \<Rightarrow> int" where
  "GetInteger LONG_MAX reader sec name default_value =
     (case strtol LONG_MAX (Get reader sec name []) of Some n \<Rightarrow> n | None \<Rightarrow> default_value)"

text \<open>\<open>None\<close> is an infinity or a NaN.\<close>

definition GetReal :: "(real \<Rightarrow> real) \<Rightarrow> ini_reader \<Rightarrow> string \<Rightarrow> string \<Rightarrow> real \<Rightarrow> real option" where
  "GetReal rnd reader sec name default_value =
     (case strtod rnd (Get reader sec name []) of
        No_conversion \<Rightarrow> Some default_value | Finite x \<Rightarrow> Some x | _ \<Rightarrow> None)"

definition GetBoolean :: "ini_reader \<Rightarrow> string \<Rightarrow> string \<Rightarrow> bool \<Rightarrow> bool" where
  "GetBoolean reader sec name default_value =
     (let valstr = map tolower (Get reader sec name [])
      in if valstr \<in> {''true'', ''yes'', ''on'', ''1''} then True
         else if valstr \<in> {''false'', ''no'', ''off'', ''0''} then False
         else default_value)"


section \<open>What the table holds\<close>

text \<open>The values that a file gives to a key, in order, and their lines put together.\<close>

definition values_of :: "string \<Rightarrow> (string \<times> string \<times> string) list \<Rightarrow> string list" where
  "values_of key ps = map (\<lambda>(s, n, v). v) (filter (\<lambda>(s, n, v). MakeKey s n = key) ps)"

definition joined :: "string list \<Rightarrow> string" where
  "joined vs = concat (map (\<lambda>v. v @ [newline]) (butlast vs)) @ last vs"

lemma joined_simps [simp]: "joined [v] = v" "vs \<noteq> [] \<Longrightarrow> joined (vs @ [v]) = joined vs @ newline # v"
  by (simp add: joined_def, cases vs rule: rev_cases) (simp_all add: joined_def butlast_append)

definition put_pair :: "ini_reader \<Rightarrow> string \<times> string \<times> string \<Rightarrow> ini_reader" where
  "put_pair reader p = (case p of (s, n, v) \<Rightarrow> snd (ValueHandler reader s n v))"

lemma put_pair_values:
  "reader_values (put_pair r (s, n, v)) = (reader_values r)(MakeKey s n \<mapsto>
     (case reader_values r (MakeKey s n) of Some w \<Rightarrow> if w = [] then v else w @ newline # v | None \<Rightarrow> v))"
  by (simp add: put_pair_def ValueHandler_def Let_def index_of_def split: option.split)

lemma put_pairs_values:
  assumes "list_all (\<lambda>(s, n, v). v \<noteq> []) ps" "reader_values r = Map.empty"
  shows "reader_values (foldl put_pair r ps) key =
    (if values_of key ps = [] then None else Some (joined (values_of key ps)))
    \<and> (\<forall>v \<in> set (values_of key ps). v \<noteq> [])"
  using assms(1)
proof (induction ps rule: rev_induct)
  case Nil
  then show ?case by (simp add: values_of_def assms(2))
next
  case (snoc p ps)
  obtain s n v where p: "p = (s, n, v)" by (cases p)
  have app: "values_of key (ps @ [(s, n, v)]) = values_of key ps @ (if MakeKey s n = key then [v] else [])"
    by (simp add: values_of_def)
  have "joined vs \<noteq> []" if "vs \<noteq> []" "\<forall>v \<in> set vs. v \<noteq> []" for vs
    using that by (cases vs rule: rev_cases) (simp_all add: joined_def)
  with snoc show ?case
    by (auto simp: app p put_pair_values)
qed

lemma loads_pairs:
  assumes "list_all (\<lambda>(n, v). name_ok n \<and> value_ok v) ps"
  shows "\<exists>prev k. ini_loop ValueHandler (concat (map print_pair ps) @ rest) st =
    ini_loop ValueHandler rest (st\<lparr>ini_lineno := k, ini_prev_name := prev,
      ini_user := foldl put_pair (ini_user st) (map (\<lambda>(n, v). (ini_section st, n, v)) ps)\<rparr>)"
  using assms
proof (induction ps arbitrary: st)
  case Nil
  then show ?case by (intro exI [where x = "ini_prev_name st"] exI [where x = "ini_lineno st"]) simp
next
  case (Cons p ps)
  obtain n v where p: "p = (n, v)" by (cases p)
  with Cons.prems have nv: "name_ok n" "value_ok v" by simp_all
  let ?st = "st\<lparr>ini_lineno := ini_lineno st + 1, ini_prev_name := n, ini_user := put_pair (ini_user st) (ini_section st, n, v)\<rparr>"
  have "call_handler ValueHandler n v (st\<lparr>ini_lineno := ini_lineno st + 1, ini_prev_name := n\<rparr>) = ?st"
    by (simp add: call_handler_def put_pair_def ValueHandler_def Let_def)
  with ini_loop_pair [OF nv, of ValueHandler "concat (map print_pair ps) @ rest" st]
  have step: "ini_loop ValueHandler (concat (map print_pair (p # ps)) @ rest) st
      = ini_loop ValueHandler (concat (map print_pair ps) @ rest) ?st"
    by (simp add: p)
  from Cons.IH [of ?st] Cons.prems obtain prev k where
    "ini_loop ValueHandler (concat (map print_pair ps) @ rest) ?st =
      ini_loop ValueHandler rest (?st\<lparr>ini_lineno := k, ini_prev_name := prev,
        ini_user := foldl put_pair (ini_user ?st) (map (\<lambda>(n, v). (ini_section ?st, n, v)) ps)\<rparr>)"
    by auto
  with step show ?case by (intro exI [where x = prev] exI [where x = k]) (simp add: p)
qed

lemma loads_sections:
  assumes "ini_ok d"
  shows "\<exists>prev sec k. ini_loop ValueHandler (print_ini d @ rest) st =
    ini_loop ValueHandler rest (st\<lparr>ini_lineno := k, ini_prev_name := prev, ini_section := sec,
      ini_user := foldl put_pair (ini_user st) (ini_pairs d)\<rparr>)"
  using assms
proof (induction d arbitrary: st)
  case Nil
  then show ?case
    by (intro exI [where x = "ini_prev_name st"] exI [where x = "ini_section st"] exI [where x = "ini_lineno st"])
      (simp add: print_ini_def ini_pairs_def)
next
  case (Cons s d)
  obtain sec ps where s: "s = (sec, ps)" by (cases s)
  have ok: "section_ok sec" "list_all (\<lambda>(n, v). name_ok n \<and> value_ok v) ps" "ini_ok d"
    using Cons.prems by (simp_all add: s ini_ok_def)
  let ?st = "st\<lparr>ini_lineno := ini_lineno st + 1, ini_section := sec, ini_prev_name := []\<rparr>"
  from loads_pairs [OF ok(2), of "print_ini d @ rest" ?st] ini_loop_section [OF ok(1), of ValueHandler ps "print_ini d @ rest" st]
  obtain prev k where one: "ini_loop ValueHandler (print_ini (s # d) @ rest) st =
      ini_loop ValueHandler (print_ini d @ rest) (?st\<lparr>ini_lineno := k, ini_prev_name := prev,
        ini_user := foldl put_pair (ini_user st) (map (\<lambda>(n, v). (sec, n, v)) ps)\<rparr>)"
    by (auto simp: s print_ini_def)
  let ?st1 = "?st\<lparr>ini_lineno := k, ini_prev_name := prev,
    ini_user := foldl put_pair (ini_user st) (map (\<lambda>(n, v). (sec, n, v)) ps)\<rparr>"
  from Cons.IH [OF ok(3), of ?st1] obtain prev' sec' k' where
    "ini_loop ValueHandler (print_ini d @ rest) ?st1 =
      ini_loop ValueHandler rest (?st1\<lparr>ini_lineno := k', ini_prev_name := prev', ini_section := sec',
        ini_user := foldl put_pair (ini_user ?st1) (ini_pairs d)\<rparr>)"
    by blast
  with one show ?case
    by (intro exI [where x = prev'] exI [where x = sec'] exI [where x = k']) (simp add: s ini_pairs_def)
qed

lemma INIReader_print:
  assumes "ini_ok d"
  shows "INIReader (Some (print_ini d)) =
    (foldl put_pair \<lparr>reader_error = 0, reader_values = Map.empty\<rparr> (ini_pairs d))\<lparr>reader_error := 0\<rparr>"
proof -
  let ?st = "\<lparr>ini_section = [], ini_prev_name = [], ini_lineno = 0, ini_error = 0,
    ini_user = \<lparr>reader_error = 0, reader_values = Map.empty\<rparr>\<rparr>"
  from loads_sections [OF assms, of "[]" ?st] obtain prev sec k where
    "ini_loop ValueHandler (print_ini d) ?st = ?st\<lparr>ini_lineno := k, ini_prev_name := prev, ini_section := sec,
      ini_user := foldl put_pair (ini_user ?st) (ini_pairs d)\<rparr>"
    by (auto simp: ini_loop.simps [of _ "[]"])
  then show ?thesis by (simp add: INIReader_def ini_parse_def ini_parse_file_def)
qed

lemma ini_pairs_values: "ini_ok d \<Longrightarrow> list_all (\<lambda>(s, n, v). v \<noteq> []) (ini_pairs d)"
  by (fastforce simp: ini_ok_def ini_pairs_def list_all_iff value_ok_def trimmed_def)

section \<open>Integers\<close>

lemma tolower_digit: "is_digit c \<Longrightarrow> tolower c = c"
  by (simp add: tolower_def is_digit_def)

lemma digit_of_digit: "is_digit c \<Longrightarrow> digit_of c = of_char c - 48 \<and> digit_of c < 10"
  by (auto simp: digit_of_def tolower_digit) (auto simp: is_digit_def)

lemma number_value_digits: "list_all is_digit ds \<Longrightarrow> number_value 10 ds = digits_value 0 ds"
proof (induction ds rule: rev_induct)
  case (snoc c ds)
  then have c: "digit_of c = of_char c - 48" "48 \<le> (of_char c :: nat)"
    using digit_of_digit [of c] by (auto simp: is_digit_def)
  from snoc show ?case by (simp add: number_value_def digits_value_snoc c of_nat_diff)
qed (simp add: number_value_def)

lemma number_digits_all: "list_all is_digit ds \<Longrightarrow> number_digits 10 ds = ds"
  by (auto simp: number_digits_def takeWhile_eq_all_conv list_all_iff dest: digit_of_digit)

lemma show_nat_no_zero: "0 < n \<Longrightarrow> take 1 (show_nat n) \<noteq> ''0''"
proof (induction n rule: show_nat.induct)
  case (1 n)
  show ?case
  proof (cases "n < 10")
    case True
    have "of_char (char_of (48 + n) :: char) = (48 + n :: nat)" using True by simp
    moreover have "of_char CHR ''0'' = (48 :: nat)" by simp
    ultimately have "char_of (48 + n) \<noteq> CHR ''0''" using "1.prems" by (metis add_eq_self_zero less_irrefl)
    then show ?thesis using True by (subst show_nat.simps) simp
  next
    case False
    then obtain c cs where "show_nat (n div 10) = c # cs" "c \<noteq> CHR ''0''"
      using "1.IH" [OF False] show_nat_digits [of "n div 10"] by (cases "show_nat (n div 10)") auto
    then show ?thesis using False by (subst show_nat.simps) simp
  qed
qed


lemma show_nat_zero: "show_nat 0 = ''0''"
  by code_simp

text \<open>A printed integer has no leading zero, so base 0 reads it in decimal.\<close>

lemma strtol_show_nat:
  "take 1 (show_nat n) \<noteq> ''0'' \<or> n = 0 \<Longrightarrow>
   (let t = show_nat n; hex = hex_text t \<and> number_digits 16 (drop 2 t) \<noteq> [];
        ds = number_digits (if hex then 16 else if take 1 t = ''0'' then 8 else 10) (if hex then drop 2 t else t)
    in \<not> hex \<and> ds \<noteq> [] \<and> number_value (if take 1 t = ''0'' then 8 else 10) ds = int n)"
proof (cases "n = 0")
  case True
  then show ?thesis
    by (simp add: show_nat_zero hex_text_def number_digits_def number_value_def digit_of_def tolower_def)
next
  case False
  then have "take 1 (show_nat n) \<noteq> ''0''" using show_nat_no_zero [of n] by simp
  then show ?thesis using show_nat_digits [of n]
    by (simp add: hex_text_def number_digits_all number_value_digits)
qed

lemma strtol_show:
  assumes "- LONG_MAX - 1 \<le> i" "i \<le> LONG_MAX"
  shows "strtol LONG_MAX (show_int i) = Some i"
proof -
  have skip: "dropWhile isspace (show_int i) = show_int i"
    using show_int_head [of i] by (cases "show_int i") simp_all
  have plain: "sign_of (show_nat n) = (False, show_nat n)" for n
    using show_nat_digits [of n] digit_plain by (cases "show_nat n") (auto simp: sign_of_def)
  have nat: "take 1 (show_nat n) \<noteq> ''0'' \<or> n = 0" for n
    using show_nat_no_zero [of n] by blast
  show ?thesis
  proof (cases "i < 0")
    case True
    then have "sign_of (show_int i) = (True, show_nat (nat (- i)))" by (simp add: show_int_def sign_of_def)
    with strtol_show_nat [OF nat, of "nat (- i)"] True assms show ?thesis
      by (auto simp: strtol_def skip Let_def)
  next
    case False
    then have "sign_of (show_int i) = (False, show_nat (nat i))" by (simp add: show_int_def plain)
    with strtol_show_nat [OF nat, of "nat i"] False assms show ?thesis
      by (auto simp: strtol_def skip Let_def)
  qed
qed

text \<open>
  What the comments do not say: a leading zero makes a number octal, a prefix that is a number is
  enough, and the key does not keep sections and names apart.
\<close>

lemma number_surprises:
  "strtol 2147483647 ''010'' = Some 8" "strtol 2147483647 ''09'' = Some 0" "strtol 2147483647 ''12abc'' = Some 12"
  "strtol 2147483647 ''0x4D2'' = Some 1234" "strtol 2147483647 ''abc'' = None"
  "strtol 2147483647 ''-3000000000'' = Some (- 2147483648)" "MakeKey ''a.b'' ''c'' = MakeKey ''a'' ''b.c''"
  by (simp_all add: strtol_def sign_of_def hex_text_def number_digits_def number_value_def digit_of_def tolower_def isspace_def MakeKey_def)

lemma strtod_examples:
  "strtod rnd ''3.14159'' = Finite (rnd (314159 / 100000))" "strtod rnd ''-25e-1'' = Finite (rnd (- 25 / 10))"
  "strtod rnd ''0x1.8p2'' = Finite (rnd 6)" "strtod rnd '' .5;'' = Finite (rnd (1 / 2))" "strtod rnd ''e5'' = No_conversion"
  by (simp_all add: strtod_def mantissa_of_def exponent_of_def sign_of_def hex_text_def number_digits_def number_value_def
      digit_of_def tolower_def isspace_def power_int_def)

section \<open>Theorem\<close>



end
