(* ===== verification/Spec2Isabelle.thy ===== *)
theory Spec2Isabelle
  imports IMUContracts Geodesy SampleTrackers DriveIMU FastSerial PrintfContracts Compass
    SaveToBin TimeSeries SaveToFile UdpStk TimeKeeper Joystick Gateways IniReader
begin

text \<open>
  A verification development of autochal, the on-board software of an iRobot Create that flies
  itself, talks to other robots and carries an attitude unit, with the C library of the
  project's simulation tools. Paths are relative to \<open>src/\<close>; \<open>Code\<close> is \<open>Software/Code\<close>.

  The program and its parts

  \<open>Code/iMain/main.c\<close> is the program on the robot. It reads its configuration with an INI parser
  (\<open>inih/\<close>), starts two sensor libraries, libcreateoi for the robot's serial port and libIMU for
  the attitude unit, each with a thread that keeps a cache of readings, and starts a client and a
  server (\<open>comms/\<close>) that exchange status messages with the other robots. A scheduler thread
  releases a 50 Hz task, which lets the sensor threads read, and a 2 Hz task, which broadcasts
  the status. The main loop dead-reckons the position, takes a key and commands the wheels
  through the control laws of \<open>utils/\<close>. \<open>Code/Samples\<close> holds smaller programs on the same
  libraries. \<open>Tools/Library/CSA/CCode/CSA_LIB.c\<close> is used by the simulation only.

  How code becomes definitions

  A C function is a definition of its own name. A function with effects is a state transformer
  (\<open>state\<close>, the state monad) on a record of the static variables it can reach; the records
  extend each other as the components do: \<open>create\<close> (the statics of createoi.c over the
  operating system of theory Platform), \<open>imu\<close> over it, \<open>cockpit\<close> and \<open>pilot_state\<close> for
  the main programs, \<open>tracker\<close> and \<open>wander\<close> for the camera programs. Calls to the kernel are
  answered by oracles in the state, one per kind of call, and recorded in a trace; a theorem
  that does not restrict an oracle holds for every answer. \<open>short\<close>, \<open>byte\<close> and the bytes
  on the wire are words; \<open>int\<close> is an integer brought back to 32 bits by \<open>wrap32\<close>, after each
  operation that can leave the range; \<open>cdiv\<close> is C's division. A pointer result is \<open>NULL\<close> or
  the object, a fatal use of it is the event \<open>EvAbort\<close>. \<open>float\<close> and \<open>double\<close> are reals
  with every rounding written out by the functions of an arithmetic \<open>fpu\<close>, of which \<open>ieee\<close>
  is the instance with 24 and 53 bits; what the theorems assume of a rounding is the locale
  \<open>rounding\<close>. Overflow to infinity and NaN are outside; a division by zero and a conversion
  out of range, undefined in C or infinite, are \<open>None\<close>.

  Loops that may not end take fuel, one unit per iteration, and \<open>None\<close> is a run that still
  goes on. Where the code is meant to return, a theorem says how much fuel is enough
  (\<open>waitDistance_arrives\<close>: the goal divided by the least reading) or that none is
  (\<open>waitDistance_stuck\<close>); the endless loops of the main programs run over a list of keys or
  frames, or by fuel.

  Theories

  Prelude, Platform, Bytes: C integers and their wrap-around, the result types, the operating
  system and its events, the memory image of an \<open>int\<close>. The collections of rules are here.

  CreateState, CreateCommands, CreateSensors, CreateMotion, CreateThread, CreateApi model
  \<open>Code/libs/libcreateoi\<close>: the enumerations and the port (\<open>cwrite\<close>, \<open>cread\<close>), the commands that
  only send, the sensor reads, the waits and driven distances, the body of the sensor
  thread, and all calls as one dispatcher. Locking is the discipline of the two mutexes, as an
  automaton over traces. CreateContracts and SensorContracts say what commands and reads do on
  every port: what is sent, how often the port is tried, what a returned value decodes.
  CreateOdometry treats the wait loops by the locale \<open>odometer_loop\<close>, interpreted for distance
  and for angle. CreateConcurrency has the interleaving of the sensor thread and its client and
  the conservation of distance; CreateLifecycle whole sessions.

  IMU and IMUContracts: \<open>Code/libs/libIMU\<close>, and the message encoder of
  \<open>Software/Arduino/Output.pde\<close> as its counterpart. The decoder inverts the encoder up to
  quantisation; what is accepted has a right checksum; the cache holds one accepted message.

  StatusMessages and StatusServer: \<open>iMain/comms\<close>. The binary search over the robot table is a
  lookup (locale \<open>search_order\<close>, interpreted by \<open>strcmp\<close>), the table a keyed store
  (\<open>keyed_store\<close>, interpreted by \<open>put\<close> and \<open>find\<close>), and the thread keeps the last status of
  each robot if \<open>inet_ntoa\<close> returns distinct buffers, and none at all if it does not.

  Ini and AutopilotConfig: \<open>iMain/inih\<close> and the configuration callback of main.c; printing and
  parsing is the identity, the error value is the first bad line. IniReader: the C++ class of
  \<open>inih/cpp\<close> over the same parser, a table of values with typed accessors.

  Scheduler, SchedulerContracts and RateThreads: the threads of main.c. The time arithmetic is
  exact, the rates are those intended, no release is lost in any interleaving, and the
  shutdown can hang.

  Floats and Control: rounding, and the control laws of \<open>iMain/utils\<close> with the bounds of what
  they command. MainProgram: \<open>main\<close> of main.c, from the keyboard to the Drive command on the
  port. SampleDrives and SampleTrackers: the smaller programs of \<open>Code/Samples\<close>. WaypointMachine
  is the machine that flies to waypoints, in both driveInnerLoop.c (theory Waypoints) and
  driveIMU.c (theory DriveIMU); the locale \<open>waypoint_program\<close>, interpreted for each, counts the
  arrivals of a run and shows that it visits the waypoints in order.

  CsaLibrary, CsaContracts and Geodesy: CSA_LIB.c. Its theorems are about exact real arithmetic, the
  instance \<open>exact\<close> of \<open>fpu\<close>, where the functions are not exact by themselves: rotations and
  Euler angles, table lookup, and the two geodesic routines, which on a sphere give the great
  circle and are inverse to each other. The loop of \<open>vincenty\<close> has the code's own bound of 20
  turns; that of \<open>invvincenty\<close> takes fuel, of which one unit is enough on a sphere.

  FastSerial: the serial port of the sensor board (\<open>Software/Arduino/FastSerial.cpp\<close>). Its ring
  buffers refine a bounded queue (locale \<open>bounded_fifo\<close>, interpreted by the ring), and whatever the
  interleaving of the program with the interrupt handlers no byte is lost. UltoaInvert, Printf and
  PrintfContracts: the formatted output over it (\<open>vprintf.cpp\<close>, \<open>BetterStream.cpp\<close>) and the assembly
  that makes the digits (\<open>ultoa_invert.S\<close>), whose division by 10 is exact; every integer conversion
  writes the text of a reference layout, numbers read back, and the f conversion has the decimals
  asked for. The assembly that makes digits of a floating-point number is an argument.

  ApMath and Compass: the vectors and matrices of the sensor board (\<open>vector2.h\<close>, \<open>vector3.h\<close>,
  \<open>matrix3.h\<close>) with the identities their comments state, and the magnetometer driver
  (\<open>APM_Compass.cpp\<close>): its calibration, and a heading that does not depend on the tilt of the board.
  The two-wire bus and the clock are oracles; the delays are not modelled.

  SimStruct is the host of the Simulink blocks (\<open>Tools/Library/CSA/SFunctions\<close>): their work vectors,
  which are plain arrays of the block, and the files and formatted output of the C library. A block
  is its functions \<open>mdlInitializeSizes\<close> to \<open>mdlTerminate\<close> (\<open>bin_InitializeSizes\<close> to \<open>bin_Terminate\<close>
  for save2bin.c, and so on), and a session calls them in the order the engine does; \<open>None\<close> is a
  fault. The text of a real number and the rounding are arguments. SaveToBin: a session refines a
  tape, so that no step is lost where files are split. TimeSeries: save2ts.c and bus2ts.c, which
  write a MATLAB script along with the data; the reads of the script give the signals back.
  SaveToFile: the decimated text recorder. WriteStk: WriteSTK.c, whose number of points is written
  over a blank line. UdpBlocks: Universal_UDP_send.c with its socket_multi.c, from the address file to
  the account of what was sent, and Universal_UDP_receive.c. UdpStk: udpsend_STK.c, whose log of
  changes gives the thrusters of every step, and which faults in most of its other uses. TimeKeeper:
  timekeeper.c, which holds a simulation back to real time; the block and the thread of its timer
  interleave in every way, and the simulation is never ahead of the timer. Joystick: joystick_s.c,
  whose outputs are the last events of the device, joystick.c and playsound.c.

  Gateways: the functions by which MATLAB calls CSA_LIB.c (\<open>CCode\<close>, c_*.c), over arrays that MATLAB
  keeps by columns and C by rows. Some of them turn their matrices around and some do not, so that
  the Euler angles that do not come back in C (CsaContracts) do come back in MATLAB.

  What is not modelled

  The text windows (curses) and OpenCV, libraries outside the repository: keys and pictures
  reach the model as arguments. The name resolver and the sockets: their answers are arguments.
  The Simulink blocks that map shared memory or use DirectX, and a demonstration of threads; the
  sides of the network and timer blocks for Windows. The sketches of the Arduino firmware (\<open>.pde\<close>) but for
  the message encoder. The headers of SQLite
  are vendored and unused. Data races on variables that the code shares without a lock
  (the getters of libIMU, \<open>shutdown_sys\<close>) are modelled as atomic reads and writes.
\<close>

end
